(* ===== verification/Gobee_Prelude.thy ===== *)
theory Gobee_Prelude
  imports Main "HOL-Library.Sublist" "HOL-Library.Multiset" "HOL-Library.Char_ord"
    "HOL-Library.List_Lexorder"
begin

text \<open>
  The shared base of the development: results with Go errors as strings, the part of
  the Go standard library the repository calls (packages \<^verbatim>\<open>strings\<close>,
  \<^verbatim>\<open>strconv\<close>, \<^verbatim>\<open>sort\<close>, \<^verbatim>\<open>bufio\<close>), and the lemmas on them that the component
  theories share.  A Go string is a list of bytes, modelled as \<open>string\<close>; the functions
  below follow the Go ones on ASCII text.
\<close>

named_theorems res_simps \<open>computation rules of the error monad\<close>
named_theorems str_simps \<open>rules for the Go string functions\<close>

section \<open>Results\<close>

text \<open>
  A Go function returning \<open>(T, error)\<close> is modelled by a sum: \<open>Inl msg\<close> is the non-nil
  error with its message, \<open>Inr v\<close> the value with a nil error.
\<close>

type_synonym 'a res = "string + 'a"

definition rbind :: "'a res \<Rightarrow> ('a \<Rightarrow> 'b res) \<Rightarrow> 'b res" where
  "rbind m f = (case m of Inl e \<Rightarrow> Inl e | Inr x \<Rightarrow> f x)"

definition wrapErr :: "string \<Rightarrow> 'a res \<Rightarrow> 'a res" where
  "wrapErr pre m = (case m of Inl e \<Rightarrow> Inl (pre @ e) | Inr x \<Rightarrow> Inr x)"

lemma rbind_Inl [simp, res_simps]: "rbind (Inl e) f = Inl e"
  and rbind_Inr [simp, res_simps]: "rbind (Inr x) f = f x"
  by (simp_all add: rbind_def)

lemma wrapErr_Inl [simp, res_simps]: "wrapErr pre (Inl e) = Inl (pre @ e)"
  and wrapErr_Inr [simp, res_simps]: "wrapErr pre (Inr x) = Inr x"
  by (simp_all add: wrapErr_def)

lemma rbind_cong [fundef_cong]:
  assumes "m = m'" and "\<And>x. m' = Inr x \<Longrightarrow> f x = g x"
  shows "rbind m f = rbind m' g"
  using assms by (cases m') simp_all

lemma rbind_eq_Inr: "rbind m f = Inr y \<longleftrightarrow> (\<exists>x. m = Inr x \<and> f x = Inr y)"
  by (cases m) simp_all

lemma rbind_eq_Inl: "rbind m f = Inl e \<longleftrightarrow> m = Inl e \<or> (\<exists>x. m = Inr x \<and> f x = Inl e)"
  by (cases m) simp_all

lemma wrapErr_eq_Inr [simp]: "wrapErr pre m = Inr y \<longleftrightarrow> m = Inr y"
  by (cases m) simp_all

lemma rbind_InrE [elim!]:
  assumes "rbind m f = Inr y"
  obtains x where "m = Inr x" and "f x = Inr y"
  using assms by (auto simp: rbind_eq_Inr)

lemma rbind_assoc: "rbind (rbind m f) g = rbind m (\<lambda>x. rbind (f x) g)"
  by (cases m) simp_all

text \<open>Loops over a slice that stop at the first error.\<close>

fun rmap :: "('a \<Rightarrow> 'b res) \<Rightarrow> 'a list \<Rightarrow> 'b list res" where
  "rmap f [] = Inr []"
| "rmap f (x # xs) = rbind (f x) (\<lambda>y. rbind (rmap f xs) (\<lambda>ys. Inr (y # ys)))"

fun rfold :: "('a \<Rightarrow> 's \<Rightarrow> 's res) \<Rightarrow> 'a list \<Rightarrow> 's \<Rightarrow> 's res" where
  "rfold f [] s = Inr s"
| "rfold f (x # xs) s = rbind (f x s) (rfold f xs)"

text \<open>Collecting results that have been computed already, the first error winning.\<close>

fun rsequence :: "'a res list \<Rightarrow> 'a list res" where
  "rsequence [] = Inr []"
| "rsequence (m # ms) = rbind m (\<lambda>y. rbind (rsequence ms) (\<lambda>ys. Inr (y # ys)))"

lemma rsequence_map: "rsequence (map f xs) = rmap f xs"
  by (induction xs) simp_all

lemma rmap_cong [fundef_cong]:
  assumes "xs = ys" and "\<And>x. x \<in> set ys \<Longrightarrow> f x = g x"
  shows "rmap f xs = rmap g ys"
proof -
  have "\<forall>x \<in> set ys. f x = g x \<Longrightarrow> rmap f ys = rmap g ys" by (induction ys) simp_all
  with assms show ?thesis by simp
qed

lemma rfold_cong [fundef_cong]:
  assumes "xs = ys" and "s = t" and "\<And>x u. x \<in> set ys \<Longrightarrow> f x u = g x u"
  shows "rfold f xs s = rfold g ys t"
proof -
  have "\<forall>x \<in> set ys. \<forall>u. f x u = g x u \<Longrightarrow> rfold f ys u = rfold g ys u" for u
    by (induction ys arbitrary: u) (auto simp: rbind_def split: sum.splits)
  with assms show ?thesis by simp
qed

lemma rmap_Inr_iff: "rmap f xs = Inr ys \<longleftrightarrow> list_all2 (\<lambda>x y. f x = Inr y) xs ys"
proof (induction xs arbitrary: ys)
  case (Cons x xs)
  then show ?case by (cases ys) (auto simp: rbind_eq_Inr)
qed auto

lemma rmap_length: "rmap f xs = Inr ys \<Longrightarrow> length ys = length xs"
  by (auto simp: rmap_Inr_iff dest: list_all2_lengthD)

lemma rmap_nth: "rmap f xs = Inr ys \<Longrightarrow> i < length xs \<Longrightarrow> f (xs ! i) = Inr (ys ! i)"
  by (auto simp: rmap_Inr_iff dest: list_all2_nthD)

lemma rfold_append: "rfold f (xs @ ys) s = rbind (rfold f xs s) (rfold f ys)"
  by (induction xs arbitrary: s) (auto simp: rbind_def split: sum.splits)

text \<open>A property every step of a fold keeps is kept by the fold.\<close>

lemma rfold_invariant:
  assumes "rfold f xs s = Inr t" and "\<And>a b c. R a b \<Longrightarrow> R b c \<Longrightarrow> R a c"
    and "\<And>x a b. x \<in> set xs \<Longrightarrow> f x a = Inr b \<Longrightarrow> R a b"
    and "\<And>a. R a a"
  shows "R s t"
  using assms(1,3)
proof (induction xs arbitrary: s)
  case Nil
  with assms(4) show ?case by simp
next
  case (Cons x xs)
  then obtain u where u: "f x s = Inr u" "rfold f xs u = Inr t" by auto
  from Cons.prems(2)[OF _ u(1)] have "R s u" by simp
  moreover have "R u t" by (rule Cons.IH[OF u(2)]) (rule Cons.prems(2), simp_all)
  ultimately show ?case by (rule assms(2))
qed

section \<open>Package strings\<close>

definition hasPrefix :: "string \<Rightarrow> string \<Rightarrow> bool" where
  "hasPrefix s p \<longleftrightarrow> take (length p) s = p"

definition trimPrefix :: "string \<Rightarrow> string \<Rightarrow> string" where
  "trimPrefix s p = (if hasPrefix s p then drop (length p) s else s)"

definition hasSuffix :: "string \<Rightarrow> string \<Rightarrow> bool" where
  "hasSuffix s x \<longleftrightarrow> length x \<le> length s \<and> drop (length s - length x) s = x"

definition trimSuffix :: "string \<Rightarrow> string \<Rightarrow> string" where
  "trimSuffix s x = (if hasSuffix s x then take (length s - length x) s else s)"

lemma hasPrefix_iff: "hasPrefix s p \<longleftrightarrow> prefix p s"
  by (auto simp: hasPrefix_def prefix_def) (metis append_take_drop_id)

lemma hasPrefix_append [simp, str_simps]: "hasPrefix (p @ s) p"
  by (simp add: hasPrefix_def)

lemma trimPrefix_append [simp, str_simps]: "trimPrefix (p @ s) p = s"
  by (simp add: trimPrefix_def)

lemma hasSuffix_iff: "hasSuffix s x \<longleftrightarrow> suffix x s"
  by (auto simp: hasSuffix_def suffix_def) (metis append_take_drop_id)

lemma hasSuffix_append [simp, str_simps]: "hasSuffix (s @ x) x"
  by (simp add: hasSuffix_def)

lemma trimSuffix_append [simp, str_simps]: "trimSuffix (s @ x) x = s"
  by (simp add: trimSuffix_def)

definition isSpace :: "char \<Rightarrow> bool" where
  "isSpace c \<longleftrightarrow> c = CHR '' '' \<or> c = CHR 0x09 \<or> c = CHR 0x0A \<or> c = CHR 0x0B \<or> c = CHR 0x0C \<or> c = CHR 0x0D"

text \<open>On the bits of a character, for evaluation.\<close>

lemma isSpace_code [code]:
  "isSpace (Char b0 b1 b2 b3 b4 b5 b6 b7) \<longleftrightarrow> \<not> b7 \<and> \<not> b6 \<and> \<not> b4
     \<and> (if b5 then \<not> b3 \<and> \<not> b2 \<and> \<not> b1 \<and> \<not> b0 else b3 \<and> (if b2 then \<not> b1 else b1 \<or> b0))"
  by (auto simp: isSpace_def)

definition trimLeft :: "(char \<Rightarrow> bool) \<Rightarrow> string \<Rightarrow> string" where
  "trimLeft p s = dropWhile p s"

definition trimRight :: "(char \<Rightarrow> bool) \<Rightarrow> string \<Rightarrow> string" where
  "trimRight p s = rev (dropWhile p (rev s))"

definition trimSpace :: "string \<Rightarrow> string" where
  "trimSpace s = trimRight isSpace (trimLeft isSpace s)"

lemma trimRight_snoc: "\<not> p c \<Longrightarrow> trimRight p (s @ [c]) = s @ [c]"
  by (simp add: trimRight_def)

lemma dropWhile_hd: "s \<noteq> [] \<Longrightarrow> \<not> p (hd s) \<Longrightarrow> dropWhile p s = s"
  by (cases s) simp_all

lemma trimSpace_id:
  assumes "s = [] \<or> \<not> isSpace (hd s) \<and> \<not> isSpace (last s)"
  shows "trimSpace s = s"
proof (cases s rule: rev_cases)
  case (snoc xs x)
  with assms have "trimLeft isSpace s = s" by (simp add: trimLeft_def dropWhile_hd)
  with assms snoc show ?thesis by (simp add: trimSpace_def trimRight_snoc)
qed (simp add: trimSpace_def trimLeft_def trimRight_def)

lemma trimSpace_hd_last:
  assumes "trimSpace s \<noteq> []"
  shows "\<not> isSpace (hd (trimSpace s)) \<and> \<not> isSpace (last (trimSpace s))"
proof -
  let ?t = "dropWhile isSpace s"
  from assms have ne: "dropWhile isSpace (rev ?t) \<noteq> []"
    by (simp add: trimSpace_def trimLeft_def trimRight_def)
  then have "\<not> isSpace (hd (dropWhile isSpace (rev ?t)))" by (rule hd_dropWhile)
  with ne have l: "\<not> isSpace (last (trimSpace s))"
    by (simp add: trimSpace_def trimLeft_def trimRight_def last_rev)
  have t: "?t \<noteq> []" using ne by (metis dropWhile.simps(1) rev.simps(1))
  then have h: "\<not> isSpace (hd ?t)" by (rule hd_dropWhile)
  have "suffix (dropWhile isSpace (rev ?t)) (rev ?t)" by (rule suffix_dropWhile)
  then have "prefix (trimSpace s) ?t"
    by (simp add: trimSpace_def trimLeft_def trimRight_def suffix_to_prefix)
  with assms have "hd (trimSpace s) = hd ?t"
    by (metis hd_append2 prefix_def)
  with h l show ?thesis by simp
qed

lemma trimSpace_idem [simp]: "trimSpace (trimSpace s) = trimSpace s"
  using trimSpace_hd_last trimSpace_id by blast

text \<open>\<open>strings.Fields\<close>: the maximal runs of non-space bytes.\<close>

fun fieldsAux :: "string \<Rightarrow> string \<Rightarrow> string list" where
  "fieldsAux acc [] = (if acc = [] then [] else [rev acc])"
| "fieldsAux acc (c # cs) =
     (if isSpace c then (if acc = [] then fieldsAux [] cs else rev acc # fieldsAux [] cs)
      else fieldsAux (c # acc) cs)"

definition fieldsOf :: "string \<Rightarrow> string list" where
  "fieldsOf s = fieldsAux [] s"

text \<open>\<open>strings.Split\<close> and \<open>strings.SplitN(_, _, 2)\<close> with a one-byte separator.\<close>

fun splitOn :: "char \<Rightarrow> string \<Rightarrow> string list" where
  "splitOn d [] = [[]]"
| "splitOn d (c # cs) =
     (if c = d then [] # splitOn d cs
      else (case splitOn d cs of [] \<Rightarrow> [[c]] | w # ws \<Rightarrow> (c # w) # ws))"

definition splitN2 :: "char \<Rightarrow> string \<Rightarrow> string list" where
  "splitN2 d s = (case dropWhile (\<lambda>c. c \<noteq> d) s of
     [] \<Rightarrow> [s] | _ # r \<Rightarrow> [takeWhile (\<lambda>c. c \<noteq> d) s, r])"

fun joinWith :: "string \<Rightarrow> string list \<Rightarrow> string" where
  "joinWith sep [] = []"
| "joinWith sep [x] = x"
| "joinWith sep (x # y # ys) = x @ sep @ joinWith sep (y # ys)"

text \<open>\<open>strings.IndexByte\<close>, \<open>strings.LastIndexByte\<close>, \<open>strings.Index\<close>: \<open>None\<close> is -1.\<close>

fun indexByte :: "string \<Rightarrow> char \<Rightarrow> nat option" where
  "indexByte [] d = None"
| "indexByte (c # cs) d = (if c = d then Some 0 else map_option Suc (indexByte cs d))"

definition lastIndexByte :: "string \<Rightarrow> char \<Rightarrow> nat option" where
  "lastIndexByte s d = map_option (\<lambda>i. length s - 1 - i) (indexByte (rev s) d)"

fun indexStr :: "string \<Rightarrow> string \<Rightarrow> nat option" where
  "indexStr [] t = (if t = [] then Some 0 else None)"
| "indexStr (c # cs) t = (if hasPrefix (c # cs) t then Some 0 else map_option Suc (indexStr cs t))"

definition contains :: "string \<Rightarrow> string \<Rightarrow> bool" where
  "contains s t \<longleftrightarrow> indexStr s t \<noteq> None"

lemma splitOn_nonempty [simp]: "splitOn d s \<noteq> []"
  by (induction s) (auto split: list.splits)

lemma joinWith_Cons: "xs \<noteq> [] \<Longrightarrow> joinWith sep (x # xs) = x @ sep @ joinWith sep xs"
  by (cases xs) simp_all

lemma joinWith_splitOn: "joinWith [d] (splitOn d s) = s"
proof (induction s)
  case (Cons c cs)
  obtain w ws where w: "splitOn d cs = w # ws" by (cases "splitOn d cs") simp_all
  show ?case
  proof (cases "c = d")
    case True
    with Cons.IH show ?thesis by (simp add: joinWith_Cons)
  next
    case False
    with Cons.IH w show ?thesis by (cases ws) simp_all
  qed
qed simp

lemma splitOn_parts: "p \<in> set (splitOn d s) \<Longrightarrow> d \<notin> set p"
proof (induction s arbitrary: p)
  case (Cons c cs)
  obtain w ws where w: "splitOn d cs = w # ws" by (cases "splitOn d cs") simp_all
  with Cons show ?case by (auto split: if_splits)
qed simp

lemma splitOn_append: "d \<notin> set x \<Longrightarrow> splitOn d (x @ d # s) = x # splitOn d s"
  by (induction x) auto

lemma splitOn_id: "d \<notin> set x \<Longrightarrow> splitOn d x = [x]"
  by (induction x) auto

lemma splitOn_joinWith:
  "ws \<noteq> [] \<Longrightarrow> \<forall>w \<in> set ws. d \<notin> set w \<Longrightarrow> splitOn d (joinWith [d] ws) = ws"
proof (induction ws)
  case (Cons w ws)
  then show ?case by (cases ws) (simp_all add: splitOn_id splitOn_append)
qed simp

lemma splitN2_append [simp, str_simps]: "d \<notin> set x \<Longrightarrow> splitN2 d (x @ d # s) = [x, s]"
proof -
  assume d: "d \<notin> set x"
  then have "takeWhile (\<lambda>c. c \<noteq> d) (x @ d # s) = x" "dropWhile (\<lambda>c. c \<noteq> d) (x @ d # s) = d # s"
    by (metis (mono_tags, lifting) append_Nil2 takeWhile.simps(2) takeWhile_append2)
       (metis (mono_tags, lifting) d dropWhile.simps(2) dropWhile_append2)
  then show ?thesis by (simp add: splitN2_def)
qed

lemma fieldsAux_run:
  "\<forall>c \<in> set w. \<not> isSpace c \<Longrightarrow> fieldsAux acc (w @ s) = fieldsAux (rev w @ acc) s"
  by (induction w arbitrary: acc) simp_all

lemma fields_Nil_iff: "fieldsAux acc s = [] \<longleftrightarrow> acc = [] \<and> (\<forall>c \<in> set s. isSpace c)"
  by (induction acc s rule: fieldsAux.induct) auto

lemma fields_words:
  assumes "\<forall>w \<in> set ws. w \<noteq> [] \<and> (\<forall>c \<in> set w. \<not> isSpace c)"
  shows "fieldsOf (joinWith '' '' ws) = ws"
  using assms
proof (induction ws)
  case Nil
  then show ?case by (simp add: fieldsOf_def)
next
  case (Cons w ws)
  then show ?case
    by (cases ws) (auto simp: fieldsOf_def isSpace_def fieldsAux_run[of w "[]" "[]", simplified] fieldsAux_run)
qed

lemma indexByte_None: "indexByte s d = None \<longleftrightarrow> d \<notin> set s"
  by (induction s) auto

lemma indexByte_Some: "indexByte s d = Some i \<Longrightarrow> d \<notin> set (take i s) \<and> i < length s \<and> s ! i = d"
  by (induction s arbitrary: i) (auto split: if_splits)

lemma indexByte_append: "d \<notin> set x \<Longrightarrow> indexByte (x @ d # s) d = Some (length x)"
  by (induction x) auto

lemma indexStr_append: "indexStr s t = Some i \<Longrightarrow> s = take i s @ t @ drop (i + length t) s"
proof (induction s t arbitrary: i rule: indexStr.induct)
  case (2 c cs t)
  show ?case
  proof (cases "hasPrefix (c # cs) t")
    case True
    with "2.prems" show ?thesis by (auto simp: hasPrefix_def) (metis append_take_drop_id)
  next
    case False
    with "2.prems" obtain j where "indexStr cs t = Some j" "i = Suc j" by auto
    with "2.IH"[OF False this(1)] show ?thesis by simp
  qed
qed (simp split: if_splits)

lemma contains_iff: "contains s t \<longleftrightarrow> (\<exists>a b. s = a @ t @ b)"
proof
  assume "contains s t"
  then show "\<exists>a b. s = a @ t @ b" using indexStr_append by (fastforce simp: contains_def)
next
  have "indexStr (a @ t @ b) t \<noteq> None" for a b
  proof (induction a)
    case Nil
    then show ?case by (cases t; cases "t @ b") (auto simp: hasPrefix_def)
  qed (auto simp: hasPrefix_def)
  then show "\<exists>a b. s = a @ t @ b \<Longrightarrow> contains s t" by (auto simp: contains_def)
qed

end
