(* ===== verification/Go_Library.thy ===== *)
theory Go_Library
  imports Gobee_Prelude
begin

text \<open>
  The rest of the Go library the repository uses: decimal numbers (\<^verbatim>\<open>strconv.Itoa\<close>,
  \<^verbatim>\<open>strconv.Atoi\<close>), quoting (\<^verbatim>\<open>%q\<close>), source positions (\<^verbatim>\<open>go/token\<close>), stable sorting
  (\<^verbatim>\<open>sort.SliceStable\<close>), line scanning (\<^verbatim>\<open>bufio.Scanner\<close>) and the leftmost-first regular
  expressions of package \<^verbatim>\<open>regexp\<close> in the form the repository's patterns have.
\<close>

section \<open>Decimal numbers\<close>

definition digitChar :: "nat \<Rightarrow> char" where
  "digitChar d = char_of (48 + d)"

definition isDigit :: "char \<Rightarrow> bool" where
  "isDigit c \<longleftrightarrow> CHR ''0'' \<le> c \<and> c \<le> CHR ''9''"

text \<open>On the bits of a character, for evaluation; so below for the other classes.\<close>

lemma isDigit_code [code]:
  "isDigit (Char b0 b1 b2 b3 b4 b5 b6 b7) \<longleftrightarrow> \<not> b7 \<and> \<not> b6 \<and> b5 \<and> b4 \<and> (b3 \<longrightarrow> \<not> b2 \<and> \<not> b1)"
  by (cases b0; cases b1; cases b2; cases b3; cases b4; cases b5; cases b6; cases b7)
     (simp_all add: isDigit_def less_eq_char_def)

definition digitVal :: "char \<Rightarrow> nat" where
  "digitVal c = of_char c - 48"

fun itoa :: "nat \<Rightarrow> string" where
  "itoa n = (if n < 10 then [digitChar n] else itoa (n div 10) @ [digitChar (n mod 10)])"

declare itoa.simps [simp del]

definition decVal :: "string \<Rightarrow> nat" where
  "decVal s = foldl (\<lambda>n c. 10 * n + digitVal c) 0 s"

text \<open>\<open>strconv.Atoi\<close> on a 64-bit platform.\<close>

definition atoiErr :: "string \<Rightarrow> string \<Rightarrow> string" where
  "atoiErr quoted why = ''strconv.Atoi: parsing '' @ quoted @ '': '' @ why"

definition atoiDigits :: "string \<Rightarrow> nat option" where
  "atoiDigits s = (if s \<noteq> [] \<and> (\<forall>c \<in> set s. isDigit c) then Some (decVal s) else None)"

lemma of_char_digitChar: "d < 10 \<Longrightarrow> of_char (digitChar d) = 48 + d"
  by (simp add: digitChar_def)

lemma digitVal_digitChar [simp]: "d < 10 \<Longrightarrow> digitVal (digitChar d) = d"
  by (simp add: digitVal_def of_char_digitChar)

lemma isDigit_digitChar [simp]: "d < 10 \<Longrightarrow> isDigit (digitChar d)"
  by (simp add: isDigit_def less_eq_char_def of_char_digitChar)

lemma isDigit_not_space: "isDigit c \<Longrightarrow> \<not> isSpace c"
  by (auto simp: isDigit_def isSpace_def less_eq_char_def)

lemma itoa_nonempty [simp]: "itoa n \<noteq> []"
  by (subst itoa.simps) simp

lemma itoa_digits: "\<forall>c \<in> set (itoa n). isDigit c"
proof (induction n rule: itoa.induct)
  case (1 n)
  show ?case
  proof (cases "n < 10")
    case True
    then show ?thesis by (subst itoa.simps) simp
  next
    case False
    with "1.IH" show ?thesis by (subst itoa.simps) auto
  qed
qed

lemma decVal_snoc: "decVal (s @ [c]) = 10 * decVal s + digitVal c"
  by (simp add: decVal_def)

lemma decVal_itoa [simp]: "decVal (itoa n) = n"
proof (induction n rule: itoa.induct)
  case (1 n)
  show ?case
  proof (cases "n < 10")
    case True
    then show ?thesis by (subst itoa.simps) (simp add: decVal_def)
  next
    case False
    with "1.IH" show ?thesis by (subst itoa.simps) (simp add: decVal_snoc)
  qed
qed

lemma atoiDigits_itoa [simp]: "atoiDigits (itoa n) = Some n"
  by (simp add: atoiDigits_def itoa_digits)

lemma itoa_inject: "itoa m = itoa n \<longleftrightarrow> m = n"
  using decVal_itoa by metis

lemma itoa_not_space: "c \<in> set (itoa n) \<Longrightarrow> \<not> isSpace c"
  using itoa_digits isDigit_not_space by blast

section \<open>Quoting\<close>

text \<open>\<open>strconv.Quote\<close> (the verb \<open>%q\<close>) on ASCII strings.\<close>

definition hexChar :: "nat \<Rightarrow> char" where
  "hexChar d = (if d < 10 then char_of (48 + d) else char_of (87 + d))"

definition quoteChar :: "char \<Rightarrow> string" where
  "quoteChar c =
     (if c = CHR 0x22 \<or> c = CHR 0x5C then [CHR 0x5C, c]
      else if CHR '' '' \<le> c \<and> c < CHR 0x7F then [c]
      else if c = CHR 0x07 then [CHR 0x5C, CHR ''a'']
      else if c = CHR 0x08 then [CHR 0x5C, CHR ''b'']
      else if c = CHR 0x0C then [CHR 0x5C, CHR ''f'']
      else if c = CHR 0x0A then [CHR 0x5C, CHR ''n'']
      else if c = CHR 0x0D then [CHR 0x5C, CHR ''r'']
      else if c = CHR 0x09 then [CHR 0x5C, CHR ''t'']
      else if c = CHR 0x0B then [CHR 0x5C, CHR ''v'']
      else [CHR 0x5C, CHR ''x'', hexChar (of_char c div 16), hexChar (of_char c mod 16)])"

definition quote :: "string \<Rightarrow> string" where
  "quote s = CHR 0x22 # concat (map quoteChar s) @ [CHR 0x22]"

definition atoi :: "string \<Rightarrow> int res" where
  "atoi s =
     (let body = (case s of c # cs \<Rightarrow> if c = CHR ''-'' \<or> c = CHR ''+'' then cs else s | [] \<Rightarrow> []);
          neg = (s \<noteq> [] \<and> hd s = CHR ''-'')
      in case atoiDigits body of
           None \<Rightarrow> Inl (atoiErr (quote s) ''invalid syntax'')
         | Some n \<Rightarrow>
             (if neg then (if n \<le> 2 ^ 63 then Inr (- int n) else Inl (atoiErr (quote s) ''value out of range''))
              else (if n < 2 ^ 63 then Inr (int n) else Inl (atoiErr (quote s) ''value out of range''))))"

text \<open>The range check on binary integers, for evaluation.\<close>

lemma atoi_code [code]:
  "atoi s =
     (let body = (case s of c # cs \<Rightarrow> if c = CHR ''-'' \<or> c = CHR ''+'' then cs else s | [] \<Rightarrow> []);
          neg = (s \<noteq> [] \<and> hd s = CHR ''-'')
      in case atoiDigits body of
           None \<Rightarrow> Inl (atoiErr (quote s) ''invalid syntax'')
         | Some n \<Rightarrow>
             (if neg then (if int n \<le> 9223372036854775808 then Inr (- int n)
                           else Inl (atoiErr (quote s) ''value out of range''))
              else (if int n < 9223372036854775808 then Inr (int n)
                    else Inl (atoiErr (quote s) ''value out of range''))))"
proof -
  have "n \<le> 2 ^ 63 \<longleftrightarrow> int n \<le> 9223372036854775808" "n < 2 ^ 63 \<longleftrightarrow> int n < 9223372036854775808" for n :: nat
    by simp_all
  then show ?thesis by (simp only: atoi_def)
qed

lemma itoa_hd_not_sign: "hd (itoa n) \<noteq> CHR ''-'' \<and> hd (itoa n) \<noteq> CHR ''+''"
proof -
  have "isDigit (hd (itoa n))" using itoa_digits[of n] hd_in_set[OF itoa_nonempty] by blast
  then show ?thesis by (auto simp: isDigit_def less_eq_char_def)
qed

lemma atoi_itoa: "n < 2 ^ 63 \<Longrightarrow> atoi (itoa n) = Inr (int n)"
proof -
  assume n: "n < 2 ^ 63"
  obtain c cs where c: "itoa n = c # cs" by (cases "itoa n") simp_all
  then have "atoiDigits (c # cs) = Some n" by (simp flip: c)
  with n c itoa_hd_not_sign[of n] show ?thesis by (simp add: atoi_def Let_def)
qed

lemma quoteChar_no_newline: "CHR 0x0A \<notin> set (quoteChar c)"
proof -
  have "hexChar d \<noteq> CHR 0x0A" if "d < 16" for d :: nat
  proof
    assume "hexChar d = CHR 0x0A"
    then have "of_char (hexChar d) = (10::nat)" by simp
    with that show False by (simp add: hexChar_def split: if_splits)
  qed
  moreover have "of_char c div 16 < (16::nat)" using nat_of_char_less_256[of c] by linarith
  moreover have "of_char c mod 16 < (16::nat)" by simp
  ultimately have "CHR 0x0A \<noteq> hexChar (of_char c div 16)" "CHR 0x0A \<noteq> hexChar (of_char c mod 16)"
    by metis+
  then show ?thesis by (simp add: quoteChar_def)
qed

lemma quote_no_newline: "CHR 0x0A \<notin> set (quote s)"
  using quoteChar_no_newline by (auto simp: quote_def)

section \<open>Source positions\<close>

text \<open>
  \<open>token.Position\<close>, its \<open>String\<close> method, and raw \<open>token.Pos\<close> offsets (\<open>0\<close> is
  \<open>token.NoPos\<close>), which a \<open>token.FileSet\<close> resolves to positions.
\<close>

record position =
  Filename :: string
  Line :: nat
  Column :: nat

type_synonym pos = nat
type_synonym fileset = "pos \<Rightarrow> position"

text \<open>\<open>io.Writer\<close>: a write changes the state of what is written to and may return an error.\<close>

type_synonym 'w writer = "string \<Rightarrow> 'w \<Rightarrow> string option \<times> 'w"

definition positionString :: "position \<Rightarrow> string" where
  "positionString p =
     (let s = Filename p;
          t = (if Line p > 0
               then (if s \<noteq> [] then s @ '':'' else s) @ itoa (Line p)
                    @ (if Column p \<noteq> 0 then '':'' @ itoa (Column p) else [])
               else s)
      in if t = [] then ''-'' else t)"

section \<open>Stable sorting\<close>

text \<open>
  \<open>sort.SliceStable\<close> as insertion sort.  Any stable sort computes the same list
  (\<open>sortBy_unique\<close>), and for pairwise different keys so does any sort at all, which is why
  it also stands for \<open>sort.Slice\<close>.
\<close>

fun insertBy :: "('a \<Rightarrow> 'k::linorder) \<Rightarrow> 'a \<Rightarrow> 'a list \<Rightarrow> 'a list" where
  "insertBy f x [] = [x]"
| "insertBy f x (y # ys) = (if f x \<le> f y then x # y # ys else y # insertBy f x ys)"

definition sortBy :: "('a \<Rightarrow> 'k::linorder) \<Rightarrow> 'a list \<Rightarrow> 'a list" where
  "sortBy f xs = foldr (insertBy f) xs []"

lemma sortBy_simps [simp]: "sortBy f [] = []" "sortBy f (x # xs) = insertBy f x (sortBy f xs)"
  by (simp_all add: sortBy_def)

lemma insertBy_insort_key: "insertBy f x ys = insort_key f x ys"
  by (induction ys) simp_all

lemma sortBy_sort_key: "sortBy f xs = sort_key f xs"
  by (induction xs) (simp_all add: insertBy_insort_key)

lemma sortBy_sorted: "sorted (map f (sortBy f xs))"
  by (simp add: sortBy_sort_key)

lemma sortBy_mset [simp]: "mset (sortBy f xs) = mset xs"
  by (simp add: sortBy_sort_key)

lemma sortBy_set [simp]: "set (sortBy f xs) = set xs"
  by (simp add: sortBy_sort_key)

lemma sortBy_length [simp]: "length (sortBy f xs) = length xs"
  by (simp add: sortBy_sort_key)

lemma sortBy_stable: "filter (\<lambda>x. f x = k) (sortBy f xs) = filter (\<lambda>x. f x = k) xs"
  by (simp add: sortBy_sort_key sort_key_stable)

lemma sortBy_unique:
  assumes "mset ys = mset xs" and "sorted (map f ys)"
    and "\<And>k. filter (\<lambda>x. f x = k) ys = filter (\<lambda>x. f x = k) xs"
  shows "ys = sortBy f xs"
  unfolding sortBy_sort_key using assms by (intro properties_for_sort_key [symmetric]) (simp_all add: eq_commute)

lemma sortBy_id: "sorted (map f xs) \<Longrightarrow> sortBy f xs = xs"
  by (rule sortBy_unique [symmetric]) simp_all

lemma mset_eq_short: "mset a = mset b \<Longrightarrow> length b \<le> 1 \<Longrightarrow> a = b"
  by (cases b) auto

lemma sortBy_distinct_unique:
  assumes "mset ys = mset xs" and "sorted (map f ys)" and "distinct (map f xs)"
  shows "ys = sortBy f xs"
proof (rule sortBy_unique[OF assms(1,2)])
  fix k
  have len: "length (filter (\<lambda>x. f x = k) xs) \<le> 1"
    using assms(3) by (induction xs) (auto simp: filter_empty_conv image_iff)
  have "mset (filter (\<lambda>x. f x = k) ys) = mset (filter (\<lambda>x. f x = k) xs)"
    by (simp add: assms(1))
  then show "filter (\<lambda>x. f x = k) ys = filter (\<lambda>x. f x = k) xs"
    using len by (rule mset_eq_short)
qed

section \<open>Lines\<close>

abbreviation newline :: char where "newline \<equiv> CHR 0x0A"
abbreviation tab :: char where "tab \<equiv> CHR 0x09"

text \<open>A backslash and a double quote, which a string literal of the logic cannot hold.\<close>

abbreviation bsl :: string where "bsl \<equiv> [CHR 0x5C]"
abbreviation dq :: string where "dq \<equiv> [CHR 0x22]"

definition countNL :: "string \<Rightarrow> nat" where
  "countNL s = length (filter (\<lambda>c. c = newline) s)"

lemma countNL_simps [simp, str_simps]:
  "countNL [] = 0"
  "countNL (c # s) = (if c = newline then Suc (countNL s) else countNL s)"
  "countNL (s @ t) = countNL s + countNL t"
  by (simp_all add: countNL_def)

lemma countNL_0_iff: "countNL s = 0 \<longleftrightarrow> newline \<notin> set s"
  by (induction s) auto

text \<open>
  \<open>bufio.Scanner\<close> with \<open>ScanLines\<close>: lines end at a newline, a final unterminated line
  counts if it is not empty, a trailing carriage return is dropped, and a line that does
  not fit the buffer of \<open>maxTokenSize\<close> bytes together with its newline stops the scan with
  \<open>ErrTooLong\<close>.  The result is the lines scanned and the scanner's error.
\<close>

definition dropCR :: "string \<Rightarrow> string" where
  "dropCR s = (if s \<noteq> [] \<and> last s = CHR 0x0D then butlast s else s)"

definition errTooLong :: string where
  "errTooLong = ''bufio.Scanner: token too long''"

definition rawLines :: "string \<Rightarrow> string list" where
  "rawLines s = (let ls = splitOn newline s in if last ls = [] then butlast ls else ls)"

fun scanUpTo :: "nat \<Rightarrow> string list \<Rightarrow> string list \<times> string option" where
  "scanUpTo mx [] = ([], None)"
| "scanUpTo mx (l # ls) =
     (if length l < mx then (case scanUpTo mx ls of (out, err) \<Rightarrow> (dropCR l # out, err))
      else ([], Some errTooLong))"

definition scanLines :: "nat \<Rightarrow> string \<Rightarrow> string list \<times> string option" where
  "scanLines mx s = scanUpTo mx (rawLines s)"

definition unlines :: "string list \<Rightarrow> string" where
  "unlines ls = concat (map (\<lambda>l. l @ [newline]) ls)"

lemma unlines_simps [simp]: "unlines [] = []" "unlines (l # ls) = l @ newline # unlines ls"
  by (simp_all add: unlines_def)

lemma unlines_append [simp]: "unlines (xs @ ys) = unlines xs @ unlines ys"
  by (simp add: unlines_def)

lemma splitOn_unlines: "\<forall>l \<in> set ls. newline \<notin> set l \<Longrightarrow> splitOn newline (unlines ls) = ls @ [[]]"
  by (induction ls) (simp_all add: splitOn_append)

lemma rawLines_unlines: "\<forall>l \<in> set ls. newline \<notin> set l \<Longrightarrow> rawLines (unlines ls) = ls"
  by (simp add: rawLines_def splitOn_unlines)

lemma scanUpTo_ok: "\<forall>l \<in> set ls. length l < mx \<Longrightarrow> scanUpTo mx ls = (map dropCR ls, None)"
  by (induction ls) simp_all

lemma dropCR_id: "l = [] \<or> last l \<noteq> CHR 0x0D \<Longrightarrow> dropCR l = l"
  by (auto simp: dropCR_def)

lemma scanLines_unlines:
  assumes "\<forall>l \<in> set ls. newline \<notin> set l \<and> length l < mx \<and> (l = [] \<or> last l \<noteq> CHR 0x0D)"
  shows "scanLines mx (unlines ls) = (ls, None)"
  using assms by (simp add: scanLines_def rawLines_unlines scanUpTo_ok dropCR_id map_idI)

section \<open>Regular expressions\<close>

text \<open>
  The patterns of the repository are sequences of single-byte classes and of repeated
  classes, with capture groups around subsequences.  \<open>rxMatch\<close> is the backtracking search
  of package \<open>regexp\<close> for them (leftmost-first: a greedy repetition tries to consume
  first, a lazy one tries to stop first).  It returns the text each element consumed and
  the text that is left.
\<close>

datatype rx = One "char \<Rightarrow> bool" | Star bool "char \<Rightarrow> bool"

definition rxLit :: "string \<Rightarrow> rx list" where
  "rxLit s = map (\<lambda>c. One (\<lambda>x. x = c)) s"

definition rxPlus :: "(char \<Rightarrow> bool) \<Rightarrow> rx list" where
  "rxPlus p = [One p, Star True p]"

definition rxPlusLazy :: "(char \<Rightarrow> bool) \<Rightarrow> rx list" where
  "rxPlusLazy p = [One p, Star False p]"

definition isWord :: "char \<Rightarrow> bool" where
  "isWord c \<longleftrightarrow> isDigit c \<or> (CHR ''A'' \<le> c \<and> c \<le> CHR ''Z'') \<or> c = CHR ''_''
     \<or> (CHR ''a'' \<le> c \<and> c \<le> CHR ''z'')"

lemma isWord_code [code]:
  "isWord (Char b0 b1 b2 b3 b4 b5 b6 b7) \<longleftrightarrow> \<not> b7 \<and>
     (if b6 then (if b4 \<and> b3 \<and> (b2 \<or> b1 \<and> b0) then \<not> b5 \<and> b2 \<and> b1 \<and> b0 else b4 \<or> b3 \<or> b2 \<or> b1 \<or> b0)
      else b5 \<and> b4 \<and> (b3 \<longrightarrow> \<not> b2 \<and> \<not> b1))"
  by (cases b0; cases b1; cases b2; cases b3; cases b4; cases b5; cases b6; cases b7)
     (simp_all add: isWord_def isDigit_def less_eq_char_def)

definition rxSpace :: "char \<Rightarrow> bool" where
  "rxSpace c \<longleftrightarrow> c = CHR '' '' \<or> c = CHR 0x09 \<or> c = CHR 0x0A \<or> c = CHR 0x0C \<or> c = CHR 0x0D"

lemma rxSpace_code [code]:
  "rxSpace (Char b0 b1 b2 b3 b4 b5 b6 b7) \<longleftrightarrow> \<not> b7 \<and> \<not> b6 \<and> \<not> b4
     \<and> (if b5 then \<not> b3 \<and> \<not> b2 \<and> \<not> b1 \<and> \<not> b0 else b3 \<and> (if b2 then \<not> b1 else b1 \<noteq> b0))"
  by (auto simp: rxSpace_def)

definition rxAny :: "char \<Rightarrow> bool" where
  "rxAny c \<longleftrightarrow> c \<noteq> CHR 0x0A"

definition pushPiece :: "string \<Rightarrow> (string list \<times> string) option \<Rightarrow> (string list \<times> string) option" where
  "pushPiece w = map_option (\<lambda>(ps, r). (w # ps, r))"

definition growPiece :: "char \<Rightarrow> (string list \<times> string) option \<Rightarrow> (string list \<times> string) option" where
  "growPiece c = map_option (\<lambda>(ps, r). ((c # hd ps) # tl ps, r))"

fun rxMatch :: "rx list \<Rightarrow> string \<Rightarrow> (string list \<times> string) option" where
  "rxMatch [] s = Some ([], s)"
| "rxMatch (One p # rs) [] = None"
| "rxMatch (One p # rs) (c # cs) = (if p c then pushPiece [c] (rxMatch rs cs) else None)"
| "rxMatch (Star g p # rs) [] = pushPiece [] (rxMatch rs [])"
| "rxMatch (Star g p # rs) (c # cs) =
     (if \<not> p c then pushPiece [] (rxMatch rs (c # cs))
      else if g then (case growPiece c (rxMatch (Star g p # rs) cs) of
             Some m \<Rightarrow> Some m | None \<Rightarrow> pushPiece [] (rxMatch rs (c # cs)))
      else (case pushPiece [] (rxMatch rs (c # cs)) of
             Some m \<Rightarrow> Some m | None \<Rightarrow> growPiece c (rxMatch (Star g p # rs) cs)))"

text \<open>The language of a pattern: what each element may consume.\<close>

fun rxPieces :: "rx list \<Rightarrow> string list \<Rightarrow> bool" where
  "rxPieces [] [] = True"
| "rxPieces (One p # rs) (w # ws) = ((\<exists>c. w = [c] \<and> p c) \<and> rxPieces rs ws)"
| "rxPieces (Star g p # rs) (w # ws) = ((\<forall>c \<in> set w. p c) \<and> rxPieces rs ws)"
| "rxPieces _ _ = False"

lemma rxPieces_length: "rxPieces rs ws \<Longrightarrow> length ws = length rs"
  by (induction rs ws rule: rxPieces.induct) auto

lemma pushPiece_Some [simp]: "pushPiece w m = Some (ps, r) \<longleftrightarrow> (\<exists>qs. m = Some (qs, r) \<and> ps = w # qs)"
  by (cases m) (auto simp: pushPiece_def)

lemma pushPiece_None [simp]: "pushPiece w m = None \<longleftrightarrow> m = None"
  by (simp add: pushPiece_def)

lemma growPiece_None [simp]: "growPiece c m = None \<longleftrightarrow> m = None"
  by (simp add: growPiece_def)

lemma growPiece_Some [simp]:
  "growPiece c m = Some (ps, r) \<longleftrightarrow> (\<exists>qs. m = Some (qs, r) \<and> ps = (c # hd qs) # tl qs)"
  by (cases m) (auto simp: growPiece_def)

text \<open>Soundness: a match splits the input into pieces of the pattern's language.\<close>

lemma rxMatch_sound_star:
  assumes "\<And>s ws. rxMatch rs s = Some (ws, r) \<Longrightarrow> rxPieces rs ws \<and> s = concat ws @ r"
  shows "rxMatch (Star g p # rs) s = Some (ws, r) \<Longrightarrow> rxPieces (Star g p # rs) ws \<and> s = concat ws @ r"
proof (induction s arbitrary: ws)
  case Nil
  with assms show ?case by fastforce
next
  case (Cons c cs)
  consider (stop) "pushPiece [] (rxMatch rs (c # cs)) = Some (ws, r)"
    | (grow) "p c" "growPiece c (rxMatch (Star g p # rs) cs) = Some (ws, r)"
    using Cons.prems by (auto split: if_splits option.splits)
  then show ?case
  proof cases
    case stop
    with assms show ?thesis by fastforce
  next
    case grow
    then obtain qs where qs: "rxMatch (Star g p # rs) cs = Some (qs, r)"
      and ws: "ws = (c # hd qs) # tl qs" by auto
    from Cons.IH[OF qs] obtain w vs where "qs = w # vs" by (cases qs) auto
    with Cons.IH[OF qs] ws \<open>p c\<close> show ?thesis by simp
  qed
qed

lemma rxMatch_sound: "rxMatch rs s = Some (ws, r) \<Longrightarrow> rxPieces rs ws \<and> s = concat ws @ r"
proof (induction rs arbitrary: s ws)
  case (Cons x rs)
  show ?case
  proof (cases x)
    case (One p)
    with Cons show ?thesis by (cases s) (auto split: if_splits)
  next
    case (Star g p)
    with Cons.prems show ?thesis using rxMatch_sound_star[OF Cons.IH] by simp
  qed
qed simp

text \<open>Completeness: whatever the language allows as a prefix of the input is found.\<close>

lemma rxMatch_complete: "rxPieces rs ws \<Longrightarrow> rxMatch rs (concat ws @ r) \<noteq> None"
proof (induction rs ws rule: rxPieces.induct)
  case (3 g p rs w ws)
  then have IH: "rxMatch rs (concat ws @ r) \<noteq> None" by simp
  have "rxMatch rs s \<noteq> None \<Longrightarrow> rxMatch (Star g p # rs) s \<noteq> None" for s
    by (cases s) (auto split: option.splits)
  with IH have "rxMatch (Star g p # rs) (concat ws @ r) \<noteq> None" by blast
  moreover from "3.prems" have "\<forall>c \<in> set w. p c" by simp
  ultimately have "rxMatch (Star g p # rs) (w @ concat ws @ r) \<noteq> None"
    by (induction w) (auto split: option.splits)
  then show ?case by simp
qed auto

end
