(* ===== verification/Go_Path.thy ===== *)
theory Go_Path
  imports Go_Library
begin

text \<open>
  The functions of package \<^verbatim>\<open>path/filepath\<close> that the pipeline calls, on Unix paths:
  \<open>Clean\<close>, \<open>Join\<close> of two elements, \<open>Base\<close> and \<open>Rel\<close>.
\<close>

section \<open>Model\<close>

abbreviation slash :: char where "slash \<equiv> CHR ''/''"

text \<open>The elements kept by \<open>Clean\<close>, the last one first.\<close>

fun cleanElems :: "bool \<Rightarrow> string list \<Rightarrow> string list \<Rightarrow> string list" where
  "cleanElems rooted out [] = rev out"
| "cleanElems rooted out (c # cs) =
     (if c = [] \<or> c = ''.'' then cleanElems rooted out cs
      else if c = ''..'' then
        (case out of
           [] \<Rightarrow> cleanElems rooted (if rooted then [] else [''..'']) cs
         | x # xs \<Rightarrow> cleanElems rooted (if x = ''..'' then ''..'' # out else xs) cs)
      else cleanElems rooted (c # out) cs)"

definition isAbs :: "string \<Rightarrow> bool" where
  "isAbs p \<longleftrightarrow> p \<noteq> [] \<and> hd p = slash"

definition pathClean :: "string \<Rightarrow> string" where
  "pathClean p =
     (let out = joinWith ''/'' (cleanElems (isAbs p) [] (splitOn slash p))
      in if isAbs p then slash # out else if out = [] then ''.'' else out)"

definition pathJoin :: "string \<Rightarrow> string \<Rightarrow> string" where
  "pathJoin a b =
     (if a \<noteq> [] then pathClean (a @ slash # b) else if b \<noteq> [] then pathClean b else [])"

definition pathBase :: "string \<Rightarrow> string" where
  "pathBase p =
     (if p = [] then ''.''
      else let s = last (splitOn slash (trimRight (\<lambda>c. c = slash) p)) in if s = [] then ''/'' else s)"

text \<open>\<open>Rel\<close>: the element-wise comparison of two clean paths, \<open>None\<close> for the error.\<close>

fun relElems :: "string list \<Rightarrow> string list \<Rightarrow> string list option" where
  "relElems [] ts = Some ts"
| "relElems bs [] = Some (map (\<lambda>_. ''..'') bs)"
| "relElems (b # bs) (t # ts) =
     (if b = t then relElems bs ts
      else if b = ''..'' then None
      else Some (map (\<lambda>_. ''..'') (b # bs) @ t # ts))"

definition pathElems :: "string \<Rightarrow> string list" where
  "pathElems p = filter (\<lambda>c. c \<noteq> []) (splitOn slash p)"

definition pathRel :: "string \<Rightarrow> string \<Rightarrow> string option" where
  "pathRel basepath targpath =
     (let b = pathClean basepath; t = pathClean targpath; b' = (if b = ''.'' then [] else b)
      in if t = b then Some ''.''
         else if isAbs b' \<noteq> isAbs t then None
         else map_option (joinWith ''/'') (relElems (pathElems b') (pathElems t)))"

section \<open>Names in a directory\<close>

text \<open>A name that a directory entry can have.\<close>

definition plainName :: "string \<Rightarrow> bool" where
  "plainName n \<longleftrightarrow> n \<noteq> [] \<and> slash \<notin> set n \<and> n \<noteq> ''.'' \<and> n \<noteq> ''..''"

lemma cleanElems_plain: "plainName n \<Longrightarrow> cleanElems r out (cs @ [n]) = cleanElems r out cs @ [n]"
  by (induction cs arbitrary: out) (auto simp: plainName_def split: list.splits)

lemma splitOn_none: "d \<notin> set s \<Longrightarrow> splitOn d s = [s]"
  by (induction s) auto

lemma splitOn_last: "d \<notin> set n \<Longrightarrow> splitOn d (p @ d # n) = splitOn d p @ [n]"
  by (induction p) (auto simp: splitOn_none split: list.splits)

lemma joinWith_snoc: "joinWith sep (xs @ [n]) = (if xs = [] then n else joinWith sep xs @ sep @ n)"
proof (induction xs)
  case (Cons x xs)
  then show ?case by (cases xs) simp_all
qed simp

lemma trimRight_last: "s \<noteq> [] \<Longrightarrow> \<not> p (last s) \<Longrightarrow> trimRight p s = s"
  by (cases s rule: rev_cases) (simp_all add: trimRight_def)

lemma plainName_last: "plainName n \<Longrightarrow> last n \<noteq> slash"
  unfolding plainName_def by (metis last_in_set)

lemma pathBase_plain: "plainName n \<Longrightarrow> pathBase n = n"
  using plainName_last[of n] by (simp add: pathBase_def trimRight_last splitOn_none plainName_def)

lemma pathBase_snoc: "plainName n \<Longrightarrow> pathBase (p @ slash # n) = n"
  using plainName_last[of n] by (simp add: pathBase_def trimRight_last splitOn_last plainName_def)

text \<open>\<open>Join\<close> puts a plain name last, whatever the directory.\<close>

lemma pathJoin_shape:
  assumes "plainName n"
  shows "pathJoin d n = n \<or> (\<exists>p. pathJoin d n = p @ slash # n)"
proof -
  let ?b = "if d = [] then n else d @ slash # n"
  let ?e = "cleanElems (isAbs ?b) [] (if d = [] then [] else splitOn slash d)"
  have "cleanElems (isAbs ?b) [] (splitOn slash ?b) = ?e @ [n]"
  proof (cases "d = []")
    case True
    then show ?thesis using assms by (simp add: splitOn_none plainName_def)
  next
    case False
    then show ?thesis using assms by (simp add: splitOn_last cleanElems_plain) (simp add: plainName_def splitOn_last cleanElems_plain)
  qed
  then have "pathClean ?b = (if isAbs ?b then slash # joinWith ''/'' (?e @ [n]) else joinWith ''/'' (?e @ [n]))"
    using assms by (simp add: pathClean_def Let_def joinWith_snoc plainName_def)
  moreover have "pathJoin d n = pathClean ?b" using assms by (simp add: pathJoin_def plainName_def)
  ultimately show ?thesis by (auto simp: joinWith_snoc)
qed

lemma pathBase_pathJoin: "plainName n \<Longrightarrow> pathBase (pathJoin d n) = n"
  using pathJoin_shape[of n d] pathBase_plain pathBase_snoc by metis

lemma pathJoin_inj: "plainName m \<Longrightarrow> plainName n \<Longrightarrow> pathJoin d m = pathJoin d n \<longleftrightarrow> m = n"
  using pathBase_pathJoin by metis

end
