(* ===== verification/Go_Syntax.thy ===== *)
theory Go_Syntax
  imports Go_Library
begin

text \<open>
  The typed syntax trees the transpiler consumes: the part of \<^verbatim>\<open>go/token\<close>, \<^verbatim>\<open>go/ast\<close> and
  \<^verbatim>\<open>go/types\<close> that \<^verbatim>\<open>internal/transpile\<close> inspects.  The maps of \<^verbatim>\<open>types.Info\<close> are keyed by
  nodes, so the model stores their entries in the nodes: every expression carries the
  answer of \<^verbatim>\<open>Info.TypeOf\<close>, every identifier its entries of \<^verbatim>\<open>Info.Uses\<close> and
  \<^verbatim>\<open>Info.Defs\<close>.  The trees themselves come from the Go front end.
\<close>

section \<open>Tokens\<close>

datatype (plugins only: code size) tok = INT_lit | FLOAT_lit | IMAG_lit | CHAR_lit | STRING_lit
  | ADD | SUB | MUL | QUO | REM | AND | OR | XOR | SHL | SHR | AND_NOT
  | ADD_ASSIGN | SUB_ASSIGN | MUL_ASSIGN | QUO_ASSIGN | REM_ASSIGN | AND_ASSIGN | OR_ASSIGN
  | XOR_ASSIGN | SHL_ASSIGN | SHR_ASSIGN | AND_NOT_ASSIGN
  | LAND | LOR | ARROW | INC | DEC | EQL | LSS | GTR | ASSIGN | NOT | TILDE | NEQ | LEQ | GEQ | DEFINE
  | VAR_kw | CONST_kw | TYPE_kw | IMPORT_kw | BREAK | CONTINUE | GOTO | FALLTHROUGH

fun tokString :: "tok \<Rightarrow> string" where
  "tokString INT_lit = ''INT''" | "tokString FLOAT_lit = ''FLOAT''" | "tokString IMAG_lit = ''IMAG''"
| "tokString CHAR_lit = ''CHAR''" | "tokString STRING_lit = ''STRING''"
| "tokString ADD = ''+''" | "tokString SUB = ''-''" | "tokString MUL = ''*''" | "tokString QUO = ''/''"
| "tokString REM = ''%''" | "tokString AND = ''&''" | "tokString OR = ''|''" | "tokString XOR = ''^''"
| "tokString SHL = ''<<''" | "tokString SHR = ''>>''" | "tokString AND_NOT = ''&^''"
| "tokString ADD_ASSIGN = ''+=''" | "tokString SUB_ASSIGN = ''-=''" | "tokString MUL_ASSIGN = ''*=''"
| "tokString QUO_ASSIGN = ''/=''" | "tokString REM_ASSIGN = ''%=''" | "tokString AND_ASSIGN = ''&=''"
| "tokString OR_ASSIGN = ''|=''" | "tokString XOR_ASSIGN = ''^=''" | "tokString SHL_ASSIGN = ''<<=''"
| "tokString SHR_ASSIGN = ''>>=''" | "tokString AND_NOT_ASSIGN = ''&^=''"
| "tokString LAND = ''&&''" | "tokString LOR = ''||''" | "tokString ARROW = ''<-''"
| "tokString INC = ''++''" | "tokString DEC = ''--''" | "tokString EQL = ''==''" | "tokString LSS = ''<''"
| "tokString GTR = ''>''" | "tokString ASSIGN = ''=''" | "tokString NOT = ''!''" | "tokString TILDE = ''~''"
| "tokString NEQ = ''!=''" | "tokString LEQ = ''<=''" | "tokString GEQ = ''>=''" | "tokString DEFINE = '':=''"
| "tokString VAR_kw = ''var''" | "tokString CONST_kw = ''const''" | "tokString TYPE_kw = ''type''"
| "tokString IMPORT_kw = ''import''" | "tokString BREAK = ''break''" | "tokString CONTINUE = ''continue''"
| "tokString GOTO = ''goto''" | "tokString FALLTHROUGH = ''fallthrough''"

section \<open>Types\<close>

datatype (plugins only: code size) basicKind = KInvalid | KBool | KInt | KInt8 | KInt16 | KInt32 | KInt64
  | KUint | KUint8 | KUint16 | KUint32 | KUint64 | KUintptr | KFloat32 | KFloat64 | KComplex64 | KComplex128
  | KString | KUnsafePointer
  | KUntypedBool | KUntypedInt | KUntypedRune | KUntypedFloat | KUntypedComplex | KUntypedString | KUntypedNil

fun basicName :: "basicKind \<Rightarrow> string" where
  "basicName KInvalid = ''invalid type''" | "basicName KBool = ''bool''" | "basicName KInt = ''int''"
| "basicName KInt8 = ''int8''" | "basicName KInt16 = ''int16''" | "basicName KInt32 = ''int32''"
| "basicName KInt64 = ''int64''" | "basicName KUint = ''uint''" | "basicName KUint8 = ''uint8''"
| "basicName KUint16 = ''uint16''" | "basicName KUint32 = ''uint32''" | "basicName KUint64 = ''uint64''"
| "basicName KUintptr = ''uintptr''" | "basicName KFloat32 = ''float32''" | "basicName KFloat64 = ''float64''"
| "basicName KComplex64 = ''complex64''" | "basicName KComplex128 = ''complex128''"
| "basicName KString = ''string''" | "basicName KUnsafePointer = ''Pointer''"
| "basicName KUntypedBool = ''untyped bool''" | "basicName KUntypedInt = ''untyped int''"
| "basicName KUntypedRune = ''untyped rune''" | "basicName KUntypedFloat = ''untyped float''"
| "basicName KUntypedComplex = ''untyped complex''" | "basicName KUntypedString = ''untyped string''"
| "basicName KUntypedNil = ''untyped nil''"

text \<open>
  \<open>Named pkg name targs\<close> is a \<open>*types.Named\<close>: the path of its package (\<open>None\<close> for the
  universe), its name and its type arguments.  A struct lists its fields with their types
  and tags.  \<open>OtherType s\<close> is any other type, with its rendering \<open>s\<close>.
\<close>

datatype gotype = Basic basicKind
  | Pointer gotype
  | Named "string option" string "gotype list"
  | Array gotype nat
  | Struct "(string \<times> gotype \<times> string) list"
  | OtherType string

type_synonym structField = "string \<times> gotype \<times> string"

text \<open>\<open>types.Type.String\<close>.\<close>

fun typeString :: "gotype \<Rightarrow> string" where
  "typeString (Basic k) = (if k = KUnsafePointer then ''unsafe.Pointer'' else basicName k)"
| "typeString (Pointer t) = ''*'' @ typeString t"
| "typeString (Named pkg n ts) =
     (case pkg of None \<Rightarrow> n | Some p \<Rightarrow> p @ ''.'' @ n)
     @ (if ts = [] then [] else ''['' @ joinWith '','' (map typeString ts) @ '']'')"
| "typeString (Array t n) = ''['' @ itoa n @ '']'' @ typeString t"
| "typeString (Struct fs) =
     ''struct{'' @ joinWith ''; '' (map (\<lambda>(n, t, tag). n @ '' '' @ typeString t
        @ (if tag = [] then [] else '' '' @ quote tag)) fs) @ ''}''"
| "typeString (OtherType s) = s"

text \<open>Objects the type checker resolves identifiers to; the number is the object's identity.\<close>

datatype gobj = PkgName nat string
  | ConstObj nat "string option"
  | OtherObj nat

datatype ident = Ident (idPos: pos) (idName: string) (idUse: "gobj option")
  (idDef: "gobj option") (idType: "gotype option")

section \<open>Syntax trees\<close>

text \<open>The position of a node and the answer of \<open>Info.TypeOf\<close> for it.\<close>

type_synonym meta = "pos \<times> gotype option"

datatype (plugins only: code size) expr =
    BadExpr meta
  | IdentE ident
  | Ellipsis meta "expr option"
  | BasicLit meta tok string
  | FuncLit meta expr "stmt list"
  | CompositeLit meta "expr option" "expr list"
  | ParenExpr meta expr
  | SelectorExpr meta expr ident
  | IndexExpr meta expr expr
  | IndexListExpr meta expr "expr list"
  | SliceExpr meta expr "expr option" "expr option" "expr option"
  | TypeAssertExpr meta expr "expr option"
  | CallExpr meta expr "expr list"
  | StarExpr meta expr
  | UnaryExpr meta tok expr
  | BinaryExpr meta expr tok expr
  | KeyValueExpr meta expr expr
  | ArrayType meta "expr option" expr
  | StructType meta "field list"
  | FuncType meta "field list" "field list" "field list"
  | InterfaceType meta "field list"
  | MapType meta expr expr
  | ChanType meta expr
and stmt =
    BadStmt pos
  | DeclStmt pos tok "spec list"
  | EmptyStmt pos
  | LabeledStmt pos ident stmt
  | ExprStmt pos expr
  | SendStmt pos expr expr
  | IncDecStmt pos expr tok
  | AssignStmt pos "expr list" tok "expr list"
  | GoStmt pos expr
  | DeferStmt pos expr
  | ReturnStmt pos "expr list"
  | BranchStmt pos tok "ident option"
  | BlockStmt pos "stmt list"
  | IfStmt pos "stmt option" expr "stmt list" "stmt option"
  | CaseClause pos "expr list" "stmt list"
  | SwitchStmt pos "stmt option" "expr option" "stmt list"
  | TypeSwitchStmt pos "stmt option" stmt "stmt list"
  | CommClause pos "stmt option" "stmt list"
  | SelectStmt pos "stmt list"
  | ForStmt pos "stmt option" "expr option" "stmt option" "stmt list"
  | RangeStmt pos "expr option" "expr option" expr "stmt list"
and spec =
    ImportSpec pos
  | ValueSpec pos "ident list" "expr option" "expr list"
  | TypeSpec pos ident expr
and field = Field "ident list" expr

fun metaOf :: "expr \<Rightarrow> meta" where
  "metaOf (BadExpr m) = m" | "metaOf (IdentE i) = (idPos i, idType i)" | "metaOf (Ellipsis m _) = m"
| "metaOf (BasicLit m _ _) = m" | "metaOf (FuncLit m _ _) = m" | "metaOf (CompositeLit m _ _) = m"
| "metaOf (ParenExpr m _) = m" | "metaOf (SelectorExpr m _ _) = m" | "metaOf (IndexExpr m _ _) = m"
| "metaOf (IndexListExpr m _ _) = m" | "metaOf (SliceExpr m _ _ _ _) = m"
| "metaOf (TypeAssertExpr m _ _) = m" | "metaOf (CallExpr m _ _) = m" | "metaOf (StarExpr m _) = m"
| "metaOf (UnaryExpr m _ _) = m" | "metaOf (BinaryExpr m _ _ _) = m" | "metaOf (KeyValueExpr m _ _) = m"
| "metaOf (ArrayType m _ _) = m" | "metaOf (StructType m _) = m" | "metaOf (FuncType m _ _ _) = m"
| "metaOf (InterfaceType m _) = m" | "metaOf (MapType m _ _) = m" | "metaOf (ChanType m _) = m"

abbreviation exprPos :: "expr \<Rightarrow> pos" where "exprPos e \<equiv> fst (metaOf e)"
abbreviation typeOf :: "expr \<Rightarrow> gotype option" where "typeOf e \<equiv> snd (metaOf e)"

fun stmtPos :: "stmt \<Rightarrow> pos" where
  "stmtPos (BadStmt p) = p" | "stmtPos (DeclStmt p _ _) = p" | "stmtPos (EmptyStmt p) = p"
| "stmtPos (LabeledStmt p _ _) = p" | "stmtPos (ExprStmt p _) = p" | "stmtPos (SendStmt p _ _) = p"
| "stmtPos (IncDecStmt p _ _) = p" | "stmtPos (AssignStmt p _ _ _) = p" | "stmtPos (GoStmt p _) = p"
| "stmtPos (DeferStmt p _) = p" | "stmtPos (ReturnStmt p _) = p" | "stmtPos (BranchStmt p _ _) = p"
| "stmtPos (BlockStmt p _) = p" | "stmtPos (IfStmt p _ _ _ _) = p" | "stmtPos (CaseClause p _ _) = p"
| "stmtPos (SwitchStmt p _ _ _) = p" | "stmtPos (TypeSwitchStmt p _ _ _) = p"
| "stmtPos (CommClause p _ _) = p" | "stmtPos (SelectStmt p _) = p" | "stmtPos (ForStmt p _ _ _ _) = p"
| "stmtPos (RangeStmt p _ _ _ _) = p"

text \<open>The names \<open>%T\<close> prints for the dynamic types of nodes.\<close>

fun exprTypeName :: "expr \<Rightarrow> string" where
  "exprTypeName (BadExpr _) = ''*ast.BadExpr''" | "exprTypeName (IdentE _) = ''*ast.Ident''"
| "exprTypeName (Ellipsis _ _) = ''*ast.Ellipsis''" | "exprTypeName (BasicLit _ _ _) = ''*ast.BasicLit''"
| "exprTypeName (FuncLit _ _ _) = ''*ast.FuncLit''" | "exprTypeName (CompositeLit _ _ _) = ''*ast.CompositeLit''"
| "exprTypeName (ParenExpr _ _) = ''*ast.ParenExpr''" | "exprTypeName (SelectorExpr _ _ _) = ''*ast.SelectorExpr''"
| "exprTypeName (IndexExpr _ _ _) = ''*ast.IndexExpr''" | "exprTypeName (IndexListExpr _ _ _) = ''*ast.IndexListExpr''"
| "exprTypeName (SliceExpr _ _ _ _ _) = ''*ast.SliceExpr''" | "exprTypeName (TypeAssertExpr _ _ _) = ''*ast.TypeAssertExpr''"
| "exprTypeName (CallExpr _ _ _) = ''*ast.CallExpr''" | "exprTypeName (StarExpr _ _) = ''*ast.StarExpr''"
| "exprTypeName (UnaryExpr _ _ _) = ''*ast.UnaryExpr''" | "exprTypeName (BinaryExpr _ _ _ _) = ''*ast.BinaryExpr''"
| "exprTypeName (KeyValueExpr _ _ _) = ''*ast.KeyValueExpr''" | "exprTypeName (ArrayType _ _ _) = ''*ast.ArrayType''"
| "exprTypeName (StructType _ _) = ''*ast.StructType''" | "exprTypeName (FuncType _ _ _ _) = ''*ast.FuncType''"
| "exprTypeName (InterfaceType _ _) = ''*ast.InterfaceType''" | "exprTypeName (MapType _ _ _) = ''*ast.MapType''"
| "exprTypeName (ChanType _ _) = ''*ast.ChanType''"

fun stmtTypeName :: "stmt \<Rightarrow> string" where
  "stmtTypeName (BadStmt _) = ''*ast.BadStmt''" | "stmtTypeName (DeclStmt _ _ _) = ''*ast.DeclStmt''"
| "stmtTypeName (EmptyStmt _) = ''*ast.EmptyStmt''" | "stmtTypeName (LabeledStmt _ _ _) = ''*ast.LabeledStmt''"
| "stmtTypeName (ExprStmt _ _) = ''*ast.ExprStmt''" | "stmtTypeName (SendStmt _ _ _) = ''*ast.SendStmt''"
| "stmtTypeName (IncDecStmt _ _ _) = ''*ast.IncDecStmt''" | "stmtTypeName (AssignStmt _ _ _ _) = ''*ast.AssignStmt''"
| "stmtTypeName (GoStmt _ _) = ''*ast.GoStmt''" | "stmtTypeName (DeferStmt _ _) = ''*ast.DeferStmt''"
| "stmtTypeName (ReturnStmt _ _) = ''*ast.ReturnStmt''" | "stmtTypeName (BranchStmt _ _ _) = ''*ast.BranchStmt''"
| "stmtTypeName (BlockStmt _ _) = ''*ast.BlockStmt''" | "stmtTypeName (IfStmt _ _ _ _ _) = ''*ast.IfStmt''"
| "stmtTypeName (CaseClause _ _ _) = ''*ast.CaseClause''" | "stmtTypeName (SwitchStmt _ _ _ _) = ''*ast.SwitchStmt''"
| "stmtTypeName (TypeSwitchStmt _ _ _ _) = ''*ast.TypeSwitchStmt''" | "stmtTypeName (CommClause _ _ _) = ''*ast.CommClause''"
| "stmtTypeName (SelectStmt _ _) = ''*ast.SelectStmt''" | "stmtTypeName (ForStmt _ _ _ _ _) = ''*ast.ForStmt''"
| "stmtTypeName (RangeStmt _ _ _ _ _) = ''*ast.RangeStmt''"

record funcDecl =
  fdPos :: pos
  fdDoc :: "string list option"
  fdName :: ident
  fdRecv :: "field list option"
  fdTypeParams :: "(pos \<times> field list) option"
  fdParams :: "field list option"
  fdResults :: "(pos \<times> field list) option"
  fdBody :: "(pos \<times> stmt list \<times> pos) option"

datatype decl = FuncD funcDecl | GenD tok "spec list" | BadDecl

record goFile =
  gfPos :: pos
  gfComments :: "(pos \<times> string) list list"
  gfDecls :: "decl list"
  gfImports :: "(pos \<times> string) list"

section \<open>Traversal\<close>

text \<open>
  \<open>ast.Inspect\<close> visits a tree in preorder.  The visitors of the transpiler only act on
  expressions and statements, so the model lists those nodes in the order of the visit.
\<close>

datatype node = NE expr | NS stmt

fun inspectExpr :: "expr \<Rightarrow> node list"
  and inspectStmt :: "stmt \<Rightarrow> node list"
  and inspectSpec :: "spec \<Rightarrow> node list"
  and inspectField :: "field \<Rightarrow> node list" where
  "inspectExpr (BadExpr m) = [NE (BadExpr m)]"
| "inspectExpr (IdentE i) = [NE (IdentE i)]"
| "inspectExpr (Ellipsis m x) = NE (Ellipsis m x) # (case x of None \<Rightarrow> [] | Some e \<Rightarrow> inspectExpr e)"
| "inspectExpr (BasicLit m k v) = [NE (BasicLit m k v)]"
| "inspectExpr (FuncLit m t b) = NE (FuncLit m t b) # inspectExpr t @ concat (map inspectStmt b)"
| "inspectExpr (CompositeLit m t es) =
     NE (CompositeLit m t es) # (case t of None \<Rightarrow> [] | Some e \<Rightarrow> inspectExpr e) @ concat (map inspectExpr es)"
| "inspectExpr (ParenExpr m e) = NE (ParenExpr m e) # inspectExpr e"
| "inspectExpr (SelectorExpr m e i) = NE (SelectorExpr m e i) # inspectExpr e @ [NE (IdentE i)]"
| "inspectExpr (IndexExpr m e i) = NE (IndexExpr m e i) # inspectExpr e @ inspectExpr i"
| "inspectExpr (IndexListExpr m e es) = NE (IndexListExpr m e es) # inspectExpr e @ concat (map inspectExpr es)"
| "inspectExpr (SliceExpr m e a b c) =
     NE (SliceExpr m e a b c) # inspectExpr e @ (case a of None \<Rightarrow> [] | Some x \<Rightarrow> inspectExpr x)
       @ (case b of None \<Rightarrow> [] | Some x \<Rightarrow> inspectExpr x) @ (case c of None \<Rightarrow> [] | Some x \<Rightarrow> inspectExpr x)"
| "inspectExpr (TypeAssertExpr m e t) =
     NE (TypeAssertExpr m e t) # inspectExpr e @ (case t of None \<Rightarrow> [] | Some x \<Rightarrow> inspectExpr x)"
| "inspectExpr (CallExpr m f es) = NE (CallExpr m f es) # inspectExpr f @ concat (map inspectExpr es)"
| "inspectExpr (StarExpr m e) = NE (StarExpr m e) # inspectExpr e"
| "inspectExpr (UnaryExpr m t e) = NE (UnaryExpr m t e) # inspectExpr e"
| "inspectExpr (BinaryExpr m a t b) = NE (BinaryExpr m a t b) # inspectExpr a @ inspectExpr b"
| "inspectExpr (KeyValueExpr m a b) = NE (KeyValueExpr m a b) # inspectExpr a @ inspectExpr b"
| "inspectExpr (ArrayType m l e) =
     NE (ArrayType m l e) # (case l of None \<Rightarrow> [] | Some x \<Rightarrow> inspectExpr x) @ inspectExpr e"
| "inspectExpr (StructType m fs) = NE (StructType m fs) # concat (map inspectField fs)"
| "inspectExpr (FuncType m ts ps rs) =
     NE (FuncType m ts ps rs) # concat (map inspectField ts) @ concat (map inspectField ps)
       @ concat (map inspectField rs)"
| "inspectExpr (InterfaceType m fs) = NE (InterfaceType m fs) # concat (map inspectField fs)"
| "inspectExpr (MapType m a b) = NE (MapType m a b) # inspectExpr a @ inspectExpr b"
| "inspectExpr (ChanType m e) = NE (ChanType m e) # inspectExpr e"
| "inspectStmt (BadStmt p) = [NS (BadStmt p)]"
| "inspectStmt (DeclStmt p t ss) = NS (DeclStmt p t ss) # concat (map inspectSpec ss)"
| "inspectStmt (EmptyStmt p) = [NS (EmptyStmt p)]"
| "inspectStmt (LabeledStmt p i s) = NS (LabeledStmt p i s) # NE (IdentE i) # inspectStmt s"
| "inspectStmt (ExprStmt p e) = NS (ExprStmt p e) # inspectExpr e"
| "inspectStmt (SendStmt p a b) = NS (SendStmt p a b) # inspectExpr a @ inspectExpr b"
| "inspectStmt (IncDecStmt p e t) = NS (IncDecStmt p e t) # inspectExpr e"
| "inspectStmt (AssignStmt p ls t rs) =
     NS (AssignStmt p ls t rs) # concat (map inspectExpr ls) @ concat (map inspectExpr rs)"
| "inspectStmt (GoStmt p e) = NS (GoStmt p e) # inspectExpr e"
| "inspectStmt (DeferStmt p e) = NS (DeferStmt p e) # inspectExpr e"
| "inspectStmt (ReturnStmt p es) = NS (ReturnStmt p es) # concat (map inspectExpr es)"
| "inspectStmt (BranchStmt p t l) =
     NS (BranchStmt p t l) # (case l of None \<Rightarrow> [] | Some i \<Rightarrow> [NE (IdentE i)])"
| "inspectStmt (BlockStmt p b) = NS (BlockStmt p b) # concat (map inspectStmt b)"
| "inspectStmt (IfStmt p i c b e) =
     NS (IfStmt p i c b e) # (case i of None \<Rightarrow> [] | Some s \<Rightarrow> inspectStmt s) @ inspectExpr c
       @ concat (map inspectStmt b) @ (case e of None \<Rightarrow> [] | Some s \<Rightarrow> inspectStmt s)"
| "inspectStmt (CaseClause p es b) =
     NS (CaseClause p es b) # concat (map inspectExpr es) @ concat (map inspectStmt b)"
| "inspectStmt (SwitchStmt p i t b) =
     NS (SwitchStmt p i t b) # (case i of None \<Rightarrow> [] | Some s \<Rightarrow> inspectStmt s)
       @ (case t of None \<Rightarrow> [] | Some e \<Rightarrow> inspectExpr e) @ concat (map inspectStmt b)"
| "inspectStmt (TypeSwitchStmt p i a b) =
     NS (TypeSwitchStmt p i a b) # (case i of None \<Rightarrow> [] | Some s \<Rightarrow> inspectStmt s)
       @ inspectStmt a @ concat (map inspectStmt b)"
| "inspectStmt (CommClause p c b) =
     NS (CommClause p c b) # (case c of None \<Rightarrow> [] | Some s \<Rightarrow> inspectStmt s) @ concat (map inspectStmt b)"
| "inspectStmt (SelectStmt p b) = NS (SelectStmt p b) # concat (map inspectStmt b)"
| "inspectStmt (ForStmt p i c q b) =
     NS (ForStmt p i c q b) # (case i of None \<Rightarrow> [] | Some s \<Rightarrow> inspectStmt s)
       @ (case c of None \<Rightarrow> [] | Some e \<Rightarrow> inspectExpr e)
       @ (case q of None \<Rightarrow> [] | Some s \<Rightarrow> inspectStmt s) @ concat (map inspectStmt b)"
| "inspectStmt (RangeStmt p k v x b) =
     NS (RangeStmt p k v x b) # (case k of None \<Rightarrow> [] | Some e \<Rightarrow> inspectExpr e)
       @ (case v of None \<Rightarrow> [] | Some e \<Rightarrow> inspectExpr e) @ inspectExpr x @ concat (map inspectStmt b)"
| "inspectSpec (ImportSpec p) = []"
| "inspectSpec (ValueSpec p ns t vs) =
     map (\<lambda>i. NE (IdentE i)) ns @ (case t of None \<Rightarrow> [] | Some e \<Rightarrow> inspectExpr e)
       @ concat (map inspectExpr vs)"
| "inspectSpec (TypeSpec p i e) = NE (IdentE i) # inspectExpr e"
| "inspectField (Field ns t) = map (\<lambda>i. NE (IdentE i)) ns @ inspectExpr t"

definition inspectBlock :: "stmt list \<Rightarrow> node list" where
  "inspectBlock b = concat (map inspectStmt b)"

end
