(* ===== verification/Helper_Tables.thy ===== *)
theory Helper_Tables
  imports Go_Library
begin

text \<open>
  The tables of \<^verbatim>\<open>internal/transpile/helpers.go\<close> that fix how names of the Go package
  \<^verbatim>\<open>bpf\<close> appear in C, the sugar functions that expand to C expressions, and the name
  translation \<open>goNameToBpfHelper\<close>.  A Go map literal is an association list, read with
  \<open>map_of\<close>; a set-valued map is the list of its keys.
\<close>

section \<open>Names of functions\<close>

definition bpfHelperFuncs :: "(string \<times> string) list" where
  "bpfHelperFuncs =
     [(''AtomicAdd64'', ''__sync_fetch_and_add''), (''Ntohl'', ''bpf_ntohl''),
      (''Htonl'', ''bpf_htonl''), (''Ntohs'', ''bpf_ntohs''), (''Htons'', ''bpf_htons'')]"

definition endianHelperNames :: "string list" where
  "endianHelperNames = [''Ntohl'', ''Htonl'', ''Ntohs'', ''Htons'']"

text \<open>Sugar functions that expand to C expressions; the arguments are formatted already.\<close>

definition bpfHelperExpansions :: "(string \<times> (string list \<Rightarrow> string res)) list" where
  "bpfHelperExpansions =
     [(''GetCurrentPid'', \<lambda>_. Inr ''(__u32)(bpf_get_current_pid_tgid() >> 32)''),
      (''GetCurrentTid'', \<lambda>_. Inr ''(__u32)(bpf_get_current_pid_tgid())''),
      (''GetCurrentUid'', \<lambda>_. Inr ''(__u32)(bpf_get_current_uid_gid())''),
      (''GetCurrentGid'', \<lambda>_. Inr ''(__u32)(bpf_get_current_uid_gid() >> 32)''),
      (''GetTaskComm'', \<lambda>args.
         if length args \<noteq> 1 then Inl ''GetTaskComm expects exactly one *[16]byte argument''
         else Inr (''bpf_get_current_comm('' @ args ! 0 @ '', 16)'')),
      (''GetUserString'', \<lambda>args.
         if length args \<noteq> 2 then Inl ''GetUserString expects (*[128]byte, uint64)''
         else Inr (''bpf_probe_read_user_str('' @ args ! 0 @ '', sizeof(*'' @ args ! 0
                   @ ''), (const char *)'' @ args ! 1 @ '')'')),
      (''GetUserArgv'', \<lambda>args.
         if length args \<noteq> 2 then Inl ''GetUserArgv expects (*[256]byte, uint64)''
         else Inr (''gobee_read_user_argv((char *)'' @ args ! 0 @ '', sizeof(*'' @ args ! 0
                   @ ''), (const char *const *)'' @ args ! 1 @ '')''))]"

text \<open>C functions emitted at the top of the output when their sugar function is used.\<close>

definition bpfPreludeHelpers :: "(string \<times> string) list" where
  "bpfPreludeHelpers =
     [(''GetUserArgv'', unlines
         [''/* Reads up to 8 args, each truncated to 32 bytes, packed into fixed'',
          '' * slots. Constant offsets and sizes are required by the BPF verifier;'',
          '' * variable-stride writes get rejected. buf_size is fixed at 256. */'',
          ''static __always_inline void gobee_read_user_argv(char *buf, int buf_size, const char *const *argv) {'',
          [tab] @ ''__builtin_memset(buf, 0, 256);'',
          [tab] @ ''#pragma unroll'',
          [tab] @ ''for (int i = 0; i < 8; i++) {'',
          [tab, tab] @ ''const char *p;'',
          [tab, tab] @ ''if (bpf_probe_read_user(&p, sizeof(p), &argv[i]) || !p) break;'',
          [tab, tab] @ ''bpf_probe_read_user_str(buf + i * 32, 32, p);'',
          [tab] @ ''}'',
          [tab] @ ''(void)buf_size;'',
          ''}''])]"

text \<open>Go names to libbpf names: an underscore before every capital but the first byte.\<close>

definition isUpper :: "char \<Rightarrow> bool" where
  "isUpper c \<longleftrightarrow> CHR ''A'' \<le> c \<and> c \<le> CHR ''Z''"

definition isLower :: "char \<Rightarrow> bool" where
  "isLower c \<longleftrightarrow> CHR ''a'' \<le> c \<and> c \<le> CHR ''z''"

lemma isUpper_code [code]:
  "isUpper (Char b0 b1 b2 b3 b4 b5 b6 b7) \<longleftrightarrow> \<not> b7 \<and> b6 \<and> \<not> b5 \<and> (b4 \<or> b3 \<or> b2 \<or> b1 \<or> b0)
     \<and> \<not> (b4 \<and> b3 \<and> (b2 \<or> b1 \<and> b0))"
  by (cases b0; cases b1; cases b2; cases b3; cases b4; cases b5; cases b6; cases b7)
     (simp_all add: isUpper_def less_eq_char_def)

lemma isLower_code [code]:
  "isLower (Char b0 b1 b2 b3 b4 b5 b6 b7) \<longleftrightarrow> \<not> b7 \<and> b6 \<and> b5 \<and> (b4 \<or> b3 \<or> b2 \<or> b1 \<or> b0)
     \<and> \<not> (b4 \<and> b3 \<and> (b2 \<or> b1 \<and> b0))"
  by (cases b0; cases b1; cases b2; cases b3; cases b4; cases b5; cases b6; cases b7)
     (simp_all add: isLower_def less_eq_char_def)

definition toLower :: "char \<Rightarrow> char" where
  "toLower c = (if isUpper c then char_of (of_char c + (32::nat)) else c)"

definition toUpper :: "char \<Rightarrow> char" where
  "toUpper c = (if isLower c then char_of (of_char c - (32::nat)) else c)"

lemma toLower_code [code]:
  "toLower (Char b0 b1 b2 b3 b4 b5 b6 b7) =
     Char b0 b1 b2 b3 b4 (b5 \<or> isUpper (Char b0 b1 b2 b3 b4 b5 b6 b7)) b6 b7"
  by (cases b0; cases b1; cases b2; cases b3; cases b4; cases b5; cases b6; cases b7)
     (simp_all add: toLower_def isUpper_def less_eq_char_def char_of_def bit_0)

lemma toUpper_code [code]:
  "toUpper (Char b0 b1 b2 b3 b4 b5 b6 b7) =
     Char b0 b1 b2 b3 b4 (b5 \<and> \<not> isLower (Char b0 b1 b2 b3 b4 b5 b6 b7)) b6 b7"
  by (cases b0; cases b1; cases b2; cases b3; cases b4; cases b5; cases b6; cases b7)
     (simp_all add: toUpper_def isLower_def less_eq_char_def char_of_def bit_0)

fun snakeFrom :: "nat \<Rightarrow> string \<Rightarrow> string" where
  "snakeFrom i [] = []"
| "snakeFrom i (r # rs) =
     (if i > 0 \<and> isUpper r then [CHR ''_''] else []) @ toLower r # snakeFrom (Suc i) rs"

definition goNameToBpfHelper :: "string \<Rightarrow> string" where
  "goNameToBpfHelper goName = ''bpf_'' @ snakeFrom 0 goName"

section \<open>Constants\<close>

definition bpfConstants :: "(string \<times> string) list" where
  "bpfConstants =
     [(''XdpAborted'', ''XDP_ABORTED''), (''XdpDrop'', ''XDP_DROP''), (''XdpPass'', ''XDP_PASS''),
      (''XdpTx'', ''XDP_TX''), (''XdpRedirect'', ''XDP_REDIRECT''), (''TpOk'', ''0''),
      (''KpOk'', ''0''), (''SockOpsErr'', ''0''), (''SockOpsOk'', ''1''),
      (''BpfSockOpsVoid'', ''BPF_SOCK_OPS_VOID''),
      (''BpfSockOpsTimeoutInit'', ''BPF_SOCK_OPS_TIMEOUT_INIT''),
      (''BpfSockOpsRwndInit'', ''BPF_SOCK_OPS_RWND_INIT''),
      (''BpfSockOpsTcpConnectCb'', ''BPF_SOCK_OPS_TCP_CONNECT_CB''),
      (''BpfSockOpsActiveEstablishedCb'', ''BPF_SOCK_OPS_ACTIVE_ESTABLISHED_CB''),
      (''BpfSockOpsPassiveEstablishedCb'', ''BPF_SOCK_OPS_PASSIVE_ESTABLISHED_CB''),
      (''BpfSockOpsNeedsEcn'', ''BPF_SOCK_OPS_NEEDS_ECN''),
      (''BpfSockOpsBaseRtt'', ''BPF_SOCK_OPS_BASE_RTT''),
      (''BpfSockOpsRtoCb'', ''BPF_SOCK_OPS_RTO_CB''),
      (''BpfSockOpsRetransCb'', ''BPF_SOCK_OPS_RETRANS_CB''),
      (''BpfSockOpsStateCb'', ''BPF_SOCK_OPS_STATE_CB''),
      (''BpfSockOpsTcpListenCb'', ''BPF_SOCK_OPS_TCP_LISTEN_CB''),
      (''BpfSockOpsRttCb'', ''BPF_SOCK_OPS_RTT_CB''),
      (''BpfSockOpsParseHdrOptCb'', ''BPF_SOCK_OPS_PARSE_HDR_OPT_CB''),
      (''BpfSockOpsHdrOptLenCb'', ''BPF_SOCK_OPS_HDR_OPT_LEN_CB''),
      (''BpfSockOpsWriteHdrOptCb'', ''BPF_SOCK_OPS_WRITE_HDR_OPT_CB''),
      (''BpfSockOpsRtoCbFlag'', ''BPF_SOCK_OPS_RTO_CB_FLAG''),
      (''BpfSockOpsRetransCbFlag'', ''BPF_SOCK_OPS_RETRANS_CB_FLAG''),
      (''BpfSockOpsStateCbFlag'', ''BPF_SOCK_OPS_STATE_CB_FLAG''),
      (''BpfSockOpsRttCbFlag'', ''BPF_SOCK_OPS_RTT_CB_FLAG''),
      (''BpfSockOpsParseAllHdrOptCbFlag'', ''BPF_SOCK_OPS_PARSE_ALL_HDR_OPT_CB_FLAG''),
      (''BpfSockOpsParseUnknownHdrOptCbFlag'', ''BPF_SOCK_OPS_PARSE_UNKNOWN_HDR_OPT_CB_FLAG''),
      (''BpfSockOpsWriteHdrOptCbFlag'', ''BPF_SOCK_OPS_WRITE_HDR_OPT_CB_FLAG''),
      (''TcUnspec'', ''TC_ACT_UNSPEC''), (''TcOk'', ''TC_ACT_OK''),
      (''TcReclassify'', ''TC_ACT_RECLASSIFY''), (''TcShot'', ''TC_ACT_SHOT''),
      (''TcPipe'', ''TC_ACT_PIPE''), (''TcStolen'', ''TC_ACT_STOLEN''),
      (''TcQueued'', ''TC_ACT_QUEUED''), (''TcRepeat'', ''TC_ACT_REPEAT''),
      (''TcRedirect'', ''TC_ACT_REDIRECT''), (''TcTrap'', ''TC_ACT_TRAP''),
      (''CgroupSkbDrop'', ''0''), (''CgroupSkbAllow'', ''1''), (''LsmAllow'', ''0''),
      (''LsmDeny'', ''-1'')]"

section \<open>Maps\<close>

definition mapTypeToC :: "(string \<times> string) list" where
  "mapTypeToC =
     [(''array'', ''BPF_MAP_TYPE_ARRAY''), (''hash'', ''BPF_MAP_TYPE_HASH''),
      (''lru_hash'', ''BPF_MAP_TYPE_LRU_HASH''), (''percpu_array'', ''BPF_MAP_TYPE_PERCPU_ARRAY''),
      (''percpu_hash'', ''BPF_MAP_TYPE_PERCPU_HASH''),
      (''lru_percpu_hash'', ''BPF_MAP_TYPE_LRU_PERCPU_HASH''),
      (''bloom_filter'', ''BPF_MAP_TYPE_BLOOM_FILTER''), (''lpm_trie'', ''BPF_MAP_TYPE_LPM_TRIE''),
      (''ringbuf'', ''BPF_MAP_TYPE_RINGBUF''), (''queue'', ''BPF_MAP_TYPE_QUEUE''),
      (''stack'', ''BPF_MAP_TYPE_STACK''), (''prog_array'', ''BPF_MAP_TYPE_PROG_ARRAY''),
      (''perf_event_array'', ''BPF_MAP_TYPE_PERF_EVENT_ARRAY''),
      (''task_storage'', ''BPF_MAP_TYPE_TASK_STORAGE''),
      (''sk_storage'', ''BPF_MAP_TYPE_SK_STORAGE''),
      (''inode_storage'', ''BPF_MAP_TYPE_INODE_STORAGE''), (''devmap'', ''BPF_MAP_TYPE_DEVMAP''),
      (''cpumap'', ''BPF_MAP_TYPE_CPUMAP''), (''xskmap'', ''BPF_MAP_TYPE_XSKMAP'')]"

definition mapMethodToHelper :: "(string \<times> string) list" where
  "mapMethodToHelper =
     [(''Lookup'', ''bpf_map_lookup_elem''), (''Update'', ''bpf_map_update_elem''),
      (''Delete'', ''bpf_map_delete_elem'')]"

definition kernelMapGoTypes :: "string list" where
  "kernelMapGoTypes = [''ArrayMap'', ''HashMap'', ''LruHashMap'', ''PerCPUArray'', ''PerCPUHash'', ''LruPerCPUHash'',
      ''LpmTrie'']"

record storageHelpers =
  GetFn :: string
  DeleteFn :: string

definition storageMapHelpers :: "(string \<times> storageHelpers) list" where
  "storageMapHelpers =
     [(''TaskStorage'', \<lparr>GetFn = ''bpf_task_storage_get'', DeleteFn = ''bpf_task_storage_delete''\<rparr>),
      (''SkStorage'', \<lparr>GetFn = ''bpf_sk_storage_get'', DeleteFn = ''bpf_sk_storage_delete''\<rparr>),
      (''InodeStorage'', \<lparr>GetFn = ''bpf_inode_storage_get'', DeleteFn = ''bpf_inode_storage_delete''\<rparr>)]"

definition redirectMapTypes :: "string list" where
  "redirectMapTypes = [''DevMap'', ''CpuMap'', ''XskMap'']"

definition bpfMapGoTypeToDirective :: "(string \<times> string) list" where
  "bpfMapGoTypeToDirective =
     [(''ArrayMap'', ''array''), (''HashMap'', ''hash''), (''LruHashMap'', ''lru_hash''),
      (''PerCPUArray'', ''percpu_array''), (''PerCPUHash'', ''percpu_hash''),
      (''LruPerCPUHash'', ''lru_percpu_hash''), (''BloomFilter'', ''bloom_filter''),
      (''LpmTrie'', ''lpm_trie''), (''RingBuf'', ''ringbuf''), (''Queue'', ''queue''),
      (''Stack'', ''stack''), (''ProgArray'', ''prog_array''),
      (''PerfEventArray'', ''perf_event_array''), (''TaskStorage'', ''task_storage''),
      (''SkStorage'', ''sk_storage''), (''InodeStorage'', ''inode_storage''),
      (''DevMap'', ''devmap''), (''CpuMap'', ''cpumap''), (''XskMap'', ''xskmap'')]"

text \<open>\<open>storageMapDirectives\<close> of \<^verbatim>\<open>parse.go\<close>: map kinds that need no \<open>MaxEntries\<close>.\<close>

definition storageMapDirectives :: "string list" where
  "storageMapDirectives = [''task_storage'', ''sk_storage'', ''inode_storage'', ''perf_event_array'']"

end
