(* ===== verification/Program_IR.thy ===== *)
theory Program_IR
  imports C_Types
begin

text \<open>
  \<^verbatim>\<open>internal/transpile/program.go\<close>: the intermediate representation that parsing a gobee
  file produces and the validator, the emitter and the bindings generator consume.
\<close>

record helperFunc =
  hfName :: string
  hfPos :: position
  hfDecl :: funcDecl

record userConstDecl =
  ucName :: string
  ucPos :: position
  ucType :: "expr option"
  ucValue :: expr

text \<open>\<open>utType\<close> is the \<open>*types.Named\<close>, \<open>utSpecPos\<close> the position of the \<open>*ast.TypeSpec\<close>.\<close>

record userTypeDecl =
  utName :: string
  utPos :: position
  utType :: gotype
  utSpecPos :: pos

text \<open>\<open>mdSpecPos\<close> is the position of the \<open>*ast.ValueSpec\<close>, \<open>None\<close> for a nil pointer.\<close>

record mapDecl =
  mdName :: string
  mdPos :: position
  mdType :: string
  mdKeyType :: "gotype option"
  mdValType :: "gotype option"
  mdMaxEntries :: int
  mdFlags :: string
  mdSpecPos :: "pos option"

record programFunc =
  pfName :: string
  pfSection :: string
  pfPos :: position
  pfDecl :: funcDecl

text \<open>
  The program.  Of \<open>types.Info\<close> the identifiers with an entry in \<open>Defs\<close> are kept as a
  list (the order in which a loop over the Go map meets them); \<open>Underlying\<close> is the method
  of that name on named types.
\<close>

record gprogram =
  FileSet :: fileset
  File :: goFile
  Defs :: "ident list"
  Underlying :: "gotype \<Rightarrow> gotype"
  License :: string
  Maps :: "mapDecl list"
  Programs :: "programFunc list"
  Helpers :: "helperFunc list"
  Types :: "userTypeDecl list"
  Consts :: "userConstDecl list"

abbreviation at :: "gprogram \<Rightarrow> pos \<Rightarrow> string" where
  "at prog p \<equiv> positionString (FileSet prog p)"

end
