(* ===== verification/Directives.thy ===== *)
theory Directives
  imports Go_Syntax
begin

text \<open>
  \<^verbatim>\<open>internal/transpile/directives.go\<close>: the comments \<^verbatim>\<open>//bpf:<name> [args...] [k=v ...]\<close>.
  The lemmas give the contract of \<open>parseDirective\<close>: which comments are directives, and
  that printing a directive and parsing it again returns it.
\<close>

definition directivePrefix :: string where
  "directivePrefix = ''//bpf:''"

record directive =
  dName :: string
  dArgs :: "string list"
  dKv :: "string \<rightharpoonup> string"

text \<open>The loop over the fields after the name: one field.\<close>

definition addField :: "string \<Rightarrow> directive \<Rightarrow> directive" where
  "addField f d = (case indexByte f CHR ''='' of
      Some i \<Rightarrow> d\<lparr>dKv := (dKv d)(take i f \<mapsto> drop (i + 1) f)\<rparr>
    | None \<Rightarrow> d\<lparr>dArgs := dArgs d @ [f]\<rparr>)"

text \<open>\<open>Inr None\<close> is \<open>(nil, nil)\<close>: the comment is not a directive.\<close>

definition parseDirective :: "string \<Rightarrow> directive option res" where
  "parseDirective text =
     (if \<not> hasPrefix text directivePrefix then Inr None
      else
        let rest = trimSpace (trimPrefix text directivePrefix)
        in if rest = '''' then Inl ''empty directive''
           else
             let fs = fieldsOf rest
             in Inr (Some (fold addField (tl fs) \<lparr>dName = hd fs, dArgs = [], dKv = Map.empty\<rparr>)))"

text \<open>\<open>docDirective\<close>: the first directive of that name in a doc comment; \<open>None\<close> is a nil group.\<close>

fun firstDirective :: "string list \<Rightarrow> string \<Rightarrow> directive option" where
  "firstDirective [] name = None"
| "firstDirective (c # cs) name =
     (case parseDirective c of
        Inr (Some d) \<Rightarrow> if dName d = name then Some d else firstDirective cs name
      | _ \<Rightarrow> firstDirective cs name)"

definition docDirective :: "string list option \<Rightarrow> string \<Rightarrow> directive option" where
  "docDirective cg name = (case cg of None \<Rightarrow> None | Some cs \<Rightarrow> firstDirective cs name)"

section \<open>Lemmas\<close>

lemma fold_addField_name [simp]: "dName (fold addField fs d) = dName d"
  by (induction fs arbitrary: d) (simp_all add: addField_def split: option.splits)

lemma addField_arg: "CHR ''='' \<notin> set f \<Longrightarrow> addField f d = d\<lparr>dArgs := dArgs d @ [f]\<rparr>"
  by (simp add: addField_def indexByte_None[THEN iffD2])

lemma addField_kv:
  "CHR ''='' \<notin> set k \<Longrightarrow> addField (k @ CHR ''='' # v) d = d\<lparr>dKv := (dKv d)(k \<mapsto> v)\<rparr>"
  by (simp add: addField_def indexByte_append)

lemma fold_addField_args:
  "\<forall>f \<in> set fs. CHR ''='' \<notin> set f \<Longrightarrow> fold addField fs d = d\<lparr>dArgs := dArgs d @ fs\<rparr>"
  by (induction fs arbitrary: d) (simp_all add: addField_arg)

lemma fold_addField_kv:
  "\<forall>(k, v) \<in> set kvs. CHR ''='' \<notin> set k \<Longrightarrow>
   fold addField (map (\<lambda>(k, v). k @ CHR ''='' # v) kvs) d = d\<lparr>dKv := fold (\<lambda>(k, v) m. m(k \<mapsto> v)) kvs (dKv d)\<rparr>"
  by (induction kvs arbitrary: d) (auto simp: addField_kv)

text \<open>Words: what \<open>strings.Fields\<close> can return.\<close>

definition isField :: "string \<Rightarrow> bool" where
  "isField w \<longleftrightarrow> w \<noteq> [] \<and> (\<forall>c \<in> set w. \<not> isSpace c)"

definition printDirective :: "string \<Rightarrow> string list \<Rightarrow> (string \<times> string) list \<Rightarrow> string" where
  "printDirective name args kvs =
     directivePrefix @ joinWith '' '' (name # args @ map (\<lambda>(k, v). k @ CHR ''='' # v) kvs)"

lemma joinWith_hd: "w \<noteq> [] \<Longrightarrow> joinWith sep (w # ws) \<noteq> [] \<and> hd (joinWith sep (w # ws)) = hd w"
  by (cases ws) simp_all

lemma joinWith_last:
  "ws \<noteq> [] \<Longrightarrow> last ws \<noteq> [] \<Longrightarrow> joinWith sep ws \<noteq> [] \<and> last (joinWith sep ws) = last (last ws)"
proof (induction ws)
  case (Cons w ws)
  then show ?case by (cases "ws = []") (simp_all add: joinWith_Cons)
qed simp

lemma trimSpace_words:
  assumes "ws \<noteq> []" and "\<forall>w \<in> set ws. isField w"
  shows "trimSpace (joinWith '' '' ws) = joinWith '' '' ws"
proof -
  obtain w vs where w: "ws = w # vs" using assms(1) by (cases ws) auto
  have lw: "last ws \<in> set ws" using assms(1) by simp
  then have "isField (last ws)" using assms(2) by blast
  then have l: "last ws \<noteq> []" "\<not> isSpace (last (last ws))" by (auto simp: isField_def)
  have h: "w \<noteq> []" "\<not> isSpace (hd w)" using assms(2) w by (auto simp: isField_def)
  show ?thesis
    using trimSpace_id joinWith_hd[OF h(1), of "'' ''" vs] joinWith_last[OF assms(1) l(1), of "'' ''"] h(2) l(2) w
    by auto
qed

lemma fields_of_words: "\<forall>w \<in> set ws. isField w \<Longrightarrow> fieldsOf (joinWith '' '' ws) = ws"
  by (rule fields_words) (simp add: isField_def)

lemma parseDirective_words:
  assumes "\<forall>w \<in> set (name # ws). isField w"
  shows "parseDirective (directivePrefix @ joinWith '' '' (name # ws)) =
     Inr (Some (fold addField ws \<lparr>dName = name, dArgs = [], dKv = Map.empty\<rparr>))"
proof -
  have "joinWith '' '' (name # ws) \<noteq> []" using assms joinWith_hd[of name] by (simp add: isField_def)
  with trimSpace_words[OF _ assms] fields_of_words[OF assms] show ?thesis
    by (simp add: parseDirective_def)
qed

lemma parseDirective_print:
  assumes "isField name" and "\<forall>a \<in> set args. isField a \<and> CHR ''='' \<notin> set a"
    and "\<forall>(k, v) \<in> set kvs. isField (k @ CHR ''='' # v) \<and> CHR ''='' \<notin> set k"
  shows "parseDirective (printDirective name args kvs) =
     Inr (Some \<lparr>dName = name, dArgs = args, dKv = map_of (rev kvs)\<rparr>)"
proof -
  let ?ws = "args @ map (\<lambda>(k, v). k @ CHR ''='' # v) kvs"
  have f: "\<forall>w \<in> set (name # ?ws). isField w" using assms by auto
  have m: "fold (\<lambda>(k, v) m. m(k \<mapsto> v)) kvs m = m ++ map_of (rev kvs)" for m :: "string \<rightharpoonup> string"
    by (induction kvs arbitrary: m) (auto simp: map_add_def fun_eq_iff split: option.splits)
  have "parseDirective (printDirective name args kvs) =
     Inr (Some (fold addField ?ws \<lparr>dName = name, dArgs = [], dKv = Map.empty\<rparr>))"
    unfolding printDirective_def by (rule parseDirective_words[OF f])
  also have "fold addField ?ws \<lparr>dName = name, dArgs = [], dKv = Map.empty\<rparr> =
     \<lparr>dName = name, dArgs = args, dKv = map_of (rev kvs)\<rparr>"
  proof -
    have "\<forall>(k, v) \<in> set kvs. CHR ''='' \<notin> set k" using assms(3) by auto
    with assms(2) show ?thesis
      by (simp add: fold_addField_args fold_addField_kv m)
  qed
  finally show ?thesis .
qed

text \<open>Every directive with an argument list comes from the words of the comment.\<close>

lemma parseDirective_cases:
  "parseDirective text = Inl e \<Longrightarrow>
     e = ''empty directive'' \<and> (\<exists>s. text = directivePrefix @ s \<and> (\<forall>c \<in> set s. isSpace c))"
proof -
  assume h: "parseDirective text = Inl e"
  then have p: "hasPrefix text directivePrefix" and t: "trimSpace (trimPrefix text directivePrefix) = []"
    and e: "e = ''empty directive''"
    by (auto simp: parseDirective_def Let_def split: if_splits)
  from p obtain s where s: "text = directivePrefix @ s" by (auto simp: hasPrefix_iff prefix_def)
  with t have "rev (dropWhile isSpace (rev (dropWhile isSpace s))) = []"
    by (simp add: trimSpace_def trimLeft_def trimRight_def)
  then have "\<forall>c \<in> set (dropWhile isSpace s). isSpace c" by simp
  then have "dropWhile isSpace s = []" using hd_dropWhile[of isSpace s] hd_in_set by blast
  then have "\<forall>c \<in> set s. isSpace c" by simp
  with s e show ?thesis by blast
qed

lemma parseDirective_error_iff:
  "(\<exists>e. parseDirective text = Inl e) \<longleftrightarrow> (\<exists>s. text = directivePrefix @ s \<and> list_all isSpace s)"
proof
  assume "\<exists>e. parseDirective text = Inl e"
  then show "\<exists>s. text = directivePrefix @ s \<and> list_all isSpace s"
    using parseDirective_cases by (auto simp: list_all_iff)
next
  assume "\<exists>s. text = directivePrefix @ s \<and> list_all isSpace s"
  then obtain s where s: "text = directivePrefix @ s" and "\<forall>c \<in> set s. isSpace c" by (auto simp: list_all_iff)
  then have d: "dropWhile isSpace s = []" by (simp only: dropWhile_eq_Nil_conv)
  have "trimSpace s = []" unfolding trimSpace_def trimLeft_def trimRight_def d by simp
  with s show "\<exists>e. parseDirective text = Inl e" by (simp add: parseDirective_def)
qed

lemma fieldsAux_isField: "\<forall>c \<in> set acc. \<not> isSpace c \<Longrightarrow> \<forall>w \<in> set (fieldsAux acc s). isField w"
proof (induction acc s rule: fieldsAux.induct)
  case (1 acc)
  then show ?case by (simp add: isField_def)
next
  case (2 acc c cs)
  show ?case
  proof (cases "isSpace c")
    case True
    with 2 show ?thesis by (cases "acc = []") (simp_all add: isField_def)
  next
    case False
    with 2 show ?thesis by simp
  qed
qed

lemma fieldsOf_isField: "w \<in> set (fieldsOf s) \<Longrightarrow> isField w"
  using fieldsAux_isField[of "[]"] by (simp add: fieldsOf_def)

lemma fold_addField_args_subset: "set (dArgs (fold addField fs d)) \<subseteq> set (dArgs d) \<union> set fs"
proof (induction fs arbitrary: d)
  case (Cons f fs)
  have "set (dArgs (addField f d)) \<subseteq> insert f (set (dArgs d))"
    by (auto simp: addField_def split: option.splits)
  with Cons[of "addField f d"] show ?case by auto
qed simp

lemma parseDirective_args: "parseDirective text = Inr (Some d) \<Longrightarrow> a \<in> set (dArgs d) \<Longrightarrow> isField a"
proof -
  assume h: "parseDirective text = Inr (Some d)" and a: "a \<in> set (dArgs d)"
  let ?fs = "fieldsOf (trimSpace (trimPrefix text directivePrefix))"
  have "d = fold addField (tl ?fs) \<lparr>dName = hd ?fs, dArgs = [], dKv = Map.empty\<rparr>"
    using h unfolding parseDirective_def Let_def by (simp split: if_split_asm)
  with a have "a \<in> set (tl ?fs)"
    using fold_addField_args_subset[of "tl ?fs" "\<lparr>dName = hd ?fs, dArgs = [], dKv = Map.empty\<rparr>"] by auto
  then have "a \<in> set ?fs" by (cases ?fs) simp_all
  then show ?thesis by (rule fieldsOf_isField)
qed

lemma firstDirective_Some:
  "firstDirective cs name = Some d \<Longrightarrow> \<exists>c \<in> set cs. parseDirective c = Inr (Some d) \<and> dName d = name"
  by (induction cs) (auto split: sum.splits option.splits if_splits)

lemma docDirective_args: "docDirective cg name = Some d \<Longrightarrow> a \<in> set (dArgs d) \<Longrightarrow> isField a"
  by (auto simp: docDirective_def split: option.splits dest!: firstDirective_Some intro: parseDirective_args)

end
