(* ===== verification/Parse.thy ===== *)
theory Parse
  imports Program_IR Directives
begin

text \<open>
  \<^verbatim>\<open>internal/transpile/parse.go\<close>: from the checked syntax tree to the program.  The Go
  parser and type checker are parameters (\<open>frontEnd\<close>); everything after them is the code of
  the repository.
\<close>

section \<open>Model\<close>

text \<open>An error with the position of a node, \<open>fmt.Errorf("%s: ...", prog.FileSet.Position(pos))\<close>.\<close>

definition errAt :: "fileset \<Rightarrow> pos \<Rightarrow> string \<Rightarrow> 'a res" where
  "errAt fs p msg = Inl (positionString (fs p) @ '': '' @ msg)"

definition convPanic :: string where
  "convPanic = ''panic: interface conversion''"

definition fileDirective :: "pos \<times> string \<Rightarrow> gprogram \<Rightarrow> gprogram res" where
  "fileDirective c prog = (case c of (p, text) \<Rightarrow>
     (case parseDirective text of
        Inl err \<Rightarrow> errAt (FileSet prog) p err
      | Inr None \<Rightarrow> Inr prog
      | Inr (Some d) \<Rightarrow>
          (if dName d = ''license''
           then (if dArgs d = [] then errAt (FileSet prog) p ''//bpf:license requires a name (e.g. GPL)''
                 else Inr (prog\<lparr>License := dArgs d ! 0\<rparr>))
           else Inr prog)))"

definition collectFileDirectives :: "gprogram \<Rightarrow> gprogram res" where
  "collectFileDirectives prog = rfold (rfold fileDirective) (gfComments (File prog)) prog"

text \<open>One element of the struct literal that initialises a map.\<close>

definition mapElt :: "fileset \<Rightarrow> pos \<Rightarrow> string \<Rightarrow> expr \<Rightarrow> mapDecl \<Rightarrow> mapDecl res" where
  "mapElt fs p name elt md =
     (case elt of
        KeyValueExpr _ key val \<Rightarrow>
          (case key of
             IdentE k \<Rightarrow>
               (if idName k = ''MaxEntries'' then
                  (case val of
                     BasicLit _ kind v \<Rightarrow>
                       (if kind \<noteq> INT_lit then errAt fs p ''MaxEntries must be an integer literal''
                        else (case atoi v of
                                Inl err \<Rightarrow> errAt fs p (''MaxEntries: '' @ err)
                              | Inr n \<Rightarrow>
                                  (if n \<le> 0 then errAt fs p ''MaxEntries must be > 0''
                                   else Inr (md\<lparr>mdMaxEntries := n\<rparr>))))
                   | _ \<Rightarrow> errAt fs p ''MaxEntries must be an integer literal'')
                else Inr md)
           | _ \<Rightarrow> Inr md)
      | _ \<Rightarrow> errAt fs p (name @ '' initializer must use field names (e.g. MaxEntries: 1024)''))"

text \<open>The type arguments of the map type become its key and value types.\<close>

definition setTypeArgs :: "fileset \<Rightarrow> pos \<Rightarrow> string \<Rightarrow> gotype list \<Rightarrow> mapDecl \<Rightarrow> mapDecl res" where
  "setTypeArgs fs p name targs md =
     (case targs of
        [] \<Rightarrow> Inr md
      | [v] \<Rightarrow> Inr (md\<lparr>mdValType := Some v\<rparr>)
      | [k, v] \<Rightarrow> Inr (md\<lparr>mdKeyType := Some k, mdValType := Some v\<rparr>)
      | _ \<Rightarrow> errAt fs p (name @ '' has '' @ itoa (length targs) @ '' type arguments; expected 1 or 2''))"

text \<open>The initialiser of the variable and the checks on \<open>MaxEntries\<close>.\<close>

definition mapInit :: "fileset \<Rightarrow> pos \<Rightarrow> string \<Rightarrow> string \<Rightarrow> expr list \<Rightarrow> nat \<Rightarrow> mapDecl \<Rightarrow> mapDecl res" where
  "mapInit fs p name tname values idx md =
     (let noMaxEntries = mdType md \<in> set storageMapDirectives
      in if idx \<ge> length values then
           (if noMaxEntries then Inr md
            else errAt fs p (name @ '' must be initialized with a struct literal (e.g. '' @ tname
                               @ ''{MaxEntries: 1024})''))
         else (case values ! idx of
                 CompositeLit _ _ elts \<Rightarrow>
                   rbind (rfold (mapElt fs p name) elts md) (\<lambda>md'.
                     if mdMaxEntries md' = 0 \<and> \<not> noMaxEntries
                     then errAt fs p (name @ '' missing MaxEntries field'')
                     else Inr md')
               | _ \<Rightarrow> errAt fs p (name @ '' must be initialized with a '' @ tname @ ''{...} struct literal'')))"

definition tryBuildMapDecl :: "ident \<Rightarrow> pos \<Rightarrow> expr list \<Rightarrow> nat \<Rightarrow> fileset \<Rightarrow> mapDecl option res" where
  "tryBuildMapDecl nameIdent specPos values idx fs =
     (if idDef nameIdent = None then Inr None
      else (case idType nameIdent of
              Some (Named pkg tname targs) \<Rightarrow>
                (if pkg = None \<or> pkg \<noteq> Some bpfPkgPath then Inr None
                 else (case map_of bpfMapGoTypeToDirective tname of
                         None \<Rightarrow> Inr None
                       | Some directive \<Rightarrow>
                           (let p = idPos nameIdent; name = idName nameIdent;
                                md = \<lparr>mdName = name, mdPos = fs p, mdType = directive,
                                      mdKeyType = None, mdValType = None, mdMaxEntries = 0,
                                      mdFlags = [], mdSpecPos = Some specPos\<rparr>
                            in rbind (setTypeArgs fs p name targs md) (\<lambda>md'.
                               rbind (mapInit fs p name tname values idx md') (\<lambda>md''. Inr (Some md''))))))
            | _ \<Rightarrow> Inr None))"

text \<open>The names of a specification together with their indices.\<close>

definition indexed :: "'a list \<Rightarrow> (nat \<times> 'a) list" where
  "indexed xs = zip [0..<length xs] xs"

definition addMap :: "pos \<Rightarrow> expr list \<Rightarrow> nat \<times> ident \<Rightarrow> gprogram \<Rightarrow> gprogram res" where
  "addMap specPos values iname prog =
     rbind (tryBuildMapDecl (snd iname) specPos values (fst iname) (FileSet prog)) (\<lambda>md.
       case md of None \<Rightarrow> Inr prog | Some m \<Rightarrow> Inr (prog\<lparr>Maps := Maps prog @ [m]\<rparr>))"

definition collectVarSpec :: "spec \<Rightarrow> gprogram \<Rightarrow> gprogram res" where
  "collectVarSpec sp prog =
     (case sp of
        ValueSpec p names _ values \<Rightarrow> rfold (addMap p values) (indexed names) prog
      | _ \<Rightarrow> Inl convPanic)"

definition collectTypeSpec :: "spec \<Rightarrow> gprogram \<Rightarrow> gprogram res" where
  "collectTypeSpec sp prog =
     (case sp of
        TypeSpec p name _ \<Rightarrow>
          (if idDef name = None then Inr prog
           else (case idType name of
                   Some (Named pkg n targs) \<Rightarrow>
                     (case Underlying prog (Named pkg n targs) of
                        Struct _ \<Rightarrow>
                          Inr (prog\<lparr>Types := Types prog @
                            [\<lparr>utName = idName name, utPos = FileSet prog p,
                              utType = Named pkg n targs, utSpecPos = p\<rparr>]\<rparr>)
                      | _ \<Rightarrow> Inr prog)
                 | _ \<Rightarrow> Inr prog))
      | _ \<Rightarrow> Inl convPanic)"

definition addConst :: "expr option \<Rightarrow> expr list \<Rightarrow> nat \<times> ident \<Rightarrow> gprogram \<Rightarrow> gprogram res" where
  "addConst ty values iname prog =
     (case iname of (i, name) \<Rightarrow>
        (if i < length values
         then Inr (prog\<lparr>Consts := Consts prog @
                [\<lparr>ucName = idName name, ucPos = FileSet prog (idPos name), ucType = ty,
                  ucValue = values ! i\<rparr>]\<rparr>)
         else Inr prog))"

definition collectConstSpec :: "spec \<Rightarrow> gprogram \<Rightarrow> gprogram res" where
  "collectConstSpec sp prog =
     (case sp of
        ValueSpec _ names ty values \<Rightarrow> rfold (addConst ty values) (indexed names) prog
      | _ \<Rightarrow> Inl convPanic)"

definition collectFunc :: "funcDecl \<Rightarrow> gprogram \<Rightarrow> gprogram res" where
  "collectFunc d prog =
     (case docDirective (fdDoc d) ''section'' of
        Some dr \<Rightarrow>
          (if dArgs dr = [] then errAt (FileSet prog) (fdPos d) ''//bpf:section requires a section name''
           else Inr (prog\<lparr>Programs := Programs prog @
                  [\<lparr>pfName = idName (fdName d), pfSection = dArgs dr ! 0,
                    pfPos = FileSet prog (fdPos d), pfDecl = d\<rparr>]\<rparr>))
      | None \<Rightarrow>
          (if idName (fdName d) = ''main'' \<and> fdRecv d = None then Inr prog
           else if fdRecv d \<noteq> None then Inr prog
           else Inr (prog\<lparr>Helpers := Helpers prog @
                  [\<lparr>hfName = idName (fdName d), hfPos = FileSet prog (fdPos d), hfDecl = d\<rparr>]\<rparr>)))"

definition collectDecl :: "decl \<Rightarrow> gprogram \<Rightarrow> gprogram res" where
  "collectDecl dcl prog =
     (case dcl of
        FuncD d \<Rightarrow> collectFunc d prog
      | GenD t specs \<Rightarrow>
          (if t = VAR_kw then rfold collectVarSpec specs prog
           else if t = TYPE_kw then rfold collectTypeSpec specs prog
           else if t = CONST_kw then rfold collectConstSpec specs prog
           else Inr prog)
      | BadDecl \<Rightarrow> Inr prog)"

definition collectDecls :: "gprogram \<Rightarrow> gprogram res" where
  "collectDecls prog = rfold collectDecl (gfDecls (File prog)) prog"

text \<open>
  The Go front end: \<open>parser.ParseFile\<close> and the type checker, which decorates the tree with
  types and objects and answers \<open>Defs\<close> and \<open>Underlying\<close>.
\<close>

record frontEnd =
  goParse :: "string \<Rightarrow> (fileset \<times> goFile) res"
  goCheck :: "fileset \<Rightarrow> goFile \<Rightarrow> (goFile \<times> ident list \<times> (gotype \<Rightarrow> gotype)) res"

definition newProgram :: "fileset \<Rightarrow> goFile \<Rightarrow> ident list \<Rightarrow> (gotype \<Rightarrow> gotype) \<Rightarrow> gprogram" where
  "newProgram fset f defs und =
     \<lparr>FileSet = fset, File = f, Defs = defs, Underlying = und, License = [], Maps = [],
      Programs = [], Helpers = [], Types = [], Consts = []\<rparr>"

text \<open>The part of \<open>ParseFile\<close> after the front end.\<close>

definition buildProgram :: "gprogram \<Rightarrow> gprogram res" where
  "buildProgram prog0 =
     rbind (collectFileDirectives prog0) (\<lambda>prog1.
     rbind (collectDecls prog1) (\<lambda>prog.
       if License prog = '''' then errAt (FileSet prog) (gfPos (File prog)) ''missing //bpf:license directive''
       else if Programs prog = [] then errAt (FileSet prog) (gfPos (File prog)) ''no //bpf:section functions found''
       else Inr prog))"

definition ParseFile :: "frontEnd \<Rightarrow> string \<Rightarrow> gprogram res" where
  "ParseFile fe filename =
     rbind (wrapErr ''parse: '' (goParse fe filename)) (\<lambda>(fset, f).
     rbind (wrapErr ''typecheck: '' (goCheck fe fset f)) (\<lambda>(f', defs, und).
       buildProgram (newProgram fset f' defs und)))"

section \<open>What the loops collect\<close>

text \<open>
  The loops of \<open>collectDecls\<close> only append to the lists of the program, and what they append
  depends on nothing they change.  The locale states this for an accumulator: a state
  extended by increments that form a monoid action and leave the context alone.
\<close>

locale accumulator =
  fixes ext :: "'s \<Rightarrow> 'd \<Rightarrow> 's" and zero :: 'd and plus :: "'d \<Rightarrow> 'd \<Rightarrow> 'd" and ctx :: "'s \<Rightarrow> 'c"
  assumes ext_zero: "ext s zero = s"
    and ext_plus: "ext (ext s a) b = ext s (plus a b)"
    and ctx_ext: "ctx (ext s a) = ctx s"
begin

definition sum :: "'d list \<Rightarrow> 'd" where
  "sum ds = foldr plus ds zero"

lemma rfold_ext:
  assumes "\<And>x s t. x \<in> set xs \<Longrightarrow> f x s = Inr t \<Longrightarrow> t = ext s (g (ctx s) x)"
    and "rfold f xs s = Inr t"
  shows "t = ext s (sum (map (g (ctx s)) xs))"
  using assms
proof (induction xs arbitrary: s)
  case Nil
  then show ?case by (simp add: sum_def ext_zero)
next
  case (Cons x xs)
  then obtain u where u: "f x s = Inr u" "rfold f xs u = Inr t" by auto
  have s: "u = ext s (g (ctx s) x)" using Cons.prems(1) u(1) by simp
  have "t = ext u (sum (map (g (ctx u)) xs))" by (rule Cons.IH[OF _ u(2)]) (rule Cons.prems(1), simp)
  with s show ?case by (simp add: ctx_ext ext_plus sum_def)
qed

end

type_synonym delta = "mapDecl list \<times> programFunc list \<times> helperFunc list \<times> userTypeDecl list \<times> userConstDecl list"

definition extend :: "gprogram \<Rightarrow> delta \<Rightarrow> gprogram" where
  "extend prog d = (case d of (ms, ps, hs, ts, cs) \<Rightarrow>
     prog\<lparr>Maps := Maps prog @ ms, Programs := Programs prog @ ps, Helpers := Helpers prog @ hs,
          Types := Types prog @ ts, Consts := Consts prog @ cs\<rparr>)"

definition noDelta :: delta where
  "noDelta = ([], [], [], [], [])"

definition plusDelta :: "delta \<Rightarrow> delta \<Rightarrow> delta" where
  "plusDelta a b = (case a of (ms, ps, hs, ts, cs) \<Rightarrow> case b of (ms', ps', hs', ts', cs') \<Rightarrow>
     (ms @ ms', ps @ ps', hs @ hs', ts @ ts', cs @ cs'))"

definition progContext :: "gprogram \<Rightarrow> fileset \<times> (gotype \<Rightarrow> gotype) \<times> goFile" where
  "progContext prog = (FileSet prog, Underlying prog, File prog)"

interpretation acc: accumulator extend noDelta plusDelta progContext
  by unfold_locales (auto simp: extend_def noDelta_def plusDelta_def progContext_def split: prod.splits)

text \<open>The increments, as list comprehensions over the declarations.\<close>

definition specMaps :: "fileset \<Rightarrow> spec \<Rightarrow> mapDecl list" where
  "specMaps fs sp = (case sp of
     ValueSpec p names _ values \<Rightarrow>
       [m. (i, n) \<leftarrow> indexed names,
           m \<leftarrow> (case tryBuildMapDecl n p values i fs of Inr (Some m) \<Rightarrow> [m] | _ \<Rightarrow> [])]
   | _ \<Rightarrow> [])"

definition specTypes :: "fileset \<Rightarrow> (gotype \<Rightarrow> gotype) \<Rightarrow> spec \<Rightarrow> userTypeDecl list" where
  "specTypes fs und sp = (case sp of
     TypeSpec p n _ \<Rightarrow>
       (case (idDef n, idType n) of
          (Some _, Some (Named pkg nm ts)) \<Rightarrow>
            (case und (Named pkg nm ts) of
               Struct _ \<Rightarrow> [\<lparr>utName = idName n, utPos = fs p, utType = Named pkg nm ts, utSpecPos = p\<rparr>]
             | _ \<Rightarrow> [])
        | _ \<Rightarrow> [])
   | _ \<Rightarrow> [])"

definition specConsts :: "fileset \<Rightarrow> spec \<Rightarrow> userConstDecl list" where
  "specConsts fs sp = (case sp of
     ValueSpec _ names ty values \<Rightarrow>
       [\<lparr>ucName = idName n, ucPos = fs (idPos n), ucType = ty, ucValue = v\<rparr>. (n, v) \<leftarrow> zip names values]
   | _ \<Rightarrow> [])"

definition declPrograms :: "fileset \<Rightarrow> decl \<Rightarrow> programFunc list" where
  "declPrograms fs dcl = (case dcl of
     FuncD d \<Rightarrow> (case docDirective (fdDoc d) ''section'' of
         Some dr \<Rightarrow> [\<lparr>pfName = idName (fdName d), pfSection = hd (dArgs dr), pfPos = fs (fdPos d), pfDecl = d\<rparr>]
       | None \<Rightarrow> [])
   | _ \<Rightarrow> [])"

definition declHelpers :: "fileset \<Rightarrow> decl \<Rightarrow> helperFunc list" where
  "declHelpers fs dcl = (case dcl of
     FuncD d \<Rightarrow> (if docDirective (fdDoc d) ''section'' = None \<and> fdRecv d = None \<and> idName (fdName d) \<noteq> ''main''
                 then [\<lparr>hfName = idName (fdName d), hfPos = fs (fdPos d), hfDecl = d\<rparr>] else [])
   | _ \<Rightarrow> [])"

definition declSpecs :: "tok \<Rightarrow> decl \<Rightarrow> spec list" where
  "declSpecs k dcl = (case dcl of GenD t specs \<Rightarrow> if t = k then specs else [] | _ \<Rightarrow> [])"

definition declDelta :: "fileset \<times> (gotype \<Rightarrow> gotype) \<times> goFile \<Rightarrow> decl \<Rightarrow> delta" where
  "declDelta c dcl = (case c of (fs, und, _) \<Rightarrow>
     (concat (map (specMaps fs) (declSpecs VAR_kw dcl)), declPrograms fs dcl, declHelpers fs dcl,
      concat (map (specTypes fs und) (declSpecs TYPE_kw dcl)), concat (map (specConsts fs) (declSpecs CONST_kw dcl))))"


section \<open>Correctness of the collection\<close>

lemma sum_components: "acc.sum ds =
    (concat (map fst ds), concat (map (fst \<circ> snd) ds), concat (map (fst \<circ> snd \<circ> snd) ds),
     concat (map (fst \<circ> snd \<circ> snd \<circ> snd) ds), concat (map (snd \<circ> snd \<circ> snd \<circ> snd) ds))"
  unfolding acc.sum_def
  by (induction ds) (auto simp: noDelta_def plusDelta_def split: prod.splits)

lemma extend_simps [simp]:
  "Maps (extend p (a, b, c, d, e)) = Maps p @ a" "Programs (extend p (a, b, c, d, e)) = Programs p @ b"
  "Helpers (extend p (a, b, c, d, e)) = Helpers p @ c" "Types (extend p (a, b, c, d, e)) = Types p @ d"
  "Consts (extend p (a, b, c, d, e)) = Consts p @ e" "License (extend p x) = License p"
  "FileSet (extend p x) = FileSet p" "File (extend p x) = File p" "Underlying (extend p x) = Underlying p"
  "Defs (extend p x) = Defs p"
  by (simp_all add: extend_def split: prod.splits)

lemma extend_id: "extend p ([], [], [], [], []) = p"
  using acc.ext_zero by (simp add: noDelta_def)

lemma concat_map_Nil: "concat (map (\<lambda>x. []) xs) = []"
  by (induction xs) simp_all

lemma indexed_concat:
  "concat (map (\<lambda>(i, n). if i < length vs then [f n (vs ! i)] else []) (indexed ns)) = map (\<lambda>(n, v). f n v) (zip ns vs)"
proof (induction ns arbitrary: vs)
  case Nil
  then show ?case by (simp add: indexed_def)
next
  case (Cons n ns)
  have *: "indexed (n # ns) = (0, n) # map (\<lambda>(i, x). (Suc i, x)) (indexed ns)"
    by (simp add: indexed_def upt_conv_Cons map_Suc_upt[symmetric] zip_map1 del: upt_Suc)
  show ?case
  proof (cases vs)
    case Nil
    then show ?thesis by (auto simp: concat_eq_Nil_conv)
  next
    case (Cons v vs')
    have "concat (map ((\<lambda>(i, n). if i < length vs then [f n (vs ! i)] else []) \<circ> (\<lambda>(i, x). (Suc i, x))) (indexed ns))
        = concat (map (\<lambda>(i, n). if i < length vs' then [f n (vs' ! i)] else []) (indexed ns))"
      using Cons by (intro arg_cong[of _ _ concat] map_cong) auto
    with Cons.IH[of vs'] * Cons show ?thesis by simp
  qed
qed

lemma collectVarSpec_ext:
  "collectVarSpec sp prog = Inr t \<Longrightarrow> t = extend prog (specMaps (FileSet prog) sp, [], [], [], [])"
proof (cases sp)
  case (ValueSpec p names ty vals)
  let ?g = "\<lambda>c (i, n). ((case tryBuildMapDecl n p vals i (fst c) of Inr (Some m) \<Rightarrow> [m] | _ \<Rightarrow> []), [], [], [], []) :: delta"
  assume "collectVarSpec sp prog = Inr t"
  then have r: "rfold (addMap p vals) (indexed names) prog = Inr t"
    by (simp add: collectVarSpec_def ValueSpec)
  have "t = extend prog (acc.sum (map (?g (progContext prog)) (indexed names)))"
  proof (rule acc.rfold_ext[OF _ r])
    fix x s u assume "addMap p vals x s = Inr u"
    then show "u = extend s (?g (progContext s) x)"
      by (cases x) (auto simp: addMap_def progContext_def extend_def split: option.splits)
  qed
  then show ?thesis
    by (simp add: sum_components specMaps_def ValueSpec progContext_def comp_def case_prod_unfold)
qed (simp_all add: collectVarSpec_def)

lemma collectConstSpec_ext:
  "collectConstSpec sp prog = Inr t \<Longrightarrow> t = extend prog ([], [], [], [], specConsts (FileSet prog) sp)"
proof (cases sp)
  case (ValueSpec p names ty vals)
  let ?c = "\<lambda>fs n v. \<lparr>ucName = idName n, ucPos = fs (idPos n), ucType = ty, ucValue = v\<rparr>"
  let ?g = "\<lambda>c (i, n). ([], [], [], [], (if i < length vals then [?c (fst c) n (vals ! i)] else [])) :: delta"
  assume "collectConstSpec sp prog = Inr t"
  then have r: "rfold (addConst ty vals) (indexed names) prog = Inr t"
    by (simp add: collectConstSpec_def ValueSpec)
  have "t = extend prog (acc.sum (map (?g (progContext prog)) (indexed names)))"
  proof (rule acc.rfold_ext[OF _ r])
    fix x s u assume "addConst ty vals x s = Inr u"
    then show "u = extend s (?g (progContext s) x)"
      by (cases x) (auto simp: addConst_def progContext_def extend_def split: if_splits)
  qed
  then show ?thesis
    using indexed_concat[of vals "?c (FileSet prog)" names]
    by (simp add: sum_components specConsts_def ValueSpec progContext_def comp_def case_prod_unfold
        concat_map_Nil cong: if_cong)
qed (simp_all add: collectConstSpec_def)

lemma collectTypeSpec_ext:
  "collectTypeSpec sp prog = Inr t \<Longrightarrow>
   t = extend prog ([], [], [], specTypes (FileSet prog) (Underlying prog) sp, [])"
  by (auto simp: collectTypeSpec_def specTypes_def extend_def split: spec.splits option.splits gotype.splits if_splits)

lemma collectFunc_ext:
  "collectFunc d prog = Inr t \<Longrightarrow>
   t = extend prog ([], declPrograms (FileSet prog) (FuncD d), declHelpers (FileSet prog) (FuncD d), [], [])"
  by (auto simp: collectFunc_def declPrograms_def declHelpers_def extend_def errAt_def hd_conv_nth
      split: option.splits if_splits)

lemma rfold_specs:
  assumes "rfold f specs prog = Inr t"
    and "\<And>sp s u. f sp s = Inr u \<Longrightarrow> u = extend s (g (progContext s) sp)"
  shows "t = extend prog (acc.sum (map (g (progContext prog)) specs))"
  by (rule acc.rfold_ext[OF _ assms(1)]) (rule assms(2))

lemma collectDecl_ext: "collectDecl dcl prog = Inr t \<Longrightarrow> t = extend prog (declDelta (progContext prog) dcl)"
proof (cases dcl)
  case (GenD k specs)
  assume h: "collectDecl dcl prog = Inr t"
  consider (var) "k = VAR_kw" | (type) "k = TYPE_kw" | (const) "k = CONST_kw"
    | (other) "k \<notin> {VAR_kw, TYPE_kw, CONST_kw}" by blast
  then show ?thesis
  proof cases
    case var
    then have "t = extend prog (acc.sum (map ((\<lambda>c sp. (specMaps (fst c) sp, [], [], [], [])) (progContext prog)) specs))"
      using h GenD by (intro rfold_specs) (auto simp: collectDecl_def progContext_def dest: collectVarSpec_ext)
    with var GenD show ?thesis
      by (simp add: sum_components declDelta_def declSpecs_def declPrograms_def declHelpers_def progContext_def comp_def)
  next
    case type
    then have "t = extend prog (acc.sum (map ((\<lambda>c sp. ([], [], [], specTypes (fst c) (fst (snd c)) sp, [])) (progContext prog)) specs))"
      using h GenD by (intro rfold_specs) (auto simp: collectDecl_def progContext_def dest: collectTypeSpec_ext)
    with type GenD show ?thesis
      by (simp add: sum_components declDelta_def declSpecs_def declPrograms_def declHelpers_def progContext_def comp_def)
  next
    case const
    then have "t = extend prog (acc.sum (map ((\<lambda>c sp. ([], [], [], [], specConsts (fst c) sp)) (progContext prog)) specs))"
      using h GenD by (intro rfold_specs) (auto simp: collectDecl_def progContext_def dest: collectConstSpec_ext)
    with const GenD show ?thesis
      by (simp add: sum_components declDelta_def declSpecs_def declPrograms_def declHelpers_def progContext_def comp_def)
  next
    case other
    with h GenD show ?thesis
      by (simp add: collectDecl_def declDelta_def declSpecs_def declPrograms_def declHelpers_def progContext_def extend_id)
  qed
qed (auto simp: collectDecl_def declDelta_def declSpecs_def declPrograms_def declHelpers_def progContext_def extend_id
     dest: collectFunc_ext)

text \<open>
  The whole pass: on success the five lists of the program are extended by what the
  declarations contribute, in the order of the file, and nothing else changes.
\<close>

lemma collectDecls_ext:
  assumes "collectDecls prog = Inr t"
  shows "t = extend prog (acc.sum (map (declDelta (progContext prog)) (gfDecls (File prog))))"
  using assms unfolding collectDecls_def by (intro acc.rfold_ext) (auto dest: collectDecl_ext)

lemma collectDecls_lists:
  assumes "collectDecls prog = Inr t"
  shows "Maps t = Maps prog @ concat (map (\<lambda>d. concat (map (specMaps (FileSet prog)) (declSpecs VAR_kw d))) (gfDecls (File prog)))"
    and "Programs t = Programs prog @ concat (map (declPrograms (FileSet prog)) (gfDecls (File prog)))"
    and "Helpers t = Helpers prog @ concat (map (declHelpers (FileSet prog)) (gfDecls (File prog)))"
    and "Types t = Types prog @ concat (map (\<lambda>d. concat (map (specTypes (FileSet prog) (Underlying prog)) (declSpecs TYPE_kw d))) (gfDecls (File prog)))"
    and "Consts t = Consts prog @ concat (map (\<lambda>d. concat (map (specConsts (FileSet prog)) (declSpecs CONST_kw d))) (gfDecls (File prog)))"
    and "License t = License prog" and "FileSet t = FileSet prog" and "File t = File prog"
    and "Underlying t = Underlying prog" and "Defs t = Defs prog"
  using collectDecls_ext[OF assms]
  by (simp_all add: sum_components comp_def declDelta_def progContext_def)

section \<open>Well-formed programs\<close>

text \<open>
  What the later passes rely on: every map has a kernel map type, a positive size unless
  the kernel sizes it, and a value type whenever it has a key type.
\<close>

definition wfMap :: "mapDecl \<Rightarrow> bool" where
  "wfMap m \<longleftrightarrow> map_of mapTypeToC (mdType m) \<noteq> None
     \<and> 0 \<le> mdMaxEntries m \<and> mdMaxEntries m < 2 ^ 63
     \<and> (mdMaxEntries m = 0 \<longrightarrow> mdType m \<in> set storageMapDirectives)
     \<and> (mdKeyType m \<noteq> None \<longrightarrow> mdValType m \<noteq> None)
     \<and> mdSpecPos m \<noteq> None"

definition wfProgram :: "gprogram \<Rightarrow> bool" where
  "wfProgram prog \<longleftrightarrow> isField (License prog) \<and> Programs prog \<noteq> []
     \<and> (\<forall>m \<in> set (Maps prog). wfMap m)
     \<and> (\<forall>p \<in> set (Programs prog). isField (pfSection p) \<and> pfName p = idName (fdName (pfDecl p)))
     \<and> (\<forall>h \<in> set (Helpers prog). fdRecv (hfDecl h) = None \<and> hfName h = idName (fdName (hfDecl h)) \<and> hfName h \<noteq> ''main'')
     \<and> (\<forall>t \<in> set (Types prog). (\<exists>pkg n ts. utType t = Named pkg n ts) \<and> (\<exists>fs. Underlying prog (utType t) = Struct fs))"

lemma directives_are_map_types:
  "map_of bpfMapGoTypeToDirective tname = Some d \<Longrightarrow> map_of mapTypeToC d \<noteq> None"
proof -
  have *: "\<forall>(g, d) \<in> set bpfMapGoTypeToDirective. map_of mapTypeToC d \<noteq> None" by code_simp
  assume "map_of bpfMapGoTypeToDirective tname = Some d"
  then have "(tname, d) \<in> set bpfMapGoTypeToDirective" by (rule map_of_SomeD)
  with * show ?thesis by auto
qed

lemma atoi_range: "atoi s = Inr n \<Longrightarrow> n < 2 ^ 63"
  by (auto simp: atoi_def Let_def split: option.splits if_splits list.splits)

text \<open>How the loop over the literal changes the declaration: only the size, to a positive one.\<close>

definition sizeStep :: "mapDecl \<Rightarrow> mapDecl \<Rightarrow> bool" where
  "sizeStep md md' \<longleftrightarrow> mdType md' = mdType md \<and> mdKeyType md' = mdKeyType md \<and> mdValType md' = mdValType md
     \<and> mdSpecPos md' = mdSpecPos md
     \<and> (mdMaxEntries md' = mdMaxEntries md \<or> 0 < mdMaxEntries md' \<and> mdMaxEntries md' < 2 ^ 63)"

lemma sizeStep_refl: "sizeStep md md"
  and sizeStep_trans: "sizeStep a b \<Longrightarrow> sizeStep b c \<Longrightarrow> sizeStep a c"
  by (auto simp: sizeStep_def)

lemma mapElt_ok: "mapElt fs p name elt md = Inr md' \<Longrightarrow> sizeStep md md'"
proof -
  have *: "md' = md \<or> (\<exists>n v. \<not> n \<le> 0 \<and> atoi v = Inr n \<and> md' = md\<lparr>mdMaxEntries := n\<rparr>)"
    if "mapElt fs p name (KeyValueExpr m (IdentE k) val) md = Inr md'" for m k val
    using that by (cases val) (auto simp: mapElt_def errAt_def split: if_splits sum.splits)
  assume h: "mapElt fs p name elt md = Inr md'"
  then obtain m key val where e: "elt = KeyValueExpr m key val"
    by (cases elt) (simp_all add: mapElt_def errAt_def)
  have "(\<exists>k. key = IdentE k) \<or> md' = md" using h e by (cases key) (auto simp: mapElt_def)
  then have "md' = md \<or> (\<exists>n v. \<not> n \<le> 0 \<and> atoi v = Inr n \<and> md' = md\<lparr>mdMaxEntries := n\<rparr>)"
    using *[of m _ val] h e by metis
  then show ?thesis using atoi_range by (auto simp: sizeStep_def)
qed

lemma mapElts_ok: "rfold (mapElt fs p name) elts md = Inr md' \<Longrightarrow> sizeStep md md'"
  by (erule rfold_invariant) (blast intro: sizeStep_refl sizeStep_trans mapElt_ok)+

lemma mapInit_ok:
  assumes "mapInit fs p name tname vals idx md = Inr md'"
  shows "sizeStep md md' \<and> (mdMaxEntries md' = 0 \<longrightarrow> mdType md \<in> set storageMapDirectives)"
proof (cases "idx \<ge> length vals")
  case True
  with assms show ?thesis
    by (auto simp: mapInit_def Let_def errAt_def sizeStep_refl split: if_splits)
next
  case False
  with assms obtain m t elts where "vals ! idx = CompositeLit m t elts"
    by (cases "vals ! idx") (simp_all add: mapInit_def Let_def errAt_def)
  with False assms have "rfold (mapElt fs p name) elts md = Inr md'"
      "mdMaxEntries md' = 0 \<longrightarrow> mdType md \<in> set storageMapDirectives"
    by (auto simp: mapInit_def Let_def errAt_def split: if_splits)
  with mapElts_ok show ?thesis by blast
qed

lemma setTypeArgs_ok:
  "setTypeArgs fs p name targs md = Inr md' \<Longrightarrow>
   mdType md' = mdType md \<and> mdMaxEntries md' = mdMaxEntries md \<and> mdSpecPos md' = mdSpecPos md
   \<and> (mdKeyType md = None \<longrightarrow> mdKeyType md' \<noteq> None \<longrightarrow> mdValType md' \<noteq> None)"
  by (auto simp: setTypeArgs_def errAt_def split: list.splits)

lemma tryBuildMapDecl_wf:
  assumes "tryBuildMapDecl n p vals i fs = Inr (Some m)"
  shows "wfMap m"
proof -
  let ?md = "\<lambda>d. \<lparr>mdName = idName n, mdPos = fs (idPos n), mdType = d, mdKeyType = None, mdValType = None,
         mdMaxEntries = 0, mdFlags = [], mdSpecPos = Some p\<rparr>"
  from assms obtain tname targs d md' where
    d: "map_of bpfMapGoTypeToDirective tname = Some d"
    and t: "setTypeArgs fs (idPos n) (idName n) targs (?md d) = Inr md'"
    and i: "mapInit fs (idPos n) (idName n) tname vals i md' = Inr m"
    by (auto simp: tryBuildMapDecl_def Let_def split: if_splits option.splits gotype.splits)
  from setTypeArgs_ok[OF t] mapInit_ok[OF i] directives_are_map_types[OF d] show ?thesis
    by (auto simp: wfMap_def sizeStep_def)
qed

text \<open>The license names of the comments of a file, in order.\<close>

definition licenseNames :: "(pos \<times> string) list \<Rightarrow> string list" where
  "licenseNames cs = [hd (dArgs d). (p, c) \<leftarrow> cs,
     d \<leftarrow> (case parseDirective c of Inr (Some d) \<Rightarrow> if dName d = ''license'' then [d] else [] | _ \<Rightarrow> [])]"

lemma fileDirective_license:
  "fileDirective c prog = Inr t \<Longrightarrow> t = prog\<lparr>License := last (License prog # licenseNames [c])\<rparr>
     \<and> (\<forall>l \<in> set (licenseNames [c]). isField l)"
  using parseDirective_args[of "snd c"]
  by (auto simp: fileDirective_def licenseNames_def errAt_def hd_conv_nth
      split: prod.splits sum.splits option.splits if_splits)

lemma licenseNames_Cons: "licenseNames (c # cs) = licenseNames [c] @ licenseNames cs"
  by (simp add: licenseNames_def)

lemma fileDirectives_license:
  "rfold fileDirective cs prog = Inr t \<Longrightarrow> t = prog\<lparr>License := last (License prog # licenseNames cs)\<rparr>
     \<and> (\<forall>l \<in> set (licenseNames cs). isField l)"
proof (induction cs arbitrary: prog)
  case Nil
  then show ?case by (simp add: licenseNames_def)
next
  case (Cons c cs)
  then obtain u where u: "fileDirective c prog = Inr u" "rfold fileDirective cs u = Inr t" by auto
  from fileDirective_license[OF u(1)] Cons.IH[OF u(2)] show ?case
    unfolding licenseNames_Cons[of c cs] by (auto simp: last_append)
qed

lemma rfold_rfold: "rfold (rfold f) xss s = rfold f (concat xss) s"
  by (induction xss arbitrary: s) (auto simp: rfold_append rbind_def split: sum.splits)

lemma collectFileDirectives_license:
  assumes "collectFileDirectives prog = Inr t"
  shows "t = prog\<lparr>License := last (License prog # licenseNames (concat (gfComments (File prog))))\<rparr>"
    and "\<forall>l \<in> set (licenseNames (concat (gfComments (File prog)))). isField l"
  using fileDirectives_license assms by (simp_all add: collectFileDirectives_def rfold_rfold)

lemma buildProgram_cases:
  assumes "buildProgram prog0 = Inr prog"
  obtains prog1 where "collectFileDirectives prog0 = Inr prog1" "collectDecls prog1 = Inr prog"
    "License prog \<noteq> []" "Programs prog \<noteq> []"
  using assms by (auto simp: buildProgram_def errAt_def split: if_splits)

text \<open>Nothing that comes from the front end is changed.\<close>

lemma buildProgram_keeps:
  assumes "buildProgram prog0 = Inr prog"
  shows "FileSet prog = FileSet prog0" "File prog = File prog0" "Underlying prog = Underlying prog0"
    "Defs prog = Defs prog0"
proof -
  obtain prog1 where f: "collectFileDirectives prog0 = Inr prog1" and d: "collectDecls prog1 = Inr prog"
    using assms by (rule buildProgram_cases)
  note f' = collectFileDirectives_license(1)[OF f] and d' = collectDecls_lists(7-10)[OF d]
  show "FileSet prog = FileSet prog0" "File prog = File prog0" "Underlying prog = Underlying prog0"
    "Defs prog = Defs prog0" using d' by (simp_all add: f')
qed

lemma specMaps_wf: "m \<in> set (specMaps fs sp) \<Longrightarrow> wfMap m"
  by (auto simp: specMaps_def split: spec.splits sum.splits option.splits dest: tryBuildMapDecl_wf[OF sym])

lemma specTypes_struct:
  "t \<in> set (specTypes fs und sp) \<Longrightarrow> (\<exists>pkg n ts. utType t = Named pkg n ts) \<and> (\<exists>fs. und (utType t) = Struct fs)"
  by (fastforce simp: specTypes_def split: spec.splits option.splits gotype.splits intro: sym)

lemma collectDecls_section:
  assumes "collectDecls prog = Inr t" and "FuncD d \<in> set (gfDecls (File prog))"
    and "docDirective (fdDoc d) ''section'' = Some dr"
  shows "dArgs dr \<noteq> []"
proof
  assume e: "dArgs dr = []"
  obtain xs ys where xs: "gfDecls (File prog) = xs @ FuncD d # ys" using assms(2) by (meson split_list)
  have "collectFunc d u \<noteq> Inr v" for u v using assms(3) e by (simp add: collectFunc_def errAt_def)
  then show False using assms(1) by (auto simp: collectDecls_def xs rfold_append collectDecl_def)
qed

lemma buildProgram_wf:
  assumes "buildProgram (newProgram fs f defs und) = Inr prog"
  shows "wfProgram prog"
proof -
  from assms obtain prog1 where p1: "collectFileDirectives (newProgram fs f defs und) = Inr prog1"
    and p: "collectDecls prog1 = Inr prog" and ne: "License prog \<noteq> []" "Programs prog \<noteq> []"
    by (rule buildProgram_cases)
  note l = collectFileDirectives_license[OF p1] and ls = collectDecls_lists[OF p]
  let ?names = "licenseNames (concat (gfComments f))"
  have lic: "License prog = last ([] # ?names)" and names: "\<forall>l \<in> set ?names. isField l"
    using l ls(6) by (simp_all add: newProgram_def)
  then have lf: "isField (License prog)" using ne(1) last_in_set[of ?names] by (auto split: if_splits)
  have sec: "isField (pfSection q) \<and> pfName q = idName (fdName (pfDecl q))" if "q \<in> set (Programs prog)" for q
  proof -
    from that ls(2) l obtain d dr where d: "FuncD d \<in> set (gfDecls (File prog1))"
      and dr: "docDirective (fdDoc d) ''section'' = Some dr"
      and q: "pfSection q = hd (dArgs dr)" "pfName q = idName (fdName d)" "pfDecl q = d"
      by (fastforce simp: newProgram_def declPrograms_def split: decl.splits option.splits dest: sym)
    with collectDecls_section[OF p d dr] docDirective_args[OF dr] show ?thesis by simp
  qed
  have hlp: "fdRecv (hfDecl h) = None \<and> hfName h = idName (fdName (hfDecl h)) \<and> hfName h \<noteq> ''main''"
    if "h \<in> set (Helpers prog)" for h
    using that ls(3) l by (auto simp: newProgram_def declHelpers_def split: decl.splits if_splits)
  have maps: "wfMap m" if "m \<in> set (Maps prog)" for m
    using that ls(1) l specMaps_wf by (auto simp: newProgram_def)
  have types: "(\<exists>pkg n ts. utType t = Named pkg n ts) \<and> (\<exists>fs. Underlying prog (utType t) = Struct fs)"
    if "t \<in> set (Types prog)" for t
    using that ls(4,9) l specTypes_struct by (fastforce simp: newProgram_def)
  show ?thesis unfolding wfProgram_def using lf ne(2) sec hlp maps types by blast
qed

lemma ParseFile_wf: "ParseFile fe filename = Inr prog \<Longrightarrow> wfProgram prog"
  by (auto simp: ParseFile_def dest: buildProgram_wf)

end
