(* ===== verification/Validate.thy ===== *)
theory Validate
  imports Program_IR "HOL-Library.Product_Lexorder"
begin

text \<open>
  \<^verbatim>\<open>internal/transpile/validate.go\<close>: the check that a program stays in the supported subset
  of Go.  The validator only ever appends to its list of diagnostics, so each check is
  modelled by the list it appends.  The lemmas show that the result is empty exactly for
  programs of the subset, that it has one diagnostic at the position of everything outside it, in
  the order of the positions, and that it does not depend on the order in which Go iterates over
  the map \<^verbatim>\<open>Info.Defs\<close>.
\<close>

section \<open>strconv.Unquote on string literals\<close>

definition hexVal :: "char \<Rightarrow> nat option" where
  "hexVal c = (if isDigit c then Some (digitVal c)
     else if CHR ''a'' \<le> c \<and> c \<le> CHR ''f'' then Some (of_char c - 87)
     else if CHR ''A'' \<le> c \<and> c \<le> CHR ''F'' then Some (of_char c - 55) else None)"

definition octVal :: "char \<Rightarrow> nat option" where
  "octVal c = (if CHR ''0'' \<le> c \<and> c \<le> CHR ''7'' then Some (digitVal c) else None)"

text \<open>The value of \<open>n\<close> digits in base \<open>b\<close> at the head of the string, and the rest.\<close>

fun takeDigits :: "(char \<Rightarrow> nat option) \<Rightarrow> nat \<Rightarrow> nat \<Rightarrow> nat \<Rightarrow> string \<Rightarrow> (nat \<times> string) option" where
  "takeDigits val b acc 0 s = Some (acc, s)"
| "takeDigits val b acc (Suc n) [] = None"
| "takeDigits val b acc (Suc n) (c # s) =
     (case val c of None \<Rightarrow> None | Some d \<Rightarrow> takeDigits val b (acc * b + d) n s)"

lemma takeDigits_length: "takeDigits val b acc n s = Some (v, r) \<Longrightarrow> length r \<le> length s"
  by (induction val b acc n s rule: takeDigits.induct) (fastforce split: option.splits)+

definition utf8 :: "nat \<Rightarrow> string" where
  "utf8 v =
     (if v < 0x80 then [char_of v]
      else if v < 0x800 then [char_of (0xC0 + v div 0x40), char_of (0x80 + v mod 0x40)]
      else if v < 0x10000 then
        [char_of (0xE0 + v div 0x1000), char_of (0x80 + v div 0x40 mod 0x40), char_of (0x80 + v mod 0x40)]
      else [char_of (0xF0 + v div 0x40000), char_of (0x80 + v div 0x1000 mod 0x40),
            char_of (0x80 + v div 0x40 mod 0x40), char_of (0x80 + v mod 0x40)])"

definition validRune :: "nat \<Rightarrow> bool" where
  "validRune v \<longleftrightarrow> v < 0xD800 \<or> 0xE000 \<le> v \<and> v \<le> 0x10FFFF"

text \<open>One escape sequence after the backslash: the bytes it stands for and the rest.\<close>

definition unescape :: "string \<Rightarrow> (string \<times> string) option" where
  "unescape s = (case s of
     [] \<Rightarrow> None
   | c # r \<Rightarrow>
       (if c = CHR ''a'' then Some ([CHR 0x07], r) else if c = CHR ''b'' then Some ([CHR 0x08], r)
        else if c = CHR ''f'' then Some ([CHR 0x0C], r) else if c = CHR ''n'' then Some ([CHR 0x0A], r)
        else if c = CHR ''r'' then Some ([CHR 0x0D], r) else if c = CHR ''t'' then Some ([CHR 0x09], r)
        else if c = CHR ''v'' then Some ([CHR 0x0B], r)
        else if c = CHR 0x5C \<or> c = CHR 0x22 then Some ([c], r)
        else if c = CHR ''x'' then map_option (\<lambda>(v, r). ([char_of v], r)) (takeDigits hexVal 16 0 2 r)
        else if c = CHR ''u'' then
          (case takeDigits hexVal 16 0 4 r of
             Some (v, r) \<Rightarrow> if validRune v then Some (utf8 v, r) else None | None \<Rightarrow> None)
        else if c = CHR ''U'' then
          (case takeDigits hexVal 16 0 8 r of
             Some (v, r) \<Rightarrow> if validRune v then Some (utf8 v, r) else None | None \<Rightarrow> None)
        else (case takeDigits octVal 8 0 3 s of
             Some (v, r) \<Rightarrow> if v \<le> 255 then Some ([char_of v], r) else None | None \<Rightarrow> None)))"

lemma unescape_length: "unescape s = Some (w, r) \<Longrightarrow> length r \<le> length s"
  by (auto simp: unescape_def split: list.splits if_splits option.splits dest!: takeDigits_length)

text \<open>The body of a double-quoted literal up to its closing quote, which must end it.\<close>

function unquoteBody :: "string \<Rightarrow> string option" where
  "unquoteBody [] = None"
| "unquoteBody (c # cs) =
     (if c = CHR 0x22 then (if cs = [] then Some [] else None)
      else if c = newline then None
      else if c = CHR 0x5C then
        (case unescape cs of None \<Rightarrow> None | Some (w, r) \<Rightarrow> map_option ((@) w) (unquoteBody r))
      else map_option ((#) c) (unquoteBody cs))"
  by pat_completeness auto
termination
  by (relation "measure length") (auto dest!: unescape_length)

definition unquote :: "string \<Rightarrow> string option" where
  "unquote s = (case s of
     [] \<Rightarrow> None
   | c # cs \<Rightarrow>
       (if c = CHR 0x22 then unquoteBody cs
        else if c = CHR 0x60 then
          (if cs \<noteq> [] \<and> last cs = CHR 0x60 \<and> CHR 0x60 \<notin> set (butlast cs)
           then Some (filter (\<lambda>x. x \<noteq> CHR 0x0D) (butlast cs)) else None)
        else None))"

section \<open>Model\<close>

record diagnostic =
  diagPos :: position
  diagMsg :: string

definition diagnosticString :: "diagnostic \<Rightarrow> string" where
  "diagnosticString d = positionString (diagPos d) @ '': '' @ diagMsg d"

definition diagnosticsError :: "diagnostic list \<Rightarrow> string" where
  "diagnosticsError ds = joinWith [newline] (map diagnosticString ds)"

definition allowedImports :: "string list" where
  "allowedImports = [bpfPkgPath, ''unsafe'']"

definition emit :: "gprogram \<Rightarrow> pos \<Rightarrow> string \<Rightarrow> diagnostic list" where
  "emit prog p msg = [\<lparr>diagPos = FileSet prog p, diagMsg = msg\<rparr>]"

definition checkImport :: "gprogram \<Rightarrow> pos \<times> string \<Rightarrow> diagnostic list" where
  "checkImport prog imp = (case imp of (p, val) \<Rightarrow>
     (case unquote val of
        None \<Rightarrow> emit prog p (''malformed import path '' @ val)
      | Some path \<Rightarrow>
          (if path \<in> set allowedImports then []
           else emit prog p (''import '' @ quote path @ '' is not allowed in BPF programs; only ''
                             @ quote bpfPkgPath @ '' can be imported''))))"

definition checkImports :: "gprogram \<Rightarrow> diagnostic list" where
  "checkImports prog = concat (map (checkImport prog) (gfImports (File prog)))"

definition checkCall :: "gprogram \<Rightarrow> pos \<Rightarrow> expr \<Rightarrow> diagnostic list" where
  "checkCall prog p f = (case f of
     IdentE i \<Rightarrow>
       (if idName i = ''make'' then emit prog p ''make is not supported (no heap allocation in BPF programs)''
        else if idName i = ''new'' then emit prog p ''new is not supported (no heap allocation in BPF programs)''
        else if idName i = ''panic'' then emit prog p ''panic is not supported in BPF programs''
        else if idName i = ''recover'' then emit prog p ''recover is not supported in BPF programs''
        else [])
   | _ \<Rightarrow> [])"

definition checkForStmt :: "gprogram \<Rightarrow> pos \<Rightarrow> stmt option \<Rightarrow> expr option \<Rightarrow> stmt option \<Rightarrow> diagnostic list" where
  "checkForStmt prog p init cond post =
     (if init = None \<and> cond = None \<and> post = None
      then emit prog p ''infinite for loops are not allowed; use constant-bounded for'' else [])"

definition builtinMapMsg :: string where
  "builtinMapMsg =
     ''Go's builtin map is not supported; declare a BPF map as `var X = bpf.HashMap[K, V]{MaxEntries: N}`''
     @ '' (or ArrayMap, LruHashMap, '' @ [CHR 0xE2, CHR 0x80, CHR 0xA6] @ '')''"

fun visitExpr :: "gprogram \<Rightarrow> expr \<Rightarrow> diagnostic list" where
  "visitExpr prog (TypeAssertExpr m _ _) = emit prog (fst m) ''type assertions are not supported in BPF programs''"
| "visitExpr prog (SliceExpr m _ _ _ _) = emit prog (fst m) ''slices are not supported''"
| "visitExpr prog (FuncLit m _ _) = emit prog (fst m) ''function literals/closures are not supported''"
| "visitExpr prog (ChanType m _) = emit prog (fst m) ''channels are not supported in BPF programs''"
| "visitExpr prog (MapType m _ _) = emit prog (fst m) builtinMapMsg"
| "visitExpr prog (InterfaceType m _) = emit prog (fst m) ''interfaces are not supported''"
| "visitExpr prog (ArrayType m len _) =
     (if len = None then emit prog (fst m) ''slices are not supported; use a fixed-size [N]T array'' else [])"
| "visitExpr prog (CallExpr m f _) = checkCall prog (fst m) f"
| "visitExpr prog _ = []"

fun visitStmt :: "gprogram \<Rightarrow> stmt \<Rightarrow> diagnostic list" where
  "visitStmt prog (RangeStmt p _ _ _ _) = emit prog p ''range loops are not supported; use a constant-bounded for loop''"
| "visitStmt prog (SwitchStmt p _ _ _) = emit prog p ''switch is not supported; use if/else if''"
| "visitStmt prog (TypeSwitchStmt p _ _ _) = emit prog p ''type switch is not supported''"
| "visitStmt prog (GoStmt p _) = emit prog p ''goroutines are not supported in BPF programs''"
| "visitStmt prog (DeferStmt p _) = emit prog p ''defer is not supported in BPF programs''"
| "visitStmt prog (SelectStmt p _) = emit prog p ''select is not supported in BPF programs''"
| "visitStmt prog (SendStmt p _ _) = emit prog p ''channel sends are not supported in BPF programs''"
| "visitStmt prog (ForStmt p init cond post _) = checkForStmt prog p init cond post"
| "visitStmt prog _ = []"

definition visit :: "gprogram \<Rightarrow> node \<Rightarrow> diagnostic list" where
  "visit prog n = (case n of NE e \<Rightarrow> visitExpr prog e | NS s \<Rightarrow> visitStmt prog s)"

definition underlyingOf :: "gprogram \<Rightarrow> gotype \<Rightarrow> gotype" where
  "underlyingOf prog t = (case t of Named _ _ _ \<Rightarrow> Underlying prog t | _ \<Rightarrow> t)"

definition isStringType :: "gprogram \<Rightarrow> gotype option \<Rightarrow> bool" where
  "isStringType prog t = (case t of
     None \<Rightarrow> False
   | Some ty \<Rightarrow> (case underlyingOf prog ty of Basic b \<Rightarrow> b = KString \<or> b = KUntypedString | _ \<Rightarrow> False))"

definition checkDef :: "gprogram \<Rightarrow> pos \<Rightarrow> pos \<Rightarrow> ident \<Rightarrow> diagnostic list" where
  "checkDef prog bodyStart bodyEnd i =
     (if idPos i < bodyStart \<or> idPos i > bodyEnd then []
      else if idDef i = None then []
      else if isStringType prog (idType i) then emit prog (idPos i) ''strings are not supported in BPF programs''
      else [])"

definition checkBodyTypes :: "gprogram \<Rightarrow> pos \<Rightarrow> pos \<Rightarrow> diagnostic list" where
  "checkBodyTypes prog bodyStart bodyEnd = concat (map (checkDef prog bodyStart bodyEnd) (Defs prog))"

text \<open>\<open>FieldList.NumFields\<close>: an unnamed field counts as one.\<close>

fun numFields :: "field list \<Rightarrow> nat" where
  "numFields [] = 0"
| "numFields (Field names _ # fs) = (if names = [] then 1 else length names) + numFields fs"

definition checkFunc :: "gprogram \<Rightarrow> funcDecl \<Rightarrow> diagnostic list" where
  "checkFunc prog fd =
     (if fdRecv fd \<noteq> None then emit prog (fdPos fd) ''methods on user types are not supported'' else [])
     @ (case fdTypeParams fd of
          Some (p, _) \<Rightarrow> emit prog p ''generic functions are not supported'' | None \<Rightarrow> [])
     @ (case fdResults fd of
          Some (p, fs) \<Rightarrow> (if numFields fs > 1 then emit prog p ''multiple return values are not supported'' else [])
        | None \<Rightarrow> [])
     @ (case fdBody fd of
          None \<Rightarrow> []
        | Some (bodyStart, b, bodyEnd) \<Rightarrow>
            concat (map (visit prog) (inspectBlock b)) @ checkBodyTypes prog bodyStart bodyEnd)"

definition posKey :: "position \<Rightarrow> string \<times> nat \<times> nat" where
  "posKey p = (Filename p, Line p, Column p)"

definition findings :: "gprogram \<Rightarrow> diagnostic list" where
  "findings prog = checkImports prog
     @ concat (map (\<lambda>p. checkFunc prog (pfDecl p)) (Programs prog))
     @ concat (map (\<lambda>h. checkFunc prog (hfDecl h)) (Helpers prog))"

definition Validate :: "gprogram \<Rightarrow> diagnostic list" where
  "Validate prog = sortBy (\<lambda>d. posKey (diagPos d)) (findings prog)"

section \<open>The supported subset\<close>

text \<open>The abstract specification: what a node, a function and a program must satisfy.\<close>

definition callOk :: "expr \<Rightarrow> bool" where
  "callOk f \<longleftrightarrow> (\<forall>i. f = IdentE i \<longrightarrow> idName i \<notin> {''make'', ''new'', ''panic'', ''recover''})"

fun exprOk :: "expr \<Rightarrow> bool" where
  "exprOk (TypeAssertExpr _ _ _) = False" | "exprOk (SliceExpr _ _ _ _ _) = False"
| "exprOk (FuncLit _ _ _) = False" | "exprOk (ChanType _ _) = False" | "exprOk (MapType _ _ _) = False"
| "exprOk (InterfaceType _ _) = False" | "exprOk (ArrayType _ len _) = (len \<noteq> None)"
| "exprOk (CallExpr _ f _) = callOk f" | "exprOk _ = True"

fun stmtOk :: "stmt \<Rightarrow> bool" where
  "stmtOk (RangeStmt _ _ _ _ _) = False" | "stmtOk (SwitchStmt _ _ _ _) = False"
| "stmtOk (TypeSwitchStmt _ _ _ _) = False" | "stmtOk (GoStmt _ _) = False" | "stmtOk (DeferStmt _ _) = False"
| "stmtOk (SelectStmt _ _) = False" | "stmtOk (SendStmt _ _ _) = False"
| "stmtOk (ForStmt _ init cond post _) = (init \<noteq> None \<or> cond \<noteq> None \<or> post \<noteq> None)" | "stmtOk _ = True"

definition nodeOk :: "node \<Rightarrow> bool" where
  "nodeOk n = (case n of NE e \<Rightarrow> exprOk e | NS s \<Rightarrow> stmtOk s)"

definition importOk :: "pos \<times> string \<Rightarrow> bool" where
  "importOk imp \<longleftrightarrow> unquote (snd imp) \<in> {Some bpfPkgPath, Some ''unsafe''}"

definition funcOk :: "gprogram \<Rightarrow> funcDecl \<Rightarrow> bool" where
  "funcOk prog fd \<longleftrightarrow> fdRecv fd = None \<and> fdTypeParams fd = None
     \<and> (\<forall>p fs. fdResults fd = Some (p, fs) \<longrightarrow> numFields fs \<le> 1)
     \<and> (\<forall>a b z. fdBody fd = Some (a, b, z) \<longrightarrow>
          (\<forall>n \<in> set (inspectBlock b). nodeOk n)
          \<and> (\<forall>i \<in> set (Defs prog). a \<le> idPos i \<longrightarrow> idPos i \<le> z \<longrightarrow> idDef i \<noteq> None \<longrightarrow> \<not> isStringType prog (idType i)))"

definition inSubset :: "gprogram \<Rightarrow> bool" where
  "inSubset prog \<longleftrightarrow> (\<forall>imp \<in> set (gfImports (File prog)). importOk imp)
     \<and> (\<forall>p \<in> set (Programs prog). funcOk prog (pfDecl p))
     \<and> (\<forall>h \<in> set (Helpers prog). funcOk prog (hfDecl h))"

lemma emit_not_Nil [simp]: "emit prog p msg \<noteq> []"
  by (simp add: emit_def)

lemma checkCall_Nil: "checkCall prog p f = [] \<longleftrightarrow> callOk f"
  by (cases f) (auto simp: checkCall_def callOk_def)

lemma visit_Nil: "visit prog n = [] \<longleftrightarrow> nodeOk n"
proof (cases n)
  case (NE e)
  then show ?thesis by (cases e) (simp_all add: visit_def nodeOk_def checkCall_Nil)
next
  case (NS s)
  then show ?thesis by (cases s) (simp_all add: visit_def nodeOk_def checkForStmt_def)
qed

lemma checkImport_Nil: "checkImport prog imp = [] \<longleftrightarrow> importOk imp"
  by (cases imp) (auto simp: checkImport_def importOk_def allowedImports_def split: option.splits)

lemma checkFunc_Nil: "checkFunc prog fd = [] \<longleftrightarrow> funcOk prog fd"
proof -
  have d: "checkDef prog a z i = [] \<longleftrightarrow>
      (a \<le> idPos i \<longrightarrow> idPos i \<le> z \<longrightarrow> idDef i \<noteq> None \<longrightarrow> \<not> isStringType prog (idType i))" for a z i
    by (auto simp: checkDef_def)
  have t: "(case fdTypeParams fd of Some (p, _) \<Rightarrow> emit prog p msg | None \<Rightarrow> []) = [] \<longleftrightarrow> fdTypeParams fd = None" for msg
    by (cases "fdTypeParams fd") auto
  have r: "(case fdResults fd of Some (p, fs) \<Rightarrow> (if numFields fs > 1 then emit prog p msg else []) | None \<Rightarrow> []) = []
      \<longleftrightarrow> (\<forall>p fs. fdResults fd = Some (p, fs) \<longrightarrow> numFields fs \<le> 1)" for msg
    by (cases "fdResults fd") (auto split: if_splits)
  have b: "(case fdBody fd of None \<Rightarrow> [] | Some (a, b, z) \<Rightarrow> concat (map (visit prog) (inspectBlock b)) @ checkBodyTypes prog a z) = []
      \<longleftrightarrow> (\<forall>a b z. fdBody fd = Some (a, b, z) \<longrightarrow> (\<forall>n \<in> set (inspectBlock b). nodeOk n) \<and> checkBodyTypes prog a z = [])"
    by (cases "fdBody fd") (auto simp: visit_Nil)
  have c: "checkBodyTypes prog a z = [] \<longleftrightarrow> (\<forall>i \<in> set (Defs prog).
      a \<le> idPos i \<longrightarrow> idPos i \<le> z \<longrightarrow> idDef i \<noteq> None \<longrightarrow> \<not> isStringType prog (idType i))" for a z
    by (simp add: checkBodyTypes_def d)
  show ?thesis
    unfolding checkFunc_def funcOk_def append_is_Nil_conv t r b c by (simp only: emit_not_Nil split: if_split) blast
qed

lemma findings_Nil: "findings prog = [] \<longleftrightarrow> inSubset prog"
  by (auto simp: findings_def inSubset_def checkImports_def checkImport_Nil checkFunc_Nil)

lemma Validate_mset: "mset (Validate prog) = mset (findings prog)"
  by (simp add: Validate_def)

lemma Validate_Nil: "Validate prog = [] \<longleftrightarrow> findings prog = []"
  by (metis Validate_mset mset_zero_iff)

section \<open>What is reported, and where\<close>

text \<open>
  The positions of what is outside the subset, by the abstract specification: one for every import,
  receiver, type parameter list, result list, node and string definition that is not allowed.
\<close>

fun nodePos :: "node \<Rightarrow> pos" where
  "nodePos (NE e) = exprPos e"
| "nodePos (NS s) = stmtPos s"

definition stringDefs :: "gprogram \<Rightarrow> pos \<Rightarrow> pos \<Rightarrow> ident list" where
  "stringDefs prog a z =
     filter (\<lambda>i. a \<le> idPos i \<and> idPos i \<le> z \<and> idDef i \<noteq> None \<and> isStringType prog (idType i)) (Defs prog)"

definition funcOffences :: "gprogram \<Rightarrow> funcDecl \<Rightarrow> pos list" where
  "funcOffences prog fd =
     (if fdRecv fd = None then [] else [fdPos fd])
     @ (case fdTypeParams fd of None \<Rightarrow> [] | Some (p, _) \<Rightarrow> [p])
     @ (case fdResults fd of None \<Rightarrow> [] | Some (p, fs) \<Rightarrow> if numFields fs \<le> 1 then [] else [p])
     @ (case fdBody fd of None \<Rightarrow> [] | Some (a, b, z) \<Rightarrow>
          map nodePos (filter (\<lambda>n. \<not> nodeOk n) (inspectBlock b)) @ map idPos (stringDefs prog a z))"

definition offences :: "gprogram \<Rightarrow> pos list" where
  "offences prog = map fst (filter (\<lambda>imp. \<not> importOk imp) (gfImports (File prog)))
     @ concat (map (\<lambda>p. funcOffences prog (pfDecl p)) (Programs prog))
     @ concat (map (\<lambda>h. funcOffences prog (hfDecl h)) (Helpers prog))"

text \<open>The order of positions: by file, then by line, then by column.\<close>

definition notAfter :: "position \<Rightarrow> position \<Rightarrow> bool" where
  "notAfter a b \<longleftrightarrow> Filename a < Filename b \<or> Filename a = Filename b \<and>
     (Line a < Line b \<or> Line a = Line b \<and> Column a \<le> Column b)"

lemma concat_map_select:
  assumes "\<And>x. x \<in> set xs \<Longrightarrow> map f (g x) = (if P x then [h x] else [])"
  shows "map f (concat (map g xs)) = map h (filter P xs)"
  using assms by (induction xs) auto

lemma map_diagPos_concat: "map diagPos (concat xss) = concat (map (map diagPos) xss)"
  by (induction xss) simp_all

lemma diagPos_emit: "map diagPos (emit prog p msg) = [FileSet prog p]"
  by (simp add: emit_def)

lemma checkCall_pos: "map diagPos (checkCall prog p f) = (if callOk f then [] else [FileSet prog p])"
  by (cases f) (auto simp: checkCall_def callOk_def diagPos_emit)

lemma visit_pos: "map diagPos (visit prog n) = (if nodeOk n then [] else [FileSet prog (nodePos n)])"
proof (cases n)
  case (NE e)
  then show ?thesis by (cases e) (simp_all add: visit_def nodeOk_def checkCall_pos diagPos_emit)
next
  case (NS s)
  then show ?thesis by (cases s) (simp_all add: visit_def nodeOk_def checkForStmt_def diagPos_emit)
qed

lemma checkImport_pos: "map diagPos (checkImport prog imp) = (if importOk imp then [] else [FileSet prog (fst imp)])"
  by (cases imp) (auto simp: checkImport_def importOk_def allowedImports_def diagPos_emit split: option.splits)

lemma checkFunc_pos: "map diagPos (checkFunc prog fd) = map (FileSet prog) (funcOffences prog fd)"
proof -
  have v: "map diagPos (concat (map (visit prog) ns)) = map (FileSet prog) (map nodePos (filter (\<lambda>n. \<not> nodeOk n) ns))" for ns
    unfolding map_map comp_def by (rule concat_map_select) (simp add: visit_pos)
  have d: "map diagPos (checkBodyTypes prog a z) = map (FileSet prog) (map idPos (stringDefs prog a z))" for a z
    unfolding map_map comp_def checkBodyTypes_def stringDefs_def
    by (rule concat_map_select) (auto simp: checkDef_def diagPos_emit)
  show ?thesis
    by (simp add: checkFunc_def funcOffences_def diagPos_emit v d split: option.split prod.split)
qed

lemma findings_pos: "map diagPos (findings prog) = map (FileSet prog) (offences prog)"
proof -
  have i: "map diagPos (checkImports prog) =
      map (FileSet prog) (map fst (filter (\<lambda>imp. \<not> importOk imp) (gfImports (File prog))))"
    unfolding map_map comp_def checkImports_def by (rule concat_map_select) (simp add: checkImport_pos)
  show ?thesis by (simp add: findings_def offences_def i map_diagPos_concat map_concat checkFunc_pos comp_def)
qed

lemma Validate_positions:
  "mset (map diagPos (Validate prog)) = mset (map (FileSet prog) (offences prog))"
  "sorted_wrt notAfter (map diagPos (Validate prog))"
proof -
  show "mset (map diagPos (Validate prog)) = mset (map (FileSet prog) (offences prog))"
    unfolding mset_map Validate_mset findings_pos[unfolded mset_map, symmetric] by (metis findings_pos mset_map)
  have "notAfter a b \<longleftrightarrow> posKey a \<le> posKey b" for a b
    by (auto simp: notAfter_def posKey_def less_eq_prod_def less_prod_def)
  then show "sorted_wrt notAfter (map diagPos (Validate prog))"
    using sortBy_sorted[of "\<lambda>d. posKey (diagPos d)" "findings prog"]
    by (simp add: Validate_def sorted_wrt_map sorted_map)
qed

section \<open>Independence of the order of a map\<close>

text \<open>
  Go iterates over \<open>Info.Defs\<close> in an unspecified order.  The findings of two orders are a
  permutation of each other; the sort makes the results equal as soon as different
  identifiers have different positions and findings at one position do not differ.
\<close>

lemma mset_concat_map: "mset (concat (map f xs)) = (\<Sum>x \<in># mset xs. mset (f x))"
  by (induction xs) simp_all

lemma checkBodyTypes_perm:
  "mset (Defs prog) = mset (Defs prog') \<Longrightarrow> FileSet prog = FileSet prog' \<Longrightarrow> Underlying prog = Underlying prog'
   \<Longrightarrow> mset (checkBodyTypes prog a z) = mset (checkBodyTypes prog' a z)"
proof -
  assume d: "mset (Defs prog) = mset (Defs prog')"
    and e: "FileSet prog = FileSet prog'" "Underlying prog = Underlying prog'"
  have "checkDef prog a z = checkDef prog' a z"
    unfolding checkDef_def[abs_def] emit_def[abs_def] isStringType_def[abs_def] underlyingOf_def[abs_def] e ..
  then show ?thesis unfolding checkBodyTypes_def mset_concat_map d by simp
qed

lemma checkDef_key:
  "length (filter (\<lambda>d. posKey (diagPos d) = k) (checkDef prog a z i)) \<le> (if posKey (FileSet prog (idPos i)) = k then 1 else 0)"
  by (simp add: checkDef_def emit_def)

lemma checkBodyTypes_key:
  assumes "distinct (map (\<lambda>i. posKey (FileSet prog (idPos i))) (Defs prog))"
  shows "length (filter (\<lambda>d. posKey (diagPos d) = k) (checkBodyTypes prog a z)) \<le> 1"
proof -
  let ?n = "\<lambda>is. length (filter (\<lambda>d. posKey (diagPos d) = k) (concat (map (checkDef prog a z) is)))"
  let ?m = "\<lambda>is. length (filter (\<lambda>i. posKey (FileSet prog (idPos i)) = k) is)"
  have "?n is \<le> ?m is" for "is"
  proof (induction "is")
    case (Cons i "is")
    with checkDef_key[of k prog a z i] show ?case by (cases "posKey (FileSet prog (idPos i)) = k") auto
  qed simp
  moreover have "?m is \<le> 1" if "distinct (map (\<lambda>i. posKey (FileSet prog (idPos i))) is)" for "is"
    using that by (induction "is") (auto simp: filter_empty_conv image_iff)
  ultimately show ?thesis using assms by (fastforce simp: checkBodyTypes_def intro: order_trans)
qed

lemma sortBy_eqI:
  assumes "\<And>k. filter (\<lambda>x. f x = k) xs = filter (\<lambda>x. f x = k) ys" and "mset xs = mset ys"
  shows "sortBy f xs = sortBy f ys"
  by (rule sortBy_unique) (simp_all add: assms sortBy_sorted sortBy_stable)

lemma emit_Defs: "emit (prog\<lparr>Defs := ds\<rparr>) = emit prog"
  by (simp add: emit_def fun_eq_iff)

text \<open>Changing the order of \<open>Defs\<close> changes nothing else a function's findings consist of.\<close>

lemma checkFunc_perm:
  assumes "mset ds = mset (Defs prog)"
    and "distinct (map (\<lambda>i. posKey (FileSet prog (idPos i))) (Defs prog))"
  shows "mset (checkFunc (prog\<lparr>Defs := ds\<rparr>) fd) = mset (checkFunc prog fd)"
    and "filter (\<lambda>d. posKey (diagPos d) = k) (checkFunc (prog\<lparr>Defs := ds\<rparr>) fd)
       = filter (\<lambda>d. posKey (diagPos d) = k) (checkFunc prog fd)"
proof -
  let ?q = "prog\<lparr>Defs := ds\<rparr>"
  note e = emit_Defs[of ds prog]
  have c: "checkCall ?q p f = checkCall prog p f" for p f unfolding checkCall_def e ..
  have v: "visit ?q n = visit prog n" for n
  proof (cases n)
    case (NE x)
    then show ?thesis unfolding visit_def node.case NE by (cases x) (simp_all only: visitExpr.simps e c)
  next
    case (NS x)
    then show ?thesis unfolding visit_def node.case NS by (cases x) (simp_all only: visitStmt.simps e checkForStmt_def)
  qed
  then have v: "visit ?q = visit prog" by (rule ext)
  have m: "mset (checkBodyTypes ?q a z) = mset (checkBodyTypes prog a z)" for a z
    by (rule checkBodyTypes_perm) (simp_all add: assms(1))
  have f: "filter (\<lambda>d. posKey (diagPos d) = k) (checkBodyTypes ?q a z)
         = filter (\<lambda>d. posKey (diagPos d) = k) (checkBodyTypes prog a z)" for a z
    using m checkBodyTypes_key[OF assms(2)] by (intro mset_eq_short) simp_all
  show "mset (checkFunc ?q fd) = mset (checkFunc prog fd)"
    unfolding checkFunc_def e v by (cases "fdBody fd") (auto simp: m)
  show "filter (\<lambda>d. posKey (diagPos d) = k) (checkFunc ?q fd) = filter (\<lambda>d. posKey (diagPos d) = k) (checkFunc prog fd)"
    unfolding checkFunc_def e v by (cases "fdBody fd") (auto simp: f)
qed

lemma Validate_perm:
  assumes "mset ds = mset (Defs prog)"
    and "distinct (map (\<lambda>i. posKey (FileSet prog (idPos i))) (Defs prog))"
  shows "Validate (prog\<lparr>Defs := ds\<rparr>) = Validate prog"
proof -
  let ?q = "prog\<lparr>Defs := ds\<rparr>"
  have i: "checkImports ?q = checkImports prog"
    unfolding checkImports_def checkImport_def[abs_def] emit_Defs by simp
  note c = checkFunc_perm[OF assms]
  have m: "mset (concat (map (\<lambda>x. checkFunc ?q (g x)) xs)) = mset (concat (map (\<lambda>x. checkFunc prog (g x)) xs))"
    for g :: "'a \<Rightarrow> funcDecl" and xs by (induction xs) (simp_all add: c(1))
  have f: "filter (\<lambda>d. posKey (diagPos d) = k) (concat (map (\<lambda>x. checkFunc ?q (g x)) xs))
         = filter (\<lambda>d. posKey (diagPos d) = k) (concat (map (\<lambda>x. checkFunc prog (g x)) xs))"
    for g :: "'a \<Rightarrow> funcDecl" and xs k by (induction xs) (simp_all add: c(2))
  show ?thesis unfolding Validate_def
    by (rule sortBy_eqI) (simp_all add: findings_def i m f)
qed

end
