(* ===== verification/Source_Map.thy ===== *)
theory Source_Map
  imports Go_Library
begin

text \<open>
  \<^verbatim>\<open>internal/transpile/sourcemap.go\<close> and the reading half of \<^verbatim>\<open>diagnose/diagnose.go\<close>: the text
  file that maps lines of the emitted C to positions in the Go source.  The main lemma is
  the round trip: reading back a written source map gives, for every C line, the position
  of the last mapping recorded for it.
\<close>

section \<open>Writing\<close>

record sourceMapping =
  CLine :: nat
  SPosition :: position

definition posFor :: "string \<Rightarrow> nat \<Rightarrow> nat \<Rightarrow> position" where
  "posFor filename l c = \<lparr>Filename = filename, Line = l, Column = c\<rparr>"

definition mapHeader :: string where
  "mapHeader = ''# gobee sourcemap. Format: <c-line>'' @ CHR 0x5C # ''t<go-file>:<go-line>:<go-col>''"

text \<open>The arguments of one \<open>Fprintf\<close>: the position text and the whole line.\<close>

definition posText :: "position \<Rightarrow> string" where
  "posText p = Filename p @ '':'' @ itoa (Line p) @ '':'' @ itoa (Column p)"

definition mappingLine :: "sourceMapping \<Rightarrow> string" where
  "mappingLine m = itoa (CLine m) @ tab # posText (SPosition m)"

definition FormatSourceMap :: "sourceMapping list \<Rightarrow> string" where
  "FormatSourceMap mappings =
     (let sorted = sortBy CLine mappings
      in mapHeader @ newline # concat (map (\<lambda>m. mappingLine m @ [newline]) sorted))"

section \<open>Reading\<close>

type_synonym srcMap = "int \<rightharpoonup> string"

text \<open>One turn of the scanner loop.\<close>

definition mapLine :: "string \<Rightarrow> srcMap \<Rightarrow> srcMap res" where
  "mapLine text out =
     (let line = trimSpace text
      in if line = '''' \<or> hasPrefix line ''#'' then Inr out
         else let fs = splitN2 tab line
              in if length fs \<noteq> 2 then Inl (''malformed sourcemap line '' @ quote line)
                 else (case atoi (fs ! 0) of
                         Inl err \<Rightarrow> Inl (''malformed c-line in '' @ quote line @ '': '' @ err)
                       | Inr cline \<Rightarrow> Inr (out(cline \<mapsto> fs ! 1))))"

text \<open>\<open>bufio.MaxScanTokenSize\<close>, the limit of a scanner with no buffer of its own.\<close>

definition maxScanTokenSize :: nat where
  "maxScanTokenSize = 65536"

definition ParseSourceMap :: "string \<Rightarrow> srcMap res" where
  "ParseSourceMap r =
     (case scanLines maxScanTokenSize r of (ls, err) \<Rightarrow>
        rbind (rfold mapLine ls Map.empty) (\<lambda>out.
          case err of Some e \<Rightarrow> Inl e | None \<Rightarrow> Inr out))"

definition ParseSourceMapBytes :: "string \<Rightarrow> srcMap res" where
  "ParseSourceMapBytes b = ParseSourceMap b"

section \<open>Round trip\<close>

text \<open>
  A line codec: a printer of items to lines and a reader that folds lines into a state.
  If the reader undoes the printer on every line, it does so on a whole file that the
  scanner cuts into lines.
\<close>

locale line_codec =
  fixes printLine :: "'a \<Rightarrow> string" and step :: "string \<Rightarrow> 's \<Rightarrow> 's res" and upd :: "'a \<Rightarrow> 's \<Rightarrow> 's"
    and ok :: "'a \<Rightarrow> bool" and limit :: nat
  assumes no_newline: "ok x \<Longrightarrow> newline \<notin> set (printLine x)"
    and fits: "ok x \<Longrightarrow> length (printLine x) < limit"
    and no_cr: "ok x \<Longrightarrow> printLine x = [] \<or> last (printLine x) \<noteq> CHR 0x0D"
    and read_back: "ok x \<Longrightarrow> step (printLine x) s = Inr (upd x s)"
begin

lemma rfold_print: "\<forall>x \<in> set xs. ok x \<Longrightarrow> rfold step (map printLine xs) s = Inr (fold upd xs s)"
  by (induction xs arbitrary: s) (simp_all add: read_back)

lemma scan_print:
  assumes "\<forall>x \<in> set xs. ok x"
  shows "scanLines limit (unlines (map printLine xs)) = (map printLine xs, None)"
  using assms by (intro scanLines_unlines) (auto simp: no_newline fits no_cr)

end

definition mappingOk :: "sourceMapping \<Rightarrow> bool" where
  "mappingOk m \<longleftrightarrow> newline \<notin> set (Filename (SPosition m)) \<and> CLine m < 2 ^ 63
     \<and> length (mappingLine m) < maxScanTokenSize"

lemma itoa_no: "\<not> isDigit c \<Longrightarrow> c \<notin> set (itoa n)"
  using itoa_digits by blast

lemma last_mappingLine: "last (mappingLine m) = last (itoa (Column (SPosition m)))"
  by (simp add: mappingLine_def posText_def)

lemma last_itoa: "isDigit (last (itoa n))"
  using itoa_digits last_in_set[OF itoa_nonempty] by blast

lemma hd_itoa: "isDigit (hd (itoa n))"
  using itoa_digits hd_in_set[OF itoa_nonempty] by blast

lemma mappingLine_trim: "trimSpace (mappingLine m) = mappingLine m"
proof (rule trimSpace_id, rule disjI2, rule conjI)
  show "\<not> isSpace (hd (mappingLine m))"
    using isDigit_not_space[OF hd_itoa[of "CLine m"]] by (simp add: mappingLine_def hd_append)
  show "\<not> isSpace (last (mappingLine m))"
    using isDigit_not_space[OF last_itoa] by (simp add: last_mappingLine)
qed

lemma mappingLine_read:
  assumes "CLine m < 2 ^ 63"
  shows "mapLine (mappingLine m) s = Inr (s(int (CLine m) \<mapsto> posText (SPosition m)))"
proof -
  have "splitN2 tab (mappingLine m) = [itoa (CLine m), posText (SPosition m)]"
    unfolding mappingLine_def by (rule splitN2_append) (rule itoa_no, simp add: isDigit_def less_eq_char_def)
  moreover have "\<not> hasPrefix (mappingLine m) ''#''"
  proof -
    obtain c cs where c: "itoa (CLine m) = c # cs" by (cases "itoa (CLine m)") simp_all
    with hd_itoa[of "CLine m"] have "c \<noteq> CHR ''#''" by (auto simp: isDigit_def less_eq_char_def)
    with c show ?thesis by (simp add: hasPrefix_def mappingLine_def)
  qed
  moreover have "mappingLine m \<noteq> []" by (simp add: mappingLine_def)
  ultimately show ?thesis
    using atoi_itoa[OF assms] by (simp add: mapLine_def mappingLine_trim Let_def)
qed

interpretation smap: line_codec mappingLine mapLine
  "\<lambda>m s. s(int (CLine m) \<mapsto> posText (SPosition m))" mappingOk maxScanTokenSize
proof unfold_locales
  fix m assume ok: "mappingOk m"
  have nl: "newline \<notin> set (itoa n)" for n by (rule itoa_no) (simp add: isDigit_def less_eq_char_def)
  show "newline \<notin> set (mappingLine m)"
    using ok by (simp add: mappingOk_def mappingLine_def posText_def nl)
  show "length (mappingLine m) < maxScanTokenSize" using ok by (simp add: mappingOk_def)
  show "mappingLine m = [] \<or> last (mappingLine m) \<noteq> CHR 0x0D"
    using last_itoa[of "Column (SPosition m)"] by (auto simp: last_mappingLine isDigit_def less_eq_char_def)
  show "mapLine (mappingLine m) s = Inr (s(int (CLine m) \<mapsto> posText (SPosition m)))" for s
    using ok by (intro mappingLine_read) (simp add: mappingOk_def)
qed

text \<open>The map that a list of mappings stands for: the last mapping of a line wins.\<close>

definition mappingMap :: "sourceMapping list \<Rightarrow> srcMap" where
  "mappingMap ms = map_of (rev (map (\<lambda>m. (int (CLine m), posText (SPosition m))) ms))"

lemma fold_mappingMap:
  "fold (\<lambda>m s. s(int (CLine m) \<mapsto> posText (SPosition m))) ms s = s ++ mappingMap ms"
  by (induction ms arbitrary: s) (auto simp: mappingMap_def map_add_def fun_eq_iff split: option.splits)

lemma mappingMap_snoc: "mappingMap (ms @ [m]) = (mappingMap ms)(int (CLine m) \<mapsto> posText (SPosition m))"
  by (simp add: mappingMap_def)

lemma mappingMap_filter: "mappingMap ms (int k) = mappingMap (filter (\<lambda>m. CLine m = k) ms) (int k)"
  by (induction ms rule: rev_induct) (auto simp: mappingMap_snoc)

lemma mappingMap_negative: "k < 0 \<Longrightarrow> mappingMap ms k = None"
  by (induction ms rule: rev_induct) (auto simp: mappingMap_snoc, simp add: mappingMap_def)

lemma mappingMap_sort: "mappingMap (sortBy CLine ms) = mappingMap ms"
proof
  fix k :: int
  show "mappingMap (sortBy CLine ms) k = mappingMap ms k"
  proof (cases "k < 0")
    case False
    then obtain n where k: "k = int n" by (metis int_nat_eq not_less)
    show ?thesis unfolding k mappingMap_filter[of "sortBy CLine ms"] mappingMap_filter[of ms] sortBy_stable ..
  qed (simp add: mappingMap_negative)
qed

lemma mapHeader_line:
  "mapLine mapHeader s = Inr s" "newline \<notin> set mapHeader" "length mapHeader < maxScanTokenSize"
  "last mapHeader \<noteq> CHR 0x0D"
proof -
  have "trimSpace mapHeader = mapHeader" "hasPrefix mapHeader ''#''" by code_simp+
  then show "mapLine mapHeader s = Inr s" by (simp add: mapLine_def)
  show "newline \<notin> set mapHeader" "last mapHeader \<noteq> CHR 0x0D" by code_simp+
  show "length mapHeader < maxScanTokenSize" by (simp add: mapHeader_def maxScanTokenSize_def)
qed

lemma FormatSourceMap_unlines:
  "FormatSourceMap ms = unlines (mapHeader # map mappingLine (sortBy CLine ms))"
  by (simp add: FormatSourceMap_def unlines_def comp_def)

lemma ParseSourceMap_FormatSourceMap:
  assumes "\<forall>m \<in> set ms. mappingOk m"
  shows "ParseSourceMap (FormatSourceMap ms) = Inr (mappingMap ms)"
proof -
  let ?ls = "map mappingLine (sortBy CLine ms)"
  have ok: "\<forall>m \<in> set (sortBy CLine ms). mappingOk m" using assms by simp
  have "scanLines maxScanTokenSize (unlines (mapHeader # ?ls)) = (mapHeader # ?ls, None)"
    using ok mapHeader_line by (intro scanLines_unlines) (auto simp: smap.no_newline smap.fits smap.no_cr)
  then show ?thesis
    using smap.rfold_print[OF ok]
    by (simp add: ParseSourceMap_def FormatSourceMap_unlines mapHeader_line(1) fold_mappingMap mappingMap_sort)
qed

end
