(* ===== verification/Emit_Expr.thy ===== *)
theory Emit_Expr
  imports Program_IR Source_Map
begin

text \<open>
  The expression half of \<^verbatim>\<open>internal/transpile/emit.go\<close>: the emitter's state and the functions
  that render Go expressions as C text.  They read the emitter (the program and the
  aliases of comma-ok variables) and never change it.

  The recognisers of method calls are called by \<^verbatim>\<open>formatCall\<close> with the call's own pieces and
  the renderings of its arguments; a rendering is used, and its error reported, exactly
  where the code calls \<^verbatim>\<open>formatExpr\<close>.
\<close>

section \<open>The emitter\<close>

record emitter =
  eprog :: gprogram
  ebuf :: string
  eindent :: nat
  cLine :: nat
  mappings :: "sourceMapping list"
  aliases :: "gobj \<rightharpoonup> string"
  tmpSeq :: nat

definition errorf :: "emitter \<Rightarrow> pos \<Rightarrow> string \<Rightarrow> 'a res" where
  "errorf e p msg = Inl (at (eprog e) p @ '': '' @ msg)"

section \<open>Receivers of method calls\<close>

text \<open>\<open>call.Fun\<close> as \<open>id.Method\<close>: the identifier and the name of the method.\<close>

definition selectorOf :: "expr \<Rightarrow> (expr \<times> ident) option" where
  "selectorOf f = (case f of SelectorExpr _ x sel \<Rightarrow> Some (x, sel) | _ \<Rightarrow> None)"

definition identOf :: "expr \<Rightarrow> ident option" where
  "identOf x = (case x of IdentE i \<Rightarrow> Some i | _ \<Rightarrow> None)"

definition methodOn :: "expr \<Rightarrow> (ident \<times> string) option" where
  "methodOn f = (case selectorOf f of
     None \<Rightarrow> None
   | Some (x, sel) \<Rightarrow> (case identOf x of None \<Rightarrow> None | Some i \<Rightarrow> Some (i, idName sel)))"

definition namedOf :: "gotype option \<Rightarrow> (string option \<times> string \<times> gotype list) option" where
  "namedOf t = (case t of Some (Named pkg n ts) \<Rightarrow> Some (pkg, n, ts) | _ \<Rightarrow> None)"

definition deref :: "gotype option \<Rightarrow> gotype option" where
  "deref t = (case t of Some (Pointer u) \<Rightarrow> Some u | _ \<Rightarrow> t)"

text \<open>The name of the \<open>bpf\<close>-package function a call names, if it does.\<close>

definition bpfFuncName :: "expr \<Rightarrow> string option" where
  "bpfFuncName f = (case methodOn f of
     None \<Rightarrow> None
   | Some (i, name) \<Rightarrow>
       (case idUse i of
          Some (PkgName _ path) \<Rightarrow> if path = bpfPkgPath then Some name else None
        | _ \<Rightarrow> None))"

definition isRingBufNamed :: "string option \<Rightarrow> string \<Rightarrow> bool" where
  "isRingBufNamed pkg n \<longleftrightarrow> pkg = Some bpfPkgPath \<and> n = ''RingBuf''"

definition isQueueOrStackNamed :: "string option \<Rightarrow> string \<Rightarrow> bool" where
  "isQueueOrStackNamed pkg n \<longleftrightarrow> pkg = Some bpfPkgPath \<and> (n = ''Queue'' \<or> n = ''Stack'')"

definition isMapNamed :: "string option \<Rightarrow> string \<Rightarrow> bool" where
  "isMapNamed pkg n \<longleftrightarrow> pkg = Some bpfPkgPath \<and> n \<in> set kernelMapGoTypes"

definition ringbufReserveCall :: "expr \<Rightarrow> (string \<times> gotype) option" where
  "ringbufReserveCall f = (case methodOn f of
     Some (i, name) \<Rightarrow>
       (if name \<noteq> ''Reserve'' then None
        else (case namedOf (idType i) of
                Some (pkg, n, [t]) \<Rightarrow> if isRingBufNamed pkg n then Some (idName i, t) else None
              | _ \<Rightarrow> None))
   | None \<Rightarrow> None)"

definition ringbufMethodCall :: "emitter \<Rightarrow> pos \<Rightarrow> expr \<Rightarrow> string res list \<Rightarrow> string option res" where
  "ringbufMethodCall e p f fargs = (case methodOn f of
     None \<Rightarrow> Inr None
   | Some (i, name) \<Rightarrow>
       (case namedOf (idType i) of
          None \<Rightarrow> Inr None
        | Some (pkg, n, _) \<Rightarrow>
            (if \<not> isRingBufNamed pkg n then Inr None
             else if length fargs \<noteq> 1 then errorf e p (name @ '' expects exactly one argument'')
             else rbind (fargs ! 0) (\<lambda>arg.
               if name = ''Submit'' then Inr (Some (''bpf_ringbuf_submit('' @ arg @ '', 0)''))
               else if name = ''Discard'' then Inr (Some (''bpf_ringbuf_discard('' @ arg @ '', 0)''))
               else if name = ''Output'' then
                 Inr (Some (''bpf_ringbuf_output(&'' @ idName i @ '', '' @ arg @ '', sizeof(*'' @ arg @ ''), 0)''))
               else Inr None))))"

definition queueLikeMethodCall :: "emitter \<Rightarrow> pos \<Rightarrow> expr \<Rightarrow> string res list \<Rightarrow> string option res" where
  "queueLikeMethodCall e p f fargs = (case methodOn f of
     None \<Rightarrow> Inr None
   | Some (i, name) \<Rightarrow>
       (case namedOf (idType i) of
          None \<Rightarrow> Inr None
        | Some (pkg, n, _) \<Rightarrow>
            (if \<not> isQueueOrStackNamed pkg n then Inr None
             else if length fargs \<noteq> 1 then errorf e p (name @ '' expects exactly one argument'')
             else rbind (fargs ! 0) (\<lambda>arg.
               if name = ''Push'' then Inr (Some (''bpf_map_push_elem(&'' @ idName i @ '', '' @ arg @ '', 0)''))
               else if name = ''Pop'' then Inr (Some (''bpf_map_pop_elem(&'' @ idName i @ '', '' @ arg @ '')''))
               else if name = ''Peek'' then Inr (Some (''bpf_map_peek_elem(&'' @ idName i @ '', '' @ arg @ '')''))
               else Inr None))))"

definition progArrayMethodCall :: "emitter \<Rightarrow> pos \<Rightarrow> expr \<Rightarrow> string res list \<Rightarrow> string option res" where
  "progArrayMethodCall e p f fargs = (case methodOn f of
     None \<Rightarrow> Inr None
   | Some (i, name) \<Rightarrow>
       (if name \<noteq> ''TailCall'' then Inr None
        else (case namedOf (idType i) of
                None \<Rightarrow> Inr None
              | Some (pkg, n, _) \<Rightarrow>
                  (if pkg \<noteq> Some bpfPkgPath \<or> n \<noteq> ''ProgArray'' then Inr None
                   else if length fargs \<noteq> 2 then errorf e p ''TailCall expects (ctx, key)''
                   else rbind (fargs ! 0) (\<lambda>ctx. rbind (fargs ! 1) (\<lambda>key.
                     Inr (Some (''bpf_tail_call('' @ ctx @ '', &'' @ idName i @ '', '' @ key @ '')'')))))))) "

definition perfEventArrayMethodCall :: "emitter \<Rightarrow> pos \<Rightarrow> expr \<Rightarrow> string res list \<Rightarrow> string option res" where
  "perfEventArrayMethodCall e p f fargs = (case methodOn f of
     None \<Rightarrow> Inr None
   | Some (i, name) \<Rightarrow>
       (if name \<noteq> ''Output'' then Inr None
        else (case namedOf (idType i) of
                None \<Rightarrow> Inr None
              | Some (pkg, n, _) \<Rightarrow>
                  (if pkg \<noteq> Some bpfPkgPath \<or> n \<noteq> ''PerfEventArray'' then Inr None
                   else if length fargs \<noteq> 2 then errorf e p ''Output expects (ctx, *T)''
                   else rbind (fargs ! 0) (\<lambda>ctx. rbind (fargs ! 1) (\<lambda>val.
                     Inr (Some (''bpf_perf_event_output('' @ ctx @ '', &'' @ idName i
                                @ '', BPF_F_CURRENT_CPU, '' @ val @ '', sizeof(*'' @ val @ ''))''))))))))"

definition redirectMapCall :: "emitter \<Rightarrow> pos \<Rightarrow> expr \<Rightarrow> string res list \<Rightarrow> string option res" where
  "redirectMapCall e p f fargs = (case selectorOf f of
     None \<Rightarrow> Inr None
   | Some (x, sel) \<Rightarrow>
       (if idName sel \<noteq> ''Redirect'' then Inr None
        else (case identOf x of
                None \<Rightarrow> Inr None
              | Some i \<Rightarrow>
                  (case namedOf (deref (idType i)) of
                     None \<Rightarrow> Inr None
                   | Some (pkg, n, _) \<Rightarrow>
                       (if pkg \<noteq> Some bpfPkgPath then Inr None
                        else if n \<notin> set redirectMapTypes then Inr None
                        else if length fargs \<noteq> 3 then errorf e p (n @ ''.Redirect expects (ctx, key, flags)'')
                        else rbind (fargs ! 1) (\<lambda>key. rbind (fargs ! 2) (\<lambda>flags.
                          Inr (Some (''bpf_redirect_map(&'' @ idName i @ '', '' @ key @ '', '' @ flags @ '')''))))))))) "

definition storageMapInfo :: "expr \<Rightarrow> (string \<times> gotype \<times> string) option" where
  "storageMapInfo x = (case identOf x of
     None \<Rightarrow> None
   | Some i \<Rightarrow>
       (case namedOf (deref (idType i)) of
          Some (pkg, n, [t]) \<Rightarrow>
            (if pkg \<noteq> Some bpfPkgPath then None
             else if map_of storageMapHelpers n = None then None
             else Some (idName i, t, n))
        | _ \<Rightarrow> None))"

definition storageHelpersOf :: "string \<Rightarrow> storageHelpers" where
  "storageHelpersOf scope = (case map_of storageMapHelpers scope of
     Some h \<Rightarrow> h | None \<Rightarrow> \<lparr>GetFn = [], DeleteFn = []\<rparr>)"

definition storageMethodCall :: "emitter \<Rightarrow> pos \<Rightarrow> expr \<Rightarrow> string res list \<Rightarrow> string option res" where
  "storageMethodCall e p f fargs = (case selectorOf f of
     None \<Rightarrow> Inr None
   | Some (x, sel) \<Rightarrow>
       (case storageMapInfo x of
          None \<Rightarrow> Inr None
        | Some (mapName, _, scope) \<Rightarrow>
            (let helpers = storageHelpersOf scope; name = idName sel
             in if name = ''GetOrCreate'' then
                  (if length fargs \<noteq> 2 then errorf e p (scope @ ''.GetOrCreate expects (obj, *V)'')
                   else rbind (fargs ! 0) (\<lambda>obj. rbind (fargs ! 1) (\<lambda>val.
                     Inr (Some (GetFn helpers @ ''(&'' @ mapName @ '', '' @ obj @ '', '' @ val
                                @ '', BPF_LOCAL_STORAGE_GET_F_CREATE)'')))))
                else if name = ''Delete'' then
                  (if length fargs \<noteq> 1 then errorf e p (scope @ ''.Delete expects (obj)'')
                   else rbind (fargs ! 0) (\<lambda>obj.
                     Inr (Some (DeleteFn helpers @ ''(&'' @ mapName @ '', '' @ obj @ '')''))))
                else if name = ''Get'' then
                  (if length fargs \<noteq> 1 then errorf e p (scope @ ''.Get expects (obj)'')
                   else rbind (fargs ! 0) (\<lambda>obj.
                     Inr (Some (GetFn helpers @ ''(&'' @ mapName @ '', '' @ obj @ '', NULL, 0)''))))
                else Inr None)))"

definition storageGetCall :: "expr \<Rightarrow> (string \<times> gotype \<times> string) option" where
  "storageGetCall f = (case selectorOf f of
     None \<Rightarrow> None
   | Some (x, sel) \<Rightarrow>
       (if idName sel \<noteq> ''Get'' then None
        else (case storageMapInfo x of
                None \<Rightarrow> None
              | Some (mapName, t, scope) \<Rightarrow> Some (mapName, t, GetFn (storageHelpersOf scope)))))"

definition mapMethodCall :: "expr \<Rightarrow> (string \<times> gotype \<times> string) option" where
  "mapMethodCall f = (case selectorOf f of
     None \<Rightarrow> None
   | Some (x, sel) \<Rightarrow>
       (case map_of mapMethodToHelper (idName sel) of
          None \<Rightarrow> None
        | Some helper \<Rightarrow>
            (case identOf x of
               None \<Rightarrow> None
             | Some i \<Rightarrow>
                 (case namedOf (idType i) of
                    Some (pkg, n, [k, v]) \<Rightarrow> if isMapNamed pkg n then Some (idName i, v, helper) else None
                  | _ \<Rightarrow> None))))"

definition mapLookupCall :: "expr \<Rightarrow> (string \<times> gotype) option" where
  "mapLookupCall f = (case (mapMethodCall f, selectorOf f) of
     (Some (mapName, t, _), Some (_, sel)) \<Rightarrow> if idName sel \<noteq> ''Lookup'' then None else Some (mapName, t)
   | _ \<Rightarrow> None)"

section \<open>Fields of kernel structs\<close>

definition parseBpfTag :: "string \<Rightarrow> string" where
  "parseBpfTag tg =
     (let key = ''bpf:'' @ [CHR 0x22]
      in case indexStr tg key of
           None \<Rightarrow> []
         | Some idx \<Rightarrow>
             (let rest = drop (idx + length key) tg
              in case indexByte rest CHR 0x22 of None \<Rightarrow> [] | Some end' \<Rightarrow> take end' rest))"

definition goCamelToSnake :: "string \<Rightarrow> string" where
  "goCamelToSnake s = snakeFrom 0 s"

definition structFields :: "emitter \<Rightarrow> gotype \<Rightarrow> structField list option" where
  "structFields e t = (case Underlying (eprog e) t of Struct fs \<Rightarrow> Some fs | _ \<Rightarrow> None)"

definition bpfFieldNameTag :: "emitter \<Rightarrow> gotype \<Rightarrow> string \<Rightarrow> string" where
  "bpfFieldNameTag e t goName = (case structFields e t of
     None \<Rightarrow> []
   | Some fs \<Rightarrow> (case filter (\<lambda>(n, _, _). n = goName) fs of [] \<Rightarrow> [] | (_, _, tg) # _ \<Rightarrow> parseBpfTag tg))"

definition lookupKernelField :: "emitter \<Rightarrow> gotype \<Rightarrow> string \<Rightarrow> string option" where
  "lookupKernelField e t goName = (case structFields e t of
     None \<Rightarrow> None
   | Some fs \<Rightarrow>
       (case filter (\<lambda>(n, _, _). n = goName) fs of
          [] \<Rightarrow> None
        | (_, _, tg) # _ \<Rightarrow> (if parseBpfTag tg \<noteq> [] then Some (parseBpfTag tg) else Some (goCamelToSnake goName))))"

definition isKernelContextStruct :: "string option \<Rightarrow> string \<Rightarrow> bool" where
  "isKernelContextStruct pkg n = (case bpfPackageTypeInfo pkg n of Some info \<Rightarrow> fieldsCORE info | None \<Rightarrow> False)"

definition kernelStructType :: "expr \<Rightarrow> (string option \<times> string \<times> gotype list) option" where
  "kernelStructType x = (case namedOf (deref (typeOf x)) of
     None \<Rightarrow> None
   | Some (pkg, n, ts) \<Rightarrow> if isKernelContextStruct pkg n then Some (pkg, n, ts) else None)"

text \<open>
  The loop of \<open>coreReadChain\<close>: \<open>Inr None\<close> is its early return, \<open>Inr (Some fields)\<close> its exit
  at the root of the chain, which is \<open>chainRoot\<close> of the selector.
\<close>

fun chainFields :: "emitter \<Rightarrow> expr \<Rightarrow> string list \<Rightarrow> string list option res" where
  "chainFields e (SelectorExpr m x sel) acc =
     (case kernelStructType x of
        None \<Rightarrow> Inr None
      | Some (pkg, n, ts) \<Rightarrow>
          (case lookupKernelField e (Named pkg n ts) (idName sel) of
             None \<Rightarrow> errorf e (fst m) (''field '' @ quote (idName sel) @ '' not declared on kernel struct '' @ n)
           | Some fieldName \<Rightarrow> chainFields e x (fieldName # acc)))"
| "chainFields e _ acc = Inr (Some acc)"

fun chainRoot :: "expr \<Rightarrow> expr" where
  "chainRoot (SelectorExpr _ x _) = chainRoot x"
| "chainRoot x = x"

definition coreReadChain :: "emitter \<Rightarrow> expr \<Rightarrow> string res \<Rightarrow> string option res" where
  "coreReadChain e sel base =
     rbind (chainFields e sel []) (\<lambda>chain.
       case chain of
         None \<Rightarrow> Inr None
       | Some [] \<Rightarrow> Inr None
       | Some fs \<Rightarrow> rbind base (\<lambda>b. Inr (Some (''BPF_CORE_READ('' @ joinWith '', '' (b # fs) @ '')''))))"

section \<open>Expressions\<close>

definition formatIdent :: "emitter \<Rightarrow> ident \<Rightarrow> string" where
  "formatIdent e i = (case idUse i of
     None \<Rightarrow> idName i
   | Some obj \<Rightarrow>
       (case aliases e obj of
          Some alias \<Rightarrow> alias
        | None \<Rightarrow> (case obj of ConstObj _ (Some v) \<Rightarrow> v | _ \<Rightarrow> idName i)))"

definition formatUnary :: "emitter \<Rightarrow> pos \<Rightarrow> tok \<Rightarrow> string res \<Rightarrow> string res" where
  "formatUnary e p op x = rbind x (\<lambda>inner.
     if op = NOT then Inr (''!'' @ inner)
     else if op = AND then Inr (''&'' @ inner)
     else if op = SUB then Inr (''-'' @ inner)
     else if op = XOR then Inr (''~'' @ inner)
     else errorf e p (''unsupported unary op '' @ quote (tokString op)))"

definition formatBinary :: "string res \<Rightarrow> tok \<Rightarrow> string res \<Rightarrow> string res" where
  "formatBinary x op y = rbind x (\<lambda>l. rbind y (\<lambda>r. Inr (l @ '' '' @ tokString op @ '' '' @ r)))"

text \<open>The C constant a selector on the \<open>bpf\<close> package stands for.\<close>

definition constantOf :: "expr \<Rightarrow> ident \<Rightarrow> string option" where
  "constantOf x sel = (case identOf x of
     None \<Rightarrow> None
   | Some i \<Rightarrow>
       (case idUse i of
          Some (PkgName _ path) \<Rightarrow> if path = bpfPkgPath then map_of bpfConstants (idName sel) else None
        | _ \<Rightarrow> None))"

definition fieldAccess :: "emitter \<Rightarrow> expr \<Rightarrow> ident \<Rightarrow> string \<Rightarrow> string" where
  "fieldAccess e x sel base = (case typeOf x of
     Some (Pointer t) \<Rightarrow>
       (let tg = (case t of Named _ _ _ \<Rightarrow> bpfFieldNameTag e t (idName sel) | _ \<Rightarrow> [])
        in base @ ''->'' @ (if tg \<noteq> [] then tg else idName sel))
   | _ \<Rightarrow> base @ ''.'' @ idName sel)"

definition formatSelector :: "emitter \<Rightarrow> meta \<Rightarrow> expr \<Rightarrow> ident \<Rightarrow> string res \<Rightarrow> string res \<Rightarrow> string res" where
  "formatSelector e m x sel base root = (case constantOf x sel of
     Some c \<Rightarrow> Inr c
   | None \<Rightarrow>
       rbind (coreReadChain e (SelectorExpr m x sel) root) (\<lambda>chain.
         case chain of
           Some c \<Rightarrow> Inr c
         | None \<Rightarrow> rbind base (\<lambda>b. Inr (fieldAccess e x sel b))))"

definition goBasicNameToC :: "(string \<times> string) list" where
  "goBasicNameToC =
     [(''bool'', ''bool''), (''int8'', ''__s8''), (''int16'', ''__s16''), (''int32'', ''__s32''),
      (''int64'', ''__s64''), (''uint8'', ''__u8''), (''uint16'', ''__u16''), (''uint32'', ''__u32''),
      (''uint64'', ''__u64'')]"

definition orElse :: "string option res \<Rightarrow> string res \<Rightarrow> string res" where
  "orElse r k = rbind r (\<lambda>c. case c of Some s \<Rightarrow> Inr s | None \<Rightarrow> k)"

definition isUnsafePointer :: "expr \<Rightarrow> bool" where
  "isUnsafePointer f = (case methodOn f of Some (i, name) \<Rightarrow> name = ''Pointer'' \<and> idName i = ''unsafe'' | None \<Rightarrow> False)"

definition callText :: "string \<Rightarrow> string list \<Rightarrow> string" where
  "callText fn args = fn @ ''('' @ joinWith '', '' args @ '')''"

text \<open>The resolution of a call, after the type conversions.\<close>

definition formatMapCall :: "string \<Rightarrow> string \<Rightarrow> string res list \<Rightarrow> string res" where
  "formatMapCall mapName helper fargs = rbind (rsequence fargs) (\<lambda>args.
     Inr (callText helper ((''&'' @ mapName) # args @ (if helper = ''bpf_map_update_elem'' then [''BPF_ANY''] else []))))"

definition formatHelperCall :: "string \<Rightarrow> string res list \<Rightarrow> string res" where
  "formatHelperCall name fargs = rbind (rsequence fargs) (\<lambda>args.
     case map_of bpfHelperExpansions name of
       Some expand \<Rightarrow> expand args
     | None \<Rightarrow> Inr (callText (case map_of bpfHelperFuncs name of
                             Some cName \<Rightarrow> cName | None \<Rightarrow> goNameToBpfHelper name) args))"

definition formatCall :: "emitter \<Rightarrow> pos \<Rightarrow> expr \<Rightarrow> string res \<Rightarrow> string res list \<Rightarrow> string res" where
  "formatCall e p f fn fargs =
     (case Option.bind (identOf f) (\<lambda>i. map_of goBasicNameToC (idName i)) of
        Some ct \<Rightarrow>
          (if length fargs \<noteq> 1 then errorf e p ''type conversion expects exactly one argument''
           else rbind (fargs ! 0) (\<lambda>inner. Inr (''('' @ ct @ '')('' @ inner @ '')'')))
      | None \<Rightarrow>
          (if isUnsafePointer f then
             (if length fargs \<noteq> 1 then errorf e p ''unsafe.Pointer expects exactly one argument''
              else fargs ! 0)
           else
             orElse (ringbufMethodCall e p f fargs) (
             orElse (queueLikeMethodCall e p f fargs) (
             orElse (progArrayMethodCall e p f fargs) (
             orElse (perfEventArrayMethodCall e p f fargs) (
             orElse (storageMethodCall e p f fargs) (
             orElse (redirectMapCall e p f fargs) (
             case mapMethodCall f of
               Some (mapName, _, helper) \<Rightarrow> formatMapCall mapName helper fargs
             | None \<Rightarrow>
                 (case bpfFuncName f of
                    Some name \<Rightarrow> formatHelperCall name fargs
                  | None \<Rightarrow> rbind fn (\<lambda>fnS. rbind (rsequence fargs) (\<lambda>args. Inr (callText fnS args)))))))))))) "

lemma chainRoot_size: "size (chainRoot x) \<le> size x"
  by (induction x rule: chainRoot.induct) auto

function (sequential) formatExpr :: "emitter \<Rightarrow> expr \<Rightarrow> string res" where
  "formatExpr e (BasicLit m k v) = Inr v"
| "formatExpr e (IdentE i) = Inr (formatIdent e i)"
| "formatExpr e (SelectorExpr m x sel) =
     formatSelector e m x sel (formatExpr e x) (formatExpr e (chainRoot x))"
| "formatExpr e (UnaryExpr m op x) = formatUnary e (fst m) op (formatExpr e x)"
| "formatExpr e (BinaryExpr m x op y) = formatBinary (formatExpr e x) op (formatExpr e y)"
| "formatExpr e (CallExpr m f args) = formatCall e (fst m) f (formatExpr e f) (map (formatExpr e) args)"
| "formatExpr e (ParenExpr m x) = rbind (formatExpr e x) (\<lambda>inner. Inr (''('' @ inner @ '')''))"
| "formatExpr e (IndexExpr m x i) =
     rbind (formatExpr e x) (\<lambda>base. rbind (formatExpr e i) (\<lambda>idx. Inr (base @ ''['' @ idx @ '']'')))"
| "formatExpr e (StarExpr m x) = rbind (formatExpr e x) (\<lambda>inner. Inr (''*'' @ inner))"
| "formatExpr e x = errorf e (exprPos x) (''unsupported expression '' @ exprTypeName x)"
  by pat_completeness auto
termination
  by (relation "measure (\<lambda>(e, x). size x)")
     (auto simp: less_Suc_eq_le chainRoot_size dest!: size_list_estimation'[where f = size, OF _ order.refl])

section \<open>Direct field access\<close>

text \<open>No type of the table asks for \<^verbatim>\<open>BPF_CORE_READ\<close>, so the chain is never used.\<close>

lemma bpfPackageTypes_direct: "bpfPackageTypeInfo pkg n = Some info \<Longrightarrow> \<not> fieldsCORE info"
proof -
  have *: "\<forall>(g, i) \<in> set bpfPackageTypes. \<not> fieldsCORE i" by code_simp
  assume "bpfPackageTypeInfo pkg n = Some info"
  then have "(n, info) \<in> set bpfPackageTypes" by (auto simp: bpfPackageTypeInfo_def dest: map_of_SomeD split: if_splits)
  with * show ?thesis by auto
qed

lemma isKernelContextStruct_False: "\<not> isKernelContextStruct pkg n"
  using bpfPackageTypes_direct by (auto simp: isKernelContextStruct_def split: option.splits)

lemma kernelStructType_None: "kernelStructType x = None"
  by (simp add: kernelStructType_def isKernelContextStruct_False split: option.splits)

lemma coreReadChain_None: "coreReadChain e (SelectorExpr m x sel) base = Inr None"
  by (simp add: coreReadChain_def kernelStructType_None)

text \<open>A name with no entry in the two tables goes through the name translation.\<close>

lemma rsequence_Inr: "rsequence (map Inr xs) = Inr xs"
  by (induction xs) simp_all

lemma formatHelperCall_plain:
  assumes "name \<notin> set (map fst bpfHelperExpansions @ map fst bpfHelperFuncs)"
  shows "formatHelperCall name (map Inr args) = Inr (callText (goNameToBpfHelper name) args)"
proof -
  have "map_of bpfHelperExpansions name = None" "map_of bpfHelperFuncs name = None"
    using assms by (simp_all add: map_of_eq_None_iff)
  then show ?thesis by (simp add: formatHelperCall_def rsequence_Inr)
qed

end
