(* ===== verification/Emit_Stmt.thy ===== *)
theory Emit_Stmt
  imports Emit_Expr
begin

text \<open>
  The statement half of \<^verbatim>\<open>internal/transpile/emit.go\<close>: writing text, recording positions and
  rendering Go statements as C.  The mutable emitter is passed explicitly; an error stops
  the emission.
\<close>

section \<open>Writing\<close>

text \<open>\<open>fmt.Sprintf\<close> is applied already: \<open>writef\<close> receives the formatted text.\<close>

definition writef :: "string \<Rightarrow> emitter \<Rightarrow> emitter" where
  "writef s e = e\<lparr>cLine := cLine e + countNL s, ebuf := ebuf e @ s\<rparr>"

definition writeln :: "string \<Rightarrow> emitter \<Rightarrow> emitter" where
  "writeln s e = e\<lparr>ebuf := ebuf e @ s @ [newline], cLine := cLine e + 1\<rparr>"

definition writeIndent :: "emitter \<Rightarrow> emitter" where
  "writeIndent e = e\<lparr>ebuf := ebuf e @ replicate (eindent e) tab\<rparr>"

definition writeRaw :: "string \<Rightarrow> emitter \<Rightarrow> emitter" where
  "writeRaw s e = e\<lparr>cLine := cLine e + countNL s, ebuf := ebuf e @ s\<rparr>"

text \<open>\<open>pos.IsValid()\<close> is \<open>pos \<noteq> token.NoPos\<close>.\<close>

definition recordPos :: "pos \<Rightarrow> emitter \<Rightarrow> emitter" where
  "recordPos p e =
     (if p = 0 then e
      else e\<lparr>mappings := mappings e @ [\<lparr>CLine = cLine e, SPosition = FileSet (eprog e) p\<rparr>]\<rparr>)"

definition incIndent :: "emitter \<Rightarrow> emitter" where
  "incIndent e = e\<lparr>eindent := eindent e + 1\<rparr>"

definition decIndent :: "emitter \<Rightarrow> emitter" where
  "decIndent e = e\<lparr>eindent := eindent e - 1\<rparr>"

definition declString :: "string \<Rightarrow> string \<Rightarrow> string" where
  "declString ct name = (if hasSuffix ct ''*'' then ct @ name else ct @ '' '' @ name)"

definition resolveLHSName :: "ident \<Rightarrow> string \<Rightarrow> emitter \<Rightarrow> string \<times> emitter" where
  "resolveLHSName i pre e =
     (if idName i \<noteq> ''_'' then (idName i, e)
      else let e' = e\<lparr>tmpSeq := tmpSeq e + 1\<rparr> in (''_'' @ pre @ itoa (tmpSeq e'), e'))"

definition addAlias :: "ident \<Rightarrow> string \<Rightarrow> emitter \<Rightarrow> emitter" where
  "addAlias okIdent name e = (case idDef okIdent of
     None \<Rightarrow> e
   | Some obj \<Rightarrow> e\<lparr>aliases := (aliases e)(obj \<mapsto> name)\<rparr>)"

section \<open>Assignments\<close>

text \<open>
  The common shape of the three comma-ok forms: the declaration of a pointer, whose
  initialiser \<open>rhs\<close> is known, and the alias that makes \<open>ok\<close> its truth value.
\<close>

definition writeCommaOk :: "pos \<Rightarrow> expr list \<Rightarrow> string \<Rightarrow> string \<Rightarrow> gotype \<Rightarrow>
    (string \<Rightarrow> string res) \<Rightarrow> emitter \<Rightarrow> emitter res" where
  "writeCommaOk p lhs what pre valType rhs e =
     rbind (goTypeToC valType) (\<lambda>valC.
       case identOf (lhs ! 0) of
         None \<Rightarrow> errorf e p (what @ '' target must be an identifier'')
       | Some valIdent \<Rightarrow>
           (case identOf (lhs ! 1) of
              None \<Rightarrow> errorf e p (what @ '' ok target must be an identifier'')
            | Some okIdent \<Rightarrow>
                rbind (rhs valC) (\<lambda>init.
                  case resolveLHSName valIdent pre e of (valName, e1) \<Rightarrow>
                    Inr (addAlias okIdent valName
                      (writef (valC @ '' *'' @ valName @ '' = '' @ init @ '';'' @ [newline]) (writeIndent e1))))))"

definition oneArg :: "emitter \<Rightarrow> pos \<Rightarrow> string \<Rightarrow> expr list \<Rightarrow> string res" where
  "oneArg e p method args =
     (if length args \<noteq> 1 then errorf e p (method @ '' expects 1 argument'') else formatExpr e (args ! 0))"

definition writeMapLookup :: "pos \<Rightarrow> expr list \<Rightarrow> pos \<Rightarrow> expr list \<Rightarrow> string \<Rightarrow> gotype \<Rightarrow> emitter \<Rightarrow> emitter res" where
  "writeMapLookup p lhs cp args mapName valType e =
     writeCommaOk p lhs ''map lookup'' ''lookup'' valType (\<lambda>valC.
       rbind (oneArg e cp ''Lookup'' args) (\<lambda>key.
         Inr (''bpf_map_lookup_elem(&'' @ mapName @ '', '' @ key @ '')''))) e"

definition writeStorageGet :: "pos \<Rightarrow> expr list \<Rightarrow> pos \<Rightarrow> expr list \<Rightarrow> string \<Rightarrow> gotype \<Rightarrow> string \<Rightarrow> emitter \<Rightarrow> emitter res" where
  "writeStorageGet p lhs cp args mapName valType helperFn e =
     writeCommaOk p lhs ''storage Get'' ''get'' valType (\<lambda>valC.
       rbind (oneArg e cp ''Get'' args) (\<lambda>obj.
         Inr (helperFn @ ''(&'' @ mapName @ '', '' @ obj @ '', NULL, 0)''))) e"

definition writeRingbufReserve :: "pos \<Rightarrow> expr list \<Rightarrow> string \<Rightarrow> gotype \<Rightarrow> emitter \<Rightarrow> emitter res" where
  "writeRingbufReserve p lhs mapName valType e =
     writeCommaOk p lhs ''Reserve'' ''reserve'' valType (\<lambda>valC.
       Inr (''bpf_ringbuf_reserve(&'' @ mapName @ '', sizeof('' @ valC @ ''), 0)'')) e"

definition commaOkError :: "emitter \<Rightarrow> pos \<Rightarrow> emitter res" where
  "commaOkError e p = errorf e p ''only map Lookup, RingBuf Reserve, or storage Get may be used with comma-ok''"

definition compoundAssign :: "tok list" where
  "compoundAssign = [ADD_ASSIGN, SUB_ASSIGN, MUL_ASSIGN, QUO_ASSIGN, REM_ASSIGN, AND_ASSIGN, OR_ASSIGN,
     XOR_ASSIGN, SHL_ASSIGN, SHR_ASSIGN]"

text \<open>The comma-ok form \<open>v, ok := call\<close>.\<close>

definition writeCommaOkAssign :: "pos \<Rightarrow> expr list \<Rightarrow> expr \<Rightarrow> emitter \<Rightarrow> emitter res" where
  "writeCommaOkAssign p lhs rhs e = (case rhs of
     CallExpr m f args \<Rightarrow>
       (case mapLookupCall f of
          Some (mapName, t) \<Rightarrow> writeMapLookup p lhs (fst m) args mapName t e
        | None \<Rightarrow>
            (case ringbufReserveCall f of
               Some (mapName, t) \<Rightarrow> writeRingbufReserve p lhs mapName t e
             | None \<Rightarrow>
                 (case storageGetCall f of
                    Some (mapName, t, helper) \<Rightarrow> writeStorageGet p lhs (fst m) args mapName t helper e
                  | None \<Rightarrow> commaOkError e p)))
   | _ \<Rightarrow> commaOkError e p)"

definition writeAssignStmt :: "pos \<Rightarrow> expr list \<Rightarrow> tok \<Rightarrow> expr list \<Rightarrow> emitter \<Rightarrow> emitter res" where
  "writeAssignStmt p lhs op rhs e =
     (if op = DEFINE \<and> length lhs = 2 \<and> length rhs = 1 then writeCommaOkAssign p lhs (rhs ! 0) e
      else if length lhs \<noteq> 1 \<or> length rhs \<noteq> 1 then errorf e p ''multi-value assignment not supported''
      else
        rbind (formatExpr e (lhs ! 0)) (\<lambda>l.
        rbind (formatExpr e (rhs ! 0)) (\<lambda>r.
          let e1 = writeIndent e
          in if op = DEFINE then
               (case identOf (lhs ! 0) of
                  None \<Rightarrow> errorf e p '':= requires an identifier on the left''
                | Some i \<Rightarrow>
                    rbind (goTypeToCOpt (idType i)) (\<lambda>ct.
                      Inr (writef (declString ct (idName i) @ '' = '' @ r @ '';'' @ [newline]) e1)))
             else if op = ASSIGN then Inr (writef (l @ '' = '' @ r @ '';'' @ [newline]) e1)
             else if op \<in> set compoundAssign then
               Inr (writef (l @ '' '' @ tokString op @ '' '' @ r @ '';'' @ [newline]) e1)
             else errorf e p (''unsupported assignment '' @ quote (tokString op)))))"

section \<open>Declarations and simple statements\<close>

definition writeVar :: "expr list \<Rightarrow> nat \<times> ident \<Rightarrow> emitter \<Rightarrow> emitter res" where
  "writeVar vals iname e = (case iname of (i, name) \<Rightarrow>
     (case goTypeToCOpt (idType name) of
        Inl err \<Rightarrow> (if idType name = None then Inl err else errorf e (idPos name) err)
      | Inr ct \<Rightarrow>
          (let e1 = writeIndent e
           in if i < length vals then
                rbind (formatExpr e1 (vals ! i)) (\<lambda>v.
                  Inr (writef (declString ct (idName name) @ '' = '' @ v @ '';'' @ [newline]) e1))
              else Inr (writef (declString ct (idName name) @ '';'' @ [newline]) e1))))"

definition writeVarSpec :: "spec \<Rightarrow> emitter \<Rightarrow> emitter res" where
  "writeVarSpec sp e = (case sp of
     ValueSpec _ names _ vals \<Rightarrow> rfold (writeVar vals) (zip [0..<length names] names) e
   | _ \<Rightarrow> Inl ''panic: interface conversion'')"

definition writeDeclStmt :: "pos \<Rightarrow> tok \<Rightarrow> spec list \<Rightarrow> emitter \<Rightarrow> emitter res" where
  "writeDeclStmt p t specs e =
     (if t \<noteq> VAR_kw then errorf e p ''only var decls are supported in function bodies''
      else rfold writeVarSpec specs e)"

definition writeReturnStmt :: "pos \<Rightarrow> expr list \<Rightarrow> emitter \<Rightarrow> emitter res" where
  "writeReturnStmt p results e = (case results of
     [] \<Rightarrow> Inr (writeln ''return;'' (writeIndent e))
   | [x] \<Rightarrow> rbind (formatExpr e x) (\<lambda>v. Inr (writef (''return '' @ v @ '';'' @ [newline]) (writeIndent e)))
   | _ \<Rightarrow> errorf e p ''multi-value return not supported'')"

definition writeExprStmt :: "expr \<Rightarrow> emitter \<Rightarrow> emitter res" where
  "writeExprStmt x e = rbind (formatExpr e x) (\<lambda>v. Inr (writef (v @ '';'' @ [newline]) (writeIndent e)))"

definition writeIncDec :: "expr \<Rightarrow> tok \<Rightarrow> emitter \<Rightarrow> emitter res" where
  "writeIncDec x t e =
     (let e1 = writeIndent e
      in rbind (formatExpr e1 x) (\<lambda>v. Inr (writef (v @ (if t = DEC then ''--'' else ''++'') @ '';'' @ [newline]) e1)))"

definition formatForClause :: "emitter \<Rightarrow> stmt \<Rightarrow> string res" where
  "formatForClause e s = (case s of
     AssignStmt p lhs op rhs \<Rightarrow>
       (if length lhs \<noteq> 1 \<or> length rhs \<noteq> 1 then errorf e p ''for clauses must be single assignment''
        else rbind (formatExpr e (rhs ! 0)) (\<lambda>r.
          if op = DEFINE then
            (case identOf (lhs ! 0) of
               None \<Rightarrow> Inl ''panic: interface conversion''
             | Some i \<Rightarrow> rbind (goTypeToCOpt (idType i)) (\<lambda>ct. Inr (declString ct (idName i) @ '' = '' @ r)))
          else rbind (formatExpr e (lhs ! 0)) (\<lambda>l. Inr (l @ '' '' @ tokString op @ '' '' @ r))))
   | IncDecStmt p x t \<Rightarrow> rbind (formatExpr e x) (\<lambda>base. Inr (base @ (if t = INC then ''++'' else ''--'')))
   | _ \<Rightarrow> errorf e (stmtPos s) (''unsupported for clause '' @ stmtTypeName s))"

section \<open>Statements\<close>

text \<open>A block body between an opening line and the closing brace, one level deeper.\<close>

definition nested :: "(emitter \<Rightarrow> emitter res) \<Rightarrow> emitter \<Rightarrow> emitter res" where
  "nested body e = rbind (body (incIndent e)) (\<lambda>e'. Inr (writeIndent (decIndent e')))"

lemma nested_cong [fundef_cong]: "e = e' \<Longrightarrow> (\<And>x. body x = body' x) \<Longrightarrow> nested body e = nested body' e'"
  by (simp add: nested_def)

text \<open>
  In \<open>writeIfStmt\<close>, for an \<open>else if\<close> the code writes the condition and the body of the inner
  statement; the inner statement's own \<open>else\<close> builds a node that is thrown away.
\<close>

function (sequential) writeStmt :: "stmt \<Rightarrow> emitter \<Rightarrow> emitter res"
  and writeBlock :: "stmt list \<Rightarrow> emitter \<Rightarrow> emitter res"
  and writeIfStmt :: "pos \<Rightarrow> stmt option \<Rightarrow> expr \<Rightarrow> stmt list \<Rightarrow> stmt option \<Rightarrow> emitter \<Rightarrow> emitter res"
  and writeElse :: "pos \<Rightarrow> stmt \<Rightarrow> emitter \<Rightarrow> emitter res"
  and writeForStmt :: "pos \<Rightarrow> stmt option \<Rightarrow> expr option \<Rightarrow> stmt option \<Rightarrow> stmt list \<Rightarrow> emitter \<Rightarrow> emitter res" where
  "writeStmt (DeclStmt p t specs) e = writeDeclStmt p t specs (recordPos p e)"
| "writeStmt (AssignStmt p lhs op rhs) e = writeAssignStmt p lhs op rhs (recordPos p e)"
| "writeStmt (IfStmt p init cond body els) e = writeIfStmt p init cond body els (recordPos p e)"
| "writeStmt (ReturnStmt p results) e = writeReturnStmt p results (recordPos p e)"
| "writeStmt (ExprStmt p x) e = writeExprStmt x (recordPos p e)"
| "writeStmt (ForStmt p init cond post body) e = writeForStmt p init cond post body (recordPos p e)"
| "writeStmt (BlockStmt p body) e =
     rbind (nested (writeBlock body) (writeln ''{'' (writeIndent (recordPos p e)))) (\<lambda>e2. Inr (writeln ''}'' e2))"
| "writeStmt (IncDecStmt p x t) e = writeIncDec x t (recordPos p e)"
| "writeStmt s e = errorf e (stmtPos s) (''unsupported statement type '' @ stmtTypeName s)"
| "writeBlock [] e = Inr e"
| "writeBlock (s # ss) e = rbind (writeStmt s e) (writeBlock ss)"
| "writeIfStmt p init cond body els e =
     (if init \<noteq> None then errorf e p ''if-init clauses are not supported''
      else rbind (formatExpr e cond) (\<lambda>c.
        rbind (nested (writeBlock body) (writef (''if ('' @ c @ '') {'' @ [newline]) (writeIndent e))) (\<lambda>e2.
          case els of None \<Rightarrow> Inr (writeln ''}'' e2) | Some el \<Rightarrow> writeElse p el e2)))"
| "writeElse p (IfStmt q init cond body els) e0 =
     (let e = writef ''} else '' e0
      in rbind (formatExpr e cond) (\<lambda>condE.
         rbind (nested (writeBlock body) (writef (''if ('' @ condE @ '') {'' @ [newline]) e)) (\<lambda>e2.
           Inr (writeln ''}'' e2))))"
| "writeElse p (BlockStmt q body) e0 =
     rbind (nested (writeBlock body) (writef (''} else {'' @ [newline]) e0)) (\<lambda>e2. Inr (writeln ''}'' e2))"
| "writeElse p s e = errorf e p (''unsupported else clause '' @ stmtTypeName s)"
| "writeForStmt p init cond post body e =
     (case (init, cond, post) of
        (Some i, Some c, Some q) \<Rightarrow>
          rbind (formatForClause e i) (\<lambda>initStr.
          rbind (formatExpr e c) (\<lambda>condStr.
          rbind (formatForClause e q) (\<lambda>postStr.
          rbind (nested (writeBlock body)
                  (writef (''for ('' @ initStr @ ''; '' @ condStr @ ''; '' @ postStr @ '') {'' @ [newline]) (writeIndent e)))
            (\<lambda>e2. Inr (writeln ''}'' e2)))))
      | _ \<Rightarrow> errorf e p ''for loops must have init, condition, and post clauses'')"
  by pat_completeness auto
termination
  by (relation "measure (\<lambda>x. case x of
        Inl (Inl (s, e)) \<Rightarrow> 2 * size s
      | Inl (Inr (ss, e)) \<Rightarrow> 2 * size_list size ss
      | Inr (Inl (p, i, c, body, els, e)) \<Rightarrow> 2 * (size_list size body + size_option size els) + 1
      | Inr (Inr (Inl (p, s, e))) \<Rightarrow> 2 * size s
      | Inr (Inr (Inr (p, i, c, q, body, e))) \<Rightarrow> 2 * size_list size body + 1)") auto

end
