(* ===== verification/Emit_Program.thy ===== *)
theory Emit_Program
  imports Emit_Stmt
begin

text \<open>
  The top level of \<^verbatim>\<open>internal/transpile/emit.go\<close>: the header, the license, user types, maps,
  helper functions and programs, and \<open>Emit\<close> itself.
\<close>

section \<open>What the header needs\<close>

definition requiresVmlinuxParam :: "expr \<Rightarrow> bool" where
  "requiresVmlinuxParam ty = (case namedOf (deref (typeOf ty)) of
     None \<Rightarrow> False
   | Some (pkg, n, _) \<Rightarrow> (case bpfPackageTypeInfo pkg n of Some info \<Rightarrow> needsVmlinux info | None \<Rightarrow> False))"

definition fieldType :: "field \<Rightarrow> expr" where
  "fieldType fd = (case fd of Field _ t \<Rightarrow> t)"

definition fieldNames :: "field \<Rightarrow> ident list" where
  "fieldNames fd = (case fd of Field ns _ \<Rightarrow> ns)"

definition paramList :: "funcDecl \<Rightarrow> field list" where
  "paramList fd = (case fdParams fd of None \<Rightarrow> [] | Some fs \<Rightarrow> fs)"

definition bodyNodes :: "funcDecl \<Rightarrow> node list" where
  "bodyNodes fd = (case fdBody fd of None \<Rightarrow> [] | Some (_, b, _) \<Rightarrow> inspectBlock b)"

definition kernelFieldNode :: "node \<Rightarrow> bool" where
  "kernelFieldNode n = (case n of NE (SelectorExpr _ x _) \<Rightarrow> kernelStructType x \<noteq> None | _ \<Rightarrow> False)"

definition usesKernelFieldAccess :: "gprogram \<Rightarrow> bool" where
  "usesKernelFieldAccess prog = list_ex (\<lambda>p.
     list_ex (\<lambda>fd. requiresVmlinuxParam (fieldType fd)) (paramList (pfDecl p))
     \<or> list_ex kernelFieldNode (bodyNodes (pfDecl p))) (Programs prog)"

text \<open>The \<open>bpf\<close>-package function a node calls.\<close>

definition calledHelper :: "node \<Rightarrow> string option" where
  "calledHelper n = (case n of NE (CallExpr _ f _) \<Rightarrow> bpfFuncName f | _ \<Rightarrow> None)"

definition callsEndian :: "funcDecl \<Rightarrow> bool" where
  "callsEndian fd = list_ex (\<lambda>n. case calledHelper n of Some s \<Rightarrow> s \<in> set endianHelperNames | None \<Rightarrow> False) (bodyNodes fd)"

definition usesEndianHelpers :: "gprogram \<Rightarrow> bool" where
  "usesEndianHelpers prog \<longleftrightarrow>
     list_ex (\<lambda>p. callsEndian (pfDecl p)) (Programs prog) \<or> list_ex (\<lambda>h. callsEndian (hfDecl h)) (Helpers prog)"

definition addPrelude :: "node \<Rightarrow> string list \<Rightarrow> string list" where
  "addPrelude n out = (case calledHelper n of
     Some s \<Rightarrow> (if map_of bpfPreludeHelpers s \<noteq> None \<and> s \<notin> set out then out @ [s] else out)
   | None \<Rightarrow> out)"

definition usedPreludeHelpers :: "gprogram \<Rightarrow> string list" where
  "usedPreludeHelpers prog = fold (\<lambda>p. fold addPrelude (bodyNodes (pfDecl p))) (Programs prog) []"

section \<open>Sections of the output\<close>

definition writeHeader :: "string \<Rightarrow> bool \<Rightarrow> bool \<Rightarrow> emitter \<Rightarrow> emitter" where
  "writeHeader source withCoRE withEndian e0 =
     (let e1 = writeln ''// Code generated by gobee. DO NOT EDIT.'' e0;
          e2 = writef (''// source: '' @ source @ [newline, newline]) e1;
          e3 = (if withCoRE
                then writeln ''#include <bpf/bpf_core_read.h>'' (writeln ''#include <bpf/bpf_helpers.h>''
                       (writeln (''#include '' @ [CHR 0x22] @ ''vmlinux.h'' @ [CHR 0x22]) e2))
                else writeln ''#include <bpf/bpf_helpers.h>'' (writeln ''#include <linux/bpf.h>'' e2));
          e4 = (if withEndian then writeln ''#include <bpf/bpf_endian.h>'' e3 else e3)
      in writeln '''' e4)"

definition writeLicense :: "emitter \<Rightarrow> emitter" where
  "writeLicense e = writef (''char _license[] SEC('' @ quote ''license'' @ '') = '' @ quote (License (eprog e))
     @ '';'' @ [newline, newline]) e"

definition writePrelude :: "string \<Rightarrow> emitter \<Rightarrow> emitter" where
  "writePrelude name e = writeln '''' (writeRaw (case map_of bpfPreludeHelpers name of Some s \<Rightarrow> s | None \<Rightarrow> []) e)"

text \<open>The error of \<open>goTypeToC\<close> with a prefix; a nil type panics before the prefix is added.\<close>

definition typeAt :: "string \<Rightarrow> gotype option \<Rightarrow> string res" where
  "typeAt pre t = (case t of None \<Rightarrow> Inl nilPanic | Some ty \<Rightarrow> wrapErr pre (goTypeToC ty))"

definition writeField :: "userTypeDecl \<Rightarrow> structField \<Rightarrow> emitter \<Rightarrow> emitter res" where
  "writeField t fd e = (case fd of (name, ty, _) \<Rightarrow>
     (let e1 = writeIndent e; pre = positionString (utPos t) @ '': field '' @ name @ '': ''
      in case ty of
           Array el n \<Rightarrow>
             rbind (wrapErr pre (goTypeToC el)) (\<lambda>elemC.
               Inr (writef (elemC @ '' '' @ name @ ''['' @ itoa n @ ''];'' @ [newline]) e1))
         | _ \<Rightarrow>
             rbind (wrapErr pre (goTypeToC ty)) (\<lambda>ftype.
               Inr (writef (declString ftype name @ '';'' @ [newline]) e1))))"

definition writeUserType :: "userTypeDecl \<Rightarrow> emitter \<Rightarrow> emitter res" where
  "writeUserType t e0 =
     (let e = recordPos (utSpecPos t) e0
      in case Underlying (eprog e) (utType t) of
           Struct fs \<Rightarrow>
             rbind (rfold (writeField t) fs (incIndent (writef (''struct '' @ utName t @ '' {'' @ [newline]) e))) (\<lambda>e1.
               Inr (writeln '''' (writeln ''};'' (decIndent e1))))
         | _ \<Rightarrow> Inl (positionString (utPos t) @ '': user type '' @ utName t @ '' must be a struct''))"

text \<open>The \<open>__type\<close> lines of a map; the flag says that the map is complete (storage maps).\<close>

definition typeLine :: "string \<Rightarrow> string \<Rightarrow> string" where
  "typeLine k v = tab # ''__type('' @ k @ '', '' @ v @ '');''"

definition needValue :: "mapDecl \<Rightarrow> (string \<Rightarrow> emitter res) \<Rightarrow> emitter res" where
  "needValue m k =
     (let at = positionString (mdPos m)
      in case mdValType m of
           None \<Rightarrow> Inl (at @ '': map type '' @ quote (mdType m) @ '' requires a value type argument'')
         | Some v \<Rightarrow> rbind (wrapErr (at @ '': map value: '') (goTypeToC v)) k)"

definition mapEnd :: "mapDecl \<Rightarrow> emitter \<Rightarrow> emitter" where
  "mapEnd m e = writef (''} '' @ mdName m @ '' SEC('' @ quote ''.maps'' @ '');'' @ [newline, newline]) e"

definition maxEntries :: "mapDecl \<Rightarrow> emitter \<Rightarrow> emitter" where
  "maxEntries m e =
     (if mdMaxEntries m > 0
      then writef (tab # ''__uint(max_entries, '' @ itoa (nat (mdMaxEntries m)) @ '');'' @ [newline]) e else e)"

definition writeMap :: "mapDecl \<Rightarrow> emitter \<Rightarrow> emitter res" where
  "writeMap m e0 =
     (let e1 = (case mdSpecPos m of Some p \<Rightarrow> recordPos p e0 | None \<Rightarrow> e0); at = positionString (mdPos m)
      in case map_of mapTypeToC (mdType m) of
           None \<Rightarrow> Inl (at @ '': unsupported map type '' @ quote (mdType m))
         | Some ct \<Rightarrow>
             (let e = writef (tab # ''__uint(type, '' @ ct @ '');'' @ [newline]) (writeln ''struct {'' e1)
              in if mdType m = ''ringbuf'' then Inr (mapEnd m (maxEntries m e))
                 else if mdType m \<in> {''queue'', ''stack'', ''bloom_filter''} then
                   needValue m (\<lambda>valC. Inr (mapEnd m (maxEntries m (writef (typeLine ''value'' valC @ [newline]) e))))
                 else if mdType m \<in> {''prog_array'', ''perf_event_array'', ''devmap'', ''xskmap''} then
                   Inr (mapEnd m (maxEntries m
                     (writeln (typeLine ''value'' ''__u32'') (writeln (typeLine ''key'' ''__u32'') e))))
                 else if mdType m = ''cpumap'' then
                   Inr (mapEnd m (maxEntries m
                     (writeln (typeLine ''value'' ''struct bpf_cpumap_val'') (writeln (typeLine ''key'' ''__u32'') e))))
                 else if mdType m \<in> {''task_storage'', ''sk_storage'', ''inode_storage''} then
                   needValue m (\<lambda>valC.
                     Inr (mapEnd m (writef (typeLine ''value'' valC @ [newline])
                       (writeln (typeLine ''key'' ''int'')
                         (writeln (tab # ''__uint(map_flags, BPF_F_NO_PREALLOC);'') e)))))
                 else
                   (case mdKeyType m of
                      None \<Rightarrow> Inl (at @ '': map type '' @ quote (mdType m) @ '' requires key and value type arguments'')
                    | Some k \<Rightarrow>
                        rbind (wrapErr (at @ '': map key: '') (goTypeToC k)) (\<lambda>keyC.
                        rbind (typeAt (at @ '': map value: '') (mdValType m)) (\<lambda>valC.
                          Inr (mapEnd m (maxEntries m (writef (typeLine ''value'' valC @ [newline])
                            (writef (typeLine ''key'' keyC @ [newline]) e)))))))))"

section \<open>Functions\<close>

text \<open>The C return type of a helper: an error text follows the helper's position and name.\<close>

definition helperResult :: "helperFunc \<Rightarrow> string res" where
  "helperResult h =
     (let hd' = positionString (hfPos h) @ '': '' @ hfName h
      in case fdResults (hfDecl h) of
           None \<Rightarrow> Inr ''void''
         | Some (_, []) \<Rightarrow> Inr ''void''
         | Some (_, [r]) \<Rightarrow>
             (if length (fieldNames r) > 1 then Inl (hd' @ '': multiple return values are not supported'')
              else typeAt (hd' @ '' return: '') (typeOf (fieldType r)))
         | _ \<Rightarrow> Inl (hd' @ '': multiple return values are not supported''))"

definition helperParam :: "helperFunc \<Rightarrow> field \<Rightarrow> string list res" where
  "helperParam h fd =
     rbind (typeAt (positionString (hfPos h) @ '': '' @ hfName h @ '' param: '') (typeOf (fieldType fd))) (\<lambda>pc.
       Inr (if fieldNames fd = [] then [pc] else map (\<lambda>n. declString pc (idName n)) (fieldNames fd)))"

text \<open>\<open>e.writeBlock(fd.Body)\<close>, which panics on a nil body, then the closing brace.\<close>

definition writeBody :: "funcDecl \<Rightarrow> emitter \<Rightarrow> emitter res" where
  "writeBody fd e = (case fdBody fd of
     None \<Rightarrow> Inl nilPanic
   | Some (_, b, _) \<Rightarrow> rbind (writeBlock b (incIndent e)) (\<lambda>e1. Inr (writeln ''}'' (decIndent e1))))"

definition writeHelper :: "helperFunc \<Rightarrow> emitter \<Rightarrow> emitter res" where
  "writeHelper h e0 =
     (let e = recordPos (fdPos (hfDecl h)) e0
      in rbind (helperResult h) (\<lambda>retC.
         rbind (rmap (helperParam h) (paramList (hfDecl h))) (\<lambda>ps.
           let params = concat ps; pl = (if params = [] then ''void'' else joinWith '', '' params)
           in rbind (writeBody (hfDecl h)
                 (writef (''static __always_inline '' @ retC @ '' '' @ hfName h @ ''('' @ pl @ '') {'' @ [newline]) e))
               (\<lambda>e2. Inr (writeln '''' e2)))))"

definition writeProgram :: "programFunc \<Rightarrow> emitter \<Rightarrow> emitter res" where
  "writeProgram p e0 =
     (let e = writef (''SEC('' @ quote (pfSection p) @ '')'' @ [newline]) (recordPos (fdPos (pfDecl p)) e0);
          hd' = positionString (pfPos p) @ '': '' @ pfName p
      in case paramList (pfDecl p) of
           [param] \<Rightarrow>
             (case fieldNames param of
                [n] \<Rightarrow>
                  rbind (typeAt (hd' @ '' param: '') (typeOf (fieldType param))) (\<lambda>paramC.
                    writeBody (pfDecl p)
                      (writef (''int '' @ pfName p @ ''('' @ declString paramC (idName n) @ '') {'' @ [newline]) e))
              | _ \<Rightarrow> Inl (hd' @ '': expected single named parameter''))
         | _ \<Rightarrow> Inl (hd' @ '': expected exactly one parameter''))"

definition newEmitter :: "gprogram \<Rightarrow> emitter" where
  "newEmitter prog = \<lparr>eprog = prog, ebuf = [], eindent = 0, cLine = 1, mappings = [],
     aliases = Map.empty, tmpSeq = 0\<rparr>"

definition emitAll :: "gprogram \<Rightarrow> string \<Rightarrow> emitter \<Rightarrow> emitter res" where
  "emitAll prog sourceLabel e0 =
     (let e1 = writeHeader sourceLabel (usesKernelFieldAccess prog) (usesEndianHelpers prog) e0;
          e2 = writeLicense e1;
          e3 = fold writePrelude (usedPreludeHelpers prog) e2
      in rbind (rfold writeUserType (Types prog) e3) (\<lambda>e4.
         rbind (rfold writeMap (Maps prog) e4) (\<lambda>e5.
         rbind (rfold writeHelper (Helpers prog) e5) (\<lambda>e6.
           rfold writeProgram (Programs prog) e6))))"

definition Emit :: "gprogram \<Rightarrow> string \<Rightarrow> (string \<times> sourceMapping list) res" where
  "Emit prog sourceLabel =
     rbind (emitAll prog sourceLabel (newEmitter prog)) (\<lambda>e. Inr (ebuf e, mappings e))"

end
