(* ===== verification/Bindings.thy ===== *)
theory Bindings
  imports Program_IR Helper_Tables
begin

text \<open>
  \<^verbatim>\<open>internal/transpile/bindings.go\<close>: the Go file with typed accessors for the programs and
  maps of a unit.  One definition per part of the file; \<open>WriteBindings\<close> composes them in the
  order of the code, in a buffer (\<open>bindingsText\<close>), and hands the text to the writer it is given.  The
  printer of package \<^verbatim>\<open>go/printer\<close> and the writer are parameters.
\<close>

section \<open>Model\<close>

record bindingField =
  bfGo :: string
  bfELF :: string
  bfSection :: string

record attachHelper =
  ahField :: bindingField
  ahDoc :: string
  ahParams :: string
  ahBody :: string

definition noField :: bindingField where
  "noField = \<lparr>bfGo = [], bfELF = [], bfSection = []\<rparr>"

definition attachTo :: "string \<Rightarrow> string \<Rightarrow> string \<Rightarrow> attachHelper" where
  "attachTo doc params body = \<lparr>ahField = noField, ahDoc = doc, ahParams = params, ahBody = body\<rparr>"

definition attachFor :: "string \<Rightarrow> attachHelper option" where
  "attachFor section =
     (if section = ''xdp'' then
        Some (attachTo ''attaches the XDP program to the network interface with the given index.''
          ''ifindex int'' ''link.AttachXDP(link.XDPOptions{Program: $PROG, Interface: ifindex})'')
      else if hasPrefix section ''tracepoint/'' then
        (case splitN2 (CHR ''/'') (trimPrefix section ''tracepoint/'') of
           [cat, name] \<Rightarrow> Some (attachTo (''attaches the tracepoint '' @ cat @ ''/'' @ name @ ''.'') []
             (''link.Tracepoint('' @ quote cat @ '', '' @ quote name @ '', $PROG, nil)''))
         | _ \<Rightarrow> None)
      else if hasPrefix section ''kprobe/'' then
        (let symbol = trimPrefix section ''kprobe/''
         in Some (attachTo (''attaches the kprobe to '' @ symbol @ ''.'') []
              (''link.Kprobe('' @ quote symbol @ '', $PROG, nil)'')))
      else if hasPrefix section ''kretprobe/'' then
        (let symbol = trimPrefix section ''kretprobe/''
         in Some (attachTo (''attaches the kretprobe to '' @ symbol @ ''.'') []
              (''link.Kretprobe('' @ quote symbol @ '', $PROG, nil)'')))
      else None)"

text \<open>On bytes: a first byte that begins a longer rune is not between \<open>a\<close> and \<open>z\<close>.\<close>

fun pascalCase :: "string \<Rightarrow> string" where
  "pascalCase [] = []"
| "pascalCase (c # cs) = (if isLower c then toUpper c # cs else c # cs)"

text \<open>The three slices \<open>WriteBindings\<close> starts with.\<close>

definition progFields :: "gprogram \<Rightarrow> bindingField list" where
  "progFields prog = sortBy bfGo
     (map (\<lambda>p. \<lparr>bfGo = pascalCase (pfName p), bfELF = pfName p, bfSection = pfSection p\<rparr>) (Programs prog))"

definition attachers :: "gprogram \<Rightarrow> attachHelper list" where
  "attachers prog = List.map_filter
     (\<lambda>f. map_option (\<lambda>a. a\<lparr>ahField := f\<rparr>) (attachFor (bfSection f))) (progFields prog)"

definition mapFields :: "gprogram \<Rightarrow> bindingField list" where
  "mapFields prog = sortBy bfGo
     (map (\<lambda>m. \<lparr>bfGo = pascalCase (mdName m), bfELF = mdName m, bfSection = []\<rparr>) (Maps prog))"

definition bindingsHead :: "string \<Rightarrow> string \<Rightarrow> string \<Rightarrow> bool \<Rightarrow> string" where
  "bindingsHead pascal stem packageName needsLink =
     ''// Code generated by gobee. DO NOT EDIT.'' @ [newline] @ ''//'' @ [newline]
     @ ''// Typed accessors for the BPF programs and maps declared in '' @ (stem @ ''.go'') @ ''.'' @ [newline]
     @ ''// Use Load'' @ pascal @ '' with a *ebpf.CollectionSpec to populate this struct;'' @ [newline]
     @ ''// access programs and maps via objs.<Name> instead of'' @ [newline]
     @ ''// coll.Programs['' @ dq @ ''<name>'' @ dq @ ''] / coll.Maps['' @ dq @ ''<name>'' @ dq @ ''].'' @ [newline, newline]
     @ ''package '' @ packageName @ [newline, newline]
     @ ''import ('' @ [newline]
     @ [tab] @ dq @ ''errors'' @ dq @ [newline]
     @ [tab] @ dq @ ''fmt'' @ dq @ [newline]
     @ [tab] @ dq @ ''strings'' @ dq @ [newline]
     @ [newline]
     @ [tab] @ dq @ ''github.com/cilium/ebpf'' @ dq @ [newline]
     @ (if needsLink then [tab] @ dq @ ''github.com/cilium/ebpf/link'' @ dq @ [newline] else [])
     @ [newline]
     @ [tab] @ ''bpfvetanalyzer '' @ dq @ ''github.com/boratanrikulu/bpfvet/pkg/analyzer'' @ dq @ [newline]
     @ [tab] @ ''bpfvetversion '' @ dq @ ''github.com/boratanrikulu/bpfvet/pkg/version'' @ dq @ [newline]
     @ [tab] @ dq @ ''golang.org/x/sys/unix'' @ dq @ [newline]
     @ [newline]
     @ [tab] @ dq @ ''github.com/boratanrikulu/gobee/diagnose'' @ dq @ [newline]
     @ '')'' @ [newline, newline]"

definition programsStruct :: "string \<Rightarrow> bindingField list \<Rightarrow> string" where
  "programsStruct pascal fs =
     ''// '' @ pascal @ ''Programs holds one *ebpf.Program per //bpf:section function.'' @ [newline]
     @ ''type '' @ pascal @ ''Programs struct {'' @ [newline]
     @ concat (map (\<lambda>f. [tab] @ bfGo f @ '' *ebpf.Program '' @ [CHR 0x60] @ ''ebpf:'' @ quote (bfELF f) @ [CHR 0x60] @ [newline]) fs)
     @ ''}'' @ [newline, newline]"

definition mapsStruct :: "string \<Rightarrow> bindingField list \<Rightarrow> string" where
  "mapsStruct pascal fs =
     ''// '' @ pascal @ ''Maps holds one *ebpf.Map per package-level map declaration.'' @ [newline]
     @ ''type '' @ pascal @ ''Maps struct {'' @ [newline]
     @ concat (map (\<lambda>f. [tab] @ bfGo f @ '' *ebpf.Map '' @ [CHR 0x60] @ ''ebpf:'' @ quote (bfELF f) @ [CHR 0x60] @ [newline]) fs)
     @ ''}'' @ [newline, newline]"

definition objectsStruct :: "string \<Rightarrow> string" where
  "objectsStruct pascal =
     ''// '' @ pascal @ ''Objects bundles every program and map for one transpilation unit.'' @ [newline]
     @ ''type '' @ pascal @ ''Objects struct {'' @ [newline]
     @ [tab] @ pascal @ ''Programs'' @ [newline]
     @ [tab] @ pascal @ ''Maps'' @ [newline]
     @ ''}'' @ [newline, newline]"

definition closeField :: "bindingField \<Rightarrow> string" where
  "closeField f = [tab] @ ''if o.'' @ bfGo f @ '' != nil { errs = append(errs, o.'' @ bfGo f @ ''.Close()) }'' @ [newline]"

definition closeMethod :: "string \<Rightarrow> bindingField list \<Rightarrow> bindingField list \<Rightarrow> string" where
  "closeMethod pascal ms ps =
     ''// Close releases every map and program owned by o.'' @ [newline]
     @ ''func (o *'' @ pascal @ ''Objects) Close() error {'' @ [newline]
     @ [tab] @ ''var errs []error'' @ [newline]
     @ concat (map closeField ms) @ concat (map closeField ps)
     @ [tab] @ ''return errors.Join(errs...)'' @ [newline] @ ''}'' @ [newline, newline]"

definition loadFunc :: "string \<Rightarrow> string" where
  "loadFunc pascal =
     ''// Load'' @ pascal @ '' populates a fresh '' @ pascal @ ''Objects from spec. Before loading the'' @ [newline]
     @ ''// program into the kernel, it asks bpfvet what kernel version the'' @ [newline]
     @ ''// spec needs and compares against the running kernel. After loading,'' @ [newline]
     @ ''// any *ebpf.VerifierError is annotated with Go source positions from'' @ [newline]
     @ ''// the embedded sourcemap.'' @ [newline]
     @ ''func Load'' @ pascal @ ''(spec *ebpf.CollectionSpec) (*'' @ pascal @ ''Objects, error) {'' @ [newline]
     @ [tab] @ ''if err := check'' @ pascal @ ''Kernel(spec); err != nil {'' @ [newline]
     @ [tab, tab] @ ''return nil, err'' @ [newline]
     @ [tab] @ ''}'' @ [newline]
     @ [tab] @ ''objs := &'' @ pascal @ ''Objects{}'' @ [newline]
     @ [tab] @ ''if err := spec.LoadAndAssign(objs, nil); err != nil {'' @ [newline]
     @ [tab, tab] @ ''return nil, annotate'' @ pascal @ ''VerifierErr(err)'' @ [newline]
     @ [tab] @ ''}'' @ [newline]
     @ [tab] @ ''return objs, nil'' @ [newline] @ ''}'' @ [newline, newline]"

definition sourceMapDoc :: "string \<Rightarrow> string \<Rightarrow> string" where
  "sourceMapDoc pascal stem =
     ''// '' @ pascal @ ''SourceMap is the C-line '' @ [CHR 0xE2, CHR 0x86, CHR 0x92] @ '' Go-position table for '' @ stem @ ''.bpf.c. It'' @ [CHR 0x27] @ ''s'' @ [newline]
     @ ''// embedded so Load'' @ pascal @ '' can annotate verifier errors without shipping'' @ [newline]
     @ ''// the .map file alongside the binary.'' @ [newline]"

definition sourceMapVar :: "string \<Rightarrow> string \<Rightarrow> string \<Rightarrow> string" where
  "sourceMapVar pascal stem sourcemap =
     sourceMapDoc pascal stem
     @ ''var '' @ pascal @ ''SourceMap = '' @ [CHR 0x60] @ sourcemap @ [CHR 0x60] @ [newline, newline]"

definition annotateFunc :: "string \<Rightarrow> string" where
  "annotateFunc pascal =
     ''// annotate'' @ pascal @ ''VerifierErr wraps err. If err is a *ebpf.VerifierError,'' @ [newline]
     @ ''// every C-line reference in the verifier log is annotated with the'' @ [newline]
     @ ''// matching Go source position. Other errors pass through unchanged.'' @ [newline]
     @ ''func annotate'' @ pascal @ ''VerifierErr(err error) error {'' @ [newline]
     @ [tab] @ ''var verr *ebpf.VerifierError'' @ [newline]
     @ [tab] @ ''if !errors.As(err, &verr) {'' @ [newline]
     @ [tab, tab] @ ''return err'' @ [newline]
     @ [tab] @ ''}'' @ [newline]
     @ [tab] @ ''sm, perr := diagnose.ParseSourceMapBytes([]byte('' @ pascal @ ''SourceMap))'' @ [newline]
     @ [tab] @ ''if perr != nil {'' @ [newline]
     @ [tab, tab] @ ''return err // sourcemap parse failed; keep the original error'' @ [newline]
     @ [tab] @ ''}'' @ [newline]
     @ [tab] @ ''annotated := diagnose.AnnotateLines(verr.Log, sm)'' @ [newline]
     @ [tab] @ ''return fmt.Errorf('' @ dq @ ''%w'' @ bsl @ ''n'' @ bsl @ ''n----- annotated verifier log -----'' @ bsl @ ''n%s'' @ dq @ '', err, strings.Join(annotated, '' @ dq @ bsl @ ''n'' @ dq @ ''))'' @ [newline]
     @ ''}'' @ [newline]"

definition checkKernelFunc :: "string \<Rightarrow> string" where
  "checkKernelFunc pascal =
     ''func check'' @ pascal @ ''Kernel(spec *ebpf.CollectionSpec) error {'' @ [newline]
     @ [tab] @ ''rep, err := bpfvetanalyzer.AnalyzeSpec(spec)'' @ [newline]
     @ [tab] @ ''if err != nil || rep == nil {'' @ [newline]
     @ [tab, tab] @ ''return nil // can'' @ [CHR 0x27] @ ''t analyze; fall through to LoadAndAssign for a real error'' @ [newline]
     @ [tab] @ ''}'' @ [newline]
     @ [tab] @ ''running, ok := runningKernel()'' @ [newline]
     @ [tab] @ ''if !ok || !running.Less(rep.MinKernel) {'' @ [newline]
     @ [tab, tab] @ ''return nil'' @ [newline]
     @ [tab] @ ''}'' @ [newline]
     @ [tab] @ ''return fmt.Errorf('' @ dq @ ''bpf program needs kernel >= %s, host is %s'' @ dq @ '', rep.MinKernel, running)'' @ [newline]
     @ ''}'' @ [newline]"

text \<open>\<open>strings.Replace(s, old, new, 1)\<close> for a non-empty \<open>old\<close>.\<close>

definition replaceOne :: "string \<Rightarrow> string \<Rightarrow> string \<Rightarrow> string" where
  "replaceOne s old new = (case indexStr s old of
     None \<Rightarrow> s | Some i \<Rightarrow> take i s @ new @ drop (i + length old) s)"

definition attachMethod :: "string \<Rightarrow> attachHelper \<Rightarrow> string" where
  "attachMethod pascal a =
     [newline]
     @ ''// Attach'' @ bfGo (ahField a) @ '' '' @ ahDoc a @ [newline]
     @ ''func (o *'' @ pascal @ ''Objects) Attach'' @ bfGo (ahField a) @ ''('' @ ahParams a @ '') (link.Link, error) {'' @ [newline]
     @ [tab] @ ''return '' @ replaceOne (ahBody a) ''$PROG'' (''o.'' @ bfGo (ahField a)) @ [newline]
     @ ''}'' @ [newline]"

definition attachStep :: "attachHelper \<Rightarrow> string" where
  "attachStep a =
     (if bfSection (ahField a) = ''xdp'' then
     [tab] @ ''if xdpIfindex != 0 {'' @ [newline]
     @ [tab, tab] @ ''l, err := o.Attach'' @ bfGo (ahField a) @ ''(xdpIfindex)'' @ [newline]
     @ [tab, tab] @ ''if err != nil { cleanup(); return nil, fmt.Errorf('' @ dq @ ''attach '' @ bfGo (ahField a) @ '': %w'' @ dq @ '', err) }'' @ [newline]
     @ [tab, tab] @ ''ls = append(ls, l)'' @ [newline]
     @ [tab] @ ''}'' @ [newline]
      else
     [tab] @ ''if l, err := o.Attach'' @ bfGo (ahField a) @ ''(); err != nil {'' @ [newline]
     @ [tab, tab] @ ''cleanup(); return nil, fmt.Errorf('' @ dq @ ''attach '' @ bfGo (ahField a) @ '': %w'' @ dq @ '', err)'' @ [newline]
     @ [tab] @ ''} else { ls = append(ls, l) }'' @ [newline])"

definition attachAll :: "string \<Rightarrow> attachHelper list \<Rightarrow> string" where
  "attachAll pascal as =
     (if as = [] then [] else
     [newline]
     @ ''// AttachAll attaches every program whose //bpf:section gobee'' @ [newline]
     @ ''// understands. The returned slice is in declaration order; on'' @ [newline]
     @ ''// error any links already opened are closed before returning.'' @ [newline]
     @ (if list_ex (\<lambda>a. bfSection (ahField a) = ''xdp'') as then
     ''// xdpIfindex is the network interface index for XDP programs;'' @ [newline]
     @ ''// pass 0 to skip XDP attachment.'' @ [newline]
     @ ''func (o *'' @ pascal @ ''Objects) AttachAll(xdpIfindex int) ([]link.Link, error) {'' @ [newline]
        else
     ''func (o *'' @ pascal @ ''Objects) AttachAll() ([]link.Link, error) {'' @ [newline])
     @ [tab] @ ''var ls []link.Link'' @ [newline]
     @ [tab] @ ''cleanup := func() { for _, l := range ls { l.Close() } }'' @ [newline]
     @ concat (map attachStep as)
     @ [tab] @ ''return ls, nil'' @ [newline] @ ''}'' @ [newline])"

definition runningKernelFunc :: string where
  "runningKernelFunc =
     [newline]
     @ ''// runningKernel parses /proc/sys/kernel/osrelease via uname(2) and'' @ [newline]
     @ ''// returns the host'' @ [CHR 0x27] @ ''s kernel as a bpfvet KernelVersion. Returns'' @ [newline]
     @ ''// ok=false on any parse failure so callers fall through to the'' @ [newline]
     @ ''// regular load path.'' @ [newline]
     @ ''func runningKernel() (bpfvetversion.KernelVersion, bool) {'' @ [newline]
     @ [tab] @ ''var u unix.Utsname'' @ [newline]
     @ [tab] @ ''if err := unix.Uname(&u); err != nil {'' @ [newline]
     @ [tab, tab] @ ''return bpfvetversion.KernelVersion{}, false'' @ [newline]
     @ [tab] @ ''}'' @ [newline]
     @ [tab] @ ''release := unix.ByteSliceToString(u.Release[:])'' @ [newline]
     @ [tab] @ ''var major, minor int'' @ [newline]
     @ [tab] @ ''if _, err := fmt.Sscanf(release, '' @ dq @ ''%d.%d'' @ dq @ '', &major, &minor); err != nil {'' @ [newline]
     @ [tab, tab] @ ''return bpfvetversion.KernelVersion{}, false'' @ [newline]
     @ [tab] @ ''}'' @ [newline]
     @ [tab] @ ''return bpfvetversion.V(major, minor), true'' @ [newline]
     @ ''}'' @ [newline, newline]"

text \<open>\<open>printer.Fprint\<close> on a type specification and on an expression.\<close>

record goPrinter =
  printType :: "userTypeDecl \<Rightarrow> string res"
  printExpr :: "expr \<Rightarrow> string res"

definition publishType :: "goPrinter \<Rightarrow> userTypeDecl \<Rightarrow> string \<Rightarrow> string res" where
  "publishType gp t b =
     rbind (wrapErr (''print type '' @ utName t @ '': '') (printType gp t)) (\<lambda>s.
       Inr (b @ ''type '' @ s @ [newline, newline]))"

definition typesIntro :: string where
  "typesIntro =
     [newline] @ ''// User-defined types from the kernel-side program. Layout matches'' @ [newline]
     @ ''// the kernel struct so encoding/binary on the userspace side and'' @ [newline]
     @ ''// clang'' @ [CHR 0x27] @ ''s struct layout in the kernel agree byte-for-byte.'' @ [newline, newline]"

definition publishTypes :: "goPrinter \<Rightarrow> userTypeDecl list \<Rightarrow> string \<Rightarrow> string res" where
  "publishTypes gp ts b =
     (if ts = [] then Inr b
      else rfold (publishType gp) ts (b @ typesIntro))"

definition publishConst :: "goPrinter \<Rightarrow> userConstDecl \<Rightarrow> string \<Rightarrow> string res" where
  "publishConst gp c b =
     rbind (wrapErr (''print const '' @ ucName c @ '': '') (printExpr gp (ucValue c))) (\<lambda>s.
       Inr (b @ tab # pascalCase (ucName c) @ '' = '' @ s @ [newline]))"

definition constsIntro :: string where
  "constsIntro =
     ''// Constants mirrored from the kernel-side program. Capitalized so'' @ [newline]
     @ ''// userspace can reference them directly (kernel-side names may be'' @ [newline]
     @ ''// unexported; the bindings always export them).'' @ [newline]
     @ ''const ('' @ [newline]"

definition publishConsts :: "goPrinter \<Rightarrow> userConstDecl list \<Rightarrow> string \<Rightarrow> string res" where
  "publishConsts gp cs b =
     (if cs = [] then Inr b
      else rbind (rfold (publishConst gp) cs (b @ constsIntro))
        (\<lambda>b'. Inr (b' @ '')'' @ [newline])))"

text \<open>
  The text up to the user's types and constants, the whole text, or the error returned before anything
  is written, and \<open>WriteBindings\<close>, whose last statement hands the text to the writer.
\<close>

definition bindingsBody :: "gprogram \<Rightarrow> string \<Rightarrow> string \<Rightarrow> string \<Rightarrow> string" where
  "bindingsBody prog packageName stem sourcemap =
     (let pascal = pascalCase stem; ps = progFields prog; ms = mapFields prog; as = attachers prog
      in bindingsHead pascal stem packageName (length as > 0)
         @ programsStruct pascal ps @ mapsStruct pascal ms @ objectsStruct pascal
         @ closeMethod pascal ms ps @ loadFunc pascal @ sourceMapVar pascal stem sourcemap
         @ annotateFunc pascal @ checkKernelFunc pascal
         @ concat (map (attachMethod pascal) as) @ attachAll pascal as @ runningKernelFunc)"

definition bindingsText :: "goPrinter \<Rightarrow> gprogram \<Rightarrow> string \<Rightarrow> string \<Rightarrow> string \<Rightarrow> string res" where
  "bindingsText gp prog packageName stem sourcemap =
     (if packageName = [] then Inl ''WriteBindings: empty package name''
      else if stem = [] then Inl ''WriteBindings: empty stem''
      else rbind (publishTypes gp (Types prog) (bindingsBody prog packageName stem sourcemap))
             (publishConsts gp (Consts prog)))"

definition WriteBindings ::
  "goPrinter \<Rightarrow> 'w writer \<Rightarrow> gprogram \<Rightarrow> string \<Rightarrow> string \<Rightarrow> string \<Rightarrow> 'w \<Rightarrow> string option \<times> 'w" where
  "WriteBindings gp wr prog packageName stem sourcemap w =
     (case bindingsText gp prog packageName stem sourcemap of
        Inl e \<Rightarrow> (Some e, w)
      | Inr text \<Rightarrow> wr text w)"

section \<open>Which sections can be attached\<close>

text \<open>The sections \<open>attachFor\<close> knows, with the Go expression that attaches program \<open>p\<close>.\<close>

datatype attachPoint = XDP | Tracepoint string string | Kprobe string | Kretprobe string

fun sectionOf :: "attachPoint \<Rightarrow> string" where
  "sectionOf XDP = ''xdp''"
| "sectionOf (Tracepoint cat name) = ''tracepoint/'' @ cat @ ''/'' @ name"
| "sectionOf (Kprobe symbol) = ''kprobe/'' @ symbol"
| "sectionOf (Kretprobe symbol) = ''kretprobe/'' @ symbol"

fun attachExpr :: "attachPoint \<Rightarrow> string \<Rightarrow> string" where
  "attachExpr XDP p = ''link.AttachXDP(link.XDPOptions{Program: '' @ p @ '', Interface: ifindex})''"
| "attachExpr (Tracepoint cat name) p = ''link.Tracepoint('' @ quote cat @ '', '' @ quote name @ '', '' @ p @ '', nil)''"
| "attachExpr (Kprobe symbol) p = ''link.Kprobe('' @ quote symbol @ '', '' @ p @ '', nil)''"
| "attachExpr (Kretprobe symbol) p = ''link.Kretprobe('' @ quote symbol @ '', '' @ p @ '', nil)''"

fun pointOk :: "attachPoint \<Rightarrow> bool" where
  "pointOk (Tracepoint cat name) \<longleftrightarrow> CHR ''/'' \<notin> set cat"
| "pointOk _ \<longleftrightarrow> True"

lemma splitN2_two: "splitN2 d s = [a, b] \<longleftrightarrow> s = a @ d # b \<and> d \<notin> set a"
proof
  assume "splitN2 d s = [a, b]"
  then obtain x where r: "dropWhile (\<lambda>c. c \<noteq> d) s = x # b" and a: "a = takeWhile (\<lambda>c. c \<noteq> d) s"
    by (auto simp: splitN2_def split: list.splits)
  from r have "x = d" using hd_dropWhile[of "\<lambda>c. c \<noteq> d" s] by auto
  with r a show "s = a @ d # b \<and> d \<notin> set a"
    using takeWhile_dropWhile_id[of "\<lambda>c. c \<noteq> d" s] by (auto dest: set_takeWhileD)
next
  assume "s = a @ d # b \<and> d \<notin> set a"
  then show "splitN2 d s = [a, b]"
    by (auto simp: splitN2_def dropWhile_append takeWhile_append)
qed

lemma splitN2_slash: "CHR ''/'' \<notin> set cat \<Longrightarrow> splitN2 (CHR ''/'') (cat @ CHR ''/'' # name) = [cat, name]"
  by (simp add: splitN2_two)

lemma hasPrefixE: "hasPrefix s p \<Longrightarrow> (\<And>r. s = p @ r \<Longrightarrow> P) \<Longrightarrow> P"
  by (auto simp: hasPrefix_iff prefix_def)

lemma attachFor_point: "pointOk pt \<Longrightarrow> \<exists>a. attachFor (sectionOf pt) = Some a \<and> ahBody a = attachExpr pt ''$PROG''
    \<and> ahParams a = (if pt = XDP then ''ifindex int'' else [])"
  by (cases pt) (auto simp: attachFor_def attachTo_def hasPrefix_def trimPrefix_def splitN2_slash)

lemma attachFor_known: "attachFor section = Some a \<Longrightarrow> \<exists>pt. pointOk pt \<and> section = sectionOf pt"
proof -
  assume "attachFor section = Some a"
  then consider "section = ''xdp''" | cat name where "hasPrefix section ''tracepoint/''"
      "splitN2 (CHR ''/'') (trimPrefix section ''tracepoint/'') = [cat, name]"
    | "hasPrefix section ''kprobe/''" | "hasPrefix section ''kretprobe/''"
    by (auto simp: attachFor_def split: if_splits list.splits)
  then show ?thesis
  proof cases
    case 1
    then show ?thesis by (intro exI[of _ XDP]) simp
  next
    case 2
    then show ?thesis
      by (elim hasPrefixE, intro exI[of _ "Tracepoint cat name"]) (auto simp: splitN2_two trimPrefix_def hasPrefix_def)
  next
    case 3
    then show ?thesis by (elim hasPrefixE) (metis pointOk.simps(3) sectionOf.simps(3))
  next
    case 4
    then show ?thesis by (elim hasPrefixE) (metis pointOk.simps(4) sectionOf.simps(4))
  qed
qed

lemma attachFor_iff: "attachFor section \<noteq> None \<longleftrightarrow> (\<exists>pt. pointOk pt \<and> section = sectionOf pt)"
  using attachFor_point attachFor_known by (metis not_Some_eq)

text \<open>The placeholder is replaced by the field, unless the section itself has a dollar sign.\<close>

lemma indexStr_first:
  "x \<notin> set pre \<Longrightarrow> indexStr (pre @ x # t @ post) (x # t) = Some (length pre)"
proof (induction pre)
  case Nil
  then show ?case by (simp add: hasPrefix_def)
next
  case (Cons c pre)
  then show ?case by (auto simp: hasPrefix_def)
qed

lemma replaceOne_first: "x \<notin> set pre \<Longrightarrow> replaceOne (pre @ x # t @ post) (x # t) new = pre @ new @ post"
  using indexStr_first[of x pre t post] by (simp add: replaceOne_def)

lemma quoteChar_no_dollar: "c \<noteq> CHR ''$'' \<Longrightarrow> CHR ''$'' \<notin> set (quoteChar c)"
proof -
  have h: "hexChar d \<noteq> CHR ''$''" if "d < 16" for d :: nat
  proof
    assume "hexChar d = CHR ''$''"
    then have "of_char (hexChar d) = (36::nat)" by simp
    with that show False by (simp add: hexChar_def split: if_splits)
  qed
  have "of_char c div 16 < (16::nat)" using nat_of_char_less_256[of c] by linarith
  with h have "CHR ''$'' \<noteq> hexChar (of_char c div 16)" "CHR ''$'' \<noteq> hexChar (of_char c mod 16)"
    by (metis, metis mod_less_divisor zero_less_numeral)
  then show "c \<noteq> CHR ''$'' \<Longrightarrow> CHR ''$'' \<notin> set (quoteChar c)" by (auto simp: quoteChar_def)
qed

lemma quote_no_dollar: "CHR ''$'' \<notin> set s \<Longrightarrow> CHR ''$'' \<notin> set (quote s)"
proof (induction s)
  case Nil
  then show ?case by (simp add: quote_def)
next
  case (Cons c s)
  then show ?case using quoteChar_no_dollar[of c] by (auto simp: quote_def)
qed

lemma attachExpr_replace:
  assumes "CHR ''$'' \<notin> set (sectionOf pt)"
  shows "replaceOne (attachExpr pt ''$PROG'') ''$PROG'' p = attachExpr pt p"
proof -
  have r: "replaceOne (pre @ ''$PROG'' @ post) ''$PROG'' p = pre @ p @ post" if "CHR ''$'' \<notin> set pre" for pre post
    using replaceOne_first[OF that, of "''PROG''" post p] by simp
  show ?thesis
  proof (cases pt)
    case XDP
    show ?thesis unfolding XDP attachExpr.simps by (rule r) simp
  next
    case (Tracepoint cat name)
    with assms have "CHR ''$'' \<notin> set (''link.Tracepoint('' @ quote cat @ '', '' @ quote name @ '', '')"
      by (simp add: quote_no_dollar)
    from r[OF this, unfolded append_assoc] show ?thesis unfolding Tracepoint attachExpr.simps .
  next
    case (Kprobe s)
    with assms have "CHR ''$'' \<notin> set (''link.Kprobe('' @ quote s @ '', '')" by (simp add: quote_no_dollar)
    from r[OF this, unfolded append_assoc] show ?thesis unfolding Kprobe attachExpr.simps .
  next
    case (Kretprobe s)
    with assms have "CHR ''$'' \<notin> set (''link.Kretprobe('' @ quote s @ '', '')" by (simp add: quote_no_dollar)
    from r[OF this, unfolded append_assoc] show ?thesis unfolding Kretprobe attachExpr.simps .
  qed
qed

section \<open>Names of the fields\<close>

lemma toUpper_lower: "isLower c \<Longrightarrow> isUpper (toUpper c)"
  by (cases c; hypsubst) (simp add: toUpper_code isUpper_code isLower_code)

lemma isUpper_not_lower: "isUpper c \<Longrightarrow> \<not> isLower c"
  by (cases c; hypsubst) (simp add: isUpper_code isLower_code)

lemma toUpper_inj: "isLower c \<Longrightarrow> isLower d \<Longrightarrow> toUpper c = toUpper d \<longleftrightarrow> c = d"
  by (cases c; cases d; hypsubst) (auto simp: toUpper_code isLower_code)

lemma pascalCase_idem: "pascalCase (pascalCase s) = pascalCase s"
  by (cases s) (auto simp: toUpper_lower isUpper_not_lower)

lemma pascalCase_Nil [simp]: "pascalCase s = [] \<longleftrightarrow> s = []"
  by (cases s) auto

text \<open>Two names share a field name exactly when they agree up to the case of the first letter.\<close>

lemma pascalCase_eq:
  "pascalCase (c # cs) = pascalCase (d # ds) \<longleftrightarrow>
     cs = ds \<and> (c = d \<or> isLower c \<and> toUpper c = d \<or> isLower d \<and> toUpper d = c)"
  by (auto simp: toUpper_inj dest: toUpper_lower isUpper_not_lower)

lemma mset_map_sortBy: "mset (map g (sortBy f xs)) = mset (map g xs)"
  by (simp only: mset_map sortBy_mset)

lemma progFields_mset: "mset (map bfELF (progFields prog)) = mset (map pfName (Programs prog))"
  by (simp add: progFields_def mset_map_sortBy multiset.map_comp comp_def)

lemma mapFields_mset: "mset (map bfELF (mapFields prog)) = mset (map mdName (Maps prog))"
  by (simp add: mapFields_def mset_map_sortBy multiset.map_comp comp_def)

lemma fields_pascal: "f \<in> set (progFields prog) \<union> set (mapFields prog) \<Longrightarrow> bfGo f = pascalCase (bfELF f)"
  by (auto simp: progFields_def mapFields_def)

lemma progFields_sorted: "sorted (map bfGo (progFields prog))"
  and mapFields_sorted: "sorted (map bfGo (mapFields prog))"
  unfolding progFields_def mapFields_def by (rule sortBy_sorted)+

lemma map_filter_fields: "map ahField (List.map_filter (\<lambda>f. map_option (\<lambda>a. a\<lparr>ahField := f\<rparr>) (g f)) fs) =
    filter (\<lambda>f. g f \<noteq> None) fs"
  by (induction fs) (auto simp: List.map_filter_simps split: option.splits)

lemma attachers_fields: "map ahField (attachers prog) = filter (\<lambda>f. attachFor (bfSection f) \<noteq> None) (progFields prog)"
  unfolding attachers_def by (rule map_filter_fields)

section \<open>The generated file\<close>

lemma publishTypes_ok: "(\<exists>t. publishTypes gp ts b = Inr t) \<longleftrightarrow> (\<forall>t \<in> set ts. \<exists>s. printType gp t = Inr s)"
proof -
  have "(\<exists>t. rfold (publishType gp) ts b = Inr t) \<longleftrightarrow> (\<forall>t \<in> set ts. \<exists>s. printType gp t = Inr s)" for b
    by (induction ts arbitrary: b) (auto simp: publishType_def rbind_eq_Inr)
  then show ?thesis by (auto simp: publishTypes_def)
qed

lemma publishConsts_ok: "(\<exists>t. publishConsts gp cs b = Inr t) \<longleftrightarrow> (\<forall>c \<in> set cs. \<exists>s. printExpr gp (ucValue c) = Inr s)"
proof -
  have "(\<exists>t. rfold (publishConst gp) cs b = Inr t) \<longleftrightarrow> (\<forall>c \<in> set cs. \<exists>s. printExpr gp (ucValue c) = Inr s)" for b
    by (induction cs arbitrary: b) (auto simp: publishConst_def rbind_eq_Inr)
  then show ?thesis by (auto simp: publishConsts_def rbind_eq_Inr)
qed

lemma bindingsText_ok: "(\<exists>t. bindingsText gp prog pkg stem sm = Inr t) \<longleftrightarrow>
    pkg \<noteq> [] \<and> stem \<noteq> [] \<and> (\<forall>t \<in> set (Types prog). \<exists>s. printType gp t = Inr s)
    \<and> (\<forall>c \<in> set (Consts prog). \<exists>s. printExpr gp (ucValue c) = Inr s)"
  using publishTypes_ok[of gp "Types prog"] publishConsts_ok[of gp "Consts prog"]
  by (auto simp: bindingsText_def rbind_eq_Inr) metis+

text \<open>The text only grows after the body, so the body is a prefix of the file.\<close>

lemma publish_prefix:
  "publishTypes gp ts b = Inr t \<Longrightarrow> prefix b t"
  "publishConsts gp cs b = Inr t \<Longrightarrow> prefix b t"
proof -
  have 1: "rfold (publishType gp) ts b = Inr t \<Longrightarrow> prefix b t" for b t
    by (rule rfold_invariant[where R = prefix, of "publishType gp" ts])
       (auto simp: publishType_def intro: prefix_order.trans)
  have 2: "rfold (publishConst gp) cs b = Inr t \<Longrightarrow> prefix b t" for b t
    by (rule rfold_invariant[where R = prefix, of "publishConst gp" cs])
       (auto simp: publishConst_def intro: prefix_order.trans)
  show "publishTypes gp ts b = Inr t \<Longrightarrow> prefix b t"
    using 1 append_prefixD unfolding publishTypes_def by (metis sum.inject(2) prefix_order.refl)
  show "publishConsts gp cs b = Inr t \<Longrightarrow> prefix b t"
    using 2 append_prefixD by (fastforce simp: publishConsts_def split: if_splits)
qed

lemma bindingsText_body:
  "bindingsText gp prog pkg stem sm = Inr t \<Longrightarrow> prefix (bindingsBody prog pkg stem sm) t"
  unfolding bindingsText_def
  by (auto split: if_splits dest!: publish_prefix intro: prefix_order.trans)

text \<open>The raw string literal of the file that a Go compiler reads as the source map.\<close>

definition rawLiteral :: "string \<Rightarrow> string" where
  "rawLiteral s = filter (\<lambda>c. c \<noteq> CHR 0x0D) (takeWhile (\<lambda>c. c \<noteq> CHR 0x60) s)"

lemma rawLiteral_plain: "CHR 0x60 \<notin> set s \<Longrightarrow> CHR 0x0D \<notin> set s \<Longrightarrow> rawLiteral (s @ CHR 0x60 # r) = s"
  by (auto simp: rawLiteral_def takeWhile_append filter_id_conv)

lemma bindingsText_sourceMap:
  assumes "bindingsText gp prog pkg stem sm = Inr t"
  shows "\<exists>pre post. t = pre @ ''var '' @ pascalCase stem @ ''SourceMap = '' @ [CHR 0x60] @ sm @ [CHR 0x60] @ post"
proof -
  from bindingsText_body[OF assms] obtain r where t: "t = bindingsBody prog pkg stem sm @ r" by (auto simp: prefix_def)
  let ?P = "pascalCase stem" and ?ps = "progFields prog" and ?ms = "mapFields prog" and ?as = "attachers prog"
  let ?pre = "bindingsHead ?P stem pkg (length ?as > 0) @ programsStruct ?P ?ps @ mapsStruct ?P ?ms
    @ objectsStruct ?P @ closeMethod ?P ?ms ?ps @ loadFunc ?P @ sourceMapDoc ?P stem"
  let ?post = "[newline, newline] @ annotateFunc ?P @ checkKernelFunc ?P @ concat (map (attachMethod ?P) ?as)
    @ attachAll ?P ?as @ runningKernelFunc @ r"
  have "t = ?pre @ ''var '' @ ?P @ ''SourceMap = '' @ [CHR 0x60] @ sm @ [CHR 0x60] @ ?post"
    unfolding t bindingsBody_def Let_def sourceMapVar_def append_assoc ..
  then show ?thesis by blast
qed

lemma WriteBindings_None: "WriteBindings gp wr prog pkg stem sm w = (None, w') \<longleftrightarrow>
    (\<exists>t. bindingsText gp prog pkg stem sm = Inr t \<and> wr t w = (None, w'))"
  by (simp add: WriteBindings_def split: sum.split)

end
