(* ===== verification/Diagnose.thy ===== *)
theory Diagnose
  imports Source_Map
begin

text \<open>
  \<^verbatim>\<open>diagnose/diagnose.go\<close>: annotating the lines of a verifier log with Go positions.  The
  lemmas give the exact shape of an annotated line, that lines without known references
  pass through, and that a reference to a mapped C line is found wherever it stands.
\<close>

section \<open>Model\<close>

text \<open>\<open>cFileRefPattern\<close>, the pattern \<^verbatim>\<open>([\w./-]+\.bpf\.c):(\d+)\<close>, and its second group.\<close>

definition refChar :: "char \<Rightarrow> bool" where
  "refChar c \<longleftrightarrow> isWord c \<or> c = CHR ''.'' \<or> c = CHR ''/'' \<or> c = CHR ''-''"

definition cFileRefPattern :: "rx list" where
  "cFileRefPattern = rxPlus refChar @ rxLit ''.bpf.c'' @ rxLit '':'' @ rxPlus isDigit"

definition refGroup2 :: "string list \<Rightarrow> string" where
  "refGroup2 ps = concat (drop 9 ps)"

text \<open>\<open>FindAllStringSubmatch(_, -1)\<close>: successive leftmost matches that do not overlap.\<close>

function rxFindAll :: "rx list \<Rightarrow> string \<Rightarrow> string list list" where
  "rxFindAll rs s =
     (case rxMatch rs s of
        Some (ps, r) \<Rightarrow>
          (if length r < length s then ps # rxFindAll rs r
           else (case s of [] \<Rightarrow> [ps] | c # cs \<Rightarrow> ps # rxFindAll rs cs))
      | None \<Rightarrow> (case s of [] \<Rightarrow> [] | c # cs \<Rightarrow> rxFindAll rs cs))"
  by pat_completeness auto
termination
  by (relation "measure (\<lambda>(rs, s). length s)") auto

declare rxFindAll.simps [simp del]

definition arrow :: string where
  "arrow = [CHR 0xE2, CHR 0x86, CHR 0x92, CHR '' '']"

text \<open>The loop of \<open>annotateLine\<close>: the set of lines seen and the texts added so far.\<close>

fun addRefs :: "srcMap \<Rightarrow> string list list \<Rightarrow> int list \<Rightarrow> string list \<Rightarrow> string list" where
  "addRefs sm [] seen added = added"
| "addRefs sm (m # ms) seen added =
     (case atoi (refGroup2 m) of
        Inl _ \<Rightarrow> addRefs sm ms seen added
      | Inr cline \<Rightarrow>
          (if cline \<in> set seen then addRefs sm ms seen added
           else (case sm cline of
                   Some p \<Rightarrow> addRefs sm ms (cline # seen) (added @ [arrow @ p])
                 | None \<Rightarrow> addRefs sm ms (cline # seen) added)))"

definition annotateLine :: "string \<Rightarrow> srcMap \<Rightarrow> string" where
  "annotateLine line sm =
     (let matches = rxFindAll cFileRefPattern line
      in if matches = [] then line
         else let added = addRefs sm matches [] []
              in if added = [] then line
                 else line @ ''    '' @ joinWith ''  '' added)"

definition AnnotateLines :: "string list \<Rightarrow> srcMap \<Rightarrow> string list" where
  "AnnotateLines ls sm = map (\<lambda>line. annotateLine line sm) ls"

text \<open>
  \<open>Rewrite\<close>: each line is handed to the writer with a newline; the first error of a write ends the
  loop, an error of the scanner is returned after it.  The limit is 1024 * 1024.
\<close>

definition rewriteTokenSize :: nat where
  "rewriteTokenSize = 1048576"

fun writeLines :: "'w writer \<Rightarrow> string list \<Rightarrow> 'w \<Rightarrow> string option \<times> 'w" where
  "writeLines wr [] w = (None, w)"
| "writeLines wr (l # ls) w = (case wr (l @ [newline]) w of
     (Some e, w') \<Rightarrow> (Some e, w')
   | (None, w') \<Rightarrow> writeLines wr ls w')"

definition Rewrite :: "string \<Rightarrow> 'w writer \<Rightarrow> srcMap \<Rightarrow> 'w \<Rightarrow> string option \<times> 'w" where
  "Rewrite r wr sm w = (case scanLines rewriteTokenSize r of (ls, err) \<Rightarrow>
     (case writeLines wr (AnnotateLines ls sm) w of
        (Some e, w') \<Rightarrow> (Some e, w')
      | (None, w') \<Rightarrow> (err, w')))"

section \<open>The shape of an annotated line\<close>

text \<open>The C lines a log line refers to, in order.\<close>

definition refLines :: "string \<Rightarrow> int list" where
  "refLines line = concat (map (\<lambda>m. case atoi (refGroup2 m) of Inr n \<Rightarrow> [n] | Inl _ \<Rightarrow> []) (rxFindAll cFileRefPattern line))"

text \<open>The first occurrences of a list, those in \<open>seen\<close> left out.\<close>

fun firstsAux :: "'a list \<Rightarrow> 'a list \<Rightarrow> 'a list" where
  "firstsAux seen [] = []"
| "firstsAux seen (x # xs) = (if x \<in> set seen then firstsAux seen xs else x # firstsAux (x # seen) xs)"

lemma firstsAux_set: "set (firstsAux seen xs) = set xs - set seen"
  by (induction seen xs rule: firstsAux.induct) auto

lemma firstsAux_distinct: "distinct (firstsAux seen xs)"
  by (induction seen xs rule: firstsAux.induct) (auto simp: firstsAux_set)

definition annotation :: "srcMap \<Rightarrow> int list \<Rightarrow> string list" where
  "annotation sm ns = concat (map (\<lambda>n. case sm n of Some p \<Rightarrow> [arrow @ p] | None \<Rightarrow> []) ns)"

lemma addRefs_annotation:
  "addRefs sm ms seen added = added @ annotation sm (firstsAux seen
     (concat (map (\<lambda>m. case atoi (refGroup2 m) of Inr n \<Rightarrow> [n] | Inl _ \<Rightarrow> []) ms)))"
  by (induction sm ms seen added rule: addRefs.induct)
     (auto simp: annotation_def split: sum.splits option.splits)

lemma annotateLine_shape:
  "annotateLine line sm =
     (let added = annotation sm (firstsAux [] (refLines line))
      in if added = [] then line else line @ ''    '' @ joinWith ''  '' added)"
proof (cases "rxFindAll cFileRefPattern line = []")
  case True
  then have "refLines line = []" by (simp add: refLines_def)
  with True show ?thesis by (simp add: annotateLine_def annotation_def Let_def)
next
  case False
  then show ?thesis by (simp add: annotateLine_def addRefs_annotation refLines_def Let_def)
qed

lemma annotation_Nil: "annotation sm ns = [] \<longleftrightarrow> (\<forall>n \<in> set ns. sm n = None)"
  by (auto simp: annotation_def split: option.splits)

lemma annotateLine_verbatim: "annotateLine line sm = line \<longleftrightarrow> (\<forall>n \<in> set (refLines line). sm n = None)"
  by (auto simp: annotateLine_shape Let_def annotation_Nil firstsAux_set)

lemma annotateLine_prefix: "prefix line (annotateLine line sm)"
  by (simp add: annotateLine_shape Let_def)

section \<open>Finding references\<close>

lemma rxMatch_star_all: "rxMatch [Star True p] s = Some ([takeWhile p s], dropWhile p s)"
  by (induction s) (simp_all add: pushPiece_def growPiece_def)

text \<open>A greedy repetition at the end of a pattern consumes all it can.\<close>

lemma rxMatch_greedy_star:
  assumes "\<And>s ps r. rxMatch rs s = Some (ps, r) \<Longrightarrow> Q r"
  shows "rxMatch (Star g q # rs) s = Some (ps, r) \<Longrightarrow> Q r"
proof (induction s arbitrary: ps)
  case Nil
  with assms show ?case by auto
next
  case (Cons c cs)
  then have "(\<exists>qs. rxMatch rs (c # cs) = Some (qs, r)) \<or> (\<exists>qs. rxMatch (Star g q # rs) cs = Some (qs, r))"
    by (auto split: if_splits option.splits)
  with Cons.IH assms show ?case by blast
qed

lemma rxMatch_greedy_last:
  "rxMatch (rs @ [Star True p]) s = Some (ps, r) \<Longrightarrow> r = [] \<or> \<not> p (hd r)"
proof (induction rs arbitrary: s ps r)
  case Nil
  then have "r = dropWhile p s" by (simp add: rxMatch_star_all)
  then show ?case using hd_dropWhile by blast
next
  case (Cons x rs)
  show ?case
  proof (cases x)
    case (One q)
    with Cons show ?thesis by (cases s) (auto split: if_splits)
  next
    case (Star g q)
    with Cons.prems show ?thesis
      using rxMatch_greedy_star[of "rs @ [Star True p]" "\<lambda>r. r = [] \<or> \<not> p (hd r)", OF Cons.IH] by simp
  qed
qed

lemma rxPieces_Nil: "rxPieces [] ws \<longleftrightarrow> ws = []"
  and rxPieces_One: "rxPieces (One p # rs) ws \<longleftrightarrow> (\<exists>c vs. ws = [c] # vs \<and> p c \<and> rxPieces rs vs)"
  and rxPieces_Star: "rxPieces (Star g p # rs) ws \<longleftrightarrow> (\<exists>w vs. ws = w # vs \<and> (\<forall>c \<in> set w. p c) \<and> rxPieces rs vs)"
  by (cases ws; auto)+

lemmas rxPieces_simps = rxPieces_Nil rxPieces_One rxPieces_Star

lemma ref_match:
  assumes "rxMatch cFileRefPattern s = Some (ps, r)"
  obtains w ds where "s = w @ ''.bpf.c'' @ CHR '':'' # ds @ r" "\<forall>c \<in> set w. refChar c"
    "ds \<noteq> []" "\<forall>c \<in> set ds. isDigit c" "refGroup2 ps = ds" "r = [] \<or> \<not> isDigit (hd r)"
proof -
  have "rxPieces cFileRefPattern ps" and s: "s = concat ps @ r" using rxMatch_sound[OF assms] by auto
  then obtain a w d ds where ps: "ps = [[a], w, ''.'', ''b'', ''p'', ''f'', ''.'', ''c'', '':'', [d], ds]"
    and w: "refChar a" "\<forall>c \<in> set w. refChar c" and ds: "isDigit d" "\<forall>c \<in> set ds. isDigit c"
    by (auto simp: cFileRefPattern_def rxPlus_def rxLit_def rxPieces_simps)
  have "cFileRefPattern = (rxPlus refChar @ rxLit ''.bpf.c'' @ rxLit '':'' @ [One isDigit]) @ [Star True isDigit]"
    by (simp add: cFileRefPattern_def rxPlus_def)
  with rxMatch_greedy_last assms have "r = [] \<or> \<not> isDigit (hd r)" by metis
  with ps s w ds show ?thesis by (intro that[of "a # w" "d # ds"]) (auto simp: refGroup2_def)
qed

lemma ref_match_exists:
  assumes "stem \<noteq> []" and "\<forall>c \<in> set stem. refChar c" and "ds \<noteq> []" and "\<forall>c \<in> set ds. isDigit c"
  shows "rxMatch cFileRefPattern (stem @ ''.bpf.c'' @ CHR '':'' # ds @ post) \<noteq> None"
proof -
  let ?ps = "[[hd stem], tl stem, ''.'', ''b'', ''p'', ''f'', ''.'', ''c'', '':'', [hd ds], tl ds]"
  have "rxPieces cFileRefPattern ?ps"
    using assms by (cases stem; cases ds) (simp_all add: cFileRefPattern_def rxPlus_def rxLit_def)
  from rxMatch_complete[OF this, of post] have "rxMatch cFileRefPattern
      ((hd stem # tl stem) @ ''.bpf.c'' @ CHR '':'' # (hd ds # tl ds) @ post) \<noteq> None" by simp
  then show ?thesis unfolding hd_Cons_tl[OF assms(1)] hd_Cons_tl[OF assms(3)] .
qed

lemma digits_split:
  assumes "a @ x = b @ y" and "\<forall>c \<in> set a. p c" and "\<forall>c \<in> set b. p c"
    and "x = [] \<or> \<not> p (hd x)" and "y = [] \<or> \<not> p (hd y)"
  shows "a = b"
proof -
  have "takeWhile p (a @ x) = a" using assms(2,4) by (cases x) (auto simp: takeWhile_append)
  moreover have "takeWhile p (b @ y) = b" using assms(3,5) by (cases y) (auto simp: takeWhile_append)
  ultimately show ?thesis using assms(1) by simp
qed

lemma itoa_suffix:
  assumes "\<not> isDigit (last p)" and "\<not> isDigit (last q)" and "p \<noteq> []" and "q \<noteq> []"
    and "p @ itoa m = q @ itoa n"
  shows "itoa m = itoa n"
proof -
  have "rev (itoa m) @ rev p = rev (itoa n) @ rev q" using assms(5) by (metis rev_append)
  from digits_split[OF this, of isDigit] show ?thesis using assms(1-4) itoa_digits by (simp add: hd_rev)
qed

lemma split_first:
  assumes "a @ c # x = b @ c # y" and "c \<notin> set a" and "c \<notin> set b"
  shows "a = b \<and> x = y"
  using digits_split[OF assms(1), of "\<lambda>z. z \<noteq> c"] assms by auto

lemma find_ref_here:
  assumes m: "rxMatch cFileRefPattern s = Some (ps, r)"
    and s: "s = pre @ stem @ ''.bpf.c'' @ CHR '':'' # ds @ post"
    and pre: "CHR '':'' \<notin> set pre" and stem: "\<forall>c \<in> set stem. refChar c"
    and ds: "\<forall>c \<in> set ds. isDigit c" and post: "post = [] \<or> \<not> isDigit (hd post)"
  shows "\<exists>ms. rxFindAll cFileRefPattern s = ps # ms \<and> refGroup2 ps = ds"
proof -
  have colon: "CHR '':'' \<notin> set w" if "\<forall>c \<in> set w. refChar c" for w
    using that by (auto simp: refChar_def isWord_def isDigit_def less_eq_char_def)
  from m obtain w es where w: "s = w @ ''.bpf.c'' @ CHR '':'' # es @ r" "\<forall>c \<in> set w. refChar c"
    "es \<noteq> []" "\<forall>c \<in> set es. isDigit c" "refGroup2 ps = es" "r = [] \<or> \<not> isDigit (hd r)" by (rule ref_match)
  have "(pre @ stem @ ''.bpf.c'') @ CHR '':'' # (ds @ post) = (w @ ''.bpf.c'') @ CHR '':'' # (es @ r)"
    using s w(1) by simp
  moreover have "CHR '':'' \<notin> set (pre @ stem @ ''.bpf.c'')" using pre colon[OF stem] by simp
  moreover have "CHR '':'' \<notin> set (w @ ''.bpf.c'')" using colon[OF w(2)] by simp
  ultimately have "ds @ post = es @ r" by (rule split_first[THEN conjunct2])
  from digits_split[OF this ds w(4) post w(6)] have "ds = es" .
  moreover have "length r < length s" using w(1) by simp
  ultimately show ?thesis using m w(5) by (subst rxFindAll.simps) simp
qed

text \<open>
  A match consists of characters of file names and colons.  It cannot reach over a character that is
  neither, so a reference that follows such a character is found whatever precedes it.
\<close>

lemma ref_match_chars:
  assumes "rxMatch cFileRefPattern s = Some (ps, r)"
  obtains m where "s = m @ r" "m \<noteq> []" "\<forall>c \<in> set m. refChar c \<or> c = CHR '':''"
proof -
  obtain w ds where "s = w @ ''.bpf.c'' @ CHR '':'' # ds @ r" "\<forall>c \<in> set w. refChar c" "\<forall>c \<in> set ds. isDigit c"
    using assms by (rule ref_match)
  then show ?thesis
    by (intro that[of "w @ ''.bpf.c'' @ CHR '':'' # ds"]) (auto simp: refChar_def isWord_def isDigit_def less_eq_char_def)
qed

lemma stops_inside:
  assumes "m @ r = pre @ t" and "\<forall>c \<in> set m. Q c" and "pre \<noteq> []" and "\<not> Q (last pre)"
  obtains pre' where "r = pre' @ t" "pre' \<noteq> []" "last pre' = last pre" "length pre' + length m = length pre"
proof -
  have "length m < length pre"
  proof (rule ccontr)
    assume "\<not> length m < length pre"
    with assms(1) have "take (length pre) m = pre" by (metis append_eq_append_conv_if not_less)
    with assms(3) have "last pre \<in> set m" by (metis in_set_takeD last_in_set)
    with assms(2,4) show False by blast
  qed
  moreover from this assms(1) have "r = drop (length m) pre @ t" by (simp add: append_eq_append_conv_if)
  ultimately show thesis by (intro that[of "drop (length m) pre"]) (simp_all add: last_drop)
qed

lemma find_ref:
  assumes "stem \<noteq> []" and "\<forall>c \<in> set stem. refChar c"
    and "ds \<noteq> []" and "\<forall>c \<in> set ds. isDigit c" and "post = [] \<or> \<not> isDigit (hd post)"
  shows "pre = [] \<or> \<not> refChar (last pre) \<and> last pre \<noteq> CHR '':'' \<Longrightarrow>
    \<exists>ps \<in> set (rxFindAll cFileRefPattern (pre @ stem @ ''.bpf.c'' @ CHR '':'' # ds @ post)). refGroup2 ps = ds"
proof (induction pre rule: length_induct)
  case (1 pre)
  let ?t = "stem @ ''.bpf.c'' @ CHR '':'' # ds @ post"
  show ?case
  proof (cases "pre = []")
    case True
    obtain ps r where "rxMatch cFileRefPattern ?t = Some (ps, r)" using ref_match_exists[OF assms(1-4), of post] by auto
    from find_ref_here[OF this, of "[]" stem ds post] assms(2,4,5) True show ?thesis by auto
  next
    case False
    show ?thesis
    proof (cases "rxMatch cFileRefPattern (pre @ ?t)")
      case None
      then have "rxFindAll cFileRefPattern (pre @ ?t) = rxFindAll cFileRefPattern (tl pre @ ?t)"
        using False by (subst rxFindAll.simps) (cases pre; simp)
      moreover have "tl pre = [] \<or> \<not> refChar (last (tl pre)) \<and> last (tl pre) \<noteq> CHR '':''"
        using 1(2) False by (auto simp: last_tl)
      ultimately show ?thesis using 1(1)[rule_format, of "tl pre"] False by simp
    next
      case (Some m)
      then obtain ps r where m: "rxMatch cFileRefPattern (pre @ ?t) = Some (ps, r)" by (cases m) simp
      then obtain w where w: "pre @ ?t = w @ r" "w \<noteq> []" "\<forall>c \<in> set w. refChar c \<or> c = CHR '':''" by (rule ref_match_chars)
      obtain pre' where r: "r = pre' @ ?t" "pre' \<noteq> []" "last pre' = last pre" "length pre' + length w = length pre"
        using stops_inside[OF w(1)[symmetric] w(3) False] 1(2) False by auto
      have "rxFindAll cFileRefPattern (pre @ ?t) = ps # rxFindAll cFileRefPattern r"
        using m w by (subst rxFindAll.simps) simp
      moreover have "\<exists>ps \<in> set (rxFindAll cFileRefPattern r). refGroup2 ps = ds"
        unfolding r(1)
      proof (rule 1(1)[rule_format])
        show "length pre' < length pre" using r(4) w(2) by (cases w) auto
      qed (use r(3) 1(2) False in simp)
      ultimately show ?thesis by auto
    qed
  qed
qed

lemma refLines_found:
  assumes "pre = [] \<or> \<not> refChar (last pre) \<and> last pre \<noteq> CHR '':''" and "stem \<noteq> []" and "\<forall>c \<in> set stem. refChar c"
    and "post = [] \<or> \<not> isDigit (hd post)" and "n < 2 ^ 63"
  shows "int n \<in> set (refLines (pre @ stem @ ''.bpf.c:'' @ itoa n @ post))"
  using find_ref[OF assms(2,3) itoa_nonempty itoa_digits assms(4,1), of n] atoi_itoa[OF assms(5)]
  by (auto simp: refLines_def intro!: bexI)

lemma annotation_mem: "n \<in> set ns \<Longrightarrow> sm n = Some p \<Longrightarrow> arrow @ p \<in> set (annotation sm ns)"
  by (auto simp: annotation_def intro!: bexI[of _ n])

lemma annotateLine_found:
  assumes "n \<in> set (refLines l)" and "sm n = Some p"
  shows "annotateLine l sm = l @ ''    '' @ joinWith ''  '' (annotation sm (firstsAux [] (refLines l)))
    \<and> arrow @ p \<in> set (annotation sm (firstsAux [] (refLines l)))"
proof -
  have "arrow @ p \<in> set (annotation sm (firstsAux [] (refLines l)))"
    using assms by (intro annotation_mem[of n]) (simp_all add: firstsAux_set)
  then show ?thesis by (auto simp: annotateLine_shape Let_def)
qed

section \<open>The whole log\<close>

text \<open>A writer that fails nowhere and collects what it is given.\<close>

lemma writeLines_ok:
  assumes "\<And>s w. wr s w = (None, put s w)"
  shows "writeLines wr ls w = (None, fold (\<lambda>l. put (l @ [newline])) ls w)"
  by (induction ls arbitrary: w) (simp_all add: assms)

lemma Rewrite_lines:
  assumes "\<forall>l \<in> set ls. newline \<notin> set l \<and> length l < rewriteTokenSize \<and> (l = [] \<or> last l \<noteq> CHR 0x0D)"
  shows "Rewrite (unlines ls) wr sm w = writeLines wr (map (\<lambda>l. annotateLine l sm) ls) w"
  using scanLines_unlines[OF assms]
  by (simp add: Rewrite_def AnnotateLines_def split: prod.split option.split)

end
