(* ===== verification/Pipeline.thy ===== *)
theory Pipeline
  imports Go_Path Parse Validate Emit_Program Bindings Diagnose
begin

text \<open>
  \<^verbatim>\<open>internal/transpile/pipeline.go\<close>: finding the inputs, translating each of them, writing the C file, the source map and the
  bindings.  The file system is part of the state, files being named by the text of their path; which
  operating system calls fail, the Go front end, which reads that file system, and the Go printer are
  parameters.
\<close>

section \<open>Files\<close>

record dirEntry =
  deName :: string
  deIsDir :: bool

text \<open>
  What reading a path gives, and what has been written to the error stream and the standard
  output.
\<close>

record world =
  wDirs :: "string \<Rightarrow> dirEntry list res"
  wFiles :: "string \<Rightarrow> string res"
  wStderr :: string
  wStdout :: string

text \<open>
  The faults of the operating system: the error of a call on a path, if it fails, and of a write to
  the standard output at the point where some bytes have gone there.  A write that fails has written
  some of the bytes.
\<close>

record osFaults =
  mkdirErr :: "string \<Rightarrow> string option"
  openErr :: "string \<Rightarrow> string option"
  writeErr :: "string \<Rightarrow> (nat \<times> string) option"
  closeErr :: "string \<Rightarrow> string option"
  stdoutErr :: "string \<Rightarrow> (nat \<times> string) option"

definition putFile :: "string \<Rightarrow> string \<Rightarrow> world \<Rightarrow> world" where
  "putFile p s w = w\<lparr>wFiles := (wFiles w)(p := Inr s)\<rparr>"

text \<open>\<open>os.WriteFile\<close>, \<open>os.Create\<close> and \<open>io.WriteString\<close> to a file just created.\<close>

definition fileWrite :: "osFaults \<Rightarrow> string \<Rightarrow> world writer" where
  "fileWrite os p s w = (case writeErr os p of
     Some (n, e) \<Rightarrow> (Some e, putFile p (take n s) w)
   | None \<Rightarrow> (None, putFile p s w))"

text \<open>A write to \<open>os.Stdout\<close>.\<close>

definition stdoutWrite :: "osFaults \<Rightarrow> world writer" where
  "stdoutWrite os s w = (case stdoutErr os (wStdout w) of
     Some (n, e) \<Rightarrow> (Some e, w\<lparr>wStdout := wStdout w @ take n s\<rparr>)
   | None \<Rightarrow> (None, w\<lparr>wStdout := wStdout w @ s\<rparr>))"

definition osCreate :: "osFaults \<Rightarrow> string \<Rightarrow> world \<Rightarrow> string option \<times> world" where
  "osCreate os p w = (case openErr os p of Some e \<Rightarrow> (Some e, w) | None \<Rightarrow> (None, putFile p [] w))"

definition osWriteFile :: "osFaults \<Rightarrow> string \<Rightarrow> string \<Rightarrow> world \<Rightarrow> string option \<times> world" where
  "osWriteFile os p s w = (case osCreate os p w of
     (Some e, w1) \<Rightarrow> (Some e, w1)
   | (None, w1) \<Rightarrow> (case fileWrite os p s w1 of
       (Some e, w2) \<Rightarrow> (Some e, w2)
     | (None, w2) \<Rightarrow> (closeErr os p, w2)))"

section \<open>Model\<close>

text \<open>The writer for progress output is the error stream.\<close>

record runOptions =
  InputDir :: string
  OutputDir :: string
  BindingsDir :: string

record runResult =
  InputFile :: string
  CFile :: string
  MapFile :: string
  BindingsFile :: string
  Stem :: string

definition emptyResult :: runResult where
  "emptyResult = \<lparr>InputFile = [], CFile = [], MapFile = [], BindingsFile = [], Stem = []\<rparr>"

record toolchain =
  faults :: osFaults
  frontAt :: "world \<Rightarrow> frontEnd"
  printer :: goPrinter

definition sanitizeByte :: "char \<Rightarrow> char" where
  "sanitizeByte c = (if isLower c \<or> isDigit c then c else if isUpper c then toLower c else CHR ''_'')"

definition sanitizePackageName :: "string \<Rightarrow> string" where
  "sanitizePackageName s =
     (if s = [] then ''bpf''
      else let out = map sanitizeByte s
           in if out = [] then ''bpf'' else if isDigit (hd out) then CHR ''_'' # out else out)"

definition isInput :: "dirEntry \<Rightarrow> bool" where
  "isInput e \<longleftrightarrow> \<not> deIsDir e \<and> hasSuffix (deName e) ''.go'' \<and> \<not> hasSuffix (deName e) ''_test.go''"

definition addInput :: "world \<Rightarrow> string \<Rightarrow> dirEntry \<Rightarrow> string list \<Rightarrow> string list res" where
  "addInput w dir e inputs =
     (if \<not> isInput e then Inr inputs
      else let path = pathJoin dir (deName e)
           in rbind (wrapErr (''read '' @ path @ '': '') (wFiles w path)) (\<lambda>body.
                Inr (if contains body ''//bpf:license'' then inputs @ [path] else inputs)))"

definition findInputs :: "world \<Rightarrow> string \<Rightarrow> string list res" where
  "findInputs w dir =
     rbind (wrapErr (''read '' @ dir @ '': '') (wDirs w dir)) (\<lambda>entries. rfold (addInput w dir) entries [])"

text \<open>The bindings half of \<open>translateOne\<close>, from the point where \<open>res\<close> has been set.\<close>

definition skipMessage :: "string \<Rightarrow> string" where
  "skipMessage inputFile = ''gobee: '' @ inputFile
     @ '': bindings skipped (pass --bindings-dir to generate typed Go accessors)'' @ [newline]"

definition translateBindings ::
  "toolchain \<Rightarrow> runOptions \<Rightarrow> gprogram \<Rightarrow> string \<Rightarrow> runResult \<Rightarrow> world \<Rightarrow> runResult \<times> string option \<times> world" where
  "translateBindings tc opts prog sourcemap r w =
     (if BindingsDir opts = [] then (r, None, w\<lparr>wStderr := wStderr w @ skipMessage (InputFile r)\<rparr>)
      else case mkdirErr (faults tc) (BindingsDir opts) of
        Some e \<Rightarrow> (r, Some (''create bindings dir: '' @ e), w)
      | None \<Rightarrow>
          (let bindingsFile = pathJoin (BindingsDir opts) (Stem r @ ''_bindings.go'');
               pkgName = sanitizePackageName (pathBase (BindingsDir opts))
           in case osCreate (faults tc) bindingsFile w of
                (Some e, w1) \<Rightarrow> (r, Some (''create '' @ bindingsFile @ '': '' @ e), w1)
              | (None, w1) \<Rightarrow>
                  (case WriteBindings (printer tc) (fileWrite (faults tc) bindingsFile) prog pkgName (Stem r) sourcemap w1 of
                     (Some e, w2) \<Rightarrow> (r, Some (''write bindings '' @ bindingsFile @ '': '' @ e), w2)
                   | (None, w2) \<Rightarrow>
                       (case closeErr (faults tc) bindingsFile of
                          Some e \<Rightarrow> (r, Some (''close '' @ bindingsFile @ '': '' @ e), w2)
                        | None \<Rightarrow> (r\<lparr>BindingsFile := bindingsFile\<rparr>, None, w2)))))"

text \<open>
  The first half, up to the emitted text: nothing is written here.  A panic of the emitter
  stops the process; it is an error text like the others.
\<close>

definition relSource :: "string \<Rightarrow> string \<Rightarrow> string" where
  "relSource outputDir inputFile = (case pathRel outputDir inputFile of
     None \<Rightarrow> inputFile | Some r \<Rightarrow> if r = [] then inputFile else r)"

definition compile :: "frontEnd \<Rightarrow> string \<Rightarrow> string \<Rightarrow> (gprogram \<times> string \<times> sourceMapping list) res" where
  "compile fe outputDir inputFile =
     rbind (wrapErr (inputFile @ '': '') (ParseFile fe inputFile)) (\<lambda>prog.
       if Validate prog \<noteq> [] then Inl (''validation failed:'' @ [newline] @ diagnosticsError (Validate prog))
       else rbind (wrapErr (''emit '' @ inputFile @ '': '') (Emit prog (relSource outputDir inputFile)))
              (\<lambda>(source, maps). Inr (prog, source, maps)))"

definition translateOne ::
  "toolchain \<Rightarrow> string \<Rightarrow> runOptions \<Rightarrow> world \<Rightarrow> runResult \<times> string option \<times> world" where
  "translateOne tc inputFile opts w =
     (let outputDir = OutputDir opts;
          stem = trimSuffix (pathBase inputFile) ''.go'';
          cFile = pathJoin outputDir (stem @ ''.bpf.c'');
          mapFile = cFile @ ''.map''
      in case compile (frontAt tc w) outputDir inputFile of
           Inl e \<Rightarrow> (emptyResult, Some e, w)
         | Inr (prog, source, maps) \<Rightarrow>
             (case osWriteFile (faults tc) cFile source w of
                (Some e, w1) \<Rightarrow> (emptyResult, Some (''write '' @ cFile @ '': '' @ e), w1)
              | (None, w1) \<Rightarrow>
                  (let sourcemap = FormatSourceMap maps
                   in case osWriteFile (faults tc) mapFile sourcemap w1 of
                        (Some e, w2) \<Rightarrow> (emptyResult, Some (''write '' @ mapFile @ '': '' @ e), w2)
                      | (None, w2) \<Rightarrow>
                          translateBindings tc opts prog sourcemap
                            \<lparr>InputFile = inputFile, CFile = cFile, MapFile = mapFile,
                             BindingsFile = [], Stem = stem\<rparr> w2)))"

fun runInputs ::
  "toolchain \<Rightarrow> runOptions \<Rightarrow> string list \<Rightarrow> runResult list \<Rightarrow> world \<Rightarrow> runResult list \<times> string option \<times> world" where
  "runInputs tc opts [] results w = (results, None, w)"
| "runInputs tc opts (i # inputs) results w = (case translateOne tc i opts w of
     (r, Some e, w1) \<Rightarrow> (results, Some e, w1)
   | (r, None, w1) \<Rightarrow> runInputs tc opts inputs (results @ [r]) w1)"

text \<open>The output directory defaults to the input directory.\<close>

definition defaultOptions :: "runOptions \<Rightarrow> runOptions" where
  "defaultOptions opts = (if OutputDir opts = [] then opts\<lparr>OutputDir := InputDir opts\<rparr> else opts)"

definition Run :: "toolchain \<Rightarrow> runOptions \<Rightarrow> world \<Rightarrow> runResult list \<times> string option \<times> world" where
  "Run tc opts0 w =
     (let opts = defaultOptions opts0
      in case findInputs w (InputDir opts) of
           Inl e \<Rightarrow> ([], Some e, w)
         | Inr inputs \<Rightarrow>
             (if inputs = [] then ([], Some (''no .go files with //bpf:license found in '' @ InputDir opts), w)
              else case mkdirErr (faults tc) (OutputDir opts) of
                     Some e \<Rightarrow> ([], Some (''create output dir: '' @ e), w)
                   | None \<Rightarrow> runInputs tc opts inputs [] w))"

text \<open>The arrow is a three-byte rune.\<close>

definition arrowLine :: "string \<Rightarrow> string" where
  "arrowLine f = ''  '' @ [CHR 0xE2, CHR 0x86, CHR 0x92] @ '' '' @ f @ [newline]"

definition summaryOf :: "runResult \<Rightarrow> string" where
  "summaryOf r = ''gobee: '' @ InputFile r @ [newline] @ arrowLine (CFile r)
     @ (if MapFile r \<noteq> [] then arrowLine (MapFile r) else [])
     @ (if BindingsFile r \<noteq> [] then arrowLine (BindingsFile r) else [])"

definition PrintSummary :: "runResult list \<Rightarrow> world \<Rightarrow> world" where
  "PrintSummary results w = w\<lparr>wStdout := wStdout w @ concat (map summaryOf results)\<rparr>"

section \<open>Package names\<close>

text \<open>The characters of the identifiers that \<open>sanitizePackageName\<close> builds.\<close>

definition packageChar :: "char \<Rightarrow> bool" where
  "packageChar c \<longleftrightarrow> isLower c \<or> isDigit c \<or> c = CHR ''_''"

lemma toLower_upper: "isUpper c \<Longrightarrow> isLower (toLower c)"
  by (cases c; hypsubst) (simp add: toLower_code isUpper_code isLower_code)

lemma sanitizeByte_char: "packageChar (sanitizeByte c)"
  by (simp add: sanitizeByte_def packageChar_def toLower_upper)

lemma sanitizeByte_id: "packageChar c \<Longrightarrow> sanitizeByte c = c"
  by (auto simp: sanitizeByte_def packageChar_def isUpper_def)

lemma sanitizePackageName_chars: "list_all packageChar (sanitizePackageName s)"
  by (auto simp: sanitizePackageName_def list_all_iff sanitizeByte_char Let_def)
     (auto simp: packageChar_def isLower_def)

lemma sanitizePackageName_hd: "sanitizePackageName s \<noteq> [] \<and> \<not> isDigit (hd (sanitizePackageName s))"
  by (auto simp: sanitizePackageName_def Let_def isDigit_def)

lemma sanitizePackageName_id:
  "list_all packageChar s \<Longrightarrow> s \<noteq> [] \<Longrightarrow> \<not> isDigit (hd s) \<Longrightarrow> sanitizePackageName s = s"
proof -
  assume a: "list_all packageChar s" "s \<noteq> []" "\<not> isDigit (hd s)"
  then have "map sanitizeByte s = s" by (simp add: list_all_iff map_idI sanitizeByte_id)
  with a show ?thesis by (simp add: sanitizePackageName_def)
qed

section \<open>The inputs\<close>

definition licensed :: "world \<Rightarrow> string \<Rightarrow> dirEntry \<Rightarrow> bool" where
  "licensed w dir e \<longleftrightarrow> isInput e \<and>
     (case wFiles w (pathJoin dir (deName e)) of Inl _ \<Rightarrow> False | Inr body \<Rightarrow> contains body ''//bpf:license'')"

lemma addInputs:
  "rfold (addInput w dir) es ins = Inr out \<longleftrightarrow>
     (\<forall>e \<in> set es. isInput e \<longrightarrow> (\<exists>b. wFiles w (pathJoin dir (deName e)) = Inr b))
     \<and> out = ins @ map (\<lambda>e. pathJoin dir (deName e)) (filter (licensed w dir) es)"
  by (induction es arbitrary: ins) (auto simp: addInput_def Let_def rbind_eq_Inr licensed_def)

lemma findInputs_iff:
  "findInputs w dir = Inr out \<longleftrightarrow>
     (\<exists>es. wDirs w dir = Inr es
        \<and> (\<forall>e \<in> set es. isInput e \<longrightarrow> (\<exists>b. wFiles w (pathJoin dir (deName e)) = Inr b))
        \<and> out = map (\<lambda>e. pathJoin dir (deName e)) (filter (licensed w dir) es))"
  by (auto simp: findInputs_def rbind_eq_Inr addInputs)

section \<open>What a translation writes\<close>

text \<open>The three paths a translation of one input may write.\<close>

definition stemOf :: "string \<Rightarrow> string" where
  "stemOf inputFile = trimSuffix (pathBase inputFile) ''.go''"

definition cPath :: "runOptions \<Rightarrow> string \<Rightarrow> string" where
  "cPath opts i = pathJoin (OutputDir opts) (stemOf i @ ''.bpf.c'')"

definition bindingsPath :: "runOptions \<Rightarrow> string \<Rightarrow> string" where
  "bindingsPath opts i = pathJoin (BindingsDir opts) (stemOf i @ ''_bindings.go'')"

definition artifacts :: "runOptions \<Rightarrow> string \<Rightarrow> string set" where
  "artifacts opts i = {cPath opts i, cPath opts i @ ''.map'', bindingsPath opts i}"

text \<open>Those it does write, if it writes all: no bindings without a directory for them.\<close>

definition written :: "runOptions \<Rightarrow> string \<Rightarrow> string set" where
  "written opts i = {cPath opts i, cPath opts i @ ''.map''}
     \<union> (if BindingsDir opts = [] then {} else {bindingsPath opts i})"

lemma written_artifacts: "written opts i \<subseteq> artifacts opts i"
  by (auto simp: written_def artifacts_def)

lemma putFile_read: "wFiles (putFile p s w) q = (if q = p then Inr s else wFiles w q)"
  by (simp add: putFile_def)

lemma fileWrite_frame: "fileWrite os p s w = (e, w') \<Longrightarrow> q \<noteq> p \<Longrightarrow> wFiles w' q = wFiles w q"
  and osCreate_frame: "osCreate os p w = (e, w') \<Longrightarrow> q \<noteq> p \<Longrightarrow> wFiles w' q = wFiles w q"
  by (auto simp: fileWrite_def osCreate_def putFile_read split: option.splits)

lemma osWriteFile_frame: "osWriteFile os p s w = (e, w') \<Longrightarrow> q \<noteq> p \<Longrightarrow> wFiles w' q = wFiles w q"
  by (auto simp: osWriteFile_def split: option.splits prod.splits dest!: fileWrite_frame[of os p s] osCreate_frame[of os p])

lemma osWriteFile_ok: "osWriteFile os p s w = (None, w') \<Longrightarrow> wFiles w' p = Inr s"
  and fileWrite_ok: "fileWrite os p s w = (None, w') \<Longrightarrow> wFiles w' p = Inr s"
  by (auto simp: osWriteFile_def fileWrite_def putFile_read split: option.splits prod.splits)

lemma WriteBindings_frame:
  "WriteBindings gp (fileWrite os p) prog pkg stem sm w = (e, w') \<Longrightarrow> q \<noteq> p \<Longrightarrow> wFiles w' q = wFiles w q"
  by (auto simp: WriteBindings_def split: sum.splits dest: fileWrite_frame)

lemma translateBindings_frame:
  assumes "translateBindings tc opts prog sm r w = (r', e, w')"
    and "BindingsDir opts = [] \<or> q \<noteq> pathJoin (BindingsDir opts) (Stem r @ ''_bindings.go'')"
  shows "wFiles w' q = wFiles w q"
  using assms unfolding translateBindings_def Let_def
  by (auto split: if_splits option.splits prod.splits dest!: WriteBindings_frame osCreate_frame)

lemma translateBindings_result:
  assumes "translateBindings tc opts prog sm r w = (r', None, w')"
  shows "r' = r\<lparr>BindingsFile := BindingsFile r'\<rparr> \<and> (if BindingsDir opts = [] then r' = r
     else BindingsFile r' = pathJoin (BindingsDir opts) (Stem r @ ''_bindings.go'')
       \<and> (\<exists>t. bindingsText (printer tc) prog (sanitizePackageName (pathBase (BindingsDir opts))) (Stem r) sm = Inr t
            \<and> wFiles w' (BindingsFile r') = Inr t))"
  using assms unfolding translateBindings_def Let_def
  by (auto simp: WriteBindings_None split: if_splits option.splits prod.splits dest: fileWrite_ok)

lemma translateOne_written:
  assumes "translateOne tc i opts w = (r, e, w')" and "q \<notin> written opts i"
  shows "wFiles w' q = wFiles w q"
  using assms unfolding translateOne_def Let_def written_def cPath_def bindingsPath_def stemOf_def
  by (auto split: option.splits prod.splits sum.splits if_splits
      dest!: osWriteFile_frame[where q = q] translateBindings_frame[where q = q])

lemma translateOne_frame:
  assumes "translateOne tc i opts w = (r, e, w')" and "q \<notin> artifacts opts i"
  shows "wFiles w' q = wFiles w q"
  using translateOne_written[OF assms(1)] assms(2) written_artifacts by blast

text \<open>A translation that does not fail has compiled the input and left the results on disk.\<close>

lemma translateOne_steps:
  assumes "translateOne tc i opts w = (r, None, w')"
  obtains prog source maps w1 w2 where "compile (frontAt tc w) (OutputDir opts) i = Inr (prog, source, maps)"
    and "osWriteFile (faults tc) (cPath opts i) source w = (None, w1)"
    and "osWriteFile (faults tc) (cPath opts i @ ''.map'') (FormatSourceMap maps) w1 = (None, w2)"
    and "translateBindings tc opts prog (FormatSourceMap maps)
           \<lparr>InputFile = i, CFile = cPath opts i, MapFile = cPath opts i @ ''.map'', BindingsFile = [],
            Stem = stemOf i\<rparr> w2 = (r, None, w')"
  using assms unfolding translateOne_def Let_def cPath_def stemOf_def
  by (auto split: option.splits prod.splits sum.splits)

definition sourceName :: "string \<Rightarrow> bool" where
  "sourceName i \<longleftrightarrow> plainName (pathBase i) \<and> hasSuffix (pathBase i) ''.go''"

lemma trimSuffix_restore: "hasSuffix s x \<Longrightarrow> trimSuffix s x @ x = s"
  by (auto simp: hasSuffix_iff suffix_def)

lemma sourceName_stem: "sourceName i \<Longrightarrow> pathBase i = stemOf i @ ''.go''"
  using trimSuffix_restore by (simp add: sourceName_def stemOf_def)

lemma plainName_artifact:
  assumes "sourceName i" and "slash \<notin> set x" and "2 < length x"
  shows "plainName (stemOf i @ x)"
proof -
  have "slash \<notin> set (stemOf i)" using assms(1) sourceName_stem[OF assms(1)] by (simp add: sourceName_def plainName_def)
  moreover have "stemOf i @ x \<noteq> s" if "length s \<le> 2" for s
  proof
    assume "stemOf i @ x = s"
    then show False using that assms(3) by (simp add: \<open>stemOf i @ x = s\<close>[symmetric])
  qed
  ultimately show ?thesis using assms(2,3) by (auto simp: plainName_def)
qed

lemma base_cPath: "sourceName i \<Longrightarrow> pathBase (cPath opts i) = stemOf i @ ''.bpf.c''"
  and base_bindings: "sourceName i \<Longrightarrow> pathBase (bindingsPath opts i) = stemOf i @ ''_bindings.go''"
  unfolding cPath_def bindingsPath_def by (rule pathBase_pathJoin, rule plainName_artifact; simp)+

lemma base_mapPath:
  assumes "sourceName i"
  shows "pathBase (cPath opts i @ ''.map'') = stemOf i @ ''.bpf.c.map''"
proof -
  have c: "plainName (stemOf i @ ''.bpf.c'')" and m: "plainName (stemOf i @ ''.bpf.c.map'')"
    by (rule plainName_artifact[OF assms]; simp)+
  from pathJoin_shape[OF c, of "OutputDir opts"] consider "cPath opts i = stemOf i @ ''.bpf.c''"
    | p where "cPath opts i = p @ slash # stemOf i @ ''.bpf.c''" by (auto simp: cPath_def)
  then show ?thesis
  proof cases
    case 1
    then show ?thesis using pathBase_plain[OF m] by simp
  next
    case 2
    then show ?thesis using pathBase_snoc[OF m, of p] by simp
  qed
qed

lemma artifacts_base:
  "sourceName i \<Longrightarrow> q \<in> artifacts opts i \<Longrightarrow>
     pathBase q \<in> {stemOf i @ ''.bpf.c'', stemOf i @ ''.bpf.c.map'', stemOf i @ ''_bindings.go''}"
  by (auto simp: artifacts_def base_cPath base_bindings base_mapPath)

lemma suffix_last: "x @ s = y @ t \<Longrightarrow> s \<noteq> [] \<Longrightarrow> t \<noteq> [] \<Longrightarrow> last s = last t"
  by (metis last_appendR)

lemma artifacts_disjoint:
  assumes "sourceName i" and "sourceName j" and "pathBase i \<noteq> pathBase j"
  shows "artifacts opts i \<inter> artifacts opts j = {}"
proof -
  have s: "stemOf i \<noteq> stemOf j" using assms sourceName_stem by metis
  have False if "q \<in> artifacts opts i" "q \<in> artifacts opts j" for q
    using artifacts_base[OF assms(1) that(1)] artifacts_base[OF assms(2) that(2)] s
    by (auto dest: suffix_last)
  then show ?thesis by blast
qed

lemma artifacts_differ:
  assumes "sourceName i"
  shows "cPath opts i \<noteq> cPath opts i @ ''.map''" "cPath opts i \<noteq> bindingsPath opts i"
    "cPath opts i @ ''.map'' \<noteq> bindingsPath opts i"
  using base_cPath[OF assms, of opts] base_bindings[OF assms, of opts] base_mapPath[OF assms, of opts] by auto

text \<open>The final state of a translation: what its files hold.\<close>

definition translated :: "toolchain \<Rightarrow> frontEnd \<Rightarrow> runOptions \<Rightarrow> string \<Rightarrow> runResult \<Rightarrow> world \<Rightarrow> bool" where
  "translated tc fe opts i r w \<longleftrightarrow>
     InputFile r = i \<and> CFile r = cPath opts i \<and> MapFile r = cPath opts i @ ''.map'' \<and> Stem r = stemOf i
     \<and> (\<exists>prog source maps. compile fe (OutputDir opts) i = Inr (prog, source, maps)
         \<and> wFiles w (CFile r) = Inr source \<and> wFiles w (MapFile r) = Inr (FormatSourceMap maps)
         \<and> (if BindingsDir opts = [] then BindingsFile r = []
            else BindingsFile r = bindingsPath opts i
              \<and> (\<exists>t. bindingsText (printer tc) prog (sanitizePackageName (pathBase (BindingsDir opts))) (stemOf i)
                      (FormatSourceMap maps) = Inr t \<and> wFiles w (bindingsPath opts i) = Inr t)))"

lemma translateOne_translated:
  assumes t: "translateOne tc i opts w = (r, None, w')" and "sourceName i"
  shows "translated tc (frontAt tc w) opts i r w'"
proof -
  obtain prog source maps w1 w2 where c: "compile (frontAt tc w) (OutputDir opts) i = Inr (prog, source, maps)"
    and w1: "osWriteFile (faults tc) (cPath opts i) source w = (None, w1)"
    and w2: "osWriteFile (faults tc) (cPath opts i @ ''.map'') (FormatSourceMap maps) w1 = (None, w2)"
    and w': "translateBindings tc opts prog (FormatSourceMap maps)
           \<lparr>InputFile = i, CFile = cPath opts i, MapFile = cPath opts i @ ''.map'', BindingsFile = [],
            Stem = stemOf i\<rparr> w2 = (r, None, w')"
    by (rule translateOne_steps[OF t])
  note d = artifacts_differ[OF assms(2), of opts, unfolded bindingsPath_def]
  have "wFiles w' (cPath opts i) = Inr source" "wFiles w' (cPath opts i @ ''.map'') = Inr (FormatSourceMap maps)"
    using translateBindings_frame[OF w', of "cPath opts i"] translateBindings_frame[OF w', of "cPath opts i @ ''.map''"]
      osWriteFile_ok[OF w1] osWriteFile_ok[OF w2] osWriteFile_frame[OF w2 d(1)] d by simp_all
  moreover have "InputFile r = i \<and> CFile r = cPath opts i \<and> MapFile r = cPath opts i @ ''.map'' \<and> Stem r = stemOf i"
    using translateBindings_result[OF w', THEN conjunct1] by (metis (no_types, lifting) runResult.select_convs runResult.update_convs(4))
  ultimately show ?thesis
    using c translateBindings_result[OF w', THEN conjunct2] by (auto simp: translated_def bindingsPath_def split: if_splits)
qed

lemma translated_keep:
  assumes "translated tc fe opts i r w" and "\<And>q. q \<in> artifacts opts i \<Longrightarrow> wFiles w' q = wFiles w q"
  shows "translated tc fe opts i r w'"
proof -
  have "wFiles w' (cPath opts i) = wFiles w (cPath opts i)"
    "wFiles w' (cPath opts i @ ''.map'') = wFiles w (cPath opts i @ ''.map'')"
    "wFiles w' (bindingsPath opts i) = wFiles w (bindingsPath opts i)"
    by (rule assms(2), simp add: artifacts_def)+
  with assms(1) show ?thesis unfolding translated_def by metis
qed

section \<open>What the front end reads\<close>

text \<open>
  What the parser and the type checker say of an input is determined by the files they read: the input
  and the files of the packages it imports.  A file of \<open>deps i\<close> need not exist: one whose appearance
  would make a difference belongs there too.
\<close>

definition readsOnly :: "toolchain \<Rightarrow> (string \<Rightarrow> string set) \<Rightarrow> bool" where
  "readsOnly tc deps \<longleftrightarrow> (\<forall>i w w'. (\<forall>q \<in> deps i. wFiles w' q = wFiles w q) \<longrightarrow>
     ParseFile (frontAt tc w') i = ParseFile (frontAt tc w) i)"

text \<open>No file that is written for an input is read for a later one.\<close>

definition undisturbed :: "runOptions \<Rightarrow> (string \<Rightarrow> string set) \<Rightarrow> string list \<Rightarrow> bool" where
  "undisturbed opts deps ins \<longleftrightarrow> sorted_wrt (\<lambda>i j. written opts i \<inter> deps j = {}) ins"

text \<open>Without bindings this is so if only Go files are read.\<close>

lemma undisturbed_go:
  assumes "BindingsDir opts = []" and "list_all sourceName ins" and "\<forall>i. \<forall>q \<in> deps i. hasSuffix q ''.go''"
  shows "undisturbed opts deps ins"
proof -
  have "last (cPath opts i) = CHR ''c''" if "sourceName i" for i
    using pathJoin_shape[OF plainName_artifact[OF that, of "''.bpf.c''"], of "OutputDir opts"] by (auto simp: cPath_def)
  moreover have "last q = CHR ''o''" if "hasSuffix q ''.go''" for q
    using that by (auto simp: hasSuffix_iff suffix_def)
  ultimately have "written opts i \<inter> deps j = {}" if "sourceName i" for i j
    using assms(1,3) that by (fastforce simp: written_def)
  with assms(2) show ?thesis by (induction ins) (auto simp: undisturbed_def)
qed

lemma compile_cong: "ParseFile fe i = ParseFile fe' i \<Longrightarrow> compile fe d i = compile fe' d i"
  by (simp add: compile_def)

lemma translated_cong:
  "ParseFile fe i = ParseFile fe' i \<Longrightarrow> translated tc fe opts i r w = translated tc fe' opts i r w"
  using compile_cong[of fe i fe'] by (simp add: translated_def)

lemma parse_kept:
  assumes "readsOnly tc deps" and "translateOne tc i opts w = (r, e, w')" and "written opts i \<inter> deps j = {}"
  shows "ParseFile (frontAt tc w') j = ParseFile (frontAt tc w) j"
proof -
  have "\<forall>q \<in> deps j. wFiles w' q = wFiles w q"
    using translateOne_written[OF assms(2)] assms(3) by blast
  with assms(1) show ?thesis unfolding readsOnly_def by blast
qed

section \<open>A whole run\<close>

text \<open>The inputs of a run have distinct base names, those of the entries of one directory.\<close>

lemma list_all2_all_set: "list_all2 P xs ys \<Longrightarrow> list_all2 (\<lambda>x y. x \<in> set xs \<and> P x y) xs ys"
  by (simp add: list_all2_conv_all_nth)

lemma runInputs_results:
  "runInputs tc opts is rs0 w = (rs, e, w') \<Longrightarrow> \<exists>ts. rs = rs0 @ ts \<and> length ts \<le> length is
     \<and> (e = None \<longrightarrow> length ts = length is) \<and> (e \<noteq> None \<longrightarrow> length ts < length is)"
proof (induction "is" arbitrary: rs0 w)
  case (Cons i "is")
  obtain r e1 w1 where t: "translateOne tc i opts w = (r, e1, w1)" by (metis prod_cases3)
  show ?case
  proof (cases e1)
    case None
    with Cons.prems t have "runInputs tc opts is (rs0 @ [r]) w1 = (rs, e, w')" by simp
    from Cons.IH[OF this] show ?thesis by force
  next
    case (Some a)
    with Cons.prems t show ?thesis by auto
  qed
qed simp

lemma runInputs_frame:
  "runInputs tc opts is rs0 w = (rs, e, w') \<Longrightarrow> \<forall>i \<in> set is. q \<notin> artifacts opts i \<Longrightarrow> wFiles w' q = wFiles w q"
proof (induction "is" arbitrary: rs0 w)
  case (Cons i "is")
  obtain r e1 w1 where t: "translateOne tc i opts w = (r, e1, w1)" by (metis prod_cases3)
  with Cons translateOne_frame[OF t, of q] show ?case by (cases e1) auto
qed simp

lemma runInputs_translated:
  assumes "readsOnly tc deps"
  shows "runInputs tc opts is rs0 w = (rs0 @ ts, None, w') \<Longrightarrow> list_all sourceName is \<Longrightarrow> distinct (map pathBase is)
    \<Longrightarrow> undisturbed opts deps is \<Longrightarrow> list_all2 (\<lambda>i r. translated tc (frontAt tc w) opts i r w') is ts"
proof (induction "is" arbitrary: rs0 ts w)
  case Nil
  then show ?case by simp
next
  case (Cons i "is")
  obtain r e1 w1 where t: "translateOne tc i opts w = (r, e1, w1)" by (metis prod_cases3)
  with Cons.prems(1) have e: "e1 = None" and run: "runInputs tc opts is (rs0 @ [r]) w1 = (rs0 @ ts, None, w')"
    by (auto split: option.splits)
  from runInputs_results[OF run] obtain ts' where ts: "ts = r # ts'" by auto
  have "translated tc (frontAt tc w) opts i r w1"
    using translateOne_translated[OF t[unfolded e]] Cons.prems(2) by simp
  moreover have "wFiles w' q = wFiles w1 q" if "q \<in> artifacts opts i" for q
  proof (rule runInputs_frame[OF run], rule ballI)
    fix j assume "j \<in> set is"
    then have "artifacts opts i \<inter> artifacts opts j = {}"
      using Cons.prems(2,3) by (intro artifacts_disjoint) (auto simp: list_all_iff)
    with that show "q \<notin> artifacts opts j" by blast
  qed
  ultimately have "translated tc (frontAt tc w) opts i r w'" by (rule translated_keep)
  moreover have "list_all2 (\<lambda>i r. translated tc (frontAt tc w1) opts i r w') is ts'"
  proof (rule Cons.IH)
    show "runInputs tc opts is (rs0 @ [r]) w1 = ((rs0 @ [r]) @ ts', None, w')" using run ts by simp
  qed (use Cons.prems in \<open>simp_all add: undisturbed_def\<close>)
  then have "list_all2 (\<lambda>i r. translated tc (frontAt tc w) opts i r w') is ts'"
  proof (rule list_all2_mono[OF list_all2_all_set])
    fix j r' assume "j \<in> set is \<and> translated tc (frontAt tc w1) opts j r' w'"
    moreover from this have "ParseFile (frontAt tc w1) j = ParseFile (frontAt tc w) j"
      using Cons.prems(4) by (intro parse_kept[OF assms t]) (simp add: undisturbed_def)
    ultimately show "translated tc (frontAt tc w) opts j r' w'" using translated_cong by blast
  qed
  ultimately show ?case by (simp add: ts)
qed

lemma Run_cases:
  assumes "Run tc opts w = (rs, None, w')"
  obtains ins where "findInputs w (InputDir opts) = Inr ins" "ins \<noteq> []"
    "runInputs tc (defaultOptions opts) ins [] w = (rs, None, w')"
  using assms by (auto simp: Run_def Let_def defaultOptions_def split: sum.splits if_splits option.splits)

lemma licensed_source: "plainName (deName e) \<Longrightarrow> licensed w dir e \<Longrightarrow> sourceName (pathJoin dir (deName e))"
  by (simp add: sourceName_def licensed_def isInput_def pathBase_pathJoin)

lemma sources_of_run:
  assumes "list_all (\<lambda>e. plainName (deName e)) es" and "distinct (map deName es)"
  shows "list_all sourceName (map (\<lambda>e. pathJoin dir (deName e)) (filter (licensed w dir) es))"
    and "distinct (map pathBase (map (\<lambda>e. pathJoin dir (deName e)) (filter (licensed w dir) es)))"
proof -
  have "map pathBase (map (\<lambda>e. pathJoin dir (deName e)) (filter (licensed w dir) es)) = map deName (filter (licensed w dir) es)"
    using assms(1) by (auto simp: list_all_iff pathBase_pathJoin)
  then show "distinct (map pathBase (map (\<lambda>e. pathJoin dir (deName e)) (filter (licensed w dir) es)))"
    using distinct_map_filter[OF assms(2), of "licensed w dir"] by (simp only:)
  show "list_all sourceName (map (\<lambda>e. pathJoin dir (deName e)) (filter (licensed w dir) es))"
    using assms(1) licensed_source by (auto simp: list_all_iff)
qed

definition inputsOf :: "world \<Rightarrow> string \<Rightarrow> string list" where
  "inputsOf w dir = (case findInputs w dir of Inr ins \<Rightarrow> ins | Inl _ \<Rightarrow> [])"

lemma Run_translated:
  assumes fe: "readsOnly tc deps" "undisturbed (defaultOptions opts) deps (inputsOf w (InputDir opts))"
    and es: "wDirs w (InputDir opts) = Inr es"
    and names: "list_all (\<lambda>e. plainName (deName e)) es" "distinct (map deName es)"
    and run: "Run tc opts w = (rs, None, w')"
  shows "map InputFile rs = map (\<lambda>e. pathJoin (InputDir opts) (deName e)) (filter (licensed w (InputDir opts)) es)"
    and "list_all (\<lambda>r. translated tc (frontAt tc w) (defaultOptions opts) (InputFile r) r w') rs"
proof -
  let ?is = "map (\<lambda>e. pathJoin (InputDir opts) (deName e)) (filter (licensed w (InputDir opts)) es)"
  obtain ins where i: "findInputs w (InputDir opts) = Inr ins"
    and r: "runInputs tc (defaultOptions opts) ins [] w = (rs, None, w')" using run by (rule Run_cases)
  have ins: "ins = ?is" using i es by (auto simp: findInputs_iff)
  have "undisturbed (defaultOptions opts) deps ins" using fe(2) i by (simp add: inputsOf_def)
  then have t: "list_all2 (\<lambda>i r. translated tc (frontAt tc w) (defaultOptions opts) i r w') ?is rs"
    using runInputs_translated[OF fe(1), of "defaultOptions opts" ins "[]" w rs w'] r sources_of_run[OF names, of "InputDir opts" w]
    unfolding ins by simp
  then have "list_all2 (\<lambda>i r. i = InputFile r) ?is rs"
    by (rule list_all2_mono) (simp add: translated_def)
  then show eq: "map InputFile rs = ?is" by (auto simp: list_all2_conv_all_nth intro: nth_equalityI)
  from t show "list_all (\<lambda>r. translated tc (frontAt tc w) (defaultOptions opts) (InputFile r) r w') rs"
    by (fastforce simp: list_all2_conv_all_nth list_all_length translated_def)
qed

text \<open>
  An input can be disturbed: if the bindings go to the directory of the inputs, those of one file have
  the name of another that may itself be an input.
\<close>

lemma bindings_overwrite_input:
  assumes "plainName (x @ ''.go'')" and "BindingsDir opts = InputDir opts" and "InputDir opts \<noteq> []"
  shows "pathJoin (InputDir opts) (x @ ''_bindings.go'') \<in> written opts (pathJoin (InputDir opts) (x @ ''.go''))
    \<and> isInput \<lparr>deName = x @ ''_bindings.go'', deIsDir = False\<rparr>"
  using assms by (simp add: written_def bindingsPath_def stemOf_def pathBase_pathJoin isInput_def hasSuffix_def trimSuffix_def)

section \<open>What the validator sees\<close>

text \<open>
  The functions that the parser hands to the validator: those with a section directive, and those
  without one that are neither methods nor \<open>main\<close>.
\<close>

definition examined :: "funcDecl \<Rightarrow> bool" where
  "examined fd \<longleftrightarrow> docDirective (fdDoc fd) ''section'' \<noteq> None \<or> fdRecv fd = None \<and> idName (fdName fd) \<noteq> ''main''"

lemma ParseFile_functions:
  assumes "ParseFile fe filename = Inr prog"
  shows "set (map pfDecl (Programs prog)) \<union> set (map hfDecl (Helpers prog)) =
    {fd. FuncD fd \<in> set (gfDecls (File prog)) \<and> examined fd}"
proof -
  obtain fset f f' defs und where b: "buildProgram (newProgram fset f' defs und) = Inr prog"
    using assms by (auto simp: ParseFile_def rbind_eq_Inr)
  then obtain prog1 where p1: "collectFileDirectives (newProgram fset f' defs und) = Inr prog1"
    and p: "collectDecls prog1 = Inr prog" by (rule buildProgram_cases)
  note l = collectFileDirectives_license(1)[OF p1] and ls = collectDecls_lists[OF p]
  have "Programs prog = concat (map (declPrograms (FileSet prog)) (gfDecls (File prog)))"
    "Helpers prog = concat (map (declHelpers (FileSet prog)) (gfDecls (File prog)))"
    using ls l by (simp_all add: newProgram_def)
  moreover have "pfDecl ` set (declPrograms fs d) \<union> hfDecl ` set (declHelpers fs d) = {fd. d = FuncD fd \<and> examined fd}" for fs d
  proof (cases d)
    case (FuncD fd)
    then show ?thesis
      by (cases "docDirective (fdDoc fd) ''section''") (auto simp: declPrograms_def declHelpers_def examined_def)
  qed (simp_all add: declPrograms_def declHelpers_def)
  then have "(\<Union>d \<in> D. pfDecl ` set (declPrograms fs d) \<union> hfDecl ` set (declHelpers fs d)) = {fd. FuncD fd \<in> D \<and> examined fd}" for fs D
    by auto
  ultimately show ?thesis by (simp add: image_UN UN_Un_distrib)
qed

lemma inSubset_examined:
  assumes "ParseFile fe filename = Inr prog"
  shows "inSubset prog \<longleftrightarrow> list_all importOk (gfImports (File prog))
    \<and> (\<forall>fd. FuncD fd \<in> set (gfDecls (File prog)) \<longrightarrow> examined fd \<longrightarrow> funcOk prog fd)"
proof -
  have "inSubset prog \<longleftrightarrow> list_all importOk (gfImports (File prog))
      \<and> (\<forall>fd \<in> set (map pfDecl (Programs prog)) \<union> set (map hfDecl (Helpers prog)). funcOk prog fd)"
    by (auto simp: inSubset_def list_all_iff)
  then show ?thesis unfolding ParseFile_functions[OF assms] by blast
qed

end
