(* ===== verification/Commands.thy ===== *)
theory Commands
  imports Pipeline
begin

text \<open>
  The two commands of \<^verbatim>\<open>cmd/gobee\<close>.  What the command line library makes of the arguments, which
  command is meant with which positional arguments, and the values of the flags and environment
  variables that \<^verbatim>\<open>viper.GetString\<close> returns, is a parameter.
\<close>

section \<open>Model\<close>

text \<open>
  The library either calls one of the two commands or answers by itself, with an error or not, and a
  text on the standard output (help, the version, a flag it does not know, a required flag missing).
  What it prints on the standard error is not part of the model.
\<close>

datatype invocation = Translate "string list" | Diagnose | Library "string option" string

record commandLine =
  clCommand :: invocation
  clViper :: "string \<Rightarrow> string"

definition translateOptions :: "(string \<Rightarrow> string) \<Rightarrow> string \<Rightarrow> runOptions" where
  "translateOptions viper dir =
     \<lparr>InputDir = dir, OutputDir = viper ''output'', BindingsDir = viper ''bindings_dir''\<rparr>"

definition runTranslate :: "toolchain \<Rightarrow> (string \<Rightarrow> string) \<Rightarrow> string \<Rightarrow> world \<Rightarrow> string option \<times> world" where
  "runTranslate tc viper arg w = (case Run tc (translateOptions viper arg) w of
     (results, Some e, w1) \<Rightarrow> (Some (''translate: '' @ e), w1)
   | (results, None, w1) \<Rightarrow> (None, PrintSummary results w1))"

definition runDiagnose :: "osFaults \<Rightarrow> (string \<Rightarrow> string) \<Rightarrow> string \<Rightarrow> world \<Rightarrow> string option \<times> world" where
  "runDiagnose os viper stdin w = (let mapPath = viper ''diagnose_map'' in case wFiles w mapPath of
     Inl e \<Rightarrow> (Some (''open sourcemap: '' @ e), w)
   | Inr text \<Rightarrow>
       (case ParseSourceMap text of
          Inl e \<Rightarrow> (Some (''parse sourcemap: '' @ e), w)
        | Inr sm \<Rightarrow> (case Rewrite stdin (stdoutWrite os) sm w of
            (err, w1) \<Rightarrow> (map_option (\<lambda>e. ''rewrite: '' @ e) err, w1))))"

text \<open>
  \<^verbatim>\<open>Args: cobra.ExactArgs(1)\<close> of the translate command, so \<^verbatim>\<open>args[0]\<close> is always there.
\<close>

definition exactArgs1 :: "string list \<Rightarrow> string res" where
  "exactArgs1 args = (case args of
     [arg] \<Rightarrow> Inr arg
   | _ \<Rightarrow> Inl (''accepts 1 arg(s), received '' @ itoa (length args)))"

definition Execute :: "toolchain \<Rightarrow> (string list \<Rightarrow> commandLine) \<Rightarrow> string \<Rightarrow> string list \<Rightarrow> world \<Rightarrow> string option \<times> world" where
  "Execute tc cobra stdin argv w = (let cl = cobra argv in case clCommand cl of
     Translate args \<Rightarrow> (case exactArgs1 args of
         Inl e \<Rightarrow> (Some e, w)
       | Inr arg \<Rightarrow> runTranslate tc (clViper cl) arg w)
   | Diagnose \<Rightarrow> runDiagnose (faults tc) (clViper cl) stdin w
   | Library err out \<Rightarrow> (err, w\<lparr>wStdout := wStdout w @ out\<rparr>))"

text \<open>The exit status of the process and the world it leaves.\<close>

definition gobeeMain :: "toolchain \<Rightarrow> (string list \<Rightarrow> commandLine) \<Rightarrow> string \<Rightarrow> string list \<Rightarrow> world \<Rightarrow> nat \<times> world" where
  "gobeeMain tc cobra stdin argv w = (case Execute tc cobra stdin argv w of
     (err, w') \<Rightarrow> (if err \<noteq> None then 1 else 0, w'))"

section \<open>From one command to the other\<close>

lemma translate_exit:
  assumes "clCommand (cobra argv) = Translate [dir]" and "gobeeMain tc cobra stdin argv w = (0, w')"
  obtains rs w1 where "Run tc (translateOptions (clViper (cobra argv)) dir) w = (rs, None, w1)" "w' = PrintSummary rs w1"
  using assms by (auto simp: gobeeMain_def Execute_def exactArgs1_def runTranslate_def split: prod.splits option.splits if_splits)

text \<open>A standard output that takes everything.\<close>

lemma stdout_lines:
  assumes "stdoutErr os = (\<lambda>_. None)"
  shows "writeLines (stdoutWrite os) ls w = (None, w\<lparr>wStdout := wStdout w @ unlines ls\<rparr>)"
  using assms by (induction ls arbitrary: w) (simp_all add: stdoutWrite_def)

text \<open>Reading back a source map that a translation has written.\<close>

lemma runDiagnose_translated:
  assumes "translated tc fe opts i r w" and "compile fe (OutputDir opts) i = Inr (prog, source, maps)"
    and "viper ''diagnose_map'' = MapFile r" and "list_all mappingOk maps"
    and "list_all (\<lambda>l. newline \<notin> set l \<and> length l < rewriteTokenSize \<and> (l = [] \<or> last l \<noteq> CHR 0x0D)) ls"
    and "stdoutErr os = (\<lambda>_. None)"
  shows "runDiagnose os viper (unlines ls) w =
    (None, w\<lparr>wStdout := wStdout w @ unlines (map (\<lambda>l. annotateLine l (mappingMap maps)) ls)\<rparr>)"
proof -
  have "wFiles w (viper ''diagnose_map'') = Inr (FormatSourceMap maps)" using assms(1-3) by (auto simp: translated_def)
  moreover have "ParseSourceMap (FormatSourceMap maps) = Inr (mappingMap maps)"
    using assms(4) by (intro ParseSourceMap_FormatSourceMap) (simp add: list_all_iff)
  moreover have "Rewrite (unlines ls) (stdoutWrite os) (mappingMap maps) w =
      writeLines (stdoutWrite os) (map (\<lambda>l. annotateLine l (mappingMap maps)) ls) w"
    using assms(5) by (intro Rewrite_lines) (auto simp: list_all_iff)
  ultimately show ?thesis by (simp add: runDiagnose_def Let_def stdout_lines[OF assms(6)])
qed

lemma translate_translated:
  assumes "readsOnly tc deps"
    and "undisturbed (defaultOptions (translateOptions (clViper (cobra argv)) dir)) deps (inputsOf w dir)"
    and "wDirs w dir = Inr es" and "list_all (\<lambda>e. plainName (deName e)) es" and "distinct (map deName es)"
    and "clCommand (cobra argv) = Translate [dir]" and "gobeeMain tc cobra stdin argv w = (0, w')"
    and "x \<in> set es" and "licensed w dir x"
  obtains r where "translated tc (frontAt tc w) (defaultOptions (translateOptions (clViper (cobra argv)) dir))
    (pathJoin dir (deName x)) r w'"
proof -
  let ?opts = "translateOptions (clViper (cobra argv)) dir"
  obtain rs w1 where run: "Run tc ?opts w = (rs, None, w1)" "w' = PrintSummary rs w1"
    using assms(6,7) by (rule translate_exit)
  have d: "InputDir ?opts = dir" by (simp add: translateOptions_def)
  note t = Run_translated[OF assms(1) _ _ assms(4,5) run(1), unfolded d, OF assms(2,3)]
  have "pathJoin dir (deName x) \<in> set (map InputFile rs)" using t(1) assms(8,9) by simp
  then obtain r where r: "r \<in> set rs" "InputFile r = pathJoin dir (deName x)" by auto
  with t(2) have "translated tc (frontAt tc w) (defaultOptions ?opts) (pathJoin dir (deName x)) r w1"
    by (auto simp: list_all_iff)
  then have "translated tc (frontAt tc w) (defaultOptions ?opts) (pathJoin dir (deName x)) r w'"
    by (rule translated_keep) (simp add: run(2) PrintSummary_def)
  then show thesis by (rule that)
qed

end
