(* ===== verification/Golden.thy ===== *)
theory Golden
  imports Commands
begin

text \<open>
  The reference translation of the repository: \<^verbatim>\<open>testdata/golden/helloworld.go\<close>, as the Go front
  end delivers it, and the committed \<^verbatim>\<open>testdata/golden/helloworld.c\<close>.  The program is translated
  by the model, and serves as the concrete input of the witnesses.
\<close>

section \<open>The input\<close>

definition goldenPath :: string where
  "goldenPath = ''testdata/golden/helloworld.go''"

text \<open>The text of the file.\<close>

definition goldenSource :: string where
  "goldenSource = unlines [
     ''//go:build ignore'',
     '''',
     ''package main'',
     '''',
     ''import '' @ dq @ ''github.com/boratanrikulu/gobee/bpf'' @ dq,
     '''',
     ''//bpf:license GPL'',
     '''',
     ''var PktCount = bpf.ArrayMap[uint32, uint64]{MaxEntries: 1}'',
     '''',
     ''//bpf:section xdp'',
     ''func CountPackets(ctx *bpf.XdpMd) bpf.XdpAction {'',
     [tab] @ ''var key uint32 = 0'',
     [tab] @ ''count, ok := PktCount.Lookup(&key)'',
     [tab] @ ''if !ok {'',
     [tab, tab] @ ''return bpf.XdpPass'',
     [tab] @ ''}'',
     [tab] @ ''bpf.AtomicAdd64(count, 1)'',
     [tab] @ ''return bpf.XdpPass'',
     ''}'',
     '''',
     ''func main() {}'']"

text \<open>A file set with one file: the offsets at which its lines start.\<close>

definition lineFileset :: "string \<Rightarrow> pos list \<Rightarrow> fileset" where
  "lineFileset name starts p =
     (let before' = takeWhile (\<lambda>s. s \<le> p) starts
      in \<lparr>Filename = name, Line = length before', Column = p - last before' + 1\<rparr>)"

definition goldenStarts :: "pos list" where
  "goldenStarts = [1, 19, 20, 33, 34, 78, 79, 97, 98, 157, 158, 176, 226, 246, 282, 292, 313, 316, 343, 363, 365, 366]"

definition goldenMapIdent :: ident where
  "goldenMapIdent = Ident 102 ''PktCount'' None (Some (OtherObj 1)) (Some (Named (Some bpfPkgPath) ''ArrayMap'' [Basic KUint32, Basic KUint64]))"

definition goldenCtx :: ident where
  "goldenCtx = Ident 194 ''ctx'' None (Some (OtherObj 3)) (Some (Pointer (Named (Some bpfPkgPath) ''XdpMd'' [])))"

definition goldenBody :: "stmt list" where
  "goldenBody =
      [DeclStmt 227 VAR_kw [ValueSpec 231 [Ident 231 ''key'' None (Some (OtherObj 4)) (Some (Basic KUint32))] (Some (IdentE (Ident 235 ''uint32'' None None (Some (Basic KUint32)))))
         [BasicLit (244, Some (Basic KUint32)) INT_lit ''0'']],
       AssignStmt 247 [IdentE (Ident 247 ''count'' None (Some (OtherObj 5)) (Some (Pointer (Basic KUint64)))), IdentE (Ident 254 ''ok'' None (Some (OtherObj 6)) (Some (Basic KBool)))] DEFINE
         [CallExpr (260, None) (SelectorExpr (260, None) (IdentE (Ident 260 ''PktCount'' (Some (OtherObj 1)) None (Some (Named (Some bpfPkgPath) ''ArrayMap'' [Basic KUint32, Basic KUint64])))) (Ident 269 ''Lookup'' None None None)) [UnaryExpr (276, Some (Pointer (Basic KUint32))) AND (IdentE (Ident 277 ''key'' (Some (OtherObj 4)) None (Some (Basic KUint32))))]],
       IfStmt 283 None (UnaryExpr (286, Some (Basic KBool)) NOT (IdentE (Ident 287 ''ok'' (Some (OtherObj 6)) None (Some (Basic KBool)))))
         [ReturnStmt 294 [SelectorExpr (301, Some (Named (Some bpfPkgPath) ''XdpAction'' [])) (IdentE (Ident 301 ''bpf'' (Some (PkgName 0 bpfPkgPath)) None None)) (Ident 305 ''XdpPass'' None None None)]] None,
       ExprStmt 317 (CallExpr (317, None) (SelectorExpr (317, None) (IdentE (Ident 317 ''bpf'' (Some (PkgName 0 bpfPkgPath)) None None)) (Ident 321 ''AtomicAdd64'' None None None))
         [IdentE (Ident 333 ''count'' (Some (OtherObj 5)) None (Some (Pointer (Basic KUint64)))), BasicLit (340, Some (Basic KUint64)) INT_lit ''1'']),
       ReturnStmt 344 [SelectorExpr (351, Some (Named (Some bpfPkgPath) ''XdpAction'' [])) (IdentE (Ident 351 ''bpf'' (Some (PkgName 0 bpfPkgPath)) None None)) (Ident 355 ''XdpPass'' None None None)]]"

definition goldenFunc :: funcDecl where
  "goldenFunc = \<lparr>fdPos = 176, fdDoc = Some [''//bpf:section xdp''],
     fdName = Ident 181 ''CountPackets'' None (Some (OtherObj 2)) None,
     fdRecv = None, fdTypeParams = None,
     fdParams = Some [Field [goldenCtx]
       (StarExpr (198, Some (Pointer (Named (Some bpfPkgPath) ''XdpMd'' []))) (SelectorExpr (199, Some (Named (Some bpfPkgPath) ''XdpMd'' [])) (IdentE (Ident 199 ''bpf'' (Some (PkgName 0 bpfPkgPath)) None None)) (Ident 203 ''XdpMd'' None None None)))],
     fdResults = Some (210, [Field [] (SelectorExpr (210, Some (Named (Some bpfPkgPath) ''XdpAction'' [])) (IdentE (Ident 210 ''bpf'' (Some (PkgName 0 bpfPkgPath)) None None)) (Ident 214 ''XdpAction'' None None None))]),
     fdBody = Some (224, goldenBody, 364)\<rparr>"

definition goldenMain :: funcDecl where
  "goldenMain = \<lparr>fdPos = 366, fdDoc = None, fdName = Ident 371 ''main'' None (Some (OtherObj 7)) None,
     fdRecv = None, fdTypeParams = None, fdParams = Some [], fdResults = None,
     fdBody = Some (378, [], 380)\<rparr>"

definition goldenFile :: goFile where
  "goldenFile = \<lparr>gfPos = 20,
     gfComments = [[(1, ''//go:build ignore'')], [(79, ''//bpf:license GPL'')], [(158, ''//bpf:section xdp'')]],
     gfDecls = [GenD IMPORT_kw [ImportSpec 41],
       GenD VAR_kw [ValueSpec 102 [goldenMapIdent] None
       [CompositeLit (113, Some (Named (Some bpfPkgPath) ''ArrayMap'' [Basic KUint32, Basic KUint64])) (Some (IndexListExpr (113, Some (Named (Some bpfPkgPath) ''ArrayMap'' [Basic KUint32, Basic KUint64])) (SelectorExpr (113, None) (IdentE (Ident 113 ''bpf'' (Some (PkgName 0 bpfPkgPath)) None None)) (Ident 117 ''ArrayMap'' None None None)) [IdentE (Ident 126 ''uint32'' None None (Some (Basic KUint32))), IdentE (Ident 134 ''uint64'' None None (Some (Basic KUint64)))]))
         [KeyValueExpr (142, None) (IdentE (Ident 142 ''MaxEntries'' None None None)) (BasicLit (154, Some (Basic KInt)) INT_lit ''1'')]]],
       FuncD goldenFunc, FuncD goldenMain],
     gfImports = [(41, dq @ ''github.com/boratanrikulu/gobee/bpf'' @ dq)]\<rparr>"

definition goldenDefs :: "ident list" where
  "goldenDefs = [Ident 28 ''main'' None None None, goldenMapIdent, fdName goldenFunc, goldenCtx,
     Ident 231 ''key'' None (Some (OtherObj 4)) (Some (Basic KUint32)),
     Ident 247 ''count'' None (Some (OtherObj 5)) (Some (Pointer (Basic KUint64))),
     Ident 254 ''ok'' None (Some (OtherObj 6)) (Some (Basic KBool)), fdName goldenMain]"

definition goldenUnderlying :: "gotype \<Rightarrow> gotype" where
  "goldenUnderlying t = (case t of Named _ _ _ \<Rightarrow> Struct [] | _ \<Rightarrow> t)"

definition goldenFrontEnd :: frontEnd where
  "goldenFrontEnd = \<lparr>goParse = (\<lambda>f. if f = goldenPath then Inr (lineFileset goldenPath goldenStarts, goldenFile)
       else Inl (''open '' @ f @ '': no such file or directory'')),
     goCheck = (\<lambda>_ f. Inr (f, goldenDefs, goldenUnderlying))\<rparr>"

definition goldenStart :: gprogram where
  "goldenStart = newProgram (lineFileset goldenPath goldenStarts) goldenFile goldenDefs goldenUnderlying"

definition goldenProgram :: gprogram where
  "goldenProgram = (case ParseFile goldenFrontEnd goldenPath of
     Inr prog \<Rightarrow> prog
   | Inl _ \<Rightarrow> goldenStart)"

section \<open>The output\<close>

definition goldenC :: "string list" where
  "goldenC = [
     ''// Code generated by gobee. DO NOT EDIT.'',
     ''// source: testdata/golden/helloworld.go'',
     '''',
     ''#include <linux/bpf.h>'',
     ''#include <bpf/bpf_helpers.h>'',
     '''',
     ''char _license[] SEC('' @ dq @ ''license'' @ dq @ '') = '' @ dq @ ''GPL'' @ dq @ '';'',
     '''',
     ''struct {'',
     [tab] @ ''__uint(type, BPF_MAP_TYPE_ARRAY);'',
     [tab] @ ''__type(key, __u32);'',
     [tab] @ ''__type(value, __u64);'',
     [tab] @ ''__uint(max_entries, 1);'',
     ''} PktCount SEC('' @ dq @ ''.maps'' @ dq @ '');'',
     '''',
     ''SEC('' @ dq @ ''xdp'' @ dq @ '')'',
     ''int CountPackets(struct xdp_md *ctx) {'',
     [tab] @ ''__u32 key = 0;'',
     [tab] @ ''__u64 *count = bpf_map_lookup_elem(&PktCount, &key);'',
     [tab] @ ''if (!count) {'',
     [tab, tab] @ ''return XDP_PASS;'',
     [tab] @ ''}'',
     [tab] @ ''__sync_fetch_and_add(count, 1);'',
     [tab] @ ''return XDP_PASS;'',
     ''}'']"

definition goldenLineMap :: "(nat \<times> nat \<times> nat) list" where
  "goldenLineMap = [(9, 9, 5), (16, 12, 1), (18, 13, 2), (19, 14, 2), (20, 15, 2), (21, 16, 3), (23, 18, 2), (24, 19, 2)]"

definition goldenMappings :: "sourceMapping list" where
  "goldenMappings = map (\<lambda>(c, l, k). \<lparr>CLine = c, SPosition = posFor goldenPath l k\<rparr>) goldenLineMap"

lemma golden_isr: "case ParseFile goldenFrontEnd goldenPath of Inr _ \<Rightarrow> True | Inl _ \<Rightarrow> False"
  by code_simp

lemma golden_parse: "ParseFile goldenFrontEnd goldenPath = Inr goldenProgram"
  using golden_isr by (auto simp: goldenProgram_def split: sum.splits)

lemma golden_validate: "Validate goldenProgram = []"
  by code_simp

lemma golden_contents:
  "(License goldenProgram, Types goldenProgram, Helpers goldenProgram, Consts goldenProgram,
    Maps goldenProgram, Programs goldenProgram) =
   (''GPL'', [], [], [],
    [\<lparr>mdName = ''PktCount'', mdPos = posFor goldenPath 9 5, mdType = ''array'',
      mdKeyType = Some (Basic KUint32), mdValType = Some (Basic KUint64), mdMaxEntries = 1, mdFlags = [],
      mdSpecPos = Some 102\<rparr>],
    [\<lparr>pfName = ''CountPackets'', pfSection = ''xdp'', pfPos = posFor goldenPath 12 1, pfDecl = goldenFunc\<rparr>])"
  by code_simp

lemma golden_lists: "License goldenProgram = ''GPL''" "Types goldenProgram = []" "Helpers goldenProgram = []"
    "Consts goldenProgram = []"
  using golden_contents by simp_all

lemmas golden_fields = golden_contents[unfolded prod.inject]

lemma golden_build: "buildProgram goldenStart = Inr goldenProgram"
  using golden_parse by (simp add: ParseFile_def goldenFrontEnd_def goldenStart_def)

lemma golden_fileset: "FileSet goldenProgram = lineFileset goldenPath goldenStarts"
  and golden_defs: "Defs goldenProgram = goldenDefs"
  and golden_file: "File goldenProgram = goldenFile"
  using buildProgram_keeps[OF golden_build] by (simp_all add: goldenStart_def newProgram_def)

lemma golden_steps: "\<exists>prog1. collectFileDirectives goldenStart = Inr prog1 \<and> collectDecls prog1 = Inr goldenProgram"
  using golden_build by (rule buildProgram_cases) blast

lemma golden_start: "License goldenStart = []" "File goldenStart = goldenFile" "Programs goldenStart = []"
  by (simp_all add: goldenStart_def newProgram_def)

lemma golden_licenseNames: "licenseNames (concat (gfComments goldenFile)) = [''GPL'']"
  by code_simp

lemma golden_def_positions:
  "distinct (map (\<lambda>i. posKey (lineFileset goldenPath goldenStarts (idPos i))) goldenDefs)"
  by code_simp

text \<open>The positions that are recorded.\<close>

lemma golden_positions:
  "lineFileset goldenPath goldenStarts 102 = posFor goldenPath 9 5"
  "lineFileset goldenPath goldenStarts 176 = posFor goldenPath 12 1"
  "lineFileset goldenPath goldenStarts 227 = posFor goldenPath 13 2"
  "lineFileset goldenPath goldenStarts 247 = posFor goldenPath 14 2"
  "lineFileset goldenPath goldenStarts 283 = posFor goldenPath 15 2"
  "lineFileset goldenPath goldenStarts 294 = posFor goldenPath 16 3"
  "lineFileset goldenPath goldenStarts 317 = posFor goldenPath 18 2"
  "lineFileset goldenPath goldenStarts 344 = posFor goldenPath 19 2"
  by code_simp+

lemma golden_scans: "\<not> usesKernelFieldAccess goldenProgram" "\<not> usesEndianHelpers goldenProgram"
    "usedPreludeHelpers goldenProgram = []"
  by code_simp+

lemmas write_defs = writef_def writeln_def writeIndent_def writeRaw_def recordPos_def incIndent_def decIndent_def
  declString_def nested_def typeAt_def

lemma golden_pos: "FileSet goldenProgram p = lineFileset goldenPath goldenStarts p"
  by (simp add: golden_fileset)

abbreviation goldenState :: "string \<Rightarrow> nat \<Rightarrow> nat \<Rightarrow> sourceMapping list \<Rightarrow> (gobj \<rightharpoonup> string) \<Rightarrow> emitter" where
  "goldenState buf i n ms al \<equiv> \<lparr>eprog = goldenProgram, ebuf = buf, eindent = i, cLine = n,
     mappings = ms, aliases = al, tmpSeq = 0\<rparr>"

abbreviation goldenAt :: "nat \<Rightarrow> nat \<Rightarrow> nat \<Rightarrow> sourceMapping" where
  "goldenAt n l c \<equiv> \<lparr>CLine = n, SPosition = posFor goldenPath l c\<rparr>"

lemma golden_texts: "itoa (Suc 0) = ''1''" "quote ''.maps'' = dq @ ''.maps'' @ dq" "quote ''xdp'' = dq @ ''xdp'' @ dq"
    "quote ''GPL'' = dq @ ''GPL'' @ dq" "quote ''license'' = dq @ ''license'' @ dq"
    "hasSuffix ''struct xdp_md *'' ''*''"
  by code_simp+

lemma golden_head: "writeLicense (writeHeader goldenPath False False (newEmitter goldenProgram)) =
    goldenState (unlines (take 8 goldenC)) 0 9 [] Map.empty"
  by (simp add: writeLicense_def writeHeader_def newEmitter_def write_defs goldenC_def golden_fields
      goldenPath_def golden_texts)

lemma golden_map: "rfold writeMap (Maps goldenProgram) (goldenState buf 0 n ms al) =
   Inr (goldenState (buf @ unlines (drop 8 (take 15 goldenC))) 0 (n + 7) (ms @ [goldenAt n 9 5]) al)"
  by (simp add: golden_fields writeMap_def write_defs mapTypeToC_def typeLine_def mapEnd_def maxEntries_def golden_pos
     golden_positions goldenC_def Let_def golden_texts)

lemmas expr_defs = formatSelector_def coreReadChain_def fieldAccess_def constantOf_def formatUnary_def formatBinary_def
  formatIdent_def formatCall_def orElse_def isUnsafePointer_def callText_def formatMapCall_def formatHelperCall_def
  ringbufMethodCall_def queueLikeMethodCall_def progArrayMethodCall_def perfEventArrayMethodCall_def
  storageMethodCall_def redirectMapCall_def mapMethodCall_def mapLookupCall_def methodOn_def selectorOf_def identOf_def
  bpfFuncName_def namedOf_def deref_def isRingBufNamed_def isQueueOrStackNamed_def isMapNamed_def storageMapInfo_def
  goBasicNameToC_def bpfConstants_def bpfHelperFuncs_def bpfHelperExpansions_def mapMethodToHelper_def
  kernelMapGoTypes_def storageMapHelpers_def

lemmas stmt_defs = writeDeclStmt_def writeVarSpec_def writeVar_def writeAssignStmt_def writeCommaOkAssign_def
  writeCommaOk_def writeMapLookup_def oneArg_def resolveLHSName_def addAlias_def writeReturnStmt_def writeExprStmt_def
  goTypeToCOpt_def

lemma golden_block: "writeBlock goldenBody (goldenState buf (Suc 0) n ms Map.empty) =
   Inr (goldenState (buf @ unlines (drop 17 (take 24 goldenC))) (Suc 0) (n + 7)
     (ms @ [goldenAt n 13 2, goldenAt (n + 1) 14 2, goldenAt (n + 2) 15 2, goldenAt (n + 3) 16 3,
            goldenAt (n + 5) 18 2, goldenAt (n + 6) 19 2]) [OtherObj 6 \<mapsto> ''count''])"
  by (simp add: goldenBody_def stmt_defs expr_defs write_defs golden_pos golden_positions hasSuffix_def goldenC_def Let_def)

lemma golden_program: "rfold writeProgram (Programs goldenProgram) (goldenState buf 0 n ms Map.empty) =
   Inr (goldenState (buf @ unlines (drop 15 goldenC)) 0 (n + 10)
     (ms @ [goldenAt n 12 1, goldenAt (n + 2) 13 2, goldenAt (n + 3) 14 2, goldenAt (n + 4) 15 2, goldenAt (n + 5) 16 3,
            goldenAt (n + 7) 18 2, goldenAt (n + 8) 19 2]) [OtherObj 6 \<mapsto> ''count''])"
  by (simp add: golden_fields writeProgram_def write_defs goldenFunc_def paramList_def fieldNames_def fieldType_def
    namedToC_def bpfPackageTypeInfo_def bpfPackageTypes_def typeInfo_def goTypeToCOpt_def writeBody_def golden_texts
    golden_pos golden_positions golden_block goldenCtx_def goldenC_def Let_def)

lemma golden_emit: "Emit goldenProgram goldenPath = Inr (unlines goldenC, goldenMappings)"
  by (simp add: Emit_def emitAll_def golden_scans golden_head golden_map golden_program golden_lists
    goldenMappings_def goldenLineMap_def)
     (simp add: goldenC_def)

lemma golden_mappingOk: "list_all mappingOk goldenMappings"
proof -
  have "list_all (\<lambda>m. length (mappingLine m) < 100) goldenMappings" by code_simp
  moreover have "list_all (\<lambda>m. newline \<notin> set (Filename (SPosition m)) \<and> CLine m < 100) goldenMappings" by code_simp
  ultimately show ?thesis by (auto simp: list_all_iff mappingOk_def maxScanTokenSize_def)
qed

lemma golden_map_chars: "CHR 0x60 \<notin> set (FormatSourceMap goldenMappings)"
    "CHR 0x0D \<notin> set (FormatSourceMap goldenMappings)"
  by code_simp+

section \<open>A run\<close>

text \<open>A directory with the file and its test, an operating system that does not fail, a printer that
  is never asked to print.\<close>

definition noPrinter :: goPrinter where
  "noPrinter = \<lparr>printType = (\<lambda>_. Inl ''no printer''), printExpr = (\<lambda>_. Inl ''no printer'')\<rparr>"

text \<open>A front end that reads the file and knows this one text.\<close>

definition goldenReader :: "world \<Rightarrow> frontEnd" where
  "goldenReader w = \<lparr>goParse = (\<lambda>p. case wFiles w p of
       Inl e \<Rightarrow> Inl (''open '' @ p @ '': '' @ e)
     | Inr text \<Rightarrow> if text = goldenSource then goParse goldenFrontEnd p else Inl (p @ '':1:1: unknown text'')),
     goCheck = goCheck goldenFrontEnd\<rparr>"

definition goldenTools :: toolchain where
  "goldenTools = \<lparr>faults = \<lparr>mkdirErr = (\<lambda>_. None), openErr = (\<lambda>_. None), writeErr = (\<lambda>_. None), closeErr = (\<lambda>_. None),
       stdoutErr = (\<lambda>_. None)\<rparr>,
     frontAt = goldenReader, printer = noPrinter\<rparr>"

definition goldenOptions :: runOptions where
  "goldenOptions = \<lparr>InputDir = ''testdata/golden'', OutputDir = ''.'', BindingsDir = []\<rparr>"

definition goldenEntries :: "dirEntry list" where
  "goldenEntries = [\<lparr>deName = ''helloworld.c'', deIsDir = False\<rparr>, \<lparr>deName = ''helloworld.go'', deIsDir = False\<rparr>,
     \<lparr>deName = ''helloworld_test.go'', deIsDir = False\<rparr>]"

definition goldenWorld :: world where
  "goldenWorld = \<lparr>wDirs = (\<lambda>d. if d = ''testdata/golden'' then Inr goldenEntries else Inl ''no such directory''),
     wFiles = (\<lambda>p. if p = goldenPath then Inr goldenSource else Inl ''no such file or directory''),
     wStderr = [], wStdout = []\<rparr>"

lemma golden_paths:
  "pathJoin ''testdata/golden'' ''helloworld.go'' = goldenPath"
  "pathRel ''.'' goldenPath = Some goldenPath" "goldenPath \<noteq> []"
  by code_simp+

text \<open>The command lines of the translation and of a diagnosis with the source map it writes.\<close>

definition goldenCobra :: "string list \<Rightarrow> commandLine" where
  "goldenCobra argv = \<lparr>
     clCommand = (if argv = [''translate'', ''testdata/golden'', ''-o'', ''.''] then Translate [''testdata/golden'']
       else if argv = [''diagnose'', ''-m'', ''helloworld.bpf.c.map''] then Diagnose
       else Library (Some ''unknown command'') []),
     clViper = (\<lambda>k. if k = ''output'' \<and> ''-o'' \<in> set argv then ''.''
       else if k = ''diagnose_map'' \<and> ''-m'' \<in> set argv then ''helloworld.bpf.c.map'' else [])\<rparr>"

lemma golden_source: "sourceName goldenPath"
  by code_simp

lemma golden_reads: "readsOnly goldenTools (\<lambda>i. {i})"
  by (auto simp: readsOnly_def ParseFile_def goldenTools_def goldenReader_def)

lemma golden_front: "ParseFile (frontAt goldenTools goldenWorld) goldenPath = Inr goldenProgram"
  using golden_parse by (simp add: ParseFile_def goldenTools_def goldenReader_def goldenWorld_def)

lemma golden_compile: "compile (frontAt goldenTools goldenWorld) (OutputDir goldenOptions) goldenPath =
    Inr (goldenProgram, unlines goldenC, goldenMappings)"
  by (simp add: compile_def golden_front goldenOptions_def relSource_def golden_paths golden_validate golden_emit)

lemma golden_missing: "compile (frontAt goldenTools goldenWorld) (OutputDir goldenOptions) ''missing.go'' =
    Inl ''missing.go: parse: open missing.go: no such file or directory''"
  by (simp add: compile_def goldenTools_def ParseFile_def goldenReader_def goldenWorld_def goldenPath_def)

lemma golden_write: "osWriteFile (faults goldenTools) p s w = (None, putFile p s (putFile p [] w))"
  by (simp add: osWriteFile_def osCreate_def fileWrite_def goldenTools_def)

lemma golden_translate: "\<exists>r w'. translateOne goldenTools goldenPath goldenOptions goldenWorld = (r, None, w')"
proof -
  have "BindingsDir goldenOptions = []" by (simp add: goldenOptions_def)
  then show ?thesis by (simp add: translateOne_def Let_def golden_compile golden_write translateBindings_def)
qed

lemma golden_entries:
  "list_all (\<lambda>e. plainName (deName e)) goldenEntries" "distinct (map deName goldenEntries)"
  "filter (licensed goldenWorld ''testdata/golden'') goldenEntries = [\<lparr>deName = ''helloworld.go'', deIsDir = False\<rparr>]"
  by code_simp+

lemma golden_world:
  "wDirs goldenWorld (InputDir goldenOptions) = Inr goldenEntries"
  "list_all (\<lambda>e. plainName (deName e)) goldenEntries" "distinct (map deName goldenEntries)"
  "map (\<lambda>e. pathJoin (InputDir goldenOptions) (deName e)) (filter (licensed goldenWorld (InputDir goldenOptions)) goldenEntries) = [goldenPath]"
  "defaultOptions goldenOptions = goldenOptions"
  by (simp_all add: goldenTools_def goldenWorld_def goldenOptions_def golden_entries[unfolded goldenWorld_def] golden_paths defaultOptions_def)

lemma golden_inputs: "findInputs goldenWorld (InputDir goldenOptions) = Inr [goldenPath]"
proof -
  have "list_all (\<lambda>e. isInput e \<longrightarrow> wFiles goldenWorld (pathJoin (InputDir goldenOptions) (deName e)) = Inr goldenSource)
    goldenEntries" by code_simp
  then show ?thesis using golden_world(1,4) by (fastforce simp: findInputs_iff list_all_iff)
qed

lemma golden_undisturbed: "undisturbed goldenOptions (\<lambda>i. {i}) (inputsOf goldenWorld (InputDir goldenOptions))"
  by (simp add: undisturbed_def inputsOf_def golden_inputs)

lemma golden_run: "\<exists>rs w'. Run goldenTools goldenOptions goldenWorld = (rs, None, w')"
proof -
  obtain r w' where t: "translateOne goldenTools goldenPath goldenOptions goldenWorld = (r, None, w')"
    using golden_translate by blast
  have "mkdirErr (faults goldenTools) d = None" for d by (simp add: goldenTools_def)
  then show ?thesis by (simp add: Run_def golden_world(5) golden_inputs t)
qed

lemma golden_cobra:
  "clCommand (goldenCobra [''translate'', ''testdata/golden'', ''-o'', ''.'']) = Translate [''testdata/golden'']"
  "translateOptions (clViper (goldenCobra [''translate'', ''testdata/golden'', ''-o'', ''.''])) ''testdata/golden'' = goldenOptions"
  "clCommand (goldenCobra [''diagnose'', ''-m'', ''helloworld.bpf.c.map'']) = Diagnose"
  "clViper (goldenCobra [''diagnose'', ''-m'', ''helloworld.bpf.c.map'']) ''diagnose_map'' = cPath goldenOptions goldenPath @ ''.map''"
  by code_simp+

lemma golden_command: "\<exists>w'. gobeeMain goldenTools goldenCobra stdin [''translate'', ''testdata/golden'', ''-o'', ''.''] goldenWorld = (0, w')"
proof -
  obtain rs w' where "Run goldenTools goldenOptions goldenWorld = (rs, None, w')" using golden_run by blast
  then show ?thesis by (simp add: gobeeMain_def Execute_def exactArgs1_def runTranslate_def golden_cobra)
qed

end
