(* ===== verification/Emit_Laws.thy ===== *)
theory Emit_Laws
  imports Emit_Program
begin

text \<open>
  What every operation of the emitter keeps.  The locale \<open>text_emission\<close> is the contract of
  the primitives that write text; \<open>emission\<close> adds the one that records a position.  Inside
  them the contract is lifted once to statements, declarations and the whole emission.
  The interpretations give the line accounting, the frame conditions, the order of the
  recorded mappings, and that only the start of a statement records a position.
\<close>

section \<open>The contract of the primitives\<close>

locale text_emission =
  fixes R :: "emitter \<Rightarrow> emitter \<Rightarrow> bool"
  assumes refl: "R e e"
    and trans: "R a b \<Longrightarrow> R b c \<Longrightarrow> R a c"
    and text_step: "R e (writef s e)"
    and line_step: "newline \<notin> set s \<Longrightarrow> R e (writeln s e)"
    and indent_step: "R e (writeIndent e)"
    and alias_step: "R e (addAlias i name e)"
    and tmp_step: "R e (e\<lparr>tmpSeq := tmpSeq e + 1\<rparr>)"
    and bracket: "R (incIndent e) e' \<Longrightarrow> R e (decIndent e')"
begin

lemma writef_R: "R a e \<Longrightarrow> R a (writef s e)" using trans text_step by blast
lemma writeln_R: "R a e \<Longrightarrow> newline \<notin> set s \<Longrightarrow> R a (writeln s e)" using trans line_step by blast
lemma writeIndent_R: "R a e \<Longrightarrow> R a (writeIndent e)" using trans indent_step by blast
lemma addAlias_R: "R a e \<Longrightarrow> R a (addAlias i name e)" using trans alias_step by blast
lemma writeRaw_R: "R a e \<Longrightarrow> R a (writeRaw s e)"
  using writef_R[of a e s] by (simp add: writef_def writeRaw_def)

lemmas steps = refl writef_R writeln_R writeIndent_R addAlias_R writeRaw_R

lemma resolveLHSName_R: "resolveLHSName i pre e = (name, e') \<Longrightarrow> R e e'"
  using tmp_step by (auto simp: resolveLHSName_def Let_def refl split: if_splits)

lemma writeCommaOk_R:
  assumes "writeCommaOk p lhs what pre valType rhs e = Inr e'"
  shows "R e e'"
proof -
  from assms obtain valC valIdent okIdent init name e1 where
    r: "resolveLHSName valIdent pre e = (name, e1)"
    and e': "e' = addAlias okIdent name (writef (valC @ '' *'' @ name @ '' = '' @ init @ '';'' @ [newline]) (writeIndent e1))"
    by (auto simp: writeCommaOk_def errorf_def split: option.splits prod.splits)
  from resolveLHSName_R[OF r] show ?thesis unfolding e' by (intro steps)
qed

lemma writeCommaOkAssign_R: "writeCommaOkAssign p lhs rhs e = Inr e' \<Longrightarrow> R e e'"
  by (cases rhs)
     (auto simp: writeCommaOkAssign_def commaOkError_def errorf_def writeMapLookup_def writeRingbufReserve_def
        writeStorageGet_def split: option.splits dest: writeCommaOk_R)

lemma writeAssignStmt_R:
  assumes "writeAssignStmt p lhs op rhs e = Inr e'"
  shows "R e e'"
proof -
  consider "writeCommaOkAssign p lhs (rhs ! 0) e = Inr e'" | s where "e' = writef s (writeIndent e)"
    using assms by (auto simp: writeAssignStmt_def errorf_def Let_def split: if_splits option.splits)
  then show ?thesis by cases (auto intro: steps dest: writeCommaOkAssign_R)
qed

lemma writeVar_R: "writeVar vals x e = Inr e' \<Longrightarrow> R e e'"
  by (auto simp: writeVar_def errorf_def Let_def intro!: steps split: prod.splits sum.splits if_splits)

lemma rfold_R:
  assumes "rfold f xs e = Inr e'" and "\<And>x a b. x \<in> set xs \<Longrightarrow> f x a = Inr b \<Longrightarrow> R a b"
  shows "R e e'"
  using assms(1) trans assms(2) refl by (rule rfold_invariant)

lemma writeVarSpec_R: "writeVarSpec sp e = Inr e' \<Longrightarrow> R e e'"
  by (cases sp) (auto simp: writeVarSpec_def dest!: rfold_R writeVar_R)

lemma writeDeclStmt_R: "writeDeclStmt p t specs e = Inr e' \<Longrightarrow> R e e'"
  by (auto simp: writeDeclStmt_def errorf_def split: if_splits dest!: rfold_R writeVarSpec_R)

lemma writeReturnStmt_R: "writeReturnStmt p rs e = Inr e' \<Longrightarrow> R e e'"
  by (auto simp: writeReturnStmt_def errorf_def intro!: steps split: list.splits)

lemma writeExprStmt_R: "writeExprStmt x e = Inr e' \<Longrightarrow> R e e'"
  by (auto simp: writeExprStmt_def intro!: steps)

lemma writeIncDec_R: "writeIncDec x t e = Inr e' \<Longrightarrow> R e e'"
  by (auto simp: writeIncDec_def Let_def intro!: steps)

lemma nested_R:
  assumes "nested body e = Inr e'" and "\<And>x y. body x = Inr y \<Longrightarrow> R x y"
  shows "R e e'"
proof -
  from assms(1) obtain y where y: "body (incIndent e) = Inr y" "e' = writeIndent (decIndent y)"
    by (auto simp: nested_def)
  from bracket[OF assms(2)[OF y(1)]] show ?thesis unfolding y(2) by (intro steps)
qed

lemma close_R: "R a e \<Longrightarrow> R a (writeln ''}'' e)"
  by (rule writeln_R) auto

lemma nested_close_R:
  assumes "rbind (nested body e) (\<lambda>e2. Inr (writeln ''}'' e2)) = Inr e'"
    and "R a e" and "\<And>x y. body x = Inr y \<Longrightarrow> R x y"
  shows "R a e'"
proof -
  from assms(1) obtain e2 where e2: "nested body e = Inr e2" "e' = writeln ''}'' e2" by auto
  from nested_R[OF e2(1) assms(3)] assms(2) trans have "R a e2" by blast
  then show ?thesis unfolding e2(2) by (rule close_R)
qed

lemma mapEnd_R: "R a e \<Longrightarrow> R a (mapEnd m e)"
  and maxEntries_R: "R a e \<Longrightarrow> R a (maxEntries m e)"
  by (auto simp: mapEnd_def maxEntries_def intro: steps)

lemma needValue_R:
  assumes "needValue m k = Inr e'"
  obtains v where "k v = Inr e'"
  using assms by (auto simp: needValue_def Let_def split: option.splits)

lemma writeField_R: "writeField t fd e = Inr e' \<Longrightarrow> R e e'"
  by (auto simp: writeField_def Let_def intro!: steps split: prod.splits gotype.splits)

text \<open>A map is text after the optional recording of its position.\<close>

lemma writeMap_text:
  assumes "writeMap m e0 = Inr e'"
  shows "R (case mdSpecPos m of Some p \<Rightarrow> recordPos p e0 | None \<Rightarrow> e0) e'"
proof -
  have t: "newline \<notin> set (typeLine ''key'' ''__u32'')" "newline \<notin> set (typeLine ''value'' ''__u32'')"
    "newline \<notin> set (typeLine ''value'' ''struct bpf_cpumap_val'')" "newline \<notin> set (typeLine ''key'' ''int'')"
    "newline \<notin> set (tab # ''__uint(map_flags, BPF_F_NO_PREALLOC);'')" "newline \<notin> set ''struct {''"
    by (simp_all add: typeLine_def)
  let ?e1 = "case mdSpecPos m of Some p \<Rightarrow> recordPos p e0 | None \<Rightarrow> e0"
  obtain ct where ct: "map_of mapTypeToC (mdType m) = Some ct"
    using assms by (cases "map_of mapTypeToC (mdType m)") (simp_all add: writeMap_def)
  define e where "e = writef (tab # ''__uint(type, '' @ ct @ '');'' @ [newline]) (writeln ''struct {'' ?e1)"
  have e: "R ?e1 e" unfolding e_def by (intro steps t)
  note unf = assms[unfolded writeMap_def Let_def ct option.case, folded e_def]
  note ends = mapEnd_R maxEntries_R writef_R writeln_R e t
  show ?thesis
    using unf
    by (simp only: split: if_split_asm option.split_asm)
       (auto intro!: ends elim!: needValue_R simp del: insert_iff)
qed

end

section \<open>Statements and declarations\<close>

locale emission = text_emission +
  assumes pos_step: "R e (recordPos p e)"
begin

lemma recordPos_R: "R a e \<Longrightarrow> R a (recordPos p e)" using trans pos_step by blast

lemmas all_steps = steps recordPos_R

lemma rec_R: "R (recordPos p e) e' \<Longrightarrow> R e e'"
  using trans pos_step by blast

lemma stmts_R:
  "writeStmt s e = Inr e' \<Longrightarrow> R e e'"
  "writeBlock ss e = Inr e' \<Longrightarrow> R e e'"
  "writeIfStmt p init cond body els e = Inr e' \<Longrightarrow> R e e'"
  "writeElse p el e = Inr e' \<Longrightarrow> R e e'"
  "writeForStmt p init c q body e = Inr e' \<Longrightarrow> R e e'"
proof (induction s e and ss e and p init cond body els e and p el e and p init c q body e
    arbitrary: e' and e' and e' and e' and e' rule: writeStmt_writeBlock_writeIfStmt_writeElse_writeForStmt.induct)
  case (7 p body e)
  from "7.prems" have "rbind (nested (writeBlock body) (writeln ''{'' (writeIndent (recordPos p e))))
      (\<lambda>e2. Inr (writeln ''}'' e2)) = Inr e'" by simp
  moreover have "R e (writeln ''{'' (writeIndent (recordPos p e)))" by (intro all_steps) auto
  ultimately show ?case by (rule nested_close_R) (rule "7.IH")
next
  case (11 s ss e)
  then show ?case using trans by auto
next
  case (12 p init cond body els e)
  from "12.prems" have i: "init = None" by (simp add: errorf_def split: if_splits)
  with "12.prems" obtain c where c: "formatExpr e cond = Inr c" by auto
  with "12.prems" i obtain s e2 where n: "nested (writeBlock body) (writef s (writeIndent e)) = Inr e2"
    and el: "(case els of None \<Rightarrow> Inr (writeln ''}'' e2) | Some x \<Rightarrow> writeElse p x e2) = Inr e'"
    and s: "s = ''if ('' @ c @ '') {'' @ [newline]" by auto
  have "\<not> init \<noteq> None" using i by simp
  note IH = "12.IH"[OF this c, folded s]
  have "R e (writef s (writeIndent e))" by (intro all_steps)
  moreover have "R (writef s (writeIndent e)) e2" by (rule nested_R[OF n]) (rule IH(1))
  ultimately have "R e e2" by (rule trans)
  show ?case
  proof (cases els)
    case None
    with el have "e' = writeln ''}'' e2" by simp
    with close_R[OF \<open>R e e2\<close>] show ?thesis by simp
  next
    case (Some x)
    with el have "writeElse p x e2 = Inr e'" by simp
    from trans[OF \<open>R e e2\<close> IH(2)[OF n Some this]] show ?thesis .
  qed
next
  case (13 p q init cond body els e0)
  then obtain c where c: "formatExpr (writef ''} else '' e0) cond = Inr c" by (auto simp: Let_def)
  with "13.prems" obtain s where
    n: "rbind (nested (writeBlock body) (writef s (writef ''} else '' e0))) (\<lambda>e2. Inr (writeln ''}'' e2)) = Inr e'"
    by (simp add: Let_def)
  have "R e0 (writef s (writef ''} else '' e0))" by (intro all_steps)
  then show ?case by (rule nested_close_R[OF n]) (rule "13.IH"[OF HOL.refl c])
next
  case (14 p q body e0)
  then have n: "rbind (nested (writeBlock body) (writef (''} else {'' @ [newline]) e0)) (\<lambda>e2. Inr (writeln ''}'' e2)) = Inr e'"
    by simp
  moreover have "R e0 (writef (''} else {'' @ [newline]) e0)" by (intro all_steps)
  ultimately show ?case by (rule nested_close_R) (rule "14.IH")
next
  case (16 p init cond post body e)
  then obtain i k q where ik: "init = Some i" "cond = Some k" "post = Some q"
    by (simp add: errorf_def split: option.splits)
  with "16.prems" obtain a b c where abc: "formatForClause e i = Inr a" "formatExpr e k = Inr b" "formatForClause e q = Inr c"
    by auto
  with "16.prems" ik obtain s where
    n: "rbind (nested (writeBlock body) (writef s (writeIndent e))) (\<lambda>e2. Inr (writeln ''}'' e2)) = Inr e'"
    by simp
  have "R e (writef s (writeIndent e))" by (intro all_steps)
  then show ?case
    by (rule nested_close_R[OF n]) (rule "16.IH"[OF HOL.refl ik(1) HOL.refl ik(2,3) abc])
next
  case (1 p t specs e)
  then show ?case by (intro rec_R[OF writeDeclStmt_R]) simp
next
  case (2 p lhs op rhs e)
  then show ?case by (intro rec_R[OF writeAssignStmt_R]) simp
next
  case (3 p init cond body els e)
  from "3.prems" show ?case by (intro rec_R[of p, OF "3.IH"]) simp
next
  case (4 p results e)
  then show ?case by (intro rec_R[OF writeReturnStmt_R]) simp
next
  case (5 p x e)
  then show ?case by (intro rec_R[OF writeExprStmt_R]) simp
next
  case (6 p init cond post body e)
  from "6.prems" show ?case by (intro rec_R[of p, OF "6.IH"]) simp
next
  case (8 p x t e)
  then show ?case by (intro rec_R[OF writeIncDec_R]) simp
qed (simp_all add: errorf_def refl)

lemma writeHeader_R: "R e (writeHeader source c d e)"
proof -
  have nl: "newline \<notin> set (''#include '' @ [CHR 0x22] @ ''vmlinux.h'' @ [CHR 0x22])" by auto
  show ?thesis unfolding writeHeader_def Let_def
    by (cases c; cases d; simp only: if_True if_False; intro all_steps; (rule nl)?; simp?)
qed

lemma writePrelude_R: "R a e \<Longrightarrow> R a (writePrelude name e)"
  unfolding writePrelude_def by (intro all_steps) auto

lemma fold_writePrelude_R: "R a e \<Longrightarrow> R a (fold writePrelude names e)"
  by (induction names arbitrary: e) (auto intro: writePrelude_R)

lemma writeUserType_R:
  assumes "writeUserType t e0 = Inr e'"
  shows "R e0 e'"
proof -
  from assms obtain fs s e1 where
    f: "rfold (writeField t) fs (incIndent (writef s (recordPos (utSpecPos t) e0))) = Inr e1"
    and e': "e' = writeln '''' (writeln ''};'' (decIndent e1))"
    by (auto simp: writeUserType_def Let_def split: gotype.splits)
  from rfold_R[OF f writeField_R] have "R (writef s (recordPos (utSpecPos t) e0)) (decIndent e1)"
    by (rule bracket)
  moreover have "R e0 (writef s (recordPos (utSpecPos t) e0))" by (intro all_steps)
  ultimately have "R e0 (decIndent e1)" using trans by blast
  then show ?thesis unfolding e' by (intro all_steps) auto
qed

lemma writeMap_R: "writeMap m e = Inr e' \<Longrightarrow> R e e'"
  using writeMap_text[of m e e'] rec_R by (cases "mdSpecPos m") auto

lemma writeBody_R: "writeBody fd e = Inr e' \<Longrightarrow> R e e'"
proof -
  assume "writeBody fd e = Inr e'"
  then obtain b e1 where b: "writeBlock b (incIndent e) = Inr e1" "e' = writeln ''}'' (decIndent e1)"
    by (auto simp: writeBody_def split: option.splits)
  from bracket[OF stmts_R(2)[OF b(1)]] show ?thesis unfolding b(2) by (rule close_R)
qed

lemma writeHelper_R: "writeHelper h e = Inr e' \<Longrightarrow> R e e'"
proof -
  assume "writeHelper h e = Inr e'"
  then obtain s e2 where b: "writeBody (hfDecl h) (writef s (recordPos (fdPos (hfDecl h)) e)) = Inr e2"
    and e': "e' = writeln '''' e2" by (auto simp: writeHelper_def Let_def)
  have "R e (writef s (recordPos (fdPos (hfDecl h)) e))" by (intro all_steps)
  from trans[OF this writeBody_R[OF b]] show ?thesis unfolding e' by (intro all_steps) auto
qed

lemma writeProgram_R: "writeProgram p e = Inr e' \<Longrightarrow> R e e'"
proof -
  assume "writeProgram p e = Inr e'"
  then obtain s t where b: "writeBody (pfDecl p) (writef s (writef t (recordPos (fdPos (pfDecl p)) e))) = Inr e'"
    by (auto simp: writeProgram_def Let_def split: list.splits)
  have "R e (writef s (writef t (recordPos (fdPos (pfDecl p)) e)))" by (intro all_steps)
  from trans[OF this writeBody_R[OF b]] show ?thesis .
qed

lemma emitAll_R:
  assumes "emitAll prog lbl e = Inr e'"
  shows "R e e'"
proof -
  let ?h = "writeHeader lbl (usesKernelFieldAccess prog) (usesEndianHelpers prog) e"
  let ?p = "fold writePrelude (usedPreludeHelpers prog) (writeLicense ?h)"
  have "R e (writeLicense ?h)" unfolding writeLicense_def by (rule writef_R) (rule writeHeader_R)
  then have p: "R e ?p" by (rule fold_writePrelude_R)
  from assms obtain a b c where abc: "rfold writeUserType (Types prog) ?p = Inr a" "rfold writeMap (Maps prog) a = Inr b"
    "rfold writeHelper (Helpers prog) b = Inr c" "rfold writeProgram (Programs prog) c = Inr e'"
    by (auto simp: emitAll_def Let_def)
  note q = rfold_R[OF abc(1) writeUserType_R] rfold_R[OF abc(2) writeMap_R] rfold_R[OF abc(3) writeHelper_R]
    rfold_R[OF abc(4) writeProgram_R]
  from trans[OF trans[OF trans[OF trans[OF p q(1)] q(2)] q(3)] q(4)] show ?thesis .
qed

end

section \<open>Interpretations\<close>

text \<open>Text is only appended, and the line counter counts its newlines.\<close>

definition lineRel :: "emitter \<Rightarrow> emitter \<Rightarrow> bool" where
  "lineRel e e' \<longleftrightarrow> (\<exists>s. ebuf e' = ebuf e @ s \<and> cLine e' = cLine e + countNL s)"

lemma countNL_replicate_tab [simp]: "countNL (replicate n tab) = 0"
  by (simp add: countNL_def)

lemmas emitter_ops = writef_def writeln_def writeIndent_def recordPos_def addAlias_def incIndent_def decIndent_def

interpretation lines: emission lineRel
proof unfold_locales
  show "lineRel a b \<Longrightarrow> lineRel b c \<Longrightarrow> lineRel a c" for a b c by (auto simp: lineRel_def)
  show "newline \<notin> set s \<Longrightarrow> lineRel e (writeln s e)" for s e
    by (auto simp: lineRel_def emitter_ops countNL_0_iff[symmetric] intro!: exI[of _ "s @ [newline]"])
  show "lineRel e (writeIndent e)" for e
    unfolding lineRel_def by (intro exI[of _ "replicate (eindent e) tab"]) (simp add: emitter_ops)
qed (auto simp: lineRel_def emitter_ops split: option.splits)

text \<open>The program is never replaced, indentation is balanced, synthetic names never go back.\<close>

definition frameRel :: "emitter \<Rightarrow> emitter \<Rightarrow> bool" where
  "frameRel e e' \<longleftrightarrow> eprog e' = eprog e \<and> eindent e' = eindent e \<and> tmpSeq e \<le> tmpSeq e'"

interpretation frame: emission frameRel
  by unfold_locales (auto simp: frameRel_def emitter_ops split: option.splits)

text \<open>Mappings are appended in the order of their C lines, which lie in the text being written.\<close>

definition mapRel :: "emitter \<Rightarrow> emitter \<Rightarrow> bool" where
  "mapRel e e' \<longleftrightarrow> eprog e' = eprog e \<and> cLine e \<le> cLine e'
     \<and> (\<exists>ms. mappings e' = mappings e @ ms \<and> sorted (map CLine ms)
          \<and> (\<forall>m \<in> set ms. cLine e \<le> CLine m \<and> CLine m \<le> cLine e' \<and> SPosition m \<in> range (FileSet (eprog e))))"

lemma mapRel_trans: "mapRel a b \<Longrightarrow> mapRel b c \<Longrightarrow> mapRel a c"
proof -
  assume "mapRel a b" and "mapRel b c"
  then obtain xs ys where
    a: "eprog b = eprog a" "cLine a \<le> cLine b" "mappings b = mappings a @ xs" "sorted (map CLine xs)"
      "\<forall>m \<in> set xs. cLine a \<le> CLine m \<and> CLine m \<le> cLine b \<and> SPosition m \<in> range (FileSet (eprog a))"
    and b: "eprog c = eprog b" "cLine b \<le> cLine c" "mappings c = mappings b @ ys" "sorted (map CLine ys)"
      "\<forall>m \<in> set ys. cLine b \<le> CLine m \<and> CLine m \<le> cLine c \<and> SPosition m \<in> range (FileSet (eprog b))"
    by (auto simp: mapRel_def)
  have "sorted (map CLine (xs @ ys))" using a(4,5) b(4,5) by (force simp: sorted_append intro: order_trans)
  moreover have "\<forall>m \<in> set (xs @ ys). cLine a \<le> CLine m \<and> CLine m \<le> cLine c \<and> SPosition m \<in> range (FileSet (eprog a))"
    using a(1,2,5) b(2,5) by (auto intro: order_trans)
  moreover have "mappings c = mappings a @ xs @ ys" using a(3) b(3) by simp
  ultimately show ?thesis unfolding mapRel_def using a(1,2) b(1,2) by auto
qed

interpretation maps: emission mapRel
proof unfold_locales
  show "mapRel a b \<Longrightarrow> mapRel b c \<Longrightarrow> mapRel a c" for a b c by (rule mapRel_trans)
qed (auto simp: mapRel_def emitter_ops split: option.splits)

text \<open>A statement's own position is the first one recorded, at the line where its text begins.\<close>

lemma stmt_recorded:
  assumes "writeStmt s e = Inr e'"
  shows "mapRel (recordPos (stmtPos s) e) e'"
proof (cases s)
  case (BlockStmt p body)
  with assms have "rbind (nested (writeBlock body) (writeln ''{'' (writeIndent (recordPos p e))))
      (\<lambda>e2. Inr (writeln ''}'' e2)) = Inr e'" by simp
  moreover have "mapRel (recordPos p e) (writeln ''{'' (writeIndent (recordPos p e)))" by (intro maps.steps) auto
  ultimately have "mapRel (recordPos p e) e'" by (rule maps.nested_close_R) (rule maps.stmts_R(2))
  with BlockStmt show ?thesis by simp
qed (use assms in \<open>auto simp: errorf_def simp del: writeIfStmt.simps writeForStmt.simps
       intro: maps.writeDeclStmt_R maps.writeAssignStmt_R maps.stmts_R(3,5)
       maps.writeReturnStmt_R maps.writeExprStmt_R maps.writeIncDec_R\<close>)

lemma stmt_mappings:
  assumes "writeStmt s e = Inr e'"
  obtains ms where "mappings e' = mappings e
      @ (if stmtPos s = 0 then [] else [\<lparr>CLine = cLine e, SPosition = FileSet (eprog e) (stmtPos s)\<rparr>]) @ ms"
    and "list_all (\<lambda>m. cLine e \<le> CLine m \<and> CLine m \<le> cLine e') ms"
  using stmt_recorded[OF assms] by (auto simp: mapRel_def recordPos_def list_all_iff split: if_splits)

text \<open>Writing text records no position.\<close>

definition quietRel :: "emitter \<Rightarrow> emitter \<Rightarrow> bool" where
  "quietRel e e' \<longleftrightarrow> eprog e' = eprog e \<and> mappings e' = mappings e"

interpretation quiet: text_emission quietRel
  by unfold_locales (auto simp: quietRel_def emitter_ops split: option.splits)

section \<open>The statements that are emitted\<close>

text \<open>
  The statements on which \<open>writeStmt\<close> is called, in order.  Of an \<open>else if\<close> only the body
  counts: the inner statement is written in place, and its own \<open>else\<close> is not written.
\<close>

function (sequential) emittedStmt :: "stmt \<Rightarrow> stmt list" and emittedBlock :: "stmt list \<Rightarrow> stmt list"
  and emittedElse :: "stmt \<Rightarrow> stmt list" where
  "emittedStmt (IfStmt p i c b els) =
     IfStmt p i c b els # emittedBlock b @ (case els of None \<Rightarrow> [] | Some el \<Rightarrow> emittedElse el)"
| "emittedStmt (ForStmt p i c q b) = ForStmt p i c q b # emittedBlock b"
| "emittedStmt (BlockStmt p b) = BlockStmt p b # emittedBlock b"
| "emittedStmt s = [s]"
| "emittedBlock [] = []"
| "emittedBlock (s # ss) = emittedStmt s @ emittedBlock ss"
| "emittedElse (IfStmt p i c b els) = emittedBlock b"
| "emittedElse (BlockStmt p b) = emittedBlock b"
| "emittedElse s = []"
  by pat_completeness auto
termination
  by (relation "measure (\<lambda>x. case x of Inl s \<Rightarrow> size s | Inr (Inl ss) \<Rightarrow> size_list size ss | Inr (Inr s) \<Rightarrow> size s)") auto

definition stmtMarks :: "gprogram \<Rightarrow> stmt list \<Rightarrow> position list" where
  "stmtMarks prog ss = map (FileSet prog) (filter (\<lambda>p. p \<noteq> 0) (map stmtPos ss))"

lemma stmtMarks_simps [simp]:
  "stmtMarks prog [] = []" "stmtMarks prog (xs @ ys) = stmtMarks prog xs @ stmtMarks prog ys"
  "stmtMarks prog (s # ss) = (if stmtPos s = 0 then [] else [FileSet prog (stmtPos s)]) @ stmtMarks prog ss"
  by (simp_all add: stmtMarks_def)

text \<open>\<open>marks ss e e'\<close>: from \<open>e\<close> to \<open>e'\<close> exactly the positions of the statements were recorded.\<close>

definition marks :: "stmt list \<Rightarrow> emitter \<Rightarrow> emitter \<Rightarrow> bool" where
  "marks ss e e' \<longleftrightarrow> eprog e' = eprog e
     \<and> map SPosition (mappings e') = map SPosition (mappings e) @ stmtMarks (eprog e) ss"

lemma marks_trans: "marks xs a b \<Longrightarrow> marks ys b c \<Longrightarrow> marks (xs @ ys) a c"
  by (simp add: marks_def)

lemma marks_quiet: "quietRel a b \<Longrightarrow> marks ss b c \<Longrightarrow> marks ss a c"
  "marks ss a b \<Longrightarrow> quietRel b c \<Longrightarrow> marks ss a c"
  by (simp_all add: marks_def quietRel_def)

lemma marks_record:
  assumes "marks ss (recordPos (stmtPos s) e) e'"
  shows "marks (s # ss) e e'"
  using assms by (auto simp: marks_def recordPos_def)

lemma marks_simple: "quietRel (recordPos (stmtPos s) e) e' \<Longrightarrow> marks [s] e e'"
  by (rule marks_record) (simp add: marks_def quietRel_def)

lemma marks_nested:
  assumes "nested body e = Inr e'" and "\<And>x y. body x = Inr y \<Longrightarrow> marks ss x y"
  shows "marks ss e e'"
proof -
  from assms(1) obtain y where y: "body (incIndent e) = Inr y" "e' = writeIndent (decIndent y)"
    by (auto simp: nested_def)
  from assms(2)[OF y(1)] show ?thesis unfolding y(2) by (simp add: marks_def emitter_ops)
qed

lemma marks_close:
  assumes "rbind (nested body e) (\<lambda>e2. Inr (writeln ''}'' e2)) = Inr e'"
    and "\<And>x y. body x = Inr y \<Longrightarrow> marks ss x y" and "quietRel a e"
  shows "marks ss a e'"
proof -
  from assms(1) obtain e2 where e2: "nested body e = Inr e2" "e' = writeln ''}'' e2" by auto
  from marks_nested[OF e2(1) assms(2)] have "marks ss a e2" by (rule marks_quiet(1)[OF assms(3)])
  then show ?thesis unfolding e2(2) by (rule marks_quiet(2)) (simp add: quietRel_def emitter_ops)
qed

lemma stmts_marks:
  "writeStmt s e = Inr e' \<Longrightarrow> marks (emittedStmt s) e e'"
  "writeBlock ss e = Inr e' \<Longrightarrow> marks (emittedBlock ss) e e'"
  "writeIfStmt p init cond body els e = Inr e' \<Longrightarrow>
     marks (emittedBlock body @ (case els of None \<Rightarrow> [] | Some el \<Rightarrow> emittedElse el)) e e'"
  "writeElse p el e = Inr e' \<Longrightarrow> marks (emittedElse el) e e'"
  "writeForStmt p init c q body e = Inr e' \<Longrightarrow> marks (emittedBlock body) e e'"
proof (induction s e and ss e and p init cond body els e and p el e and p init c q body e
    arbitrary: e' and e' and e' and e' and e' rule: writeStmt_writeBlock_writeIfStmt_writeElse_writeForStmt.induct)
  case (1 p t specs e)
  then show ?case by (auto intro!: marks_simple quiet.writeDeclStmt_R)
next
  case (2 p lhs op rhs e)
  then show ?case by (auto intro!: marks_simple quiet.writeAssignStmt_R)
next
  case (3 p init cond body els e)
  then show ?case by (auto intro!: marks_record)
next
  case (4 p results e)
  then show ?case by (auto intro!: marks_simple quiet.writeReturnStmt_R)
next
  case (5 p x e)
  then show ?case by (auto intro!: marks_simple quiet.writeExprStmt_R)
next
  case (6 p init cond post body e)
  then show ?case by (auto intro!: marks_record)
next
  case (7 p body e)
  from "7.prems" have "rbind (nested (writeBlock body) (writeln ''{'' (writeIndent (recordPos p e))))
      (\<lambda>e2. Inr (writeln ''}'' e2)) = Inr e'" by simp
  from marks_close[where a = "recordPos p e", OF this "7.IH"] show ?case
    by (auto intro!: marks_record simp: quietRel_def emitter_ops)
next
  case (8 p x t e)
  then show ?case by (auto intro!: marks_simple quiet.writeIncDec_R)
next
  case (10 e)
  then show ?case by (simp add: marks_def)
next
  case (11 s ss e)
  then obtain e1 where "writeStmt s e = Inr e1" "writeBlock ss e1 = Inr e'" by auto
  with "11.IH" show ?case using marks_trans by auto
next
  case (12 p init cond body els e)
  from "12.prems" have i: "\<not> init \<noteq> None" by (simp add: errorf_def split: if_splits)
  with "12.prems" obtain c where c: "formatExpr e cond = Inr c" by auto
  with "12.prems" i obtain s e2 where n: "nested (writeBlock body) (writef s (writeIndent e)) = Inr e2"
    and el: "(case els of None \<Rightarrow> Inr (writeln ''}'' e2) | Some x \<Rightarrow> writeElse p x e2) = Inr e'"
    and s: "s = ''if ('' @ c @ '') {'' @ [newline]" by auto
  note IH = "12.IH"[OF i c, folded s]
  have "marks (emittedBlock body) (writef s (writeIndent e)) e2" by (rule marks_nested[OF n]) (rule IH(1))
  then have b: "marks (emittedBlock body) e e2"
    by (rule marks_quiet(1)[rotated]) (simp add: quietRel_def emitter_ops)
  show ?case
  proof (cases els)
    case None
    with el have "e' = writeln ''}'' e2" by simp
    with b None show ?thesis by (auto intro: marks_quiet(2) simp: quietRel_def emitter_ops)
  next
    case (Some x)
    with el have "writeElse p x e2 = Inr e'" by simp
    from marks_trans[OF b IH(2)[OF n Some this]] Some show ?thesis by simp
  qed
next
  case (13 p q init cond body els e0)
  then obtain c where c: "formatExpr (writef ''} else '' e0) cond = Inr c" by (auto simp: Let_def)
  with "13.prems" obtain s where
    n: "rbind (nested (writeBlock body) (writef s (writef ''} else '' e0))) (\<lambda>e2. Inr (writeln ''}'' e2)) = Inr e'"
    by (simp add: Let_def)
  from marks_close[where a = e0, OF n "13.IH"[OF refl c]] show ?case by (simp add: quietRel_def emitter_ops)
next
  case (14 p q body e0)
  then have n: "rbind (nested (writeBlock body) (writef (''} else {'' @ [newline]) e0)) (\<lambda>e2. Inr (writeln ''}'' e2)) = Inr e'"
    by simp
  from marks_close[where a = e0, OF n "14.IH"] show ?case by (simp add: quietRel_def emitter_ops)
next
  case (16 p init cond post body e)
  then obtain i k q where ik: "init = Some i" "cond = Some k" "post = Some q"
    by (simp add: errorf_def split: option.splits)
  with "16.prems" obtain a b c where abc: "formatForClause e i = Inr a" "formatExpr e k = Inr b" "formatForClause e q = Inr c"
    by auto
  with "16.prems" ik obtain s where
    n: "rbind (nested (writeBlock body) (writef s (writeIndent e))) (\<lambda>e2. Inr (writeln ''}'' e2)) = Inr e'"
    by simp
  from marks_close[where a = e, OF n "16.IH"[OF refl ik(1) refl ik(2,3) abc]] show ?case
    by (simp add: quietRel_def emitter_ops)
qed (simp_all add: errorf_def)

section \<open>The positions a whole emission records\<close>

definition records :: "pos list \<Rightarrow> emitter \<Rightarrow> emitter \<Rightarrow> bool" where
  "records ps e e' \<longleftrightarrow> eprog e' = eprog e
     \<and> map SPosition (mappings e') = map SPosition (mappings e) @ map (FileSet (eprog e)) (filter (\<lambda>p. p \<noteq> 0) ps)"

lemma records_marks: "marks ss e e' \<Longrightarrow> records (map stmtPos ss) e e'"
  by (simp add: marks_def records_def stmtMarks_def)

lemma records_trans: "records ps a b \<Longrightarrow> records qs b c \<Longrightarrow> records (ps @ qs) a c"
  by (simp add: records_def)

lemma records_quiet: "quietRel a b \<Longrightarrow> records [] a b"
  by (simp add: records_def quietRel_def)

lemma records_recordPos: "records [p] e (recordPos p e)"
  by (simp add: records_def recordPos_def)

lemma records_then_quiet: "records ps a b \<Longrightarrow> quietRel b c \<Longrightarrow> records ps a c"
  using records_trans[OF _ records_quiet] by fastforce

lemma rfold_records:
  assumes "rfold f xs e = Inr e'" and "\<And>x a b. x \<in> set xs \<Longrightarrow> f x a = Inr b \<Longrightarrow> records (g x) a b"
  shows "records (concat (map g xs)) e e'"
  using assms
proof (induction xs arbitrary: e)
  case Nil
  then show ?case by (simp add: records_def)
next
  case (Cons x xs)
  then obtain u where u: "f x e = Inr u" "rfold f xs u = Inr e'" by auto
  from Cons.prems(2)[OF _ u(1)] have "records (g x) e u" by simp
  moreover have "records (concat (map g xs)) u e'" by (rule Cons.IH[OF u(2)]) (rule Cons.prems(2), simp_all)
  ultimately show ?case using records_trans by simp
qed

definition bodyStmts :: "funcDecl \<Rightarrow> stmt list" where
  "bodyStmts fd = (case fdBody fd of None \<Rightarrow> [] | Some (_, b, _) \<Rightarrow> emittedBlock b)"

definition emittedPos :: "gprogram \<Rightarrow> pos list" where
  "emittedPos prog = map utSpecPos (Types prog)
     @ concat (map (\<lambda>m. case mdSpecPos m of Some p \<Rightarrow> [p] | None \<Rightarrow> []) (Maps prog))
     @ concat (map (\<lambda>h. fdPos (hfDecl h) # map stmtPos (bodyStmts (hfDecl h))) (Helpers prog))
     @ concat (map (\<lambda>p. fdPos (pfDecl p) # map stmtPos (bodyStmts (pfDecl p))) (Programs prog))"

lemma concat_map_single: "concat (map (\<lambda>x. [f x]) xs) = map f xs"
  by (induction xs) simp_all

lemma writeUserType_records:
  assumes "writeUserType t e0 = Inr e'"
  shows "records [utSpecPos t] e0 e'"
proof -
  from assms obtain fs s e1 where
    f: "rfold (writeField t) fs (incIndent (writef s (recordPos (utSpecPos t) e0))) = Inr e1"
    and e': "e' = writeln '''' (writeln ''};'' (decIndent e1))"
    by (auto simp: writeUserType_def Let_def split: gotype.splits)
  have "quietRel (incIndent (writef s (recordPos (utSpecPos t) e0))) e1"
    by (rule quiet.rfold_R[OF f quiet.writeField_R])
  then have "quietRel (recordPos (utSpecPos t) e0) e'" unfolding e' by (simp add: quietRel_def emitter_ops)
  then show ?thesis by (rule records_then_quiet[OF records_recordPos])
qed

lemma writeMap_records: "writeMap m e = Inr e' \<Longrightarrow> records (case mdSpecPos m of Some p \<Rightarrow> [p] | None \<Rightarrow> []) e e'"
  using quiet.writeMap_text[of m e e']
  by (cases "mdSpecPos m") (auto intro: records_then_quiet[OF records_recordPos] records_quiet)

lemma writeBody_records: "writeBody fd e = Inr e' \<Longrightarrow> records (map stmtPos (bodyStmts fd)) e e'"
proof -
  assume "writeBody fd e = Inr e'"
  then obtain a b z e1 where b: "fdBody fd = Some (a, b, z)" "writeBlock b (incIndent e) = Inr e1"
    "e' = writeln ''}'' (decIndent e1)"
    by (auto simp: writeBody_def split: option.splits)
  from records_marks[OF stmts_marks(2)[OF b(2)]] show ?thesis
    by (simp add: b(1,3) bodyStmts_def records_def emitter_ops)
qed

lemma writeHelper_records:
  "writeHelper h e = Inr e' \<Longrightarrow> records (fdPos (hfDecl h) # map stmtPos (bodyStmts (hfDecl h))) e e'"
proof -
  assume "writeHelper h e = Inr e'"
  then obtain s e2 where b: "writeBody (hfDecl h) (writef s (recordPos (fdPos (hfDecl h)) e)) = Inr e2"
    and e': "e' = writeln '''' e2" by (auto simp: writeHelper_def Let_def)
  from writeBody_records[OF b] show ?thesis by (simp add: e' records_def emitter_ops)
qed

lemma writeProgram_records:
  "writeProgram p e = Inr e' \<Longrightarrow> records (fdPos (pfDecl p) # map stmtPos (bodyStmts (pfDecl p))) e e'"
proof -
  assume "writeProgram p e = Inr e'"
  then obtain s t where b: "writeBody (pfDecl p) (writef s (writef t (recordPos (fdPos (pfDecl p)) e))) = Inr e'"
    by (auto simp: writeProgram_def Let_def split: list.splits)
  from writeBody_records[OF b] show ?thesis by (simp add: records_def emitter_ops)
qed

lemma fold_writePrelude_quiet: "quietRel e (fold writePrelude names e)"
proof (induction names arbitrary: e)
  case (Cons n ns)
  have "quietRel e (writePrelude n e)" by (simp add: quietRel_def writePrelude_def writeRaw_def emitter_ops)
  with Cons[of "writePrelude n e"] quiet.trans show ?case by auto
qed (simp add: quietRel_def)

lemma emitAll_records:
  assumes "emitAll prog lbl e = Inr e'"
  shows "records (emittedPos prog) e e'"
proof -
  let ?h = "writeHeader lbl (usesKernelFieldAccess prog) (usesEndianHelpers prog) e"
  let ?p = "fold writePrelude (usedPreludeHelpers prog) (writeLicense ?h)"
  have "quietRel e (writeLicense ?h)"
    by (simp add: quietRel_def writeLicense_def writeHeader_def Let_def emitter_ops)
  then have p: "records [] e ?p" by (rule records_quiet[OF quiet.trans[OF _ fold_writePrelude_quiet]])
  from assms obtain a b c where abc: "rfold writeUserType (Types prog) ?p = Inr a" "rfold writeMap (Maps prog) a = Inr b"
    "rfold writeHelper (Helpers prog) b = Inr c" "rfold writeProgram (Programs prog) c = Inr e'"
    by (auto simp: emitAll_def Let_def)
  note q = rfold_records[OF abc(1) writeUserType_records] rfold_records[OF abc(2) writeMap_records]
    rfold_records[OF abc(3) writeHelper_records] rfold_records[OF abc(4) writeProgram_records]
  from records_trans[OF p records_trans[OF q(1) records_trans[OF q(2) records_trans[OF q(3,4)]]]]
  show ?thesis by (simp add: emittedPos_def concat_map_single)
qed

section \<open>Emit\<close>

lemma Emit_cases:
  assumes "Emit prog lbl = Inr (c, ms)"
  obtains e where "emitAll prog lbl (newEmitter prog) = Inr e" "c = ebuf e" "ms = mappings e"
  using assms by (auto simp: Emit_def)

lemma Emit_mappings:
  assumes "Emit prog lbl = Inr (c, ms)"
  shows "sorted (map CLine ms)" and "\<forall>m \<in> set ms. 1 \<le> CLine m \<and> CLine m \<le> 1 + countNL c"
    and "map SPosition ms = map (FileSet prog) (filter (\<lambda>p. p \<noteq> 0) (emittedPos prog))"
proof -
  from assms obtain e where e: "emitAll prog lbl (newEmitter prog) = Inr e" "c = ebuf e" "ms = mappings e"
    by (rule Emit_cases)
  have l: "cLine e = 1 + countNL c"
    using lines.emitAll_R[OF e(1)] by (simp add: lineRel_def newEmitter_def e(2))
  have m: "mapRel (newEmitter prog) e" by (rule maps.emitAll_R[OF e(1)])
  then show "sorted (map CLine ms)" by (simp add: mapRel_def newEmitter_def e(3))
  show "\<forall>m \<in> set ms. 1 \<le> CLine m \<and> CLine m \<le> 1 + countNL c"
    using m l by (simp add: mapRel_def newEmitter_def e(3))
  show "map SPosition ms = map (FileSet prog) (filter (\<lambda>p. p \<noteq> 0) (emittedPos prog))"
    using emitAll_records[OF e(1)] by (simp add: records_def newEmitter_def e(3))
qed

section \<open>Maps that can be emitted\<close>

text \<open>The type arguments a map declaration needs, by the kind of the map.\<close>

fun mapTypesOk :: "mapDecl \<Rightarrow> bool" where
  "mapTypesOk m \<longleftrightarrow>
     (if mdType m \<in> {''ringbuf'', ''prog_array'', ''perf_event_array'', ''devmap'', ''xskmap'', ''cpumap''} then True
      else (\<exists>v. mdValType m = Some v \<and> typeSupported v)
        \<and> (mdType m \<in> {''queue'', ''stack'', ''bloom_filter'', ''task_storage'', ''sk_storage'', ''inode_storage''}
           \<or> (\<exists>k. mdKeyType m = Some k \<and> typeSupported k)))"

lemma typeAt_ok: "(\<exists>c. typeAt pre (Some t) = Inr c) \<longleftrightarrow> typeSupported t" "typeAt pre None = Inl nilPanic"
  using goTypeToC_ok_iff[of t] by (auto simp: typeAt_def)

lemma needValue_ok: "(\<exists>e. needValue m (\<lambda>v. Inr (k v)) = Inr e) \<longleftrightarrow> (\<exists>v. mdValType m = Some v \<and> typeSupported v)"
  using goTypeToC_ok_iff by (auto simp: needValue_def rbind_eq_Inr Let_def typeAt_def split: option.splits)

lemma keyed_ok: "(\<exists>e. rbind (wrapErr p (goTypeToC k)) (\<lambda>c. rbind (typeAt q v) (\<lambda>d. Inr (f c d))) = Inr e) \<longleftrightarrow>
    typeSupported k \<and> (\<exists>t. v = Some t \<and> typeSupported t)"
  using goTypeToC_ok_iff[of k] typeAt_ok[of q] by (cases v) (auto simp: rbind_eq_Inr)

lemma writeMap_ok:
  assumes "map_of mapTypeToC (mdType m) \<noteq> None"
  shows "(\<exists>e'. writeMap m e = Inr e') \<longleftrightarrow> mapTypesOk m"
proof -
  obtain ct where ct: "map_of mapTypeToC (mdType m) = Some ct" using assms by auto
  consider (noval) "mdType m \<in> {''ringbuf'', ''prog_array'', ''perf_event_array'', ''devmap'', ''xskmap'', ''cpumap''}"
    | (val) "mdType m \<in> {''queue'', ''stack'', ''bloom_filter'', ''task_storage'', ''sk_storage'', ''inode_storage''}"
    | (keyed) "mdType m \<notin> {''ringbuf'', ''prog_array'', ''perf_event_array'', ''devmap'', ''xskmap'', ''cpumap'',
        ''queue'', ''stack'', ''bloom_filter'', ''task_storage'', ''sk_storage'', ''inode_storage''}" by blast
  then show ?thesis
  proof cases
    case noval
    then show ?thesis using ct by (elim insertE) (simp_all add: writeMap_def Let_def)
  next
    case val
    then show ?thesis using ct by (elim insertE) (simp_all add: writeMap_def Let_def needValue_ok)
  next
    case keyed
    then have "(\<exists>e'. writeMap m e = Inr e') \<longleftrightarrow> (\<exists>k. mdKeyType m = Some k \<and> typeSupported k) \<and> (\<exists>v. mdValType m = Some v \<and> typeSupported v)"
      using ct by (cases "mdKeyType m") (simp_all add: writeMap_def Let_def keyed_ok)
    moreover have "mapTypesOk m \<longleftrightarrow> (\<exists>k. mdKeyType m = Some k \<and> typeSupported k) \<and> (\<exists>v. mdValType m = Some v \<and> typeSupported v)"
      using keyed by auto
    ultimately show ?thesis by simp
  qed
qed

end
