(* ===== verification/Emit_Accepts.thy ===== *)
theory Emit_Accepts
  imports Emit_Laws
begin

text \<open>
  Which programs \<open>Emit\<close> accepts.  Whether the emitter fails does not depend on its state: the
  predicates below say for every expression, statement and declaration when it is emitted, and
  \<open>emittable\<close> collects them for a program.  The emission of a program succeeds exactly when it is
  \<open>emittable\<close>.
\<close>

section \<open>Success\<close>

definition okay :: "'a res \<Rightarrow> bool" where
  "okay m \<longleftrightarrow> (\<exists>x. m = Inr x)"

lemma okay_simps [simp]: "okay (Inr x)" "\<not> okay (Inl e)" "\<not> okay (errorf st p msg)"
  "okay (wrapErr pre m) = okay m"
  by (cases m; simp add: okay_def errorf_def)+

lemma okay_rbind: "okay (rbind m f) \<longleftrightarrow> (\<exists>x. m = Inr x \<and> okay (f x))"
  by (cases m) simp_all

text \<open>The success of what follows does not depend on the value.\<close>

lemma okay_then: "(\<And>x. okay (f x) = b) \<Longrightarrow> okay (rbind m f) = (okay m \<and> b)"
  by (cases m) simp_all

lemma okay_last [simp]: "okay (rbind m (\<lambda>x. Inr (f x))) = okay m"
  by (cases m) simp_all

lemma okay_rsequence: "okay (rsequence ms) = list_all okay ms"
  by (induction ms) (simp_all add: okay_then)

lemma okay_rmap: "okay (rmap f xs) = list_all (\<lambda>x. okay (f x)) xs"
  by (induction xs) (simp_all add: okay_then)

text \<open>A loop whose steps keep \<open>I\<close> and, as long as it holds, succeed or fail by the element alone.\<close>

lemma okay_rfold:
  assumes "I s" and "\<And>x s. I s \<Longrightarrow> okay (f x s) = P x" and "\<And>x s t. I s \<Longrightarrow> f x s = Inr t \<Longrightarrow> I t"
  shows "okay (rfold f xs s) = list_all P xs"
  using assms(1)
proof (induction xs arbitrary: s)
  case (Cons x xs)
  then show ?case using assms(2)[OF Cons.prems, of x] assms(3)[OF Cons.prems, of x]
    by (cases "f x s") auto
qed simp

lemma okay_type: "okay (goTypeToC t) = typeSupported t"
  by (simp add: okay_def goTypeToC_ok_iff)

definition typed :: "gotype option \<Rightarrow> bool" where
  "typed t = (case t of None \<Rightarrow> False | Some ty \<Rightarrow> typeSupported ty)"

lemma typed_simps [simp]: "typed (Some t) = typeSupported t" "\<not> typed None"
  by (simp_all add: typed_def)

lemma okay_types [simp]: "okay (goTypeToCOpt t) = typed t" "okay (typeAt pre t) = typed t"
  by (cases t; simp add: goTypeToCOpt_def typeAt_def okay_type)+

section \<open>Calls\<close>

text \<open>
  The method calls with a translation of their own: on which calls a rule is applied, how many
  arguments it asks for, which of them it renders, and the methods it translates.  Another
  method of the receiver is left to the rules that follow.
\<close>

record callRule =
  crApplies :: bool
  crArity :: nat
  crUsed :: "nat list"
  crMethods :: "string list"

definition receiverType :: "expr \<Rightarrow> (string option \<times> string \<times> gotype list) option" where
  "receiverType f = (case methodOn f of None \<Rightarrow> None | Some (i, _) \<Rightarrow> namedOf (idType i))"

definition receiverDeref :: "expr \<Rightarrow> (string option \<times> string \<times> gotype list) option" where
  "receiverDeref f = (case methodOn f of None \<Rightarrow> None | Some (i, _) \<Rightarrow> namedOf (deref (idType i)))"

definition onBpf :: "string list \<Rightarrow> (string option \<times> string \<times> gotype list) option \<Rightarrow> bool" where
  "onBpf names t = (case t of None \<Rightarrow> False | Some (pkg, n, _) \<Rightarrow> pkg = Some bpfPkgPath \<and> n \<in> set names)"

definition methodName :: "expr \<Rightarrow> string" where
  "methodName f = (case selectorOf f of None \<Rightarrow> [] | Some (_, sel) \<Rightarrow> idName sel)"

definition onStorage :: "expr \<Rightarrow> bool" where
  "onStorage f = (case selectorOf f of None \<Rightarrow> False | Some (x, _) \<Rightarrow> storageMapInfo x \<noteq> None)"

definition oneMethod :: "expr \<Rightarrow> bool \<Rightarrow> string \<Rightarrow> nat \<Rightarrow> nat list \<Rightarrow> callRule" where
  "oneMethod f on name n used =
     \<lparr>crApplies = (on \<and> methodName f = name), crArity = n, crUsed = used, crMethods = [name]\<rparr>"

definition callRules :: "expr \<Rightarrow> callRule list" where
  "callRules f =
     [\<lparr>crApplies = onBpf [''RingBuf''] (receiverType f), crArity = 1, crUsed = [0],
       crMethods = [''Submit'', ''Discard'', ''Output'']\<rparr>,
      \<lparr>crApplies = onBpf [''Queue'', ''Stack''] (receiverType f), crArity = 1, crUsed = [0],
       crMethods = [''Push'', ''Pop'', ''Peek'']\<rparr>,
      oneMethod f (onBpf [''ProgArray''] (receiverType f)) ''TailCall'' 2 [0, 1],
      oneMethod f (onBpf [''PerfEventArray''] (receiverType f)) ''Output'' 2 [0, 1],
      oneMethod f (onStorage f) ''GetOrCreate'' 2 [0, 1],
      oneMethod f (onStorage f) ''Delete'' 1 [0],
      oneMethod f (onStorage f) ''Get'' 1 [0],
      oneMethod f (onBpf redirectMapTypes (receiverDeref f)) ''Redirect'' 3 [1, 2]]"

definition ruleEmits :: "string \<Rightarrow> bool list \<Rightarrow> callRule \<Rightarrow> bool \<Rightarrow> bool" where
  "ruleEmits name oks r rest =
     (if crApplies r
      then length oks = crArity r \<and> list_all (\<lambda>i. oks ! i) (crUsed r) \<and> (name \<in> set (crMethods r) \<or> rest)
      else rest)"

definition expansionArity :: "(string \<times> nat) list" where
  "expansionArity = [(''GetTaskComm'', 1), (''GetUserString'', 2), (''GetUserArgv'', 2)]"

definition plainCallEmits :: "expr \<Rightarrow> bool \<Rightarrow> bool list \<Rightarrow> bool" where
  "plainCallEmits f okF oks \<longleftrightarrow> list_all (\<lambda>b. b) oks
     \<and> (mapMethodCall f \<noteq> None
        \<or> (case bpfFuncName f of
             None \<Rightarrow> okF
           | Some name \<Rightarrow> (case map_of expansionArity name of None \<Rightarrow> True | Some n \<Rightarrow> length oks = n)))"

definition isConversion :: "expr \<Rightarrow> bool" where
  "isConversion f \<longleftrightarrow> Option.bind (identOf f) (\<lambda>i. map_of goBasicNameToC (idName i)) \<noteq> None"

definition callEmits :: "expr \<Rightarrow> bool \<Rightarrow> bool list \<Rightarrow> bool" where
  "callEmits f okF oks =
     (if isConversion f \<or> isUnsafePointer f then length oks = 1 \<and> oks ! 0
      else foldr (ruleEmits (methodName f) oks) (callRules f) (plainCallEmits f okF oks))"

lemma okay_orElse: "okay (orElse r k) \<longleftrightarrow> (\<exists>c. r = Inr c \<and> (c \<noteq> None \<or> okay k))"
  by (cases r) (auto simp: orElse_def split: option.splits)

lemma methodOn_name: "methodOn f = Some (i, name) \<Longrightarrow> methodName f = name"
  by (auto simp: methodOn_def methodName_def split: option.splits prod.splits)

lemma okay_nth: "i < length ms \<Longrightarrow> map okay ms ! i = okay (ms ! i)"
  by simp

lemmas rule_defs = ruleEmits_def onBpf_def receiverType_def receiverDeref_def oneMethod_def okay_orElse

lemma ringbuf_emits: "okay (orElse (ringbufMethodCall e p f fargs) k) =
    ruleEmits (methodName f) (map okay fargs) (callRules f ! 0) (okay k)"
proof (cases "methodOn f")
  case (Some a)
  then show ?thesis
    by (cases a; cases "fargs ! 0")
       (auto simp: ringbufMethodCall_def callRules_def rule_defs isRingBufNamed_def methodOn_name errorf_def
        split: option.splits)
qed (simp add: ringbufMethodCall_def callRules_def rule_defs)

lemma queue_emits: "okay (orElse (queueLikeMethodCall e p f fargs) k) =
    ruleEmits (methodName f) (map okay fargs) (callRules f ! 1) (okay k)"
proof (cases "methodOn f")
  case (Some a)
  then show ?thesis
    by (cases a; cases "fargs ! 0")
       (auto simp: queueLikeMethodCall_def callRules_def rule_defs isQueueOrStackNamed_def methodOn_name errorf_def
        split: option.splits)
qed (simp add: queueLikeMethodCall_def callRules_def rule_defs)

lemma progArray_emits: "okay (orElse (progArrayMethodCall e p f fargs) k) =
    ruleEmits (methodName f) (map okay fargs) (callRules f ! 2) (okay k)"
proof (cases "methodOn f")
  case (Some a)
  then show ?thesis
    by (cases a; cases "fargs ! 0"; cases "fargs ! 1")
       (auto simp: progArrayMethodCall_def callRules_def rule_defs methodOn_name errorf_def split: option.splits)
qed (simp add: progArrayMethodCall_def callRules_def rule_defs)

lemma perf_emits: "okay (orElse (perfEventArrayMethodCall e p f fargs) k) =
    ruleEmits (methodName f) (map okay fargs) (callRules f ! 3) (okay k)"
proof (cases "methodOn f")
  case (Some a)
  then show ?thesis
    by (cases a; cases "fargs ! 0"; cases "fargs ! 1")
       (auto simp: perfEventArrayMethodCall_def callRules_def rule_defs methodOn_name errorf_def split: option.splits)
qed (simp add: perfEventArrayMethodCall_def callRules_def rule_defs)

lemma storage_emits: "okay (orElse (storageMethodCall e p f fargs) k) =
    foldr (ruleEmits (methodName f) (map okay fargs)) [callRules f ! 4, callRules f ! 5, callRules f ! 6] (okay k)"
proof (cases "onStorage f")
  case True
  then obtain x sel mapName t scope where f: "selectorOf f = Some (x, sel)" "storageMapInfo x = Some (mapName, t, scope)"
    by (auto simp: onStorage_def split: option.splits)
  then have m: "methodName f = idName sel" by (simp add: methodName_def)
  consider "idName sel = ''GetOrCreate''" | "idName sel = ''Delete''" | "idName sel = ''Get''"
    | "idName sel \<notin> {''GetOrCreate'', ''Delete'', ''Get''}" by blast
  then show ?thesis
    by cases
       (cases "fargs ! 0"; cases "fargs ! 1";
        simp add: storageMethodCall_def callRules_def ruleEmits_def oneMethod_def okay_orElse True f m errorf_def)+
next
  case False
  then show ?thesis
    by (auto simp: storageMethodCall_def callRules_def ruleEmits_def oneMethod_def okay_orElse onStorage_def
        split: option.splits)
qed

lemma redirect_emits: "okay (orElse (redirectMapCall e p f fargs) k) =
    ruleEmits (methodName f) (map okay fargs) (callRules f ! 7) (okay k)"
proof (cases "selectorOf f")
  case (Some a)
  then show ?thesis
    by (cases a; cases "identOf (fst a)"; cases "fargs ! 1"; cases "fargs ! 2")
       (auto simp: redirectMapCall_def callRules_def rule_defs methodName_def methodOn_def errorf_def
        split: option.splits)
qed (simp add: redirectMapCall_def callRules_def rule_defs methodOn_def)

lemma expansion_emits:
  "okay (case map_of bpfHelperExpansions name of Some expand \<Rightarrow> expand args | None \<Rightarrow> Inr t) =
     (case map_of expansionArity name of None \<Rightarrow> True | Some n \<Rightarrow> length args = n)"
  by (simp add: bpfHelperExpansions_def expansionArity_def)

lemma plain_emits:
  "okay (case mapMethodCall f of
       Some (mapName, _, helper) \<Rightarrow> formatMapCall mapName helper fargs
     | None \<Rightarrow> (case bpfFuncName f of
           Some name \<Rightarrow> formatHelperCall name fargs
         | None \<Rightarrow> rbind fn (\<lambda>fnS. rbind (rsequence fargs) (\<lambda>args. Inr (callText fnS args))))) =
   plainCallEmits f (okay fn) (map okay fargs)"
proof -
  have s: "okay (rsequence fargs) = list_all (\<lambda>b. b) (map okay fargs)"
    by (simp add: okay_rsequence list.pred_map comp_def)
  have len: "rsequence fargs = Inr args \<Longrightarrow> length args = length fargs" for args
    by (induction fargs arbitrary: args) (auto simp: rbind_eq_Inr)
  have h: "okay (formatHelperCall name fargs) \<longleftrightarrow> okay (rsequence fargs)
      \<and> (case map_of expansionArity name of None \<Rightarrow> True | Some n \<Rightarrow> length fargs = n)" for name
    using len by (cases "rsequence fargs") (auto simp: formatHelperCall_def expansion_emits split: option.splits)
  show ?thesis
    by (auto simp: plainCallEmits_def formatMapCall_def h s[symmetric] okay_then split: option.splits)
qed

lemma formatCall_emits: "okay (formatCall e p f fn fargs) = callEmits f (okay fn) (map okay fargs)"
proof (cases "isConversion f \<or> isUnsafePointer f")
  case True
  then show ?thesis
    by (auto simp: formatCall_def callEmits_def isConversion_def split: option.splits)
next
  case False
  have rules: "callRules f = [callRules f ! 0, callRules f ! 1, callRules f ! 2, callRules f ! 3,
      callRules f ! 4, callRules f ! 5, callRules f ! 6, callRules f ! 7]"
    by (simp add: callRules_def)
  have *: "foldr (ruleEmits (methodName f) (map okay fargs)) (callRules f) b =
      ruleEmits (methodName f) (map okay fargs) (callRules f ! 0) (ruleEmits (methodName f) (map okay fargs) (callRules f ! 1)
      (ruleEmits (methodName f) (map okay fargs) (callRules f ! 2) (ruleEmits (methodName f) (map okay fargs) (callRules f ! 3)
      (foldr (ruleEmits (methodName f) (map okay fargs)) [callRules f ! 4, callRules f ! 5, callRules f ! 6]
      (ruleEmits (methodName f) (map okay fargs) (callRules f ! 7) b)))))" for b
    by (subst rules) simp
  from False show ?thesis
    unfolding formatCall_def callEmits_def *
    by (simp only: ringbuf_emits queue_emits progArray_emits perf_emits storage_emits redirect_emits plain_emits
        isConversion_def not_not de_Morgan_disj if_False option.case simp_thms)
qed

section \<open>Expressions\<close>

fun exprEmits :: "expr \<Rightarrow> bool" where
  "exprEmits (BasicLit m k v) = True"
| "exprEmits (IdentE i) = True"
| "exprEmits (SelectorExpr m x sel) = (constantOf x sel \<noteq> None \<or> exprEmits x)"
| "exprEmits (UnaryExpr m op x) = (op \<in> {NOT, AND, SUB, XOR} \<and> exprEmits x)"
| "exprEmits (BinaryExpr m x op y) = (exprEmits x \<and> exprEmits y)"
| "exprEmits (CallExpr m f args) = callEmits f (exprEmits f) (map exprEmits args)"
| "exprEmits (ParenExpr m x) = exprEmits x"
| "exprEmits (IndexExpr m x i) = (exprEmits x \<and> exprEmits i)"
| "exprEmits (StarExpr m x) = exprEmits x"
| "exprEmits _ = False"

lemma formatExpr_emits: "okay (formatExpr e x) = exprEmits x"
proof (induction e x rule: formatExpr.induct)
  case (3 e m x sel)
  then show ?case by (simp add: formatSelector_def coreReadChain_None split: option.splits)
next
  case (4 e m op x)
  then show ?case by (cases "formatExpr e x") (simp_all add: formatUnary_def)
next
  case (5 e m x op y)
  then show ?case by (simp add: formatBinary_def okay_then)
next
  case (6 e m f args)
  then have "map okay (map (formatExpr e) args) = map exprEmits args" by simp
  with "6.IH"(1) show ?case by (simp only: formatExpr.simps exprEmits.simps formatCall_emits)
next
  case (8 e m x i)
  then show ?case by (cases "formatExpr e x") auto
qed simp_all

section \<open>Statements\<close>

definition identTyped :: "expr \<Rightarrow> bool" where
  "identTyped x = (case identOf x of None \<Rightarrow> False | Some i \<Rightarrow> typed (idType i))"

definition commaOkEmits :: "expr list \<Rightarrow> expr \<Rightarrow> bool" where
  "commaOkEmits lhs rhs = (case rhs of
     CallExpr m f args \<Rightarrow>
       identOf (lhs ! 0) \<noteq> None \<and> identOf (lhs ! 1) \<noteq> None
       \<and> (case (mapLookupCall f, ringbufReserveCall f, storageGetCall f) of
            (Some (_, t), _, _) \<Rightarrow> typeSupported t \<and> length args = 1 \<and> exprEmits (args ! 0)
          | (None, Some (_, t), _) \<Rightarrow> typeSupported t
          | (None, None, Some (_, t, _)) \<Rightarrow> typeSupported t \<and> length args = 1 \<and> exprEmits (args ! 0)
          | (None, None, None) \<Rightarrow> False)
   | _ \<Rightarrow> False)"

definition assignEmits :: "expr list \<Rightarrow> tok \<Rightarrow> expr list \<Rightarrow> bool" where
  "assignEmits lhs op rhs =
     (if op = DEFINE \<and> length lhs = 2 \<and> length rhs = 1 then commaOkEmits lhs (rhs ! 0)
      else length lhs = 1 \<and> length rhs = 1 \<and> exprEmits (lhs ! 0) \<and> exprEmits (rhs ! 0)
        \<and> (op = DEFINE \<and> identTyped (lhs ! 0) \<or> op = ASSIGN \<or> op \<in> set compoundAssign))"

definition varEmits :: "expr list \<Rightarrow> nat \<times> ident \<Rightarrow> bool" where
  "varEmits vals iname = (case iname of (i, name) \<Rightarrow>
     typed (idType name) \<and> (i < length vals \<longrightarrow> exprEmits (vals ! i)))"

definition varSpecEmits :: "spec \<Rightarrow> bool" where
  "varSpecEmits sp = (case sp of
     ValueSpec _ names _ vals \<Rightarrow> list_all (varEmits vals) (zip [0..<length names] names)
   | _ \<Rightarrow> False)"

definition clauseEmits :: "stmt \<Rightarrow> bool" where
  "clauseEmits s = (case s of
     AssignStmt p lhs op rhs \<Rightarrow> length lhs = 1 \<and> length rhs = 1 \<and> exprEmits (rhs ! 0)
       \<and> (if op = DEFINE then identTyped (lhs ! 0) else exprEmits (lhs ! 0))
   | IncDecStmt p x t \<Rightarrow> exprEmits x
   | _ \<Rightarrow> False)"

function (sequential) stmtEmits :: "stmt \<Rightarrow> bool" and blockEmits :: "stmt list \<Rightarrow> bool"
  and elseEmits :: "stmt option \<Rightarrow> bool" where
  "stmtEmits (DeclStmt p t specs) = (t = VAR_kw \<and> list_all varSpecEmits specs)"
| "stmtEmits (AssignStmt p lhs op rhs) = assignEmits lhs op rhs"
| "stmtEmits (IfStmt p init cond body els) =
     (init = None \<and> exprEmits cond \<and> blockEmits body \<and> elseEmits els)"
| "stmtEmits (ReturnStmt p results) = (length results \<le> 1 \<and> list_all exprEmits results)"
| "stmtEmits (ExprStmt p x) = exprEmits x"
| "stmtEmits (ForStmt p init cond post body) =
     (case (init, cond, post) of
        (Some i, Some c, Some q) \<Rightarrow> clauseEmits i \<and> exprEmits c \<and> clauseEmits q \<and> blockEmits body
      | _ \<Rightarrow> False)"
| "stmtEmits (BlockStmt p body) = blockEmits body"
| "stmtEmits (IncDecStmt p x t) = exprEmits x"
| "stmtEmits _ = False"
| "blockEmits [] = True"
| "blockEmits (s # ss) = (stmtEmits s \<and> blockEmits ss)"
| "elseEmits None = True"
| "elseEmits (Some (IfStmt q init cond body els)) = (exprEmits cond \<and> blockEmits body)"
| "elseEmits (Some (BlockStmt q body)) = blockEmits body"
| "elseEmits (Some _) = False"
  by pat_completeness auto
termination
  by (relation "measure (\<lambda>x. case x of Inl s \<Rightarrow> size s | Inr (Inl ss) \<Rightarrow> size_list size ss
        | Inr (Inr s) \<Rightarrow> size_option size s)") auto

lemma writeCommaOk_emits:
  assumes "\<And>c. okay (rhs c) = b"
  shows "okay (writeCommaOk p lhs what pre t rhs e) =
    (typeSupported t \<and> identOf (lhs ! 0) \<noteq> None \<and> identOf (lhs ! 1) \<noteq> None \<and> b)"
proof -
  have ts: "typeSupported t = okay (goTypeToC t)" by (simp add: okay_type)
  show ?thesis unfolding writeCommaOk_def ts
    by (cases "identOf (lhs ! 0)"; cases "identOf (lhs ! 1)"; cases "goTypeToC t")
       (simp_all add: assms case_prod_unfold)
qed

lemma oneArg_emits: "okay (oneArg e p method args) = (length args = 1 \<and> exprEmits (args ! 0))"
  by (simp add: oneArg_def formatExpr_emits)

lemma commaOk_forms:
  "okay (writeMapLookup p lhs cp args n t e) = (typeSupported t \<and> identOf (lhs ! 0) \<noteq> None \<and> identOf (lhs ! 1) \<noteq> None
     \<and> length args = 1 \<and> exprEmits (args ! 0))"
  "okay (writeStorageGet p lhs cp args n t h e) = (typeSupported t \<and> identOf (lhs ! 0) \<noteq> None \<and> identOf (lhs ! 1) \<noteq> None
     \<and> length args = 1 \<and> exprEmits (args ! 0))"
  "okay (writeRingbufReserve p lhs n t e) = (typeSupported t \<and> identOf (lhs ! 0) \<noteq> None \<and> identOf (lhs ! 1) \<noteq> None)"
  unfolding writeMapLookup_def writeStorageGet_def writeRingbufReserve_def
  by (simp_all add: writeCommaOk_emits oneArg_emits)

lemma writeCommaOkAssign_emits: "okay (writeCommaOkAssign p lhs rhs e) = commaOkEmits lhs rhs"
proof (cases rhs)
  case (CallExpr m f args)
  then show ?thesis
    by (cases "mapLookupCall f"; cases "ringbufReserveCall f"; cases "storageGetCall f")
       (auto simp: writeCommaOkAssign_def commaOkEmits_def commaOkError_def commaOk_forms)
qed (simp_all add: writeCommaOkAssign_def commaOkEmits_def commaOkError_def)

lemma writeAssignStmt_emits: "okay (writeAssignStmt p lhs op rhs e) = assignEmits lhs op rhs"
proof (cases "op = DEFINE \<and> length lhs = 2 \<and> length rhs = 1")
  case False
  have "okay (writeAssignStmt p lhs op rhs e) \<longleftrightarrow> length lhs = 1 \<and> length rhs = 1
      \<and> okay (formatExpr e (lhs ! 0)) \<and> okay (formatExpr e (rhs ! 0))
      \<and> (op = DEFINE \<and> identTyped (lhs ! 0) \<or> op = ASSIGN \<or> op \<in> set compoundAssign)"
  proof (cases "length lhs = 1 \<and> length rhs = 1")
    case True
    have "DEFINE \<notin> set compoundAssign" "ASSIGN \<notin> set compoundAssign" by (simp_all add: compoundAssign_def)
    with True show ?thesis unfolding writeAssignStmt_def identTyped_def
      by (cases "formatExpr e (lhs ! 0)"; cases "formatExpr e (rhs ! 0)"; cases "identOf (lhs ! 0)"; cases "op = DEFINE";
          cases "op = ASSIGN"; cases "op \<in> set compoundAssign")
         (simp_all add: Let_def)
  qed (use False in \<open>auto simp: writeAssignStmt_def\<close>)
  with False show ?thesis by (simp only: assignEmits_def formatExpr_emits if_False)
qed (simp add: writeAssignStmt_def assignEmits_def writeCommaOkAssign_emits)

lemma writeVar_emits: "okay (writeVar vals x e) = varEmits vals x"
proof -
  obtain i name where x: "x = (i, name)" by (cases x)
  have "typed (idType name) = okay (goTypeToCOpt (idType name))" by simp
  then show ?thesis unfolding x
    by (cases "goTypeToCOpt (idType name)") (simp_all add: writeVar_def varEmits_def Let_def formatExpr_emits)
qed

lemma writeDeclStmt_emits: "okay (writeDeclStmt p t specs e) = (t = VAR_kw \<and> list_all varSpecEmits specs)"
proof -
  have "okay (writeVarSpec sp e) = varSpecEmits sp" for sp e
    by (cases sp) (simp_all add: writeVarSpec_def varSpecEmits_def
        okay_rfold[where I = "\<lambda>_. True", OF TrueI writeVar_emits])
  then show ?thesis
    by (simp add: writeDeclStmt_def okay_rfold[where I = "\<lambda>_. True", OF TrueI])
qed

lemma formatForClause_emits: "okay (formatForClause e s) = clauseEmits s"
proof (cases s)
  case (AssignStmt p lhs op rhs)
  then show ?thesis
    by (cases "formatExpr e (rhs ! 0)")
       (auto simp: formatForClause_def clauseEmits_def identTyped_def formatExpr_emits[of e, symmetric] split: option.splits)
qed (simp_all add: formatForClause_def clauseEmits_def formatExpr_emits)

lemma writeReturnStmt_emits: "okay (writeReturnStmt p rs e) = (length rs \<le> 1 \<and> list_all exprEmits rs)"
  by (auto simp: writeReturnStmt_def formatExpr_emits split: list.splits)

lemma okay_nested [simp]: "okay (nested body e) = okay (body (incIndent e))"
  by (simp add: nested_def)

lemma stmts_emit:
  "okay (writeStmt s e) = stmtEmits s"
  "okay (writeBlock ss e) = blockEmits ss"
  "okay (writeIfStmt p init cond body els e) =
     (init = None \<and> exprEmits cond \<and> blockEmits body \<and> elseEmits els)"
  "okay (writeElse p el e) = elseEmits (Some el)"
  "okay (writeForStmt p init c q body e) =
     (case (init, c, q) of
        (Some i, Some k, Some r) \<Rightarrow> clauseEmits i \<and> exprEmits k \<and> clauseEmits r \<and> blockEmits body
      | _ \<Rightarrow> False)"
proof (induction s e and ss e and p init cond body els e and p el e and p init c q body e
    rule: writeStmt_writeBlock_writeIfStmt_writeElse_writeForStmt.induct)
  case (1 p t specs e)
  then show ?case by (simp add: writeDeclStmt_emits)
next
  case (2 p lhs op rhs e)
  then show ?case by (simp add: writeAssignStmt_emits)
next
  case (4 p results e)
  then show ?case by (simp add: writeReturnStmt_emits)
next
  case (5 p x e)
  then show ?case by (simp add: writeExprStmt_def formatExpr_emits)
next
  case (8 p x t e)
  then show ?case by (simp add: writeIncDec_def Let_def formatExpr_emits)
next
  case (11 s ss e)
  then show ?case by (cases "writeStmt s e") simp_all
next
  case (12 p init cond body els e)
  show ?case
  proof (cases "init = None \<and> okay (formatExpr e cond)")
    case True
    then obtain c where c: "formatExpr e cond = Inr c" and i: "\<not> init \<noteq> None" by (auto simp: okay_def)
    let ?n = "nested (writeBlock body) (writef (''if ('' @ c @ '') {'' @ [newline]) (writeIndent e))"
    have "okay ?n = blockEmits body" using "12.IH"(1)[OF i c] by simp
    moreover have "okay (case els of None \<Rightarrow> Inr (writeln ''}'' e2) | Some x \<Rightarrow> writeElse p x e2) = elseEmits els"
      if "?n = Inr e2" for e2
      using "12.IH"(2)[OF i c that] by (cases els) simp_all
    ultimately have "okay (writeIfStmt p init cond body els e) = (blockEmits body \<and> elseEmits els)"
      using i c by (cases ?n) (simp_all del: okay_nested)
    then show ?thesis using True by (simp add: formatExpr_emits)
  next
    case False
    then have "\<not> okay (writeIfStmt p init cond body els e)" by (cases "formatExpr e cond") auto
    with False show ?thesis by (auto simp: formatExpr_emits simp del: writeIfStmt.simps)
  qed
next
  case (13 p q init cond body els e0)
  then show ?case using formatExpr_emits[of "writef ''} else '' e0" cond]
    by (cases "formatExpr (writef ''} else '' e0) cond") (simp_all add: Let_def)
next
  case (16 p init cond post body e)
  show ?case
  proof (cases "init \<noteq> None \<and> cond \<noteq> None \<and> post \<noteq> None")
    case True
    then obtain i k q where ik: "init = Some i" "cond = Some k" "post = Some q" by auto
    have ok: "clauseEmits i = okay (formatForClause e i)" "exprEmits k = okay (formatExpr e k)"
      "clauseEmits q = okay (formatForClause e q)" by (simp_all add: formatForClause_emits formatExpr_emits)
    show ?thesis
      using "16.IH"[OF HOL.refl ik(1) HOL.refl ik(2,3)] unfolding ik prod.case option.case ok
      by (cases "formatForClause e i"; cases "formatExpr e k"; cases "formatForClause e q") simp_all
  next
    case False
    then show ?thesis by (cases init; cases cond; cases post) simp_all
  qed
qed simp_all

section \<open>Declarations and programs\<close>

definition bodyEmits :: "funcDecl \<Rightarrow> bool" where
  "bodyEmits fd = (case fdBody fd of None \<Rightarrow> False | Some (_, b, _) \<Rightarrow> blockEmits b)"

definition fieldEmits :: "structField \<Rightarrow> bool" where
  "fieldEmits fd = (case fd of (name, ty, _) \<Rightarrow> (case ty of Array el n \<Rightarrow> typeSupported el | _ \<Rightarrow> typeSupported ty))"

definition userTypeEmits :: "gprogram \<Rightarrow> userTypeDecl \<Rightarrow> bool" where
  "userTypeEmits prog t = (case Underlying prog (utType t) of Struct fs \<Rightarrow> list_all fieldEmits fs | _ \<Rightarrow> False)"

definition mapEmits :: "mapDecl \<Rightarrow> bool" where
  "mapEmits m \<longleftrightarrow> map_of mapTypeToC (mdType m) \<noteq> None \<and> mapTypesOk m"

definition resultEmits :: "funcDecl \<Rightarrow> bool" where
  "resultEmits fd = (case fdResults fd of
     None \<Rightarrow> True
   | Some (_, rs) \<Rightarrow> length rs \<le> 1 \<and> list_all (\<lambda>r. length (fieldNames r) \<le> 1 \<and> typed (typeOf (fieldType r))) rs)"

definition helperEmits :: "helperFunc \<Rightarrow> bool" where
  "helperEmits h \<longleftrightarrow> resultEmits (hfDecl h)
     \<and> list_all (\<lambda>fd. typed (typeOf (fieldType fd))) (paramList (hfDecl h)) \<and> bodyEmits (hfDecl h)"

definition programEmits :: "programFunc \<Rightarrow> bool" where
  "programEmits p \<longleftrightarrow> (case paramList (pfDecl p) of
     [param] \<Rightarrow> length (fieldNames param) = 1 \<and> typed (typeOf (fieldType param))
   | _ \<Rightarrow> False) \<and> bodyEmits (pfDecl p)"

definition emittable :: "gprogram \<Rightarrow> bool" where
  "emittable prog \<longleftrightarrow> list_all (userTypeEmits prog) (Types prog) \<and> list_all mapEmits (Maps prog)
     \<and> list_all helperEmits (Helpers prog) \<and> list_all programEmits (Programs prog)"

lemma writeBody_emits: "okay (writeBody fd e) = bodyEmits fd"
  by (simp add: writeBody_def bodyEmits_def stmts_emit split: option.splits)

lemma writeField_emits: "okay (writeField t fd e) = fieldEmits fd"
  by (auto simp: writeField_def fieldEmits_def Let_def okay_type split: gotype.splits
      simp del: goTypeToC.simps typeSupported.simps)

lemma writeUserType_emits: "okay (writeUserType t e) = userTypeEmits (eprog e) t"
  by (simp add: writeUserType_def userTypeEmits_def Let_def recordPos_def
      okay_rfold[where I = "\<lambda>_. True", OF TrueI writeField_emits] split: gotype.splits)

lemma writeMap_emits: "okay (writeMap m e) = mapEmits m"
proof (cases "map_of mapTypeToC (mdType m)")
  case None
  then show ?thesis by (simp add: writeMap_def mapEmits_def Let_def)
next
  case (Some ct)
  then show ?thesis unfolding okay_def mapEmits_def by (subst writeMap_ok) simp_all
qed

lemma helperResult_emits: "okay (helperResult h) = resultEmits (hfDecl h)"
  by (auto simp: helperResult_def resultEmits_def Let_def split: option.splits list.splits)

lemma helperParam_emits: "okay (helperParam h fd) = typed (typeOf (fieldType fd))"
  by (simp add: helperParam_def)

lemma writeHelper_emits: "okay (writeHelper h e) = helperEmits h"
proof -
  have ok: "resultEmits (hfDecl h) = okay (helperResult h)"
    "list_all (\<lambda>fd. typed (typeOf (fieldType fd))) (paramList (hfDecl h)) = okay (rmap (helperParam h) (paramList (hfDecl h)))"
    by (simp_all add: helperResult_emits okay_rmap helperParam_emits)
  show ?thesis unfolding writeHelper_def helperEmits_def ok
    by (cases "helperResult h"; cases "rmap (helperParam h) (paramList (hfDecl h))")
       (simp_all add: Let_def writeBody_emits)
qed

lemma writeProgram_emits: "okay (writeProgram p e) = programEmits p"
proof -
  have "okay (rbind (typeAt pre t) (\<lambda>c. writeBody (pfDecl p) (k c))) = (typed t \<and> bodyEmits (pfDecl p))" for pre t k
    by (subst okay_then[OF writeBody_emits]) simp
  then show ?thesis
    by (auto simp: writeProgram_def programEmits_def Let_def length_Suc_conv split: list.splits)
qed

lemma Emit_okay: "okay (Emit prog lbl) = emittable prog"
proof -
  define e3 where "e3 = fold writePrelude (usedPreludeHelpers prog)
    (writeLicense (writeHeader lbl (usesKernelFieldAccess prog) (usesEndianHelpers prog) (newEmitter prog)))"
  have "quietRel (newEmitter prog) e3"
    unfolding e3_def
    by (rule quiet.trans[OF _ fold_writePrelude_quiet])
       (simp add: quietRel_def writeLicense_def writeHeader_def Let_def emitter_ops)
  then have "eprog e3 = prog" by (simp add: quietRel_def newEmitter_def)
  then have t: "okay (rfold writeUserType (Types prog) e3) = list_all (userTypeEmits prog) (Types prog)"
    by (rule okay_rfold[where I = "\<lambda>e. eprog e = prog"])
       (auto simp: writeUserType_emits dest!: frame.writeUserType_R simp: frameRel_def)
  have rest: "okay (rfold writeMap (Maps prog) e) = list_all mapEmits (Maps prog)"
    "okay (rfold writeHelper (Helpers prog) e) = list_all helperEmits (Helpers prog)"
    "okay (rfold writeProgram (Programs prog) e) = list_all programEmits (Programs prog)" for e
    by (rule okay_rfold[where I = "\<lambda>_. True"]; simp add: writeMap_emits writeHelper_emits writeProgram_emits)+
  show ?thesis
    unfolding Emit_def emitAll_def Let_def okay_last emittable_def e3_def[symmetric]
    by (simp add: okay_then[OF rest(3)] okay_then rest t)
qed

end
