(* ===== verification/Progress.thy ===== *)
theory Progress
  imports Emit_Accepts Pipeline
begin

text \<open>
  When a translation and a run succeed.  The source must parse, lie in the subset and be emittable,
  and the operating system must not refuse a file; nothing else can make the pipeline fail, as long as
  no input is read after the run itself has changed what is read for it.
\<close>

section \<open>One input\<close>

definition accepted :: "frontEnd \<Rightarrow> string \<Rightarrow> gprogram \<Rightarrow> bool" where
  "accepted fe i prog \<longleftrightarrow> ParseFile fe i = Inr prog \<and> inSubset prog \<and> emittable prog"

definition writable :: "osFaults \<Rightarrow> string \<Rightarrow> bool" where
  "writable os p \<longleftrightarrow> openErr os p = None \<and> writeErr os p = None \<and> closeErr os p = None"

definition printable :: "goPrinter \<Rightarrow> gprogram \<Rightarrow> bool" where
  "printable gp prog \<longleftrightarrow> list_all (\<lambda>t. okay (printType gp t)) (Types prog)
     \<and> list_all (\<lambda>c. okay (printExpr gp (ucValue c))) (Consts prog)"

definition bindable :: "toolchain \<Rightarrow> runOptions \<Rightarrow> string \<Rightarrow> gprogram \<Rightarrow> bool" where
  "bindable tc opts i prog \<longleftrightarrow> BindingsDir opts = []
     \<or> mkdirErr (faults tc) (BindingsDir opts) = None \<and> writable (faults tc) (bindingsPath opts i)
       \<and> stemOf i \<noteq> [] \<and> printable (printer tc) prog"

definition translatable :: "toolchain \<Rightarrow> frontEnd \<Rightarrow> runOptions \<Rightarrow> string \<Rightarrow> bool" where
  "translatable tc fe opts i \<longleftrightarrow>
     (\<exists>prog. accepted fe i prog \<and> writable (faults tc) (cPath opts i)
        \<and> writable (faults tc) (cPath opts i @ ''.map'') \<and> bindable tc opts i prog)"

lemma compile_emits:
  "(\<exists>source maps. compile fe d i = Inr (prog, source, maps)) \<longleftrightarrow> accepted fe i prog"
proof -
  have "compile fe d i = Inr (prog, source, maps) \<longleftrightarrow> ParseFile fe i = Inr prog \<and> Validate prog = []
      \<and> Emit prog (relSource d i) = Inr (source, maps)" for source maps
    by (cases "ParseFile fe i"; cases "Emit prog (relSource d i)")
       (auto simp: compile_def wrapErr_def rbind_eq_Inr split: if_splits sum.splits)
  then show ?thesis
    using Emit_okay[of prog "relSource d i"]
    by (auto simp: accepted_def Validate_Nil findings_Nil okay_def)
qed

lemma osWriteFile_succeeds: "fst (osWriteFile os p s w) = None \<longleftrightarrow> writable os p"
  by (auto simp: osWriteFile_def osCreate_def fileWrite_def writable_def split: option.splits)

lemma bindingsText_okay:
  "okay (bindingsText gp prog (sanitizePackageName d) stem sm) \<longleftrightarrow> stem \<noteq> [] \<and> printable gp prog"
  using bindingsText_ok[of gp prog "sanitizePackageName d" stem sm] sanitizePackageName_hd[of d]
  by (simp add: okay_def printable_def list_all_iff)

lemma translateBindings_succeeds:
  "fst (snd (translateBindings tc opts prog sm r w)) = None \<longleftrightarrow> BindingsDir opts = []
     \<or> mkdirErr (faults tc) (BindingsDir opts) = None
       \<and> writable (faults tc) (pathJoin (BindingsDir opts) (Stem r @ ''_bindings.go''))
       \<and> Stem r \<noteq> [] \<and> printable (printer tc) prog"
  using bindingsText_okay[of "printer tc" prog "pathBase (BindingsDir opts)" "Stem r" sm]
  by (cases "bindingsText (printer tc) prog (sanitizePackageName (pathBase (BindingsDir opts))) (Stem r) sm")
     (auto simp: translateBindings_def WriteBindings_def osCreate_def fileWrite_def writable_def Let_def split: option.splits)

lemma translateOne_succeeds:
  "fst (snd (translateOne tc i opts w)) = None \<longleftrightarrow> translatable tc (frontAt tc w) opts i"
proof (cases "compile (frontAt tc w) (OutputDir opts) i")
  case (Inl e)
  then have "\<not> accepted (frontAt tc w) i prog" for prog
    using compile_emits[of "frontAt tc w" "OutputDir opts" i prog] by simp
  with Inl show ?thesis by (simp add: translateOne_def translatable_def)
next
  case (Inr c)
  obtain prog source maps where c: "c = (prog, source, maps)" by (cases c)
  with Inr have a: "accepted (frontAt tc w) i q \<longleftrightarrow> q = prog" for q
    using compile_emits[of "frontAt tc w" "OutputDir opts" i q] by auto
  obtain e1 w1 where w1: "osWriteFile (faults tc) (cPath opts i) source w = (e1, w1)" by fastforce
  obtain e2 w2 where w2: "osWriteFile (faults tc) (cPath opts i @ ''.map'') (FormatSourceMap maps) w1 = (e2, w2)"
    by fastforce
  have e: "writable (faults tc) (cPath opts i) \<longleftrightarrow> e1 = None"
    "writable (faults tc) (cPath opts i @ ''.map'') \<longleftrightarrow> e2 = None"
    using osWriteFile_succeeds w1 w2 by (metis fst_conv)+
  show ?thesis
    unfolding translatable_def a e bindable_def
    using Inr c w1 w2
    by (cases e1; cases e2)
       (simp_all add: translateOne_def Let_def cPath_def stemOf_def translateBindings_succeeds bindingsPath_def)
qed

section \<open>A run\<close>

lemma translatable_cong:
  "ParseFile fe i = ParseFile fe' i \<Longrightarrow> translatable tc fe opts i = translatable tc fe' opts i"
  by (simp add: translatable_def accepted_def)

lemma runInputs_succeeds:
  assumes "readsOnly tc deps"
  shows "undisturbed opts deps ins \<Longrightarrow>
    fst (snd (runInputs tc opts ins rs w)) = None \<longleftrightarrow> list_all (translatable tc (frontAt tc w) opts) ins"
proof (induction ins arbitrary: rs w)
  case (Cons i ins)
  obtain r e w1 where t: "translateOne tc i opts w = (r, e, w1)" by (metis prod_cases3)
  have "e = None \<longleftrightarrow> translatable tc (frontAt tc w) opts i"
    using translateOne_succeeds[of tc i opts w] t by simp
  moreover have "translatable tc (frontAt tc w1) opts j \<longleftrightarrow> translatable tc (frontAt tc w) opts j" if "j \<in> set ins" for j
    using Cons.prems that by (intro translatable_cong parse_kept[OF assms t]) (simp add: undisturbed_def)
  then have "list_all (translatable tc (frontAt tc w1) opts) ins \<longleftrightarrow> list_all (translatable tc (frontAt tc w) opts) ins"
    by (simp add: list_all_iff)
  ultimately show ?case using Cons t by (cases e) (simp_all add: undisturbed_def)
qed simp

lemma Run_succeeds:
  assumes "readsOnly tc deps" and "undisturbed (defaultOptions opts) deps (inputsOf w (InputDir opts))"
  shows "(\<exists>rs w'. Run tc opts w = (rs, None, w')) \<longleftrightarrow>
    (\<exists>ins. findInputs w (InputDir opts) = Inr ins \<and> ins \<noteq> []
       \<and> mkdirErr (faults tc) (OutputDir (defaultOptions opts)) = None
       \<and> list_all (translatable tc (frontAt tc w) (defaultOptions opts)) ins)"
proof -
  have d: "InputDir (defaultOptions opts) = InputDir opts" by (simp add: defaultOptions_def)
  have n: "(\<exists>a b. x = (a, None, b)) \<longleftrightarrow> fst (snd x) = None" for x :: "runResult list \<times> string option \<times> world"
    by (cases x) auto
  show ?thesis
  proof (cases "findInputs w (InputDir opts)")
    case (Inl e)
    then show ?thesis by (simp add: Run_def Let_def d)
  next
    case (Inr ins)
    with assms(2) have "undisturbed (defaultOptions opts) deps ins" by (simp add: inputsOf_def)
    note s = runInputs_succeeds[OF assms(1) this]
    from Inr show ?thesis unfolding n by (auto simp: Run_def Let_def d s split: option.splits)
  qed
qed

end
