(* ===== verification/Kernel_Types.thy ===== *)
theory Kernel_Types
  imports C_Types
begin

text \<open>
  The declarations of \<^verbatim>\<open>vmlinux.h\<close> that the emitted C refers to: the enumerations whose constants
  \<^verbatim>\<open>helpers.go\<close> names, the structures of the program contexts of \<^verbatim>\<open>types.go\<close>, and the integer
  typedefs.  A structure is the list of its members; an anonymous member has the empty name, and its
  members are reached as members of the structure around it.
\<close>

section \<open>C declarations\<close>

datatype cty = CVoid | CInt string | CTypedef string | CTag string | CPtr cty | CArr cty nat
  | CUnion "(string \<times> cty) list" | CStruct "(string \<times> cty) list"

text \<open>Signedness and width of the integer types, on a 64-bit target.\<close>

definition cIntShapes :: "(string \<times> bool \<times> nat) list" where
  "cIntShapes =
     [(''signed char'', True, 8), (''unsigned char'', False, 8), (''short int'', True, 16),
      (''short unsigned int'', False, 16), (''int'', True, 32), (''unsigned int'', False, 32),
      (''long int'', True, 64), (''long unsigned int'', False, 64), (''long long int'', True, 64),
      (''long long unsigned int'', False, 64)]"

section \<open>Typedefs\<close>

definition typedef_s8 :: "string \<times> string" where
  "typedef_s8 = (''__s8'', ''signed char'')"

definition typedef_u8 :: "string \<times> string" where
  "typedef_u8 = (''__u8'', ''unsigned char'')"

definition typedef_s16 :: "string \<times> string" where
  "typedef_s16 = (''__s16'', ''short int'')"

definition typedef_u16 :: "string \<times> string" where
  "typedef_u16 = (''__u16'', ''short unsigned int'')"

definition typedef_s32 :: "string \<times> string" where
  "typedef_s32 = (''__s32'', ''int'')"

definition typedef_u32 :: "string \<times> string" where
  "typedef_u32 = (''__u32'', ''unsigned int'')"

definition typedef_s64 :: "string \<times> string" where
  "typedef_s64 = (''__s64'', ''long long int'')"

definition typedef_u64 :: "string \<times> string" where
  "typedef_u64 = (''__u64'', ''long long unsigned int'')"

definition kernelTypedefs :: "(string \<times> string) list" where
  "kernelTypedefs = [typedef_s8, typedef_u8, typedef_s16, typedef_u16, typedef_s32, typedef_u32, typedef_s64, typedef_u64]"

section \<open>Enumerations\<close>

definition enum_map_update_flags :: "(string \<times> int) list" where
  "enum_map_update_flags =
    [(''BPF_ANY'', 0), (''BPF_NOEXIST'', 1), (''BPF_EXIST'', 2), (''BPF_F_LOCK'', 4)]"

definition enum_perf_flags :: "(string \<times> int) list" where
  "enum_perf_flags =
    [(''BPF_F_INDEX_MASK'', 4294967295), (''BPF_F_CURRENT_CPU'', 4294967295),
     (''BPF_F_CTXLEN_MASK'', 4503595332403200)]"

definition enum_map_create_flags :: "(string \<times> int) list" where
  "enum_map_create_flags =
    [(''BPF_F_NO_PREALLOC'', 1), (''BPF_F_NO_COMMON_LRU'', 2), (''BPF_F_NUMA_NODE'', 4), (''BPF_F_RDONLY'', 8),
     (''BPF_F_WRONLY'', 16), (''BPF_F_STACK_BUILD_ID'', 32), (''BPF_F_ZERO_SEED'', 64),
     (''BPF_F_RDONLY_PROG'', 128), (''BPF_F_WRONLY_PROG'', 256), (''BPF_F_CLONE'', 512),
     (''BPF_F_MMAPABLE'', 1024), (''BPF_F_PRESERVE_ELEMS'', 2048), (''BPF_F_INNER_MAP'', 4096),
     (''BPF_F_LINK'', 8192), (''BPF_F_PATH_FD'', 16384), (''BPF_F_VTYPE_BTF_OBJ_FD'', 32768),
     (''BPF_F_TOKEN_FD'', 65536), (''BPF_F_SEGV_ON_FAULT'', 131072), (''BPF_F_NO_USER_CONV'', 262144)]"

definition enum_storage_flags :: "(string \<times> int) list" where
  "enum_storage_flags =
    [(''BPF_LOCAL_STORAGE_GET_F_CREATE'', 1), (''BPF_SK_STORAGE_GET_F_CREATE'', 1)]"

definition enum_sock_ops_cb_flags :: "(string \<times> int) list" where
  "enum_sock_ops_cb_flags =
    [(''BPF_SOCK_OPS_RTO_CB_FLAG'', 1), (''BPF_SOCK_OPS_RETRANS_CB_FLAG'', 2),
     (''BPF_SOCK_OPS_STATE_CB_FLAG'', 4), (''BPF_SOCK_OPS_RTT_CB_FLAG'', 8),
     (''BPF_SOCK_OPS_PARSE_ALL_HDR_OPT_CB_FLAG'', 16), (''BPF_SOCK_OPS_PARSE_UNKNOWN_HDR_OPT_CB_FLAG'', 32),
     (''BPF_SOCK_OPS_WRITE_HDR_OPT_CB_FLAG'', 64), (''BPF_SOCK_OPS_ALL_CB_FLAGS'', 127)]"

definition enum_sock_ops :: "(string \<times> int) list" where
  "enum_sock_ops =
    [(''BPF_SOCK_OPS_VOID'', 0), (''BPF_SOCK_OPS_TIMEOUT_INIT'', 1), (''BPF_SOCK_OPS_RWND_INIT'', 2),
     (''BPF_SOCK_OPS_TCP_CONNECT_CB'', 3), (''BPF_SOCK_OPS_ACTIVE_ESTABLISHED_CB'', 4),
     (''BPF_SOCK_OPS_PASSIVE_ESTABLISHED_CB'', 5), (''BPF_SOCK_OPS_NEEDS_ECN'', 6),
     (''BPF_SOCK_OPS_BASE_RTT'', 7), (''BPF_SOCK_OPS_RTO_CB'', 8), (''BPF_SOCK_OPS_RETRANS_CB'', 9),
     (''BPF_SOCK_OPS_STATE_CB'', 10), (''BPF_SOCK_OPS_TCP_LISTEN_CB'', 11), (''BPF_SOCK_OPS_RTT_CB'', 12),
     (''BPF_SOCK_OPS_PARSE_HDR_OPT_CB'', 13), (''BPF_SOCK_OPS_HDR_OPT_LEN_CB'', 14),
     (''BPF_SOCK_OPS_WRITE_HDR_OPT_CB'', 15), (''BPF_SOCK_OPS_TSTAMP_SCHED_CB'', 16),
     (''BPF_SOCK_OPS_TSTAMP_SND_SW_CB'', 17), (''BPF_SOCK_OPS_TSTAMP_SND_HW_CB'', 18),
     (''BPF_SOCK_OPS_TSTAMP_ACK_CB'', 19), (''BPF_SOCK_OPS_TSTAMP_SENDMSG_CB'', 20)]"

definition enum_bpf_map_type :: "(string \<times> int) list" where
  "enum_bpf_map_type =
    [(''BPF_MAP_TYPE_UNSPEC'', 0), (''BPF_MAP_TYPE_HASH'', 1), (''BPF_MAP_TYPE_ARRAY'', 2),
     (''BPF_MAP_TYPE_PROG_ARRAY'', 3), (''BPF_MAP_TYPE_PERF_EVENT_ARRAY'', 4),
     (''BPF_MAP_TYPE_PERCPU_HASH'', 5), (''BPF_MAP_TYPE_PERCPU_ARRAY'', 6), (''BPF_MAP_TYPE_STACK_TRACE'', 7),
     (''BPF_MAP_TYPE_CGROUP_ARRAY'', 8), (''BPF_MAP_TYPE_LRU_HASH'', 9),
     (''BPF_MAP_TYPE_LRU_PERCPU_HASH'', 10), (''BPF_MAP_TYPE_LPM_TRIE'', 11),
     (''BPF_MAP_TYPE_ARRAY_OF_MAPS'', 12), (''BPF_MAP_TYPE_HASH_OF_MAPS'', 13), (''BPF_MAP_TYPE_DEVMAP'', 14),
     (''BPF_MAP_TYPE_SOCKMAP'', 15), (''BPF_MAP_TYPE_CPUMAP'', 16), (''BPF_MAP_TYPE_XSKMAP'', 17),
     (''BPF_MAP_TYPE_SOCKHASH'', 18), (''BPF_MAP_TYPE_CGROUP_STORAGE_DEPRECATED'', 19),
     (''BPF_MAP_TYPE_CGROUP_STORAGE'', 19), (''BPF_MAP_TYPE_REUSEPORT_SOCKARRAY'', 20),
     (''BPF_MAP_TYPE_PERCPU_CGROUP_STORAGE_DEPRECATED'', 21), (''BPF_MAP_TYPE_PERCPU_CGROUP_STORAGE'', 21),
     (''BPF_MAP_TYPE_QUEUE'', 22), (''BPF_MAP_TYPE_STACK'', 23), (''BPF_MAP_TYPE_SK_STORAGE'', 24),
     (''BPF_MAP_TYPE_DEVMAP_HASH'', 25), (''BPF_MAP_TYPE_STRUCT_OPS'', 26), (''BPF_MAP_TYPE_RINGBUF'', 27),
     (''BPF_MAP_TYPE_INODE_STORAGE'', 28), (''BPF_MAP_TYPE_TASK_STORAGE'', 29),
     (''BPF_MAP_TYPE_BLOOM_FILTER'', 30), (''BPF_MAP_TYPE_USER_RINGBUF'', 31),
     (''BPF_MAP_TYPE_CGRP_STORAGE'', 32), (''BPF_MAP_TYPE_ARENA'', 33), (''__MAX_BPF_MAP_TYPE'', 34)]"

definition enum_xdp_action :: "(string \<times> int) list" where
  "enum_xdp_action =
    [(''XDP_ABORTED'', 0), (''XDP_DROP'', 1), (''XDP_PASS'', 2), (''XDP_TX'', 3), (''XDP_REDIRECT'', 4)]"

definition kernelEnumerators :: "(string \<times> int) list" where
  "kernelEnumerators =
     enum_map_update_flags @ enum_perf_flags @ enum_map_create_flags @ enum_storage_flags
     @ enum_sock_ops_cb_flags @ enum_sock_ops @ enum_bpf_map_type @ enum_xdp_action"

section \<open>Structures\<close>

definition struct___sk_buff :: "(string \<times> cty) list" where
  "struct___sk_buff =
    [(''len'', CTypedef ''__u32''), (''pkt_type'', CTypedef ''__u32''), (''mark'', CTypedef ''__u32''),
     (''queue_mapping'', CTypedef ''__u32''), (''protocol'', CTypedef ''__u32''),
     (''vlan_present'', CTypedef ''__u32''), (''vlan_tci'', CTypedef ''__u32''),
     (''vlan_proto'', CTypedef ''__u32''), (''priority'', CTypedef ''__u32''),
     (''ingress_ifindex'', CTypedef ''__u32''), (''ifindex'', CTypedef ''__u32''),
     (''tc_index'', CTypedef ''__u32''), (''cb'', CArr (CTypedef ''__u32'') 5), (''hash'', CTypedef ''__u32''),
     (''tc_classid'', CTypedef ''__u32''), (''data'', CTypedef ''__u32''), (''data_end'', CTypedef ''__u32''),
     (''napi_id'', CTypedef ''__u32''), (''family'', CTypedef ''__u32''), (''remote_ip4'', CTypedef ''__u32''),
     (''local_ip4'', CTypedef ''__u32''), (''remote_ip6'', CArr (CTypedef ''__u32'') 4),
     (''local_ip6'', CArr (CTypedef ''__u32'') 4), (''remote_port'', CTypedef ''__u32''),
     (''local_port'', CTypedef ''__u32''), (''data_meta'', CTypedef ''__u32''),
     ('''', CUnion [(''flow_keys'', CPtr (CTag ''bpf_flow_keys''))]), (''tstamp'', CTypedef ''__u64''),
     (''wire_len'', CTypedef ''__u32''), (''gso_segs'', CTypedef ''__u32''),
     ('''', CUnion [(''sk'', CPtr (CTag ''bpf_sock''))]), (''gso_size'', CTypedef ''__u32''),
     (''tstamp_type'', CTypedef ''__u8''), (''hwtstamp'', CTypedef ''__u64'')]"

definition struct_bpf_cpumap_val :: "(string \<times> cty) list" where
  "struct_bpf_cpumap_val =
    [(''qsize'', CTypedef ''__u32''),
     (''bpf_prog'', CUnion [(''fd'', CInt ''int''), (''id'', CTypedef ''__u32'')])]"

definition struct_xdp_md :: "(string \<times> cty) list" where
  "struct_xdp_md =
    [(''data'', CTypedef ''__u32''), (''data_end'', CTypedef ''__u32''), (''data_meta'', CTypedef ''__u32''),
     (''ingress_ifindex'', CTypedef ''__u32''), (''rx_queue_index'', CTypedef ''__u32''),
     (''egress_ifindex'', CTypedef ''__u32'')]"

definition struct_bpf_sock_ops :: "(string \<times> cty) list" where
  "struct_bpf_sock_ops =
    [(''op'', CTypedef ''__u32''),
     ('''', CUnion [(''args'', CArr (CTypedef ''__u32'') 4), (''reply'', CTypedef ''__u32''), (''replylong'', CArr (CTypedef ''__u32'') 4)]),
     (''family'', CTypedef ''__u32''), (''remote_ip4'', CTypedef ''__u32''),
     (''local_ip4'', CTypedef ''__u32''), (''remote_ip6'', CArr (CTypedef ''__u32'') 4),
     (''local_ip6'', CArr (CTypedef ''__u32'') 4), (''remote_port'', CTypedef ''__u32''),
     (''local_port'', CTypedef ''__u32''), (''is_fullsock'', CTypedef ''__u32''),
     (''snd_cwnd'', CTypedef ''__u32''), (''srtt_us'', CTypedef ''__u32''),
     (''bpf_sock_ops_cb_flags'', CTypedef ''__u32''), (''state'', CTypedef ''__u32''),
     (''rtt_min'', CTypedef ''__u32''), (''snd_ssthresh'', CTypedef ''__u32''),
     (''rcv_nxt'', CTypedef ''__u32''), (''snd_nxt'', CTypedef ''__u32''), (''snd_una'', CTypedef ''__u32''),
     (''mss_cache'', CTypedef ''__u32''), (''ecn_flags'', CTypedef ''__u32''),
     (''rate_delivered'', CTypedef ''__u32''), (''rate_interval_us'', CTypedef ''__u32''),
     (''packets_out'', CTypedef ''__u32''), (''retrans_out'', CTypedef ''__u32''),
     (''total_retrans'', CTypedef ''__u32''), (''segs_in'', CTypedef ''__u32''),
     (''data_segs_in'', CTypedef ''__u32''), (''segs_out'', CTypedef ''__u32''),
     (''data_segs_out'', CTypedef ''__u32''), (''lost_out'', CTypedef ''__u32''),
     (''sacked_out'', CTypedef ''__u32''), (''sk_txhash'', CTypedef ''__u32''),
     (''bytes_received'', CTypedef ''__u64''), (''bytes_acked'', CTypedef ''__u64''),
     ('''', CUnion [(''sk'', CPtr (CTag ''bpf_sock''))]), ('''', CUnion [(''skb_data'', CPtr (CVoid))]),
     ('''', CUnion [(''skb_data_end'', CPtr (CVoid))]), (''skb_len'', CTypedef ''__u32''),
     (''skb_tcp_flags'', CTypedef ''__u32''), (''skb_hwtstamp'', CTypedef ''__u64'')]"

definition struct_pt_regs :: "(string \<times> cty) list" where
  "struct_pt_regs =
    [('''', CUnion [(''user_regs'', CTag ''user_pt_regs''), ('''', CStruct [(''regs'', CArr (CTypedef ''u64'') 31), (''sp'', CTypedef ''u64''), (''pc'', CTypedef ''u64''), (''pstate'', CTypedef ''u64'')])]),
     (''orig_x0'', CTypedef ''u64''), (''syscallno'', CTypedef ''s32''), (''pmr'', CTypedef ''u32''),
     (''sdei_ttbr1'', CTypedef ''u64''), (''stackframe'', CTag ''frame_record_meta''),
     (''lockdep_hardirqs'', CTypedef ''u64''), (''exit_rcu'', CTypedef ''u64'')]"

definition struct_trace_entry :: "(string \<times> cty) list" where
  "struct_trace_entry =
    [(''type'', CInt ''short unsigned int''), (''flags'', CInt ''unsigned char''),
     (''preempt_count'', CInt ''unsigned char''), (''pid'', CInt ''int'')]"

definition struct_trace_event_raw_sys_enter :: "(string \<times> cty) list" where
  "struct_trace_event_raw_sys_enter =
    [(''ent'', CTag ''trace_entry''), (''id'', CInt ''long int''),
     (''args'', CArr (CInt ''long unsigned int'') 6), (''__data'', CArr (CInt ''char'') 0)]"

definition struct_trace_event_raw_sys_exit :: "(string \<times> cty) list" where
  "struct_trace_event_raw_sys_exit =
    [(''ent'', CTag ''trace_entry''), (''id'', CInt ''long int''), (''ret'', CInt ''long int''),
     (''__data'', CArr (CInt ''char'') 0)]"

definition kernelStructs :: "(string \<times> (string \<times> cty) list) list" where
  "kernelStructs =
    [(''struct __sk_buff'', struct___sk_buff), (''struct bpf_cpumap_val'', struct_bpf_cpumap_val),
     (''struct xdp_md'', struct_xdp_md), (''struct bpf_sock_ops'', struct_bpf_sock_ops),
     (''struct pt_regs'', struct_pt_regs), (''struct trace_entry'', struct_trace_entry),
     (''struct trace_event_raw_sys_enter'', struct_trace_event_raw_sys_enter),
     (''struct trace_event_raw_sys_exit'', struct_trace_event_raw_sys_exit)]"

section \<open>Values and accesses\<close>

text \<open>A signed decimal numeral.\<close>

definition cNumeral :: "string \<Rightarrow> int option" where
  "cNumeral c = (case c of
     [] \<Rightarrow> None
   | d # ds \<Rightarrow> if d = CHR ''-'' then map_option (\<lambda>n. - int n) (atoiDigits ds) else map_option int (atoiDigits c))"

text \<open>The value of a C constant expression that is a numeral or an enumerator.\<close>

definition cConstant :: "string \<Rightarrow> int option" where
  "cConstant c = (case cNumeral c of Some v \<Rightarrow> Some v | None \<Rightarrow> map_of kernelEnumerators c)"

text \<open>The member of a structure, looked up through its anonymous members.\<close>

fun findMember :: "(string \<times> cty) list \<Rightarrow> string \<Rightarrow> cty option" where
  "findMember [] name = None"
| "findMember ((n, CUnion fs) # ms) name =
     (if n = [] then (case findMember fs name of Some t \<Rightarrow> Some t | None \<Rightarrow> findMember ms name)
      else if n = name then Some (CUnion fs) else findMember ms name)"
| "findMember ((n, CStruct fs) # ms) name =
     (if n = [] then (case findMember fs name of Some t \<Rightarrow> Some t | None \<Rightarrow> findMember ms name)
      else if n = name then Some (CStruct fs) else findMember ms name)"
| "findMember ((n, t) # ms) name = (if n = name then Some t else findMember ms name)"

text \<open>An integer with its signedness and width, or an array of such integers.\<close>

datatype shape = Scalar bool nat | Vector bool nat nat

definition intShape :: "string \<Rightarrow> shape option" where
  "intShape b = map_option (\<lambda>(s, w). Scalar s w) (map_of cIntShapes b)"

fun cShape :: "cty \<Rightarrow> shape option" where
  "cShape (CInt b) = intShape b"
| "cShape (CTypedef t) = Option.bind (map_of kernelTypedefs t) intShape"
| "cShape (CArr t n) = (case cShape t of Some (Scalar s w) \<Rightarrow> Some (Vector s w n) | _ \<Rightarrow> None)"
| "cShape _ = None"

text \<open>The shape of \<open>p->access\<close>: a member, or an element of a member that is an array.\<close>

definition accessShape :: "(string \<times> cty) list \<Rightarrow> string \<Rightarrow> shape option" where
  "accessShape ms access = (case indexByte access CHR ''['' of
     None \<Rightarrow> Option.bind (findMember ms access) cShape
   | Some k \<Rightarrow>
       (case (findMember ms (take k access), atoiDigits (butlast (drop (k + 1) access))) of
          (Some (CArr t n), Some i) \<Rightarrow> if i < n \<and> last access = CHR '']'' then cShape t else None
        | _ \<Rightarrow> None))"

fun goShape :: "gotype \<Rightarrow> shape option" where
  "goShape (Basic k) = map_option (\<lambda>(s, w). Scalar s w) (goIntShape k)"
| "goShape (Array (Basic k) n) = map_option (\<lambda>(s, w). Vector s w n) (goIntShape k)"
| "goShape _ = None"

end
