(* ===== verification/Bpf_Package.thy ===== *)
theory Bpf_Package
  imports Kernel_Types Parse Emit_Accepts
begin

text \<open>
  The hand-written half of package \<^verbatim>\<open>bpf\<close>, the API of the kernel-side programs: the context
  types with the struct tags of their fields, the constants, the map types with their methods and
  the functions.  Their bodies only panic; what they mean is what the emitter makes of them, so the
  lemmas compare these declarations with the tables of the emitter and with the declarations of the
  kernel.
\<close>

section \<open>Declarations\<close>

text \<open>The signature of a method or a function, its types as they are written.\<close>

record goMethod =
  gmName :: string
  gmParams :: "string list"
  gmResults :: "string list"

text \<open>A generic map type: the number of its type parameters, whether it has the field
  \<^verbatim>\<open>MaxEntries\<close>, and its methods.\<close>

record goMapType =
  gtName :: string
  gtParams :: nat
  gtMaxEntries :: bool
  gtMethods :: "goMethod list"

text \<open>The raw tag of a field with the key \<^verbatim>\<open>bpf\<close>.\<close>

definition bpfTag :: "string \<Rightarrow> string" where
  "bpfTag name = ''bpf:'' @ [CHR 0x22] @ name @ [CHR 0x22]"

section \<open>Contexts and constants\<close>


definition XdpMd_fields :: "structField list" where
  "XdpMd_fields =
    [(''Data'', Basic KUint32, bpfTag ''data''), (''DataEnd'', Basic KUint32, bpfTag ''data_end''),
     (''DataMeta'', Basic KUint32, bpfTag ''data_meta''),
     (''IngressIfIndex'', Basic KUint32, bpfTag ''ingress_ifindex''),
     (''RxQueueIndex'', Basic KUint32, bpfTag ''rx_queue_index''),
     (''EgressIfIndex'', Basic KUint32, bpfTag ''egress_ifindex'')]"

definition XdpAborted_consts :: "(string \<times> int) list" where
  "XdpAborted_consts =
    [(''XdpAborted'', 0), (''XdpDrop'', 1), (''XdpPass'', 2), (''XdpTx'', 3), (''XdpRedirect'', 4)]"

definition TracepointCtx_fields :: "structField list" where
  "TracepointCtx_fields =
    []"

definition TpOk_const :: "(string \<times> int) list" where
  "TpOk_const = [(''TpOk'', 0)]"

definition SyscallEnterCtx_fields :: "structField list" where
  "SyscallEnterCtx_fields =
    [(''Id'', Basic KInt64, bpfTag ''id''), (''Args'', Array (Basic KUint64) 6, bpfTag ''args'')]"

definition SyscallExitCtx_fields :: "structField list" where
  "SyscallExitCtx_fields =
    [(''Id'', Basic KInt64, bpfTag ''id''), (''Ret'', Basic KInt64, bpfTag ''ret'')]"

definition ExecveEnterCtx_fields :: "structField list" where
  "ExecveEnterCtx_fields =
    [(''Filename'', Basic KUint64, bpfTag ''args[0]''), (''Argv'', Basic KUint64, bpfTag ''args[1]''),
     (''Envp'', Basic KUint64, bpfTag ''args[2]'')]"

definition OpenatEnterCtx_fields :: "structField list" where
  "OpenatEnterCtx_fields =
    [(''Dfd'', Basic KUint64, bpfTag ''args[0]''), (''Filename'', Basic KUint64, bpfTag ''args[1]''),
     (''Flags'', Basic KUint64, bpfTag ''args[2]''), (''Mode'', Basic KUint64, bpfTag ''args[3]'')]"

definition PtRegs_fields :: "structField list" where
  "PtRegs_fields =
    []"

definition KpOk_const :: "(string \<times> int) list" where
  "KpOk_const = [(''KpOk'', 0)]"

definition SockOpsMd_fields :: "structField list" where
  "SockOpsMd_fields =
    [(''Op'', Basic KUint32, bpfTag ''op''), (''Family'', Basic KUint32, bpfTag ''family''),
     (''RemoteIp4'', Basic KUint32, bpfTag ''remote_ip4''),
     (''LocalIp4'', Basic KUint32, bpfTag ''local_ip4''),
     (''RemotePort'', Basic KUint32, bpfTag ''remote_port''),
     (''LocalPort'', Basic KUint32, bpfTag ''local_port''),
     (''IsFullsock'', Basic KUint32, bpfTag ''is_fullsock''), (''State'', Basic KUint32, bpfTag ''state''),
     (''SndCwnd'', Basic KUint32, bpfTag ''snd_cwnd''), (''SrttUs'', Basic KUint32, bpfTag ''srtt_us''),
     (''SndNxt'', Basic KUint32, bpfTag ''snd_nxt''), (''RcvNxt'', Basic KUint32, bpfTag ''rcv_nxt''),
     (''MssCache'', Basic KUint32, bpfTag ''mss_cache''),
     (''BytesReceived'', Basic KUint64, bpfTag ''bytes_received''),
     (''BytesAcked'', Basic KUint64, bpfTag ''bytes_acked''), (''SkbLen'', Basic KUint32, bpfTag ''skb_len''),
     (''SkbTcpFlags'', Basic KUint32, bpfTag ''skb_tcp_flags''),
     (''BpfSockOpsCbFlags'', Basic KUint32, bpfTag ''bpf_sock_ops_cb_flags'')]"

definition SockOpsErr_consts :: "(string \<times> int) list" where
  "SockOpsErr_consts =
    [(''SockOpsErr'', 0), (''SockOpsOk'', 1)]"

definition BpfSockOpsVoid_consts :: "(string \<times> int) list" where
  "BpfSockOpsVoid_consts =
    [(''BpfSockOpsVoid'', 0), (''BpfSockOpsTimeoutInit'', 1), (''BpfSockOpsRwndInit'', 2),
     (''BpfSockOpsTcpConnectCb'', 3), (''BpfSockOpsActiveEstablishedCb'', 4),
     (''BpfSockOpsPassiveEstablishedCb'', 5), (''BpfSockOpsNeedsEcn'', 6), (''BpfSockOpsBaseRtt'', 7),
     (''BpfSockOpsRtoCb'', 8), (''BpfSockOpsRetransCb'', 9), (''BpfSockOpsStateCb'', 10),
     (''BpfSockOpsTcpListenCb'', 11), (''BpfSockOpsRttCb'', 12), (''BpfSockOpsParseHdrOptCb'', 13),
     (''BpfSockOpsHdrOptLenCb'', 14), (''BpfSockOpsWriteHdrOptCb'', 15)]"

definition BpfSockOpsRtoCbFlag_consts :: "(string \<times> int) list" where
  "BpfSockOpsRtoCbFlag_consts =
    [(''BpfSockOpsRtoCbFlag'', 1 * 2 ^ 0), (''BpfSockOpsRetransCbFlag'', 1 * 2 ^ 1),
     (''BpfSockOpsStateCbFlag'', 1 * 2 ^ 2), (''BpfSockOpsRttCbFlag'', 1 * 2 ^ 3),
     (''BpfSockOpsParseAllHdrOptCbFlag'', 1 * 2 ^ 4), (''BpfSockOpsParseUnknownHdrOptCbFlag'', 1 * 2 ^ 5),
     (''BpfSockOpsWriteHdrOptCbFlag'', 1 * 2 ^ 6)]"

definition SkBuff_fields :: "structField list" where
  "SkBuff_fields =
    [(''Len'', Basic KUint32, bpfTag ''len''), (''PktType'', Basic KUint32, bpfTag ''pkt_type''),
     (''Mark'', Basic KUint32, bpfTag ''mark''), (''QueueMapping'', Basic KUint32, bpfTag ''queue_mapping''),
     (''Protocol'', Basic KUint32, bpfTag ''protocol''),
     (''VlanPresent'', Basic KUint32, bpfTag ''vlan_present''),
     (''VlanTci'', Basic KUint32, bpfTag ''vlan_tci''), (''VlanProto'', Basic KUint32, bpfTag ''vlan_proto''),
     (''Priority'', Basic KUint32, bpfTag ''priority''),
     (''IngressIfindex'', Basic KUint32, bpfTag ''ingress_ifindex''),
     (''Ifindex'', Basic KUint32, bpfTag ''ifindex''), (''TcIndex'', Basic KUint32, bpfTag ''tc_index''),
     (''Hash'', Basic KUint32, bpfTag ''hash''), (''TcClassid'', Basic KUint32, bpfTag ''tc_classid''),
     (''Data'', Basic KUint32, bpfTag ''data''), (''DataEnd'', Basic KUint32, bpfTag ''data_end''),
     (''NapiId'', Basic KUint32, bpfTag ''napi_id''), (''Family'', Basic KUint32, bpfTag ''family''),
     (''RemoteIp4'', Basic KUint32, bpfTag ''remote_ip4''),
     (''LocalIp4'', Basic KUint32, bpfTag ''local_ip4''),
     (''RemotePort'', Basic KUint32, bpfTag ''remote_port''),
     (''LocalPort'', Basic KUint32, bpfTag ''local_port''),
     (''DataMeta'', Basic KUint32, bpfTag ''data_meta''), (''Tstamp'', Basic KUint64, bpfTag ''tstamp'')]"

definition TcUnspec_consts :: "(string \<times> int) list" where
  "TcUnspec_consts =
    [(''TcUnspec'', -1), (''TcOk'', 0), (''TcReclassify'', 1), (''TcShot'', 2), (''TcPipe'', 3),
     (''TcStolen'', 4), (''TcQueued'', 5), (''TcRepeat'', 6), (''TcRedirect'', 7), (''TcTrap'', 8)]"

definition CgroupSkbDrop_consts :: "(string \<times> int) list" where
  "CgroupSkbDrop_consts =
    [(''CgroupSkbDrop'', 0), (''CgroupSkbAllow'', 1)]"

definition LsmCtx_fields :: "structField list" where
  "LsmCtx_fields =
    []"

definition LsmAllow_consts :: "(string \<times> int) list" where
  "LsmAllow_consts =
    [(''LsmAllow'', 0), (''LsmDeny'', -1)]"

definition contextTypes :: "(string \<times> structField list) list" where
  "contextTypes =
    [(''XdpMd'', XdpMd_fields), (''TracepointCtx'', TracepointCtx_fields),
     (''SyscallEnterCtx'', SyscallEnterCtx_fields), (''SyscallExitCtx'', SyscallExitCtx_fields),
     (''ExecveEnterCtx'', ExecveEnterCtx_fields), (''OpenatEnterCtx'', OpenatEnterCtx_fields),
     (''PtRegs'', PtRegs_fields), (''SockOpsMd'', SockOpsMd_fields), (''SkBuff'', SkBuff_fields),
     (''LsmCtx'', LsmCtx_fields)]"

definition bpfConstDecls :: "(string \<times> int) list" where
  "bpfConstDecls =
     XdpAborted_consts @ TpOk_const @ KpOk_const @ SockOpsErr_consts @ BpfSockOpsVoid_consts
     @ BpfSockOpsRtoCbFlag_consts @ TcUnspec_consts @ CgroupSkbDrop_consts @ LsmAllow_consts"

section \<open>Maps\<close>

definition ArrayMap_decl :: goMapType where
  "ArrayMap_decl = \<lparr>gtName = ''ArrayMap'', gtParams = 2, gtMaxEntries = True, gtMethods =
    [\<lparr>gmName = ''Lookup'', gmParams = [''*K''], gmResults = [''*V'', ''bool'']\<rparr>,
     \<lparr>gmName = ''Update'', gmParams = [''*K'', ''*V''], gmResults = [''error'']\<rparr>,
     \<lparr>gmName = ''Delete'', gmParams = [''*K''], gmResults = [''error'']\<rparr>]\<rparr>"

definition HashMap_decl :: goMapType where
  "HashMap_decl = \<lparr>gtName = ''HashMap'', gtParams = 2, gtMaxEntries = True, gtMethods =
    [\<lparr>gmName = ''Lookup'', gmParams = [''*K''], gmResults = [''*V'', ''bool'']\<rparr>,
     \<lparr>gmName = ''Update'', gmParams = [''*K'', ''*V''], gmResults = [''error'']\<rparr>,
     \<lparr>gmName = ''Delete'', gmParams = [''*K''], gmResults = [''error'']\<rparr>]\<rparr>"

definition LruHashMap_decl :: goMapType where
  "LruHashMap_decl = \<lparr>gtName = ''LruHashMap'', gtParams = 2, gtMaxEntries = True, gtMethods =
    [\<lparr>gmName = ''Lookup'', gmParams = [''*K''], gmResults = [''*V'', ''bool'']\<rparr>,
     \<lparr>gmName = ''Update'', gmParams = [''*K'', ''*V''], gmResults = [''error'']\<rparr>,
     \<lparr>gmName = ''Delete'', gmParams = [''*K''], gmResults = [''error'']\<rparr>]\<rparr>"

definition PerCPUArray_decl :: goMapType where
  "PerCPUArray_decl = \<lparr>gtName = ''PerCPUArray'', gtParams = 2, gtMaxEntries = True, gtMethods =
    [\<lparr>gmName = ''Lookup'', gmParams = [''*K''], gmResults = [''*V'', ''bool'']\<rparr>,
     \<lparr>gmName = ''Update'', gmParams = [''*K'', ''*V''], gmResults = [''error'']\<rparr>,
     \<lparr>gmName = ''Delete'', gmParams = [''*K''], gmResults = [''error'']\<rparr>]\<rparr>"

definition PerCPUHash_decl :: goMapType where
  "PerCPUHash_decl = \<lparr>gtName = ''PerCPUHash'', gtParams = 2, gtMaxEntries = True, gtMethods =
    [\<lparr>gmName = ''Lookup'', gmParams = [''*K''], gmResults = [''*V'', ''bool'']\<rparr>,
     \<lparr>gmName = ''Update'', gmParams = [''*K'', ''*V''], gmResults = [''error'']\<rparr>,
     \<lparr>gmName = ''Delete'', gmParams = [''*K''], gmResults = [''error'']\<rparr>]\<rparr>"

definition LruPerCPUHash_decl :: goMapType where
  "LruPerCPUHash_decl = \<lparr>gtName = ''LruPerCPUHash'', gtParams = 2, gtMaxEntries = True, gtMethods =
    [\<lparr>gmName = ''Lookup'', gmParams = [''*K''], gmResults = [''*V'', ''bool'']\<rparr>,
     \<lparr>gmName = ''Update'', gmParams = [''*K'', ''*V''], gmResults = [''error'']\<rparr>,
     \<lparr>gmName = ''Delete'', gmParams = [''*K''], gmResults = [''error'']\<rparr>]\<rparr>"

definition BloomFilter_decl :: goMapType where
  "BloomFilter_decl = \<lparr>gtName = ''BloomFilter'', gtParams = 1, gtMaxEntries = True, gtMethods =
    [\<lparr>gmName = ''Add'', gmParams = [''*T''], gmResults = [''error'']\<rparr>,
     \<lparr>gmName = ''Contains'', gmParams = [''*T''], gmResults = [''bool'']\<rparr>]\<rparr>"

definition LpmTrie_decl :: goMapType where
  "LpmTrie_decl = \<lparr>gtName = ''LpmTrie'', gtParams = 2, gtMaxEntries = True, gtMethods =
    [\<lparr>gmName = ''Lookup'', gmParams = [''*K''], gmResults = [''*V'', ''bool'']\<rparr>,
     \<lparr>gmName = ''Update'', gmParams = [''*K'', ''*V''], gmResults = [''error'']\<rparr>,
     \<lparr>gmName = ''Delete'', gmParams = [''*K''], gmResults = [''error'']\<rparr>]\<rparr>"

definition Queue_decl :: goMapType where
  "Queue_decl = \<lparr>gtName = ''Queue'', gtParams = 1, gtMaxEntries = True, gtMethods =
    [\<lparr>gmName = ''Push'', gmParams = [''*T''], gmResults = [''error'']\<rparr>,
     \<lparr>gmName = ''Pop'', gmParams = [''*T''], gmResults = [''error'']\<rparr>,
     \<lparr>gmName = ''Peek'', gmParams = [''*T''], gmResults = [''error'']\<rparr>]\<rparr>"

definition Stack_decl :: goMapType where
  "Stack_decl = \<lparr>gtName = ''Stack'', gtParams = 1, gtMaxEntries = True, gtMethods =
    [\<lparr>gmName = ''Push'', gmParams = [''*T''], gmResults = [''error'']\<rparr>,
     \<lparr>gmName = ''Pop'', gmParams = [''*T''], gmResults = [''error'']\<rparr>,
     \<lparr>gmName = ''Peek'', gmParams = [''*T''], gmResults = [''error'']\<rparr>]\<rparr>"

definition ProgArray_decl :: goMapType where
  "ProgArray_decl = \<lparr>gtName = ''ProgArray'', gtParams = 0, gtMaxEntries = True, gtMethods =
    [\<lparr>gmName = ''TailCall'', gmParams = [''unsafe.Pointer'', ''uint32''], gmResults = []\<rparr>]\<rparr>"

definition PerfEventArray_decl :: goMapType where
  "PerfEventArray_decl = \<lparr>gtName = ''PerfEventArray'', gtParams = 1, gtMaxEntries = True, gtMethods =
    [\<lparr>gmName = ''Output'', gmParams = [''unsafe.Pointer'', ''*T''], gmResults = [''int64'']\<rparr>]\<rparr>"

definition DevMap_decl :: goMapType where
  "DevMap_decl = \<lparr>gtName = ''DevMap'', gtParams = 0, gtMaxEntries = True, gtMethods =
    [\<lparr>gmName = ''Redirect'', gmParams = [''*XdpMd'', ''uint32'', ''uint64''], gmResults = [''XdpAction'']\<rparr>]\<rparr>"

definition CpuMap_decl :: goMapType where
  "CpuMap_decl = \<lparr>gtName = ''CpuMap'', gtParams = 0, gtMaxEntries = True, gtMethods =
    [\<lparr>gmName = ''Redirect'', gmParams = [''*XdpMd'', ''uint32'', ''uint64''], gmResults = [''XdpAction'']\<rparr>]\<rparr>"

definition XskMap_decl :: goMapType where
  "XskMap_decl = \<lparr>gtName = ''XskMap'', gtParams = 0, gtMaxEntries = True, gtMethods =
    [\<lparr>gmName = ''Redirect'', gmParams = [''*XdpMd'', ''uint32'', ''uint64''], gmResults = [''XdpAction'']\<rparr>]\<rparr>"

definition TaskStorage_decl :: goMapType where
  "TaskStorage_decl = \<lparr>gtName = ''TaskStorage'', gtParams = 1, gtMaxEntries = False, gtMethods =
    [\<lparr>gmName = ''Get'', gmParams = [''unsafe.Pointer''], gmResults = [''*V'', ''bool'']\<rparr>,
     \<lparr>gmName = ''GetOrCreate'', gmParams = [''unsafe.Pointer'', ''*V''], gmResults = [''*V'']\<rparr>,
     \<lparr>gmName = ''Delete'', gmParams = [''unsafe.Pointer''], gmResults = [''error'']\<rparr>]\<rparr>"

definition SkStorage_decl :: goMapType where
  "SkStorage_decl = \<lparr>gtName = ''SkStorage'', gtParams = 1, gtMaxEntries = False, gtMethods =
    [\<lparr>gmName = ''Get'', gmParams = [''unsafe.Pointer''], gmResults = [''*V'', ''bool'']\<rparr>,
     \<lparr>gmName = ''GetOrCreate'', gmParams = [''unsafe.Pointer'', ''*V''], gmResults = [''*V'']\<rparr>,
     \<lparr>gmName = ''Delete'', gmParams = [''unsafe.Pointer''], gmResults = [''error'']\<rparr>]\<rparr>"

definition InodeStorage_decl :: goMapType where
  "InodeStorage_decl = \<lparr>gtName = ''InodeStorage'', gtParams = 1, gtMaxEntries = False, gtMethods =
    [\<lparr>gmName = ''Get'', gmParams = [''unsafe.Pointer''], gmResults = [''*V'', ''bool'']\<rparr>,
     \<lparr>gmName = ''GetOrCreate'', gmParams = [''unsafe.Pointer'', ''*V''], gmResults = [''*V'']\<rparr>,
     \<lparr>gmName = ''Delete'', gmParams = [''unsafe.Pointer''], gmResults = [''error'']\<rparr>]\<rparr>"

definition RingBuf_decl :: goMapType where
  "RingBuf_decl = \<lparr>gtName = ''RingBuf'', gtParams = 1, gtMaxEntries = True, gtMethods =
    [\<lparr>gmName = ''Reserve'', gmParams = [], gmResults = [''*T'', ''bool'']\<rparr>,
     \<lparr>gmName = ''Submit'', gmParams = [''*T''], gmResults = []\<rparr>,
     \<lparr>gmName = ''Discard'', gmParams = [''*T''], gmResults = []\<rparr>,
     \<lparr>gmName = ''Output'', gmParams = [''*T''], gmResults = [''int64'']\<rparr>]\<rparr>"

definition bpfMapTypes :: "goMapType list" where
  "bpfMapTypes =
    [ArrayMap_decl, HashMap_decl, LruHashMap_decl, PerCPUArray_decl, PerCPUHash_decl, LruPerCPUHash_decl,
     BloomFilter_decl, LpmTrie_decl, Queue_decl, Stack_decl, ProgArray_decl, PerfEventArray_decl, DevMap_decl,
     CpuMap_decl, XskMap_decl, TaskStorage_decl, SkStorage_decl, InodeStorage_decl, RingBuf_decl]"

section \<open>Functions\<close>

definition AtomicAdd64_func :: goMethod where
  "AtomicAdd64_func = \<lparr>gmName = ''AtomicAdd64'', gmParams = [''*uint64'', ''uint64''], gmResults = []\<rparr>"

definition Ntohl_func :: goMethod where
  "Ntohl_func = \<lparr>gmName = ''Ntohl'', gmParams = [''uint32''], gmResults = [''uint32'']\<rparr>"

definition Htonl_func :: goMethod where
  "Htonl_func = \<lparr>gmName = ''Htonl'', gmParams = [''uint32''], gmResults = [''uint32'']\<rparr>"

definition Ntohs_func :: goMethod where
  "Ntohs_func = \<lparr>gmName = ''Ntohs'', gmParams = [''uint16''], gmResults = [''uint16'']\<rparr>"

definition Htons_func :: goMethod where
  "Htons_func = \<lparr>gmName = ''Htons'', gmParams = [''uint16''], gmResults = [''uint16'']\<rparr>"

definition GetCurrentPid_func :: goMethod where
  "GetCurrentPid_func = \<lparr>gmName = ''GetCurrentPid'', gmParams = [], gmResults = [''uint32'']\<rparr>"

definition GetCurrentTid_func :: goMethod where
  "GetCurrentTid_func = \<lparr>gmName = ''GetCurrentTid'', gmParams = [], gmResults = [''uint32'']\<rparr>"

definition GetCurrentUid_func :: goMethod where
  "GetCurrentUid_func = \<lparr>gmName = ''GetCurrentUid'', gmParams = [], gmResults = [''uint32'']\<rparr>"

definition GetCurrentGid_func :: goMethod where
  "GetCurrentGid_func = \<lparr>gmName = ''GetCurrentGid'', gmParams = [], gmResults = [''uint32'']\<rparr>"

definition GetTaskComm_func :: goMethod where
  "GetTaskComm_func = \<lparr>gmName = ''GetTaskComm'', gmParams = [''*[16]byte''], gmResults = [''int64'']\<rparr>"

definition GetUserString_func :: goMethod where
  "GetUserString_func = \<lparr>gmName = ''GetUserString'', gmParams = [''*[128]byte'', ''uint64''], gmResults = [''int64'']\<rparr>"

definition GetUserArgv_func :: goMethod where
  "GetUserArgv_func = \<lparr>gmName = ''GetUserArgv'', gmParams = [''*[256]byte'', ''uint64''], gmResults = [''int64'']\<rparr>"

definition bpfFunctions :: "goMethod list" where
  "bpfFunctions =
    [AtomicAdd64_func, Ntohl_func, Htonl_func, Ntohs_func, Htons_func, GetCurrentPid_func, GetCurrentTid_func,
     GetCurrentUid_func, GetCurrentGid_func, GetTaskComm_func, GetUserString_func, GetUserArgv_func]"

section \<open>Contexts and the kernel\<close>

text \<open>
  Every field of a context type has a tag that names a member, or an element of an array member, of the
  structure the type is emitted as, and the integer types agree in signedness and width.
\<close>

definition contextFieldOk :: "string \<Rightarrow> structField \<Rightarrow> bool" where
  "contextFieldOk n fd = (case fd of (g, t, tg) \<Rightarrow>
     (case map_of bpfPackageTypes n of
        None \<Rightarrow> False
      | Some info \<Rightarrow>
          (case map_of kernelStructs (cType info) of
             None \<Rightarrow> False
           | Some ms \<Rightarrow> parseBpfTag tg \<noteq> [] \<and> goShape t \<noteq> None \<and> accessShape ms (parseBpfTag tg) = goShape t)))"

lemma context_fields:
  "list_all (\<lambda>(n, fs). list_all (contextFieldOk n) fs) contextTypes"
  "list_all (\<lambda>(n, fs). distinct (map fst fs)) contextTypes"
  by code_simp+

lemma filter_field:
  "distinct (map fst fs) \<Longrightarrow> (g, t, tg) \<in> set fs \<Longrightarrow> filter (\<lambda>(n, _, _). n = g) fs = [(g, t, tg)]"
  by (induction fs) (force simp: filter_empty_conv)+

lemma context_access:
  assumes "(n, fs) \<in> set contextTypes" and "(g, t, tg) \<in> set fs" and "idName sel = g"
    and "typeOf x = Some (Pointer (Named (Some bpfPkgPath) n []))"
    and "Underlying (eprog e) (Named (Some bpfPkgPath) n []) = Struct fs"
  shows "fieldAccess e x sel base = base @ ''->'' @ parseBpfTag tg" and "contextFieldOk n (g, t, tg)"
proof -
  show ok: "contextFieldOk n (g, t, tg)" using context_fields(1) assms(1,2) by (fastforce simp: list_all_iff)
  have "filter (\<lambda>(n, _, _). n = g) fs = [(g, t, tg)]"
    using context_fields(2) assms(1,2) by (intro filter_field) (auto simp: list_all_iff)
  then have "bpfFieldNameTag e (Named (Some bpfPkgPath) n []) g = parseBpfTag tg"
    using assms(5) by (simp add: bpfFieldNameTag_def structFields_def)
  moreover have "parseBpfTag tg \<noteq> []" using ok by (auto simp: contextFieldOk_def split: option.splits)
  ultimately show "fieldAccess e x sel base = base @ ''->'' @ parseBpfTag tg"
    using assms(3,4) by (simp add: fieldAccess_def)
qed

section \<open>Constants and the kernel\<close>

text \<open>The value of the C text of a constant of the package.\<close>

definition constantValue :: "string \<Rightarrow> int option option" where
  "constantValue name = map_option cConstant (map_of bpfConstants name)"

lemma constant_values:
  "list_all (\<lambda>(name, v). constantValue name = Some (Some v)) XdpAborted_consts"
  "list_all (\<lambda>(name, v). constantValue name = Some (Some v)) SockOpsErr_consts"
  "list_all (\<lambda>(name, v). constantValue name = Some (Some v)) BpfSockOpsVoid_consts"
  "list_all (\<lambda>(name, v). constantValue name = Some (Some v)) BpfSockOpsRtoCbFlag_consts"
  "list_all (\<lambda>(name, v). constantValue name = Some (Some v)) (TpOk_const @ KpOk_const)"
  "list_all (\<lambda>(name, v). constantValue name = Some (Some v)) (CgroupSkbDrop_consts @ LsmAllow_consts)"
  and tc_values: "list_all (\<lambda>(name, v). constantValue name = Some None) TcUnspec_consts"
  and constant_names: "map fst bpfConstDecls = map fst bpfConstants"
  by code_simp+

section \<open>Map types\<close>

text \<open>What the emitter needs of a declaration with the type arguments of its Go type.\<close>

lemma map_type_tables:
  "list_all (\<lambda>d. case map_of bpfMapGoTypeToDirective (gtName d) of None \<Rightarrow> False | Some dir \<Rightarrow>
     (gtMaxEntries d \<or> dir \<in> set storageMapDirectives)
     \<and> (case map_of mapTypeToC dir of None \<Rightarrow> False | Some c \<Rightarrow> map_of enum_bpf_map_type c \<noteq> None)
     \<and> (dir \<in> {''ringbuf'', ''prog_array'', ''perf_event_array'', ''devmap'', ''xskmap'', ''cpumap''}
        \<or> gtParams d = 2
        \<or> gtParams d = 1 \<and> dir \<in> {''queue'', ''stack'', ''bloom_filter'', ''task_storage'', ''sk_storage'', ''inode_storage''})
     \<and> gtParams d \<le> 2) bpfMapTypes"
  "list_all (\<lambda>n. n \<in> set (map gtName bpfMapTypes)) (map fst bpfMapGoTypeToDirective)"
  by code_simp+

lemma map_type_names: "set (map gtName bpfMapTypes) = set (map fst bpfMapGoTypeToDirective)"
proof -
  have "list_all (\<lambda>d. gtName d \<in> set (map fst bpfMapGoTypeToDirective)) bpfMapTypes" by code_simp
  with map_type_tables(2) show ?thesis by (auto simp: list_all_iff)
qed

lemma map_type_emits:
  assumes "d \<in> set bpfMapTypes" and "length targs = gtParams d" and "list_all typeSupported targs"
  obtains dir c v md' where "map_of bpfMapGoTypeToDirective (gtName d) = Some dir" "map_of mapTypeToC dir = Some c"
    "map_of enum_bpf_map_type c = Some v" "gtMaxEntries d \<or> dir \<in> set storageMapDirectives"
    "setTypeArgs fs p name targs (md\<lparr>mdType := dir\<rparr>) = Inr md'" "mapEmits md'"
proof -
  from map_type_tables(1) assms(1) obtain dir c v where t: "map_of bpfMapGoTypeToDirective (gtName d) = Some dir"
      "map_of mapTypeToC dir = Some c" "map_of enum_bpf_map_type c = Some v" "gtMaxEntries d \<or> dir \<in> set storageMapDirectives"
    and k: "dir \<in> {''ringbuf'', ''prog_array'', ''perf_event_array'', ''devmap'', ''xskmap'', ''cpumap''}
        \<or> gtParams d = 2
        \<or> gtParams d = 1 \<and> dir \<in> {''queue'', ''stack'', ''bloom_filter'', ''task_storage'', ''sk_storage'', ''inode_storage''}"
      "gtParams d \<le> 2"
    by (fastforce simp: list_all_iff split: option.splits)
  consider "targs = []" | a where "targs = [a]" | a b where "targs = [a, b]"
    using k(2) assms(2) by (metis (no_types, lifting) le_less_Suc_eq length_0_conv length_Suc_conv less_2_cases_iff
        le_eq_less_or_eq numeral_2_eq_2)
  then have "\<exists>md'. setTypeArgs fs p name targs (md\<lparr>mdType := dir\<rparr>) = Inr md' \<and> mapEmits md'"
    using k(1) assms(2,3) t(2) by cases (auto simp: setTypeArgs_def mapEmits_def)
  with t that show thesis by blast
qed

section \<open>Functions\<close>

lemma functions_overridden:
  "list_all (\<lambda>f. gmName f \<in> set (map fst bpfHelperExpansions @ map fst bpfHelperFuncs)
     \<and> (case map_of expansionArity (gmName f) of None \<Rightarrow> True | Some n \<Rightarrow> length (gmParams f) = n)) bpfFunctions"
  "list_all (\<lambda>n. n \<in> set (map gmName bpfFunctions)) (map fst bpfHelperExpansions @ map fst bpfHelperFuncs)"
  by code_simp+

lemma function_names: "set (map gmName bpfFunctions) = set (map fst bpfHelperExpansions @ map fst bpfHelperFuncs)"
  using functions_overridden by (auto simp: list_all_iff)

lemma functions_emit:
  assumes "f \<in> set bpfFunctions" and "length args = length (gmParams f)"
  shows "\<exists>c. formatHelperCall (gmName f) (map Inr args) = Inr c"
proof -
  have "case map_of expansionArity (gmName f) of None \<Rightarrow> True | Some n \<Rightarrow> length args = n"
    using functions_overridden(1) assms by (auto simp: list_all_iff split: option.splits)
  then have "okay (case map_of bpfHelperExpansions (gmName f) of Some expand \<Rightarrow> expand args | None \<Rightarrow> Inr t)" for t
    by (simp only: expansion_emits)
  then show ?thesis by (simp add: formatHelperCall_def rsequence_Inr okay_def)
qed

end
