(* ===== verification/Gen_Helpers.thy ===== *)
theory Gen_Helpers
  imports Helper_Tables
begin

text \<open>
  \<^verbatim>\<open>tools/genhelpers/main.go\<close>: the generator that reads libbpf's \<^verbatim>\<open>bpf_helper_defs.h\<close> and
  writes the Go stubs of the package \<^verbatim>\<open>bpf\<close>.  The transpiler's \<open>goNameToBpfHelper\<close> is meant
  to undo the generator's \<open>goNameFor\<close>; the name codec below proves that it does.
\<close>

section \<open>Patterns\<close>

text \<open>
  \<open>helperDecl\<close>, anchored at the start of the line, in pieces: the three groups are
  \<open>declRet\<close>, \<open>declName\<close> and \<open>declParams\<close>.
\<close>

abbreviation rxSpaces :: "rx list" where "rxSpaces \<equiv> [Star True rxSpace]"

definition declHead :: "rx list" where
  "declHead = rxLit ''static'' @ rxPlus rxSpace"

definition declRet :: "rx list" where
  "declRet = rxPlusLazy rxAny"

definition declConst :: "rx list" where
  "declConst = rxSpaces @ rxLit ''('' @ rxLit ''*'' @ rxSpaces @ rxLit ''const'' @ rxPlus rxSpace"

definition declName :: "rx list" where
  "declName = rxPlus isWord"

definition declOpen :: "rx list" where
  "declOpen = rxSpaces @ rxLit '')'' @ rxSpaces @ rxLit ''(''"

definition declParams :: "rx list" where
  "declParams = [Star True rxAny]"

definition declTail :: "rx list" where
  "declTail = rxLit '')'' @ rxSpaces @ rxLit ''='' @ rxSpaces @ rxLit ''(void'' @ rxSpaces @ rxLit ''*)''
     @ rxSpaces @ rxPlus isDigit @ rxSpaces @ rxLit '';''"

definition helperDecl :: "rx list" where
  "helperDecl = declHead @ declRet @ declConst @ declName @ declOpen @ declParams @ declTail"

definition rxGroup :: "rx list \<Rightarrow> rx list \<Rightarrow> string list \<Rightarrow> string" where
  "rxGroup pre g ps = concat (take (length g) (drop (length pre) ps))"

text \<open>The three groups of a match of \<open>helperDecl\<close> at the start of the line.\<close>

definition matchDecl :: "string \<Rightarrow> (string \<times> string \<times> string) option" where
  "matchDecl line = (case rxMatch helperDecl line of
     None \<Rightarrow> None
   | Some (ps, _) \<Rightarrow> Some (rxGroup declHead declRet ps, rxGroup (declHead @ declRet @ declConst) declName ps,
       rxGroup (declHead @ declRet @ declConst @ declName @ declOpen) declParams ps))"

definition docStart :: "string \<Rightarrow> bool" where
  "docStart line \<longleftrightarrow> line = ''/*''"

definition docEnd :: "string \<Rightarrow> bool" where
  "docEnd line \<longleftrightarrow> dropWhile rxSpace line = ''*/''"

section \<open>Names\<close>

definition goPart :: "string \<Rightarrow> string" where
  "goPart p = (case p of [] \<Rightarrow> [] | c # cs \<Rightarrow> toUpper c # cs)"

definition goNameFor :: "string \<Rightarrow> string" where
  "goNameFor c = joinWith [] (map goPart (splitOn CHR ''_'' (trimPrefix c ''bpf_'')))"

definition reservedNames :: "string list" where
  "reservedNames = [''type'', ''func'', ''map'', ''range'', ''chan'', ''select'', ''case'', ''default'', ''go'',
     ''var'', ''const'', ''import'', ''package'', ''interface'', ''struct'']"

definition sanitizeParamName :: "string \<Rightarrow> string" where
  "sanitizeParamName name =
     (if name = '''' then ''arg'' else if name \<in> set reservedNames then name @ ''_'' else name)"

section \<open>Parameters and types\<close>

record param =
  pCType :: string
  pName :: string
  pGoTyp :: string

record helper =
  hcName :: string
  hgoName :: string
  hretType :: string
  hparams :: "param list"
  hdoc :: "string list"
  hskip :: string

text \<open>\<open>splitTopLevel\<close>: the loop with its depth and its buffer (kept in reverse).\<close>

fun splitDepth :: "char \<Rightarrow> int \<Rightarrow> string \<Rightarrow> string \<Rightarrow> string list" where
  "splitDepth sep depth buf [] = (if buf = [] then [] else [rev buf])"
| "splitDepth sep depth buf (c # cs) =
     (let depth' = (if c = CHR ''('' then depth + 1 else if c = CHR '')'' then depth - 1 else depth)
      in if c = sep \<and> depth' = 0 then rev buf # splitDepth sep depth' [] cs
         else splitDepth sep depth' (c # buf) cs)"

definition splitTopLevel :: "string \<Rightarrow> char \<Rightarrow> string list" where
  "splitTopLevel s sep = splitDepth sep 0 [] s"

lemma trimSpace_length: "length (trimSpace s) \<le> length s"
proof -
  have "length (dropWhile isSpace (rev (dropWhile isSpace s))) \<le> length (rev (dropWhile isSpace s))"
    by (rule length_dropWhile_le)
  then show ?thesis using length_dropWhile_le[of isSpace s]
    by (simp add: trimSpace_def trimLeft_def trimRight_def)
qed

text \<open>Asterisks at the front of the name move to the type.\<close>

function moveStars :: "string \<Rightarrow> string \<Rightarrow> string \<times> string" where
  "moveStars typ [] = (typ, [])"
| "moveStars typ (c # cs) = (if c = CHR ''*'' then moveStars (typ @ '' *'') (trimSpace cs) else (typ, c # cs))"
  by pat_completeness auto
termination
  by (relation "measure (\<lambda>(typ, name). length name)") (auto simp: less_Suc_eq_le trimSpace_length)

definition parseParam :: "string \<Rightarrow> param res" where
  "parseParam part =
     (let p = trimSpace part
      in case lastIndexByte p CHR '' '' of
           None \<Rightarrow> Inl (''unparseable parameter '' @ quote p)
         | Some idx \<Rightarrow>
             (case moveStars (trimSpace (take idx p)) (trimSpace (drop (idx + 1) p)) of
                (typ, name) \<Rightarrow> Inr \<lparr>pCType = typ, pName = sanitizeParamName name, pGoTyp = []\<rparr>))"

text \<open>\<open>Inl reason\<close> is the result with \<open>ok = false\<close>.\<close>

definition parseParams :: "string \<Rightarrow> param list res" where
  "parseParams raw0 =
     (let raw = trimSpace raw0
      in if raw = ''void'' \<or> raw = '''' then Inr []
         else if contains raw ''...'' then Inl ''variadic helpers are not yet supported''
         else rmap parseParam (splitTopLevel raw CHR '',''))"

definition stripPrefixes :: "string \<Rightarrow> string" where
  "stripPrefixes c = fold (\<lambda>pre c. trimSpace (trimPrefix c pre)) [''__bpf_fastcall '', ''const ''] (trimSpace c)"

definition cIntTypes :: "(string \<times> string) list" where
  "cIntTypes =
     [(''__u8'', ''uint8''), (''u8'', ''uint8''),
      (''__u16'', ''uint16''), (''u16'', ''uint16''), (''__be16'', ''uint16''), (''__le16'', ''uint16''),
      (''__u32'', ''uint32''), (''u32'', ''uint32''), (''__be32'', ''uint32''), (''__le32'', ''uint32''),
      (''__wsum'', ''uint32''), (''__sum16'', ''uint32''),
      (''__u64'', ''uint64''), (''u64'', ''uint64''), (''__be64'', ''uint64''), (''__le64'', ''uint64''),
      (''__s8'', ''int8''), (''s8'', ''int8''), (''__s16'', ''int16''), (''s16'', ''int16''),
      (''__s32'', ''int32''), (''s32'', ''int32''), (''int'', ''int32''),
      (''__s64'', ''int64''), (''s64'', ''int64''), (''long'', ''int64''), (''long long'', ''int64'')]"

text \<open>\<open>Inl reason\<close> is a type that cannot be mapped.\<close>

definition cTypeToGo :: "string \<Rightarrow> string res" where
  "cTypeToGo c0 =
     (let c = stripPrefixes c0
      in if c = ''void'' then Inl ''void cannot appear as a parameter type''
         else if c = ''void *'' \<or> c = ''const void *'' then Inr ''unsafe.Pointer''
         else if contains c ''char *'' then Inl ''string-typed parameters are not BPF-safe''
         else if hasSuffix c ''*'' then Inr ''unsafe.Pointer''
         else (case map_of cIntTypes c of
                 Some g \<Rightarrow> Inr g
               | None \<Rightarrow>
                   (if hasPrefix c ''enum '' then Inr ''uint32'' else Inl (''unmapped C type '' @ quote c))))"

text \<open>The loop of \<open>mapTypes\<close> over the parameters, up to the first that has no Go type.\<close>

fun mapParams :: "param list \<Rightarrow> param list \<times> string" where
  "mapParams [] = ([], [])"
| "mapParams (p # ps) = (case cTypeToGo (pCType p) of
     Inl reason \<Rightarrow> (p # ps, ''parameter '' @ quote (pName p) @ '' ('' @ pCType p @ ''): '' @ reason)
   | Inr gt \<Rightarrow> (case mapParams ps of (qs, r) \<Rightarrow> (p\<lparr>pGoTyp := gt\<rparr> # qs, r)))"

definition mapTypes :: "helper \<Rightarrow> helper \<times> string" where
  "mapTypes h = (case mapParams (hparams h) of (ps, reason) \<Rightarrow>
     (let h' = h\<lparr>hparams := ps\<rparr>
      in if reason \<noteq> [] then (h', reason)
         else if hretType h = ''void'' then (h', [])
         else (case cTypeToGo (hretType h) of
                 Inl r \<Rightarrow> (h', ''return type ('' @ hretType h @ ''): '' @ r)
               | Inr gt \<Rightarrow> (h'\<lparr>hretType := gt\<rparr>, []))))"

section \<open>Parsing the header\<close>

text \<open>A declaration with the comment that precedes it.\<close>

definition buildHelper :: "string \<times> string \<times> string \<Rightarrow> string list \<Rightarrow> helper" where
  "buildHelper m docs = (case m of (ret, name, raw) \<Rightarrow>
     (let h = \<lparr>hcName = name, hgoName = goNameFor name, hretType = trimSpace ret, hparams = [],
               hdoc = docs, hskip = []\<rparr>
      in case parseParams raw of
           Inl reason \<Rightarrow> h\<lparr>hskip := reason\<rparr>
         | Inr ps \<Rightarrow> (case mapTypes (h\<lparr>hparams := ps\<rparr>) of (h', reason) \<Rightarrow> h'\<lparr>hskip := reason\<rparr>)))"

record scanState =
  inDoc :: bool
  curDoc :: "string list"
  pendingDoc :: "string list"
  found :: "helper list"

definition scanLine :: "string \<Rightarrow> scanState \<Rightarrow> scanState" where
  "scanLine line st =
     (if docStart line then st\<lparr>inDoc := True, curDoc := []\<rparr>
      else if docEnd line then st\<lparr>inDoc := False, pendingDoc := curDoc st\<rparr>
      else if inDoc st then st\<lparr>curDoc := curDoc st @ [trimPrefix (trimPrefix line '' * '') '' *'']\<rparr>
      else (case matchDecl (trimSpace line) of
              None \<Rightarrow> st
            | Some m \<Rightarrow> st\<lparr>found := found st @ [buildHelper m (pendingDoc st)], pendingDoc := []\<rparr>))"

definition emptyScan :: scanState where
  "emptyScan = \<lparr>inDoc = False, curDoc = [], pendingDoc = [], found = []\<rparr>"

definition headerPath :: string where
  "headerPath = ''tools/genhelpers/data/bpf_helper_defs.h''"

text \<open>The scanner's buffer limit is 1024 * 1024.\<close>

definition headerTokenSize :: nat where
  "headerTokenSize = 1048576"

definition parseHelpers :: "string \<Rightarrow> helper list res" where
  "parseHelpers src = (case scanLines headerTokenSize src of (ls, err) \<Rightarrow>
     (let out = found (fold scanLine ls emptyScan)
      in case err of
           Some e \<Rightarrow> Inl e
         | None \<Rightarrow> (if out = [] then Inl (''no helpers parsed from '' @ headerPath) else Inr out)))"

section \<open>Writing the stubs\<close>

definition stubsHeader :: string where
  "stubsHeader = unlines [
      ''// Code generated by tools/genhelpers. DO NOT EDIT.'',
      ''//'',
      ''// This file is a derivative work of libbpf's bpf_helper_defs.h. Function'',
      ''// names and doc comments are taken from that header. Per libbpf's'',
      ''// dual-license, we use the BSD-2-Clause terms, reproduced below; gobee'',
      ''// itself remains MIT, but this file carries libbpf's notice as required.'',
      ''//'',
      ''//   SPDX-License-Identifier: BSD-2-Clause'',
      ''//'',
      ''//   Copyright (c) the libbpf authors. All rights reserved.'',
      ''//'',
      ''//   Redistribution and use in source and binary forms, with or without'',
      ''//   modification, are permitted provided that the following conditions are'',
      ''//   met:'',
      ''//'',
      ''//     1. Redistributions of source code must retain the above copyright'',
      ''//        notice, this list of conditions and the following disclaimer.'',
      ''//'',
      ''//     2. Redistributions in binary form must reproduce the above copyright'',
      ''//        notice, this list of conditions and the following disclaimer in'',
      ''//        the documentation and/or other materials provided with the'',
      ''//        distribution.'',
      ''//'',
      ''//   THIS SOFTWARE IS PROVIDED BY THE COPYRIGHT HOLDERS AND CONTRIBUTORS'',
      ''//   '' @ dq @ ''AS IS'' @ dq @ '' AND ANY EXPRESS OR IMPLIED WARRANTIES ARE DISCLAIMED.'',
      ''//'',
      ''// Source:    tools/genhelpers/data/bpf_helper_defs.h (libbpf v1.5.0)'',
      ''// Provenance: tools/genhelpers/data/SOURCE.md'',
      '''',
      ''package bpf'',
      '''',
      ''import '' @ dq @ ''unsafe'' @ dq,
      '''',
      ''var _ unsafe.Pointer // keep the import even when no helper needs it'',
      '''']"

definition docLine :: "string \<Rightarrow> string" where
  "docLine line = ''// '' @ trimPrefix (trimRight (\<lambda>c. c = CHR '' '' \<or> c = tab) line) '' '' @ [newline]"

definition emitDoc :: "helper \<Rightarrow> string" where
  "emitDoc h =
     ''// '' @ hgoName h @ '' wraps the BPF helper `'' @ hcName h @ ''`.'' @ [newline]
     @ (if hdoc h = [] then []
        else ''//'' @ [newline]
             @ concat (map docLine (if trimSpace (hd (hdoc h)) = hcName h then tl (hdoc h) else hdoc h)))"

definition stubSignature :: "helper \<Rightarrow> string" where
  "stubSignature h =
     ''func '' @ hgoName h @ ''('' @ joinWith '', '' (map (\<lambda>p. pName p @ '' '' @ pGoTyp p) (hparams h)) @ '')''
     @ (if hretType h \<noteq> '''' \<and> hretType h \<noteq> ''void'' then '' '' @ hretType h else [])
     @ '' { panic(stubMsg) }''"

definition emitHelper :: "helper \<Rightarrow> string" where
  "emitHelper h = emitDoc h
     @ (if hskip h \<noteq> [] then ''// SKIPPED: '' @ hskip h @ [newline]
          @ ''// func '' @ hgoName h @ ''(...) { ... }'' @ [newline, newline]
        else stubSignature h @ [newline, newline])"

definition emitStubs :: "helper list \<Rightarrow> string" where
  "emitStubs hs = stubsHeader @ concat (map emitHelper hs)"

definition countEmitted :: "helper list \<Rightarrow> nat" where
  "countEmitted hs = length (filter (\<lambda>h. hskip h = []) hs)"

definition countSkipped :: "helper list \<Rightarrow> nat" where
  "countSkipped hs = length (filter (\<lambda>h. hskip h \<noteq> []) hs)"

text \<open>
  \<open>main\<close>, given the outcome of reading the header: standard output, standard error and the
  exit code.
\<close>

definition genhelpersMain :: "string res \<Rightarrow> string \<times> string \<times> nat" where
  "genhelpersMain body =
     (case rbind body parseHelpers of
        Inl err \<Rightarrow> ([], ''genhelpers: '' @ err @ [newline], 1)
      | Inr hs \<Rightarrow>
          (let helpers = sortBy hcName hs
           in (emitStubs helpers, ''genhelpers: emitted '' @ itoa (countEmitted helpers) @ '' helpers (''
                @ itoa (countSkipped helpers) @ '' skipped)'' @ [newline], 0)))"

section \<open>The name codec\<close>

text \<open>A codec on a set of valid names; decoding undoes encoding, so encoding loses nothing.\<close>

locale name_codec =
  fixes enc :: "'a \<Rightarrow> 'b" and dec :: "'b \<Rightarrow> 'a" and valid :: "'a \<Rightarrow> bool"
  assumes dec_enc: "valid x \<Longrightarrow> dec (enc x) = x"
begin

lemma enc_inject: "valid x \<Longrightarrow> valid y \<Longrightarrow> enc x = enc y \<longleftrightarrow> x = y"
  using dec_enc by metis

lemma distinct_enc: "\<forall>x \<in> set xs. valid x \<Longrightarrow> distinct (map enc xs) \<longleftrightarrow> distinct xs"
  by (induction xs) (auto simp: enc_inject)

lemma dec_enc_list: "\<forall>x \<in> set xs. valid x \<Longrightarrow> map dec (map enc xs) = xs"
  by (induction xs) (simp_all add: dec_enc)

end

text \<open>Helper names: the prefix and segments that begin with a lower-case letter.\<close>

definition segmentOk :: "string \<Rightarrow> bool" where
  "segmentOk w = (case w of [] \<Rightarrow> False | c # cs \<Rightarrow> isLower c \<and> list_all (\<lambda>x. \<not> isUpper x) cs)"

definition validHelperName :: "string \<Rightarrow> bool" where
  "validHelperName c \<longleftrightarrow> hasPrefix c ''bpf_'' \<and> list_all segmentOk (splitOn CHR ''_'' (drop 4 c))"

lemma toUpper_isUpper: "isLower c \<Longrightarrow> isUpper (toUpper c) \<and> toLower (toUpper c) = c"
proof -
  assume l: "isLower c"
  define n where "n = (of_char c :: nat)"
  have c: "c = char_of n" by (simp add: n_def)
  have n: "97 \<le> n" "n \<le> 122" using l by (simp_all add: isLower_def less_eq_char_def n_def)
  then have m: "of_char (char_of (n - 32) :: char) = n - 32" by simp
  have u: "toUpper c = char_of (n - 32)" using l by (simp add: toUpper_def n_def)
  have "65 \<le> n - 32" "n - 32 \<le> 90" using n by linarith+
  then have "isUpper (toUpper c)" using m by (simp add: u isUpper_def less_eq_char_def)
  moreover have "char_of (n - 32 + 32) = c" using n c by simp
  ultimately show ?thesis using m by (simp add: toLower_def u)
qed

lemma toLower_id: "\<not> isUpper c \<Longrightarrow> toLower c = c"
  by (simp add: toLower_def)

lemma snakeFrom_append: "snakeFrom i (xs @ ys) = snakeFrom i xs @ snakeFrom (i + length xs) ys"
  by (induction xs arbitrary: i) simp_all

lemma snakeFrom_id: "list_all (\<lambda>x. \<not> isUpper x) xs \<Longrightarrow> snakeFrom i xs = xs"
  by (induction xs arbitrary: i) (simp_all add: toLower_id)

lemma snakeFrom_goPart:
  "segmentOk w \<Longrightarrow> snakeFrom i (goPart w) = (if i > 0 then CHR ''_'' # w else w)"
  by (cases w) (auto simp: segmentOk_def goPart_def toUpper_isUpper snakeFrom_id)

lemma snakeFrom_goParts:
  assumes "\<forall>w \<in> set ws. segmentOk w" and "ws \<noteq> []"
  shows "snakeFrom i (concat (map goPart ws)) = (if i > 0 then [CHR ''_''] else []) @ joinWith ''_'' ws"
  using assms
proof (induction ws arbitrary: i)
  case (Cons w ws)
  then have w: "segmentOk w" by simp
  then have "length (goPart w) > 0" by (cases w) (simp_all add: segmentOk_def goPart_def)
  then show ?case using Cons w by (cases "ws = []") (simp_all add: snakeFrom_append snakeFrom_goPart joinWith_Cons)
qed simp

lemma joinWith_Nil_concat: "joinWith [] xs = concat xs"
proof (induction xs)
  case (Cons x xs)
  then show ?case by (cases xs) simp_all
qed simp

lemma goNameToBpfHelper_goNameFor:
  assumes "validHelperName c"
  shows "goNameToBpfHelper (goNameFor c) = c"
proof -
  let ?d = "drop 4 c"
  have c: "c = ''bpf_'' @ ?d"
    using assms append_take_drop_id[of "length ''bpf_''" c] unfolding validHelperName_def hasPrefix_def
    by (simp add: numeral_eq_Suc)
  then have t: "trimPrefix c ''bpf_'' = ?d" by (metis trimPrefix_append)
  have "\<forall>w \<in> set (splitOn CHR ''_'' ?d). segmentOk w"
    using assms by (simp add: validHelperName_def list_all_iff)
  then have "snakeFrom 0 (goNameFor c) = joinWith ''_'' (splitOn CHR ''_'' ?d)"
    by (simp add: goNameFor_def t joinWith_Nil_concat snakeFrom_goParts)
  also have "\<dots> = ?d" by (rule joinWith_splitOn)
  finally show ?thesis using c by (simp add: goNameToBpfHelper_def)
qed

interpretation helperNames: name_codec goNameFor goNameToBpfHelper validHelperName
  by unfold_locales (rule goNameToBpfHelper_goNameFor)

section \<open>The scanner as a state machine\<close>

text \<open>
  The states the loop of \<open>parseHelpers\<close> can reach, whatever the lines.  In all of them every helper
  found has the Go name of its C name, and a Go type for each parameter and for its result unless it
  is skipped.
\<close>

definition goStubTypes :: "string list" where
  "goStubTypes = [''unsafe.Pointer'', ''uint8'', ''uint16'', ''uint32'', ''uint64'', ''int8'', ''int16'', ''int32'', ''int64'']"

definition typedStub :: "helper \<Rightarrow> bool" where
  "typedStub h \<longleftrightarrow> hgoName h = goNameFor (hcName h) \<and> (hskip h \<noteq> []
     \<or> list_all (\<lambda>p. pGoTyp p \<in> set goStubTypes) (hparams h)
       \<and> (hretType h = ''void'' \<or> hretType h \<in> set goStubTypes))"

inductive scanReach :: "scanState \<Rightarrow> bool" where
  start: "scanReach emptyScan"
| line: "scanReach st \<Longrightarrow> scanReach (scanLine l st)"

lemma cIntTypes_range: "map_of cIntTypes c = Some g \<Longrightarrow> g \<in> set goStubTypes"
proof -
  have *: "\<forall>(c, g) \<in> set cIntTypes. g \<in> set goStubTypes" by code_simp
  assume "map_of cIntTypes c = Some g"
  from map_of_SomeD[OF this] * show ?thesis by auto
qed

lemma cTypeToGo_types: "cTypeToGo c = Inr g \<Longrightarrow> g \<in> set goStubTypes"
  using cIntTypes_range
  by (auto simp: cTypeToGo_def Let_def goStubTypes_def[THEN arg_cong[where f = set]] split: if_splits option.splits)

lemma mapParams_types: "mapParams ps = (qs, []) \<Longrightarrow> list_all (\<lambda>p. pGoTyp p \<in> set goStubTypes) qs"
  by (induction ps arbitrary: qs) (auto split: sum.splits prod.splits dest: cTypeToGo_types)

lemma mapTypes_types: "mapTypes h = (h', []) \<Longrightarrow>
    list_all (\<lambda>p. pGoTyp p \<in> set goStubTypes) (hparams h') \<and> (hretType h' = ''void'' \<or> hretType h' \<in> set goStubTypes)"
  by (auto simp: mapTypes_def Let_def dest: mapParams_types cTypeToGo_types split: prod.splits if_splits sum.splits)

lemma mapTypes_names: "mapTypes h = (h', r) \<Longrightarrow> hcName h' = hcName h \<and> hgoName h' = hgoName h"
  by (auto simp: mapTypes_def Let_def split: prod.splits if_splits sum.splits)

lemma rmap_Inl: "rmap f xs = Inl e \<Longrightarrow> \<exists>x \<in> set xs. f x = Inl e"
  by (induction xs) (auto simp: rbind_eq_Inl)

lemma parseParams_reason: "parseParams raw = Inl r \<Longrightarrow> r \<noteq> []"
  by (auto simp: parseParams_def parseParam_def Let_def split: if_splits option.splits prod.splits dest!: rmap_Inl)

lemma buildHelper_typed: "typedStub (buildHelper m docs)"
  using mapTypes_types mapTypes_names
  by (fastforce simp: buildHelper_def typedStub_def Let_def dest: parseParams_reason split: prod.splits sum.splits)

lemma scanReach_typed: "scanReach st \<Longrightarrow> list_all typedStub (found st)"
  by (induction rule: scanReach.induct) (auto simp: emptyScan_def scanLine_def buildHelper_typed split: option.splits)

lemma scanReach_fold: "scanReach st \<Longrightarrow> scanReach (fold scanLine ls st)"
  by (induction ls arbitrary: st) (auto intro: scanReach.line)

lemma parseHelpers_reach: "parseHelpers src = Inr hs \<Longrightarrow> \<exists>st. scanReach st \<and> found st = hs"
  using scanReach_fold[OF scanReach.start]
  by (auto simp: parseHelpers_def Let_def split: prod.splits option.splits if_splits)

end
