(* ===== verification/Helper_Defs_A.thy ===== *)
theory Helper_Defs_A
  imports Go_Library
begin

text \<open>
  The helper declarations of \<^verbatim>\<open>tools/genhelpers/data/bpf_helper_defs.h\<close>, lines 55 to 657: for each
  helper the lines of its comment and its declaration, as in the header.
\<close>

definition hdef_bpf_map_lookup_elem :: "string list" where
  "hdef_bpf_map_lookup_elem = [
    ''/*'',
    '' * bpf_map_lookup_elem'',
    '' *'',
    '' * 	Perform a lookup in *map* for an entry associated to *key*.'',
    '' *'',
    '' * Returns'',
    '' * 	Map value associated to *key*, or **NULL** if no entry was'',
    '' * 	found.'',
    '' */'',
    ''static void *('' @ ''* const bpf_map_lookup_elem)(void *map, const void *key) = (void *) 1;'']"

definition hdef_bpf_map_update_elem :: "string list" where
  "hdef_bpf_map_update_elem = [
    ''/*'',
    '' * bpf_map_update_elem'',
    '' *'',
    '' * 	Add or update the value of the entry associated to *key* in'',
    '' * 	*map* with *value*. *flags* is one of:'',
    '' *'',
    '' * 	**BPF_NOEXIST**'',
    '' * 		The entry for *key* must not exist in the map.'',
    '' * 	**BPF_EXIST**'',
    '' * 		The entry for *key* must already exist in the map.'',
    '' * 	**BPF_ANY**'',
    '' * 		No condition on the existence of the entry for *key*.'',
    '' *'',
    '' * 	Flag value **BPF_NOEXIST** cannot be used for maps of types'',
    '' * 	**BPF_MAP_TYPE_ARRAY** or **BPF_MAP_TYPE_PERCPU_ARRAY**  (all'',
    '' * 	elements always exist), the helper would return an error.'',
    '' *'',
    '' * Returns'',
    '' * 	0 on success, or a negative error in case of failure.'',
    '' */'',
    ''static long ('' @ ''* const bpf_map_update_elem)(void *map, const void *key, const void *value, __u64 flags) = (void *) 2;'']"

definition hdef_bpf_map_delete_elem :: "string list" where
  "hdef_bpf_map_delete_elem = [
    ''/*'',
    '' * bpf_map_delete_elem'',
    '' *'',
    '' * 	Delete entry with *key* from *map*.'',
    '' *'',
    '' * Returns'',
    '' * 	0 on success, or a negative error in case of failure.'',
    '' */'',
    ''static long ('' @ ''* const bpf_map_delete_elem)(void *map, const void *key) = (void *) 3;'']"

definition hdef_bpf_probe_read :: "string list" where
  "hdef_bpf_probe_read = [
    ''/*'',
    '' * bpf_probe_read'',
    '' *'',
    '' * 	For tracing programs, safely attempt to read *size* bytes from'',
    '' * 	kernel space address *unsafe_ptr* and store the data in *dst*.'',
    '' *'',
    '' * 	Generally, use **bpf_probe_read_user**'' @ bsl @ '' () or'',
    '' * 	**bpf_probe_read_kernel**'' @ bsl @ '' () instead.'',
    '' *'',
    '' * Returns'',
    '' * 	0 on success, or a negative error in case of failure.'',
    '' */'',
    ''static long ('' @ ''* const bpf_probe_read)(void *dst, __u32 size, const void *unsafe_ptr) = (void *) 4;'']"

definition hdef_bpf_ktime_get_ns :: "string list" where
  "hdef_bpf_ktime_get_ns = [
    ''/*'',
    '' * bpf_ktime_get_ns'',
    '' *'',
    '' * 	Return the time elapsed since system boot, in nanoseconds.'',
    '' * 	Does not include time the system was suspended.'',
    '' * 	See: **clock_gettime**'' @ bsl @ '' ('' @ ''**CLOCK_MONOTONIC**)'',
    '' *'',
    '' * Returns'',
    '' * 	Current *ktime*.'',
    '' */'',
    ''static __u64 ('' @ ''* const bpf_ktime_get_ns)(void) = (void *) 5;'']"

definition hdef_bpf_trace_printk :: "string list" where
  "hdef_bpf_trace_printk = [
    ''/*'',
    '' * bpf_trace_printk'',
    '' *'',
    '' * 	This helper is a '' @ dq @ ''printk()-like'' @ dq @ '' facility for debugging. It'',
    '' * 	prints a message defined by format *fmt* (of size *fmt_size*)'',
    '' * 	to file *'' @ bsl @ ''/sys/kernel/tracing/trace* from TraceFS, if'',
    '' * 	available. It can take up to three additional **u64**'',
    '' * 	arguments (as an eBPF helpers, the total number of arguments is'',
    '' * 	limited to five).'',
    '' *'',
    '' * 	Each time the helper is called, it appends a line to the trace.'',
    '' * 	Lines are discarded while *'' @ bsl @ ''/sys/kernel/tracing/trace* is'',
    '' * 	open, use *'' @ bsl @ ''/sys/kernel/tracing/trace_pipe* to avoid this.'',
    '' * 	The format of the trace is customizable, and the exact output'',
    '' * 	one will get depends on the options set in'',
    '' * 	*'' @ bsl @ ''/sys/kernel/tracing/trace_options* (see also the'',
    '' * 	*README* file under the same directory). However, it usually'',
    '' * 	defaults to something like:'',
    '' *'',
    '' * 	::'',
    '' *'',
    '' * 		telnet-470   [001] .N.. 419421.045894: 0x00000001: <formatted msg>'',
    '' *'',
    '' * 	In the above:'',
    '' *'',
    '' * 		* ``telnet`` is the name of the current task.'',
    '' * 		* ``470`` is the PID of the current task.'',
    '' * 		* ``001`` is the CPU number on which the task is'',
    '' * 		  running.'',
    '' * 		* In ``.N..``, each character refers to a set of'',
    '' * 		  options (whether irqs are enabled, scheduling'',
    '' * 		  options, whether hard/softirqs are running, level of'',
    '' * 		  preempt_disabled respectively). **N** means that'',
    '' * 		  **TIF_NEED_RESCHED** and **PREEMPT_NEED_RESCHED**'',
    '' * 		  are set.'',
    '' * 		* ``419421.045894`` is a timestamp.'',
    '' * 		* ``0x00000001`` is a fake value used by BPF for the'',
    '' * 		  instruction pointer register.'',
    '' * 		* ``<formatted msg>`` is the message formatted with'',
    '' * 		  *fmt*.'',
    '' *'',
    '' * 	The conversion specifiers supported by *fmt* are similar, but'',
    '' * 	more limited than for printk(). They are **%d**, **%i**,'',
    '' * 	**%u**, **%x**, **%ld**, **%li**, **%lu**, **%lx**, **%lld**,'',
    '' * 	**%lli**, **%llu**, **%llx**, **%p**, **%s**. No modifier (size'',
    '' * 	of field, padding with zeroes, etc.) is available, and the'',
    '' * 	helper will return **-EINVAL** (but print nothing) if it'',
    '' * 	encounters an unknown specifier.'',
    '' *'',
    '' * 	Also, note that **bpf_trace_printk**'' @ bsl @ '' () is slow, and should'',
    '' * 	only be used for debugging purposes. For this reason, a notice'',
    '' * 	block (spanning several lines) is printed to kernel logs and'',
    '' * 	states that the helper should not be used '' @ dq @ ''for production use'' @ dq,
    '' * 	the first time this helper is used (or more precisely, when'',
    '' * 	**trace_printk**'' @ bsl @ '' () buffers are allocated). For passing values'',
    '' * 	to user space, perf events should be preferred.'',
    '' *'',
    '' * Returns'',
    '' * 	The number of bytes written to the buffer, or a negative error'',
    '' * 	in case of failure.'',
    '' */'',
    ''static long ('' @ ''* const bpf_trace_printk)(const char *fmt, __u32 fmt_size, ...) = (void *) 6;'']"

definition hdef_bpf_get_prandom_u32 :: "string list" where
  "hdef_bpf_get_prandom_u32 = [
    ''/*'',
    '' * bpf_get_prandom_u32'',
    '' *'',
    '' * 	Get a pseudo-random number.'',
    '' *'',
    '' * 	From a security point of view, this helper uses its own'',
    '' * 	pseudo-random internal state, and cannot be used to infer the'',
    '' * 	seed of other random functions in the kernel. However, it is'',
    '' * 	essential to note that the generator used by the helper is not'',
    '' * 	cryptographically secure.'',
    '' *'',
    '' * Returns'',
    '' * 	A random 32-bit unsigned value.'',
    '' */'',
    ''static __u32 ('' @ ''* const bpf_get_prandom_u32)(void) = (void *) 7;'']"

definition hdef_bpf_get_smp_processor_id :: "string list" where
  "hdef_bpf_get_smp_processor_id = [
    ''/*'',
    '' * bpf_get_smp_processor_id'',
    '' *'',
    '' * 	Get the SMP (symmetric multiprocessing) processor id. Note that'',
    '' * 	all programs run with migration disabled, which means that the'',
    '' * 	SMP processor id is stable during all the execution of the'',
    '' * 	program.'',
    '' *'',
    '' * Returns'',
    '' * 	The SMP id of the processor running the program.'',
    '' */'',
    ''static __bpf_fastcall __u32 ('' @ ''* const bpf_get_smp_processor_id)(void) = (void *) 8;'']"

definition hdef_bpf_skb_store_bytes :: "string list" where
  "hdef_bpf_skb_store_bytes = [
    ''/*'',
    '' * bpf_skb_store_bytes'',
    '' *'',
    '' * 	Store *len* bytes from address *from* into the packet'',
    '' * 	associated to *skb*, at *offset*. *flags* are a combination of'',
    '' * 	**BPF_F_RECOMPUTE_CSUM** (automatically recompute the'',
    '' * 	checksum for the packet after storing the bytes) and'',
    '' * 	**BPF_F_INVALIDATE_HASH** (set *skb*'' @ bsl @ '' **->hash**, *skb*'' @ bsl,
    '' * 	**->swhash** and *skb*'' @ bsl @ '' **->l4hash** to 0).'',
    '' *'',
    '' * 	A call to this helper is susceptible to change the underlying'',
    '' * 	packet buffer. Therefore, at load time, all checks on pointers'',
    '' * 	previously done by the verifier are invalidated and must be'',
    '' * 	performed again, if the helper is used in combination with'',
    '' * 	direct packet access.'',
    '' *'',
    '' * Returns'',
    '' * 	0 on success, or a negative error in case of failure.'',
    '' */'',
    ''static long ('' @ ''* const bpf_skb_store_bytes)(struct __sk_buff *skb, __u32 offset, const void *from, __u32 len, __u64 flags) = (void *) 9;'']"

definition hdef_bpf_l3_csum_replace :: "string list" where
  "hdef_bpf_l3_csum_replace = [
    ''/*'',
    '' * bpf_l3_csum_replace'',
    '' *'',
    '' * 	Recompute the layer 3 (e.g. IP) checksum for the packet'',
    '' * 	associated to *skb*. Computation is incremental, so the helper'',
    '' * 	must know the former value of the header field that was'',
    '' * 	modified ('' @ ''*from*), the new value of this field ('' @ ''*to*), and the'',
    '' * 	number of bytes (2 or 4) for this field, stored in *size*.'',
    '' * 	Alternatively, it is possible to store the difference between'',
    '' * 	the previous and the new values of the header field in *to*, by'',
    '' * 	setting *from* and *size* to 0. For both methods, *offset*'',
    '' * 	indicates the location of the IP checksum within the packet.'',
    '' *'',
    '' * 	This helper works in combination with **bpf_csum_diff**'' @ bsl @ '' (),'',
    '' * 	which does not update the checksum in-place, but offers more'',
    '' * 	flexibility and can handle sizes larger than 2 or 4 for the'',
    '' * 	checksum to update.'',
    '' *'',
    '' * 	A call to this helper is susceptible to change the underlying'',
    '' * 	packet buffer. Therefore, at load time, all checks on pointers'',
    '' * 	previously done by the verifier are invalidated and must be'',
    '' * 	performed again, if the helper is used in combination with'',
    '' * 	direct packet access.'',
    '' *'',
    '' * Returns'',
    '' * 	0 on success, or a negative error in case of failure.'',
    '' */'',
    ''static long ('' @ ''* const bpf_l3_csum_replace)(struct __sk_buff *skb, __u32 offset, __u64 from, __u64 to, __u64 size) = (void *) 10;'']"

definition hdef_bpf_l4_csum_replace :: "string list" where
  "hdef_bpf_l4_csum_replace = [
    ''/*'',
    '' * bpf_l4_csum_replace'',
    '' *'',
    '' * 	Recompute the layer 4 (e.g. TCP, UDP or ICMP) checksum for the'',
    '' * 	packet associated to *skb*. Computation is incremental, so the'',
    '' * 	helper must know the former value of the header field that was'',
    '' * 	modified ('' @ ''*from*), the new value of this field ('' @ ''*to*), and the'',
    '' * 	number of bytes (2 or 4) for this field, stored on the lowest'',
    '' * 	four bits of *flags*. Alternatively, it is possible to store'',
    '' * 	the difference between the previous and the new values of the'',
    '' * 	header field in *to*, by setting *from* and the four lowest'',
    '' * 	bits of *flags* to 0. For both methods, *offset* indicates the'',
    '' * 	location of the IP checksum within the packet. In addition to'',
    '' * 	the size of the field, *flags* can be added (bitwise OR) actual'',
    '' * 	flags. With **BPF_F_MARK_MANGLED_0**, a null checksum is left'',
    '' * 	untouched (unless **BPF_F_MARK_ENFORCE** is added as well), and'',
    '' * 	for updates resulting in a null checksum the value is set to'',
    '' * 	**CSUM_MANGLED_0** instead. Flag **BPF_F_PSEUDO_HDR** indicates'',
    '' * 	the checksum is to be computed against a pseudo-header.'',
    '' *'',
    '' * 	This helper works in combination with **bpf_csum_diff**'' @ bsl @ '' (),'',
    '' * 	which does not update the checksum in-place, but offers more'',
    '' * 	flexibility and can handle sizes larger than 2 or 4 for the'',
    '' * 	checksum to update.'',
    '' *'',
    '' * 	A call to this helper is susceptible to change the underlying'',
    '' * 	packet buffer. Therefore, at load time, all checks on pointers'',
    '' * 	previously done by the verifier are invalidated and must be'',
    '' * 	performed again, if the helper is used in combination with'',
    '' * 	direct packet access.'',
    '' *'',
    '' * Returns'',
    '' * 	0 on success, or a negative error in case of failure.'',
    '' */'',
    ''static long ('' @ ''* const bpf_l4_csum_replace)(struct __sk_buff *skb, __u32 offset, __u64 from, __u64 to, __u64 flags) = (void *) 11;'']"

definition hdef_bpf_tail_call :: "string list" where
  "hdef_bpf_tail_call = [
    ''/*'',
    '' * bpf_tail_call'',
    '' *'',
    '' * 	This special helper is used to trigger a '' @ dq @ ''tail call'' @ dq @ '', or in'',
    '' * 	other words, to jump into another eBPF program. The same stack'',
    '' * 	frame is used (but values on stack and in registers for the'',
    '' * 	caller are not accessible to the callee). This mechanism allows'',
    '' * 	for program chaining, either for raising the maximum number of'',
    '' * 	available eBPF instructions, or to execute given programs in'',
    '' * 	conditional blocks. For security reasons, there is an upper'',
    '' * 	limit to the number of successive tail calls that can be'',
    '' * 	performed.'',
    '' *'',
    '' * 	Upon call of this helper, the program attempts to jump into a'',
    '' * 	program referenced at index *index* in *prog_array_map*, a'',
    '' * 	special map of type **BPF_MAP_TYPE_PROG_ARRAY**, and passes'',
    '' * 	*ctx*, a pointer to the context.'',
    '' *'',
    '' * 	If the call succeeds, the kernel immediately runs the first'',
    '' * 	instruction of the new program. This is not a function call,'',
    '' * 	and it never returns to the previous program. If the call'',
    '' * 	fails, then the helper has no effect, and the caller continues'',
    '' * 	to run its subsequent instructions. A call can fail if the'',
    '' * 	destination program for the jump does not exist (i.e. *index*'',
    '' * 	is superior to the number of entries in *prog_array_map*), or'',
    '' * 	if the maximum number of tail calls has been reached for this'',
    '' * 	chain of programs. This limit is defined in the kernel by the'',
    '' * 	macro **MAX_TAIL_CALL_CNT** (not accessible to user space),'',
    '' * 	which is currently set to 33.'',
    '' *'',
    '' * Returns'',
    '' * 	0 on success, or a negative error in case of failure.'',
    '' */'',
    ''static long ('' @ ''* const bpf_tail_call)(void *ctx, void *prog_array_map, __u32 index) = (void *) 12;'']"

definition hdef_bpf_clone_redirect :: "string list" where
  "hdef_bpf_clone_redirect = [
    ''/*'',
    '' * bpf_clone_redirect'',
    '' *'',
    '' * 	Clone and redirect the packet associated to *skb* to another'',
    '' * 	net device of index *ifindex*. Both ingress and egress'',
    '' * 	interfaces can be used for redirection. The **BPF_F_INGRESS**'',
    '' * 	value in *flags* is used to make the distinction (ingress path'',
    '' * 	is selected if the flag is present, egress path otherwise).'',
    '' * 	This is the only flag supported for now.'',
    '' *'',
    '' * 	In comparison with **bpf_redirect**'' @ bsl @ '' () helper,'',
    '' * 	**bpf_clone_redirect**'' @ bsl @ '' () has the associated cost of'',
    '' * 	duplicating the packet buffer, but this can be executed out of'',
    '' * 	the eBPF program. Conversely, **bpf_redirect**'' @ bsl @ '' () is more'',
    '' * 	efficient, but it is handled through an action code where the'',
    '' * 	redirection happens only after the eBPF program has returned.'',
    '' *'',
    '' * 	A call to this helper is susceptible to change the underlying'',
    '' * 	packet buffer. Therefore, at load time, all checks on pointers'',
    '' * 	previously done by the verifier are invalidated and must be'',
    '' * 	performed again, if the helper is used in combination with'',
    '' * 	direct packet access.'',
    '' *'',
    '' * Returns'',
    '' * 	0 on success, or a negative error in case of failure. Positive'',
    '' * 	error indicates a potential drop or congestion in the target'',
    '' * 	device. The particular positive error codes are not defined.'',
    '' */'',
    ''static long ('' @ ''* const bpf_clone_redirect)(struct __sk_buff *skb, __u32 ifindex, __u64 flags) = (void *) 13;'']"

definition hdef_bpf_get_current_pid_tgid :: "string list" where
  "hdef_bpf_get_current_pid_tgid = [
    ''/*'',
    '' * bpf_get_current_pid_tgid'',
    '' *'',
    '' * 	Get the current pid and tgid.'',
    '' *'',
    '' * Returns'',
    '' * 	A 64-bit integer containing the current tgid and pid, and'',
    '' * 	created as such:'',
    '' * 	*current_task*'' @ bsl @ '' **->tgid << 32 '' @ bsl @ ''|**'',
    '' * 	*current_task*'' @ bsl @ '' **->pid**.'',
    '' */'',
    ''static __u64 ('' @ ''* const bpf_get_current_pid_tgid)(void) = (void *) 14;'']"

definition hdef_bpf_get_current_uid_gid :: "string list" where
  "hdef_bpf_get_current_uid_gid = [
    ''/*'',
    '' * bpf_get_current_uid_gid'',
    '' *'',
    '' * 	Get the current uid and gid.'',
    '' *'',
    '' * Returns'',
    '' * 	A 64-bit integer containing the current GID and UID, and'',
    '' * 	created as such: *current_gid* **<< 32 '' @ bsl @ ''|** *current_uid*.'',
    '' */'',
    ''static __u64 ('' @ ''* const bpf_get_current_uid_gid)(void) = (void *) 15;'']"

definition hdef_bpf_get_current_comm :: "string list" where
  "hdef_bpf_get_current_comm = [
    ''/*'',
    '' * bpf_get_current_comm'',
    '' *'',
    '' * 	Copy the **comm** attribute of the current task into *buf* of'',
    '' * 	*size_of_buf*. The **comm** attribute contains the name of'',
    '' * 	the executable (excluding the path) for the current task. The'',
    '' * 	*size_of_buf* must be strictly positive. On success, the'',
    '' * 	helper makes sure that the *buf* is NUL-terminated. On failure,'',
    '' * 	it is filled with zeroes.'',
    '' *'',
    '' * Returns'',
    '' * 	0 on success, or a negative error in case of failure.'',
    '' */'',
    ''static long ('' @ ''* const bpf_get_current_comm)(void *buf, __u32 size_of_buf) = (void *) 16;'']"

definition hdef_bpf_get_cgroup_classid :: "string list" where
  "hdef_bpf_get_cgroup_classid = [
    ''/*'',
    '' * bpf_get_cgroup_classid'',
    '' *'',
    '' * 	Retrieve the classid for the current task, i.e. for the net_cls'',
    '' * 	cgroup to which *skb* belongs.'',
    '' *'',
    '' * 	This helper can be used on TC egress path, but not on ingress.'',
    '' *'',
    '' * 	The net_cls cgroup provides an interface to tag network packets'',
    '' * 	based on a user-provided identifier for all traffic coming from'',
    '' * 	the tasks belonging to the related cgroup. See also the related'',
    '' * 	kernel documentation, available from the Linux sources in file'',
    '' * 	*Documentation/admin-guide/cgroup-v1/net_cls.rst*.'',
    '' *'',
    '' * 	The Linux kernel has two versions for cgroups: there are'',
    '' * 	cgroups v1 and cgroups v2. Both are available to users, who can'',
    '' * 	use a mixture of them, but note that the net_cls cgroup is for'',
    '' * 	cgroup v1 only. This makes it incompatible with BPF programs'',
    '' * 	run on cgroups, which is a cgroup-v2-only feature (a socket can'',
    '' * 	only hold data for one version of cgroups at a time).'',
    '' *'',
    '' * 	This helper is only available is the kernel was compiled with'',
    '' * 	the **CONFIG_CGROUP_NET_CLASSID** configuration option set to'',
    '' * 	'' @ dq @ ''**y**'' @ dq @ '' or to '' @ dq @ ''**m**'' @ dq @ ''.'',
    '' *'',
    '' * Returns'',
    '' * 	The classid, or 0 for the default unconfigured classid.'',
    '' */'',
    ''static __u32 ('' @ ''* const bpf_get_cgroup_classid)(struct __sk_buff *skb) = (void *) 17;'']"

definition hdef_bpf_skb_vlan_push :: "string list" where
  "hdef_bpf_skb_vlan_push = [
    ''/*'',
    '' * bpf_skb_vlan_push'',
    '' *'',
    '' * 	Push a *vlan_tci* (VLAN tag control information) of protocol'',
    '' * 	*vlan_proto* to the packet associated to *skb*, then update'',
    '' * 	the checksum. Note that if *vlan_proto* is different from'',
    '' * 	**ETH_P_8021Q** and **ETH_P_8021AD**, it is considered to'',
    '' * 	be **ETH_P_8021Q**.'',
    '' *'',
    '' * 	A call to this helper is susceptible to change the underlying'',
    '' * 	packet buffer. Therefore, at load time, all checks on pointers'',
    '' * 	previously done by the verifier are invalidated and must be'',
    '' * 	performed again, if the helper is used in combination with'',
    '' * 	direct packet access.'',
    '' *'',
    '' * Returns'',
    '' * 	0 on success, or a negative error in case of failure.'',
    '' */'',
    ''static long ('' @ ''* const bpf_skb_vlan_push)(struct __sk_buff *skb, __be16 vlan_proto, __u16 vlan_tci) = (void *) 18;'']"

definition hdef_bpf_skb_vlan_pop :: "string list" where
  "hdef_bpf_skb_vlan_pop = [
    ''/*'',
    '' * bpf_skb_vlan_pop'',
    '' *'',
    '' * 	Pop a VLAN header from the packet associated to *skb*.'',
    '' *'',
    '' * 	A call to this helper is susceptible to change the underlying'',
    '' * 	packet buffer. Therefore, at load time, all checks on pointers'',
    '' * 	previously done by the verifier are invalidated and must be'',
    '' * 	performed again, if the helper is used in combination with'',
    '' * 	direct packet access.'',
    '' *'',
    '' * Returns'',
    '' * 	0 on success, or a negative error in case of failure.'',
    '' */'',
    ''static long ('' @ ''* const bpf_skb_vlan_pop)(struct __sk_buff *skb) = (void *) 19;'']"

definition hdef_bpf_skb_get_tunnel_key :: "string list" where
  "hdef_bpf_skb_get_tunnel_key = [
    ''/*'',
    '' * bpf_skb_get_tunnel_key'',
    '' *'',
    '' * 	Get tunnel metadata. This helper takes a pointer *key* to an'',
    '' * 	empty **struct bpf_tunnel_key** of **size**, that will be'',
    '' * 	filled with tunnel metadata for the packet associated to *skb*.'',
    '' * 	The *flags* can be set to **BPF_F_TUNINFO_IPV6**, which'',
    '' * 	indicates that the tunnel is based on IPv6 protocol instead of'',
    '' * 	IPv4.'',
    '' *'',
    '' * 	The **struct bpf_tunnel_key** is an object that generalizes the'',
    '' * 	principal parameters used by various tunneling protocols into a'',
    '' * 	single struct. This way, it can be used to easily make a'',
    '' * 	decision based on the contents of the encapsulation header,'',
    '' * 	'' @ dq @ ''summarized'' @ dq @ '' in this struct. In particular, it holds the IP'',
    '' * 	address of the remote end (IPv4 or IPv6, depending on the case)'',
    '' * 	in *key*'' @ bsl @ '' **->remote_ipv4** or *key*'' @ bsl @ '' **->remote_ipv6**. Also,'',
    '' * 	this struct exposes the *key*'' @ bsl @ '' **->tunnel_id**, which is'',
    '' * 	generally mapped to a VNI (Virtual Network Identifier), making'',
    '' * 	it programmable together with the **bpf_skb_set_tunnel_key**'' @ bsl,
    '' * 	() helper.'',
    '' *'',
    '' * 	Let's imagine that the following code is part of a program'',
    '' * 	attached to the TC ingress interface, on one end of a GRE'',
    '' * 	tunnel, and is supposed to filter out all messages coming from'',
    '' * 	remote ends with IPv4 address other than 10.0.0.1:'',
    '' *'',
    '' * 	::'',
    '' *'',
    '' * 		int ret;'',
    '' * 		struct bpf_tunnel_key key = {};'',
    '' *'',
    '' * 		ret = bpf_skb_get_tunnel_key(skb, &key, sizeof(key), 0);'',
    '' * 		if (ret < 0)'',
    '' * 			return TC_ACT_SHOT;	// drop packet'',
    '' *'',
    '' * 		if (key.remote_ipv4 != 0x0a000001)'',
    '' * 			return TC_ACT_SHOT;	// drop packet'',
    '' *'',
    '' * 		return TC_ACT_OK;		// accept packet'',
    '' *'',
    '' * 	This interface can also be used with all encapsulation devices'',
    '' * 	that can operate in '' @ dq @ ''collect metadata'' @ dq @ '' mode: instead of having'',
    '' * 	one network device per specific configuration, the '' @ dq @ ''collect'',
    '' * 	metadata'' @ dq @ '' mode only requires a single device where the'',
    '' * 	configuration can be extracted from this helper.'',
    '' *'',
    '' * 	This can be used together with various tunnels such as VXLan,'',
    '' * 	Geneve, GRE or IP in IP (IPIP).'',
    '' *'',
    '' * Returns'',
    '' * 	0 on success, or a negative error in case of failure.'',
    '' */'',
    ''static long ('' @ ''* const bpf_skb_get_tunnel_key)(struct __sk_buff *skb, struct bpf_tunnel_key *key, __u32 size, __u64 flags) = (void *) 20;'']"

definition hdef_bpf_skb_set_tunnel_key :: "string list" where
  "hdef_bpf_skb_set_tunnel_key = [
    ''/*'',
    '' * bpf_skb_set_tunnel_key'',
    '' *'',
    '' * 	Populate tunnel metadata for packet associated to *skb.* The'',
    '' * 	tunnel metadata is set to the contents of *key*, of *size*. The'',
    '' * 	*flags* can be set to a combination of the following values:'',
    '' *'',
    '' * 	**BPF_F_TUNINFO_IPV6**'',
    '' * 		Indicate that the tunnel is based on IPv6 protocol'',
    '' * 		instead of IPv4.'',
    '' * 	**BPF_F_ZERO_CSUM_TX**'',
    '' * 		For IPv4 packets, add a flag to tunnel metadata'',
    '' * 		indicating that checksum computation should be skipped'',
    '' * 		and checksum set to zeroes.'',
    '' * 	**BPF_F_DONT_FRAGMENT**'',
    '' * 		Add a flag to tunnel metadata indicating that the'',
    '' * 		packet should not be fragmented.'',
    '' * 	**BPF_F_SEQ_NUMBER**'',
    '' * 		Add a flag to tunnel metadata indicating that a'',
    '' * 		sequence number should be added to tunnel header before'',
    '' * 		sending the packet. This flag was added for GRE'',
    '' * 		encapsulation, but might be used with other protocols'',
    '' * 		as well in the future.'',
    '' * 	**BPF_F_NO_TUNNEL_KEY**'',
    '' * 		Add a flag to tunnel metadata indicating that no tunnel'',
    '' * 		key should be set in the resulting tunnel header.'',
    '' *'',
    '' * 	Here is a typical usage on the transmit path:'',
    '' *'',
    '' * 	::'',
    '' *'',
    '' * 		struct bpf_tunnel_key key;'',
    '' * 		     populate key ...'',
    '' * 		bpf_skb_set_tunnel_key(skb, &key, sizeof(key), 0);'',
    '' * 		bpf_clone_redirect(skb, vxlan_dev_ifindex, 0);'',
    '' *'',
    '' * 	See also the description of the **bpf_skb_get_tunnel_key**'' @ bsl @ '' ()'',
    '' * 	helper for additional information.'',
    '' *'',
    '' * Returns'',
    '' * 	0 on success, or a negative error in case of failure.'',
    '' */'',
    ''static long ('' @ ''* const bpf_skb_set_tunnel_key)(struct __sk_buff *skb, struct bpf_tunnel_key *key, __u32 size, __u64 flags) = (void *) 21;'']"

definition hdef_bpf_perf_event_read :: "string list" where
  "hdef_bpf_perf_event_read = [
    ''/*'',
    '' * bpf_perf_event_read'',
    '' *'',
    '' * 	Read the value of a perf event counter. This helper relies on a'',
    '' * 	*map* of type **BPF_MAP_TYPE_PERF_EVENT_ARRAY**. The nature of'',
    '' * 	the perf event counter is selected when *map* is updated with'',
    '' * 	perf event file descriptors. The *map* is an array whose size'',
    '' * 	is the number of available CPUs, and each cell contains a value'',
    '' * 	relative to one CPU. The value to retrieve is indicated by'',
    '' * 	*flags*, that contains the index of the CPU to look up, masked'',
    '' * 	with **BPF_F_INDEX_MASK**. Alternatively, *flags* can be set to'',
    '' * 	**BPF_F_CURRENT_CPU** to indicate that the value for the'',
    '' * 	current CPU should be retrieved.'',
    '' *'',
    '' * 	Note that before Linux 4.13, only hardware perf event can be'',
    '' * 	retrieved.'',
    '' *'',
    '' * 	Also, be aware that the newer helper'',
    '' * 	**bpf_perf_event_read_value**'' @ bsl @ '' () is recommended over'',
    '' * 	**bpf_perf_event_read**'' @ bsl @ '' () in general. The latter has some ABI'',
    '' * 	quirks where error and counter value are used as a return code'',
    '' * 	(which is wrong to do since ranges may overlap). This issue is'',
    '' * 	fixed with **bpf_perf_event_read_value**'' @ bsl @ '' (), which at the same'',
    '' * 	time provides more features over the **bpf_perf_event_read**'' @ bsl,
    '' * 	() interface. Please refer to the description of'',
    '' * 	**bpf_perf_event_read_value**'' @ bsl @ '' () for details.'',
    '' *'',
    '' * Returns'',
    '' * 	The value of the perf event counter read from the map, or a'',
    '' * 	negative error code in case of failure.'',
    '' */'',
    ''static __u64 ('' @ ''* const bpf_perf_event_read)(void *map, __u64 flags) = (void *) 22;'']"

definition hdef_bpf_redirect :: "string list" where
  "hdef_bpf_redirect = [
    ''/*'',
    '' * bpf_redirect'',
    '' *'',
    '' * 	Redirect the packet to another net device of index *ifindex*.'',
    '' * 	This helper is somewhat similar to **bpf_clone_redirect**'' @ bsl,
    '' * 	(), except that the packet is not cloned, which provides'',
    '' * 	increased performance.'',
    '' *'',
    '' * 	Except for XDP, both ingress and egress interfaces can be used'',
    '' * 	for redirection. The **BPF_F_INGRESS** value in *flags* is used'',
    '' * 	to make the distinction (ingress path is selected if the flag'',
    '' * 	is present, egress path otherwise). Currently, XDP only'',
    '' * 	supports redirection to the egress interface, and accepts no'',
    '' * 	flag at all.'',
    '' *'',
    '' * 	The same effect can also be attained with the more generic'',
    '' * 	**bpf_redirect_map**'' @ bsl @ '' (), which uses a BPF map to store the'',
    '' * 	redirect target instead of providing it directly to the helper.'',
    '' *'',
    '' * Returns'',
    '' * 	For XDP, the helper returns **XDP_REDIRECT** on success or'',
    '' * 	**XDP_ABORTED** on error. For other program types, the values'',
    '' * 	are **TC_ACT_REDIRECT** on success or **TC_ACT_SHOT** on'',
    '' * 	error.'',
    '' */'',
    ''static long ('' @ ''* const bpf_redirect)(__u32 ifindex, __u64 flags) = (void *) 23;'']"

definition hdef_bpf_get_route_realm :: "string list" where
  "hdef_bpf_get_route_realm = [
    ''/*'',
    '' * bpf_get_route_realm'',
    '' *'',
    '' * 	Retrieve the realm or the route, that is to say the'',
    '' * 	**tclassid** field of the destination for the *skb*. The'',
    '' * 	identifier retrieved is a user-provided tag, similar to the'',
    '' * 	one used with the net_cls cgroup (see description for'',
    '' * 	**bpf_get_cgroup_classid**'' @ bsl @ '' () helper), but here this tag is'',
    '' * 	held by a route (a destination entry), not by a task.'',
    '' *'',
    '' * 	Retrieving this identifier works with the clsact TC egress hook'',
    '' * 	(see also **tc-bpf(8)**), or alternatively on conventional'',
    '' * 	classful egress qdiscs, but not on TC ingress path. In case of'',
    '' * 	clsact TC egress hook, this has the advantage that, internally,'',
    '' * 	the destination entry has not been dropped yet in the transmit'',
    '' * 	path. Therefore, the destination entry does not need to be'',
    '' * 	artificially held via **netif_keep_dst**'' @ bsl @ '' () for a classful'',
    '' * 	qdisc until the *skb* is freed.'',
    '' *'',
    '' * 	This helper is available only if the kernel was compiled with'',
    '' * 	**CONFIG_IP_ROUTE_CLASSID** configuration option.'',
    '' *'',
    '' * Returns'',
    '' * 	The realm of the route for the packet associated to *skb*, or 0'',
    '' * 	if none was found.'',
    '' */'',
    ''static __u32 ('' @ ''* const bpf_get_route_realm)(struct __sk_buff *skb) = (void *) 24;'']"

definition helperBlocksA :: "string list list" where
  "helperBlocksA = [hdef_bpf_map_lookup_elem,
     hdef_bpf_map_update_elem,
     hdef_bpf_map_delete_elem,
     hdef_bpf_probe_read,
     hdef_bpf_ktime_get_ns,
     hdef_bpf_trace_printk,
     hdef_bpf_get_prandom_u32,
     hdef_bpf_get_smp_processor_id,
     hdef_bpf_skb_store_bytes,
     hdef_bpf_l3_csum_replace,
     hdef_bpf_l4_csum_replace,
     hdef_bpf_tail_call,
     hdef_bpf_clone_redirect,
     hdef_bpf_get_current_pid_tgid,
     hdef_bpf_get_current_uid_gid,
     hdef_bpf_get_current_comm,
     hdef_bpf_get_cgroup_classid,
     hdef_bpf_skb_vlan_push,
     hdef_bpf_skb_vlan_pop,
     hdef_bpf_skb_get_tunnel_key,
     hdef_bpf_skb_set_tunnel_key,
     hdef_bpf_perf_event_read,
     hdef_bpf_redirect,
     hdef_bpf_get_route_realm]"

end
