(* ===== verification/Helper_Defs_B.thy ===== *)
theory Helper_Defs_B
  imports Go_Library
begin

text \<open>
  The helper declarations of \<^verbatim>\<open>tools/genhelpers/data/bpf_helper_defs.h\<close>, lines 659 to 1304: for each
  helper the lines of its comment and its declaration, as in the header.
\<close>

definition hdef_bpf_perf_event_output :: "string list" where
  "hdef_bpf_perf_event_output = [
    ''/*'',
    '' * bpf_perf_event_output'',
    '' *'',
    '' * 	Write raw *data* blob into a special BPF perf event held by'',
    '' * 	*map* of type **BPF_MAP_TYPE_PERF_EVENT_ARRAY**. This perf'',
    '' * 	event must have the following attributes: **PERF_SAMPLE_RAW**'',
    '' * 	as **sample_type**, **PERF_TYPE_SOFTWARE** as **type**, and'',
    '' * 	**PERF_COUNT_SW_BPF_OUTPUT** as **config**.'',
    '' *'',
    '' * 	The *flags* are used to indicate the index in *map* for which'',
    '' * 	the value must be put, masked with **BPF_F_INDEX_MASK**.'',
    '' * 	Alternatively, *flags* can be set to **BPF_F_CURRENT_CPU**'',
    '' * 	to indicate that the index of the current CPU core should be'',
    '' * 	used.'',
    '' *'',
    '' * 	The value to write, of *size*, is passed through eBPF stack and'',
    '' * 	pointed by *data*.'',
    '' *'',
    '' * 	The context of the program *ctx* needs also be passed to the'',
    '' * 	helper.'',
    '' *'',
    '' * 	On user space, a program willing to read the values needs to'',
    '' * 	call **perf_event_open**'' @ bsl @ '' () on the perf event (either for'',
    '' * 	one or for all CPUs) and to store the file descriptor into the'',
    '' * 	*map*. This must be done before the eBPF program can send data'',
    '' * 	into it. An example is available in file'',
    '' * 	*samples/bpf/trace_output_user.c* in the Linux kernel source'',
    '' * 	tree (the eBPF program counterpart is in'',
    '' * 	*samples/bpf/trace_output_kern.c*).'',
    '' *'',
    '' * 	**bpf_perf_event_output**'' @ bsl @ '' () achieves better performance'',
    '' * 	than **bpf_trace_printk**'' @ bsl @ '' () for sharing data with user'',
    '' * 	space, and is much better suitable for streaming data from eBPF'',
    '' * 	programs.'',
    '' *'',
    '' * 	Note that this helper is not restricted to tracing use cases'',
    '' * 	and can be used with programs attached to TC or XDP as well,'',
    '' * 	where it allows for passing data to user space listeners. Data'',
    '' * 	can be:'',
    '' *'',
    '' * 	* Only custom structs,'',
    '' * 	* Only the packet payload, or'',
    '' * 	* A combination of both.'',
    '' *'',
    '' * Returns'',
    '' * 	0 on success, or a negative error in case of failure.'',
    '' */'',
    ''static long ('' @ ''* const bpf_perf_event_output)(void *ctx, void *map, __u64 flags, void *data, __u64 size) = (void *) 25;'']"

definition hdef_bpf_skb_load_bytes :: "string list" where
  "hdef_bpf_skb_load_bytes = [
    ''/*'',
    '' * bpf_skb_load_bytes'',
    '' *'',
    '' * 	This helper was provided as an easy way to load data from a'',
    '' * 	packet. It can be used to load *len* bytes from *offset* from'',
    '' * 	the packet associated to *skb*, into the buffer pointed by'',
    '' * 	*to*.'',
    '' *'',
    '' * 	Since Linux 4.7, usage of this helper has mostly been replaced'',
    '' * 	by '' @ dq @ ''direct packet access'' @ dq @ '', enabling packet data to be'',
    '' * 	manipulated with *skb*'' @ bsl @ '' **->data** and *skb*'' @ bsl @ '' **->data_end**'',
    '' * 	pointing respectively to the first byte of packet data and to'',
    '' * 	the byte after the last byte of packet data. However, it'',
    '' * 	remains useful if one wishes to read large quantities of data'',
    '' * 	at once from a packet into the eBPF stack.'',
    '' *'',
    '' * Returns'',
    '' * 	0 on success, or a negative error in case of failure.'',
    '' */'',
    ''static long ('' @ ''* const bpf_skb_load_bytes)(const void *skb, __u32 offset, void *to, __u32 len) = (void *) 26;'']"

definition hdef_bpf_get_stackid :: "string list" where
  "hdef_bpf_get_stackid = [
    ''/*'',
    '' * bpf_get_stackid'',
    '' *'',
    '' * 	Walk a user or a kernel stack and return its id. To achieve'',
    '' * 	this, the helper needs *ctx*, which is a pointer to the context'',
    '' * 	on which the tracing program is executed, and a pointer to a'',
    '' * 	*map* of type **BPF_MAP_TYPE_STACK_TRACE**.'',
    '' *'',
    '' * 	The last argument, *flags*, holds the number of stack frames to'',
    '' * 	skip (from 0 to 255), masked with'',
    '' * 	**BPF_F_SKIP_FIELD_MASK**. The next bits can be used to set'',
    '' * 	a combination of the following flags:'',
    '' *'',
    '' * 	**BPF_F_USER_STACK**'',
    '' * 		Collect a user space stack instead of a kernel stack.'',
    '' * 	**BPF_F_FAST_STACK_CMP**'',
    '' * 		Compare stacks by hash only.'',
    '' * 	**BPF_F_REUSE_STACKID**'',
    '' * 		If two different stacks hash into the same *stackid*,'',
    '' * 		discard the old one.'',
    '' *'',
    '' * 	The stack id retrieved is a 32 bit long integer handle which'',
    '' * 	can be further combined with other data (including other stack'',
    '' * 	ids) and used as a key into maps. This can be useful for'',
    '' * 	generating a variety of graphs (such as flame graphs or off-cpu'',
    '' * 	graphs).'',
    '' *'',
    '' * 	For walking a stack, this helper is an improvement over'',
    '' * 	**bpf_probe_read**'' @ bsl @ '' (), which can be used with unrolled loops'',
    '' * 	but is not efficient and consumes a lot of eBPF instructions.'',
    '' * 	Instead, **bpf_get_stackid**'' @ bsl @ '' () can collect up to'',
    '' * 	**PERF_MAX_STACK_DEPTH** both kernel and user frames. Note that'',
    '' * 	this limit can be controlled with the **sysctl** program, and'',
    '' * 	that it should be manually increased in order to profile long'',
    '' * 	user stacks (such as stacks for Java programs). To do so, use:'',
    '' *'',
    '' * 	::'',
    '' *'',
    '' * 		# sysctl kernel.perf_event_max_stack=<new value>'',
    '' *'',
    '' * Returns'',
    '' * 	The positive or null stack id on success, or a negative error'',
    '' * 	in case of failure.'',
    '' */'',
    ''static long ('' @ ''* const bpf_get_stackid)(void *ctx, void *map, __u64 flags) = (void *) 27;'']"

definition hdef_bpf_csum_diff :: "string list" where
  "hdef_bpf_csum_diff = [
    ''/*'',
    '' * bpf_csum_diff'',
    '' *'',
    '' * 	Compute a checksum difference, from the raw buffer pointed by'',
    '' * 	*from*, of length *from_size* (that must be a multiple of 4),'',
    '' * 	towards the raw buffer pointed by *to*, of size *to_size*'',
    '' * 	(same remark). An optional *seed* can be added to the value'',
    '' * 	(this can be cascaded, the seed may come from a previous call'',
    '' * 	to the helper).'',
    '' *'',
    '' * 	This is flexible enough to be used in several ways:'',
    '' *'',
    '' * 	* With *from_size* == 0, *to_size* > 0 and *seed* set to'',
    '' * 	  checksum, it can be used when pushing new data.'',
    '' * 	* With *from_size* > 0, *to_size* == 0 and *seed* set to'',
    '' * 	  checksum, it can be used when removing data from a packet.'',
    '' * 	* With *from_size* > 0, *to_size* > 0 and *seed* set to 0, it'',
    '' * 	  can be used to compute a diff. Note that *from_size* and'',
    '' * 	  *to_size* do not need to be equal.'',
    '' *'',
    '' * 	This helper can be used in combination with'',
    '' * 	**bpf_l3_csum_replace**'' @ bsl @ '' () and **bpf_l4_csum_replace**'' @ bsl @ '' (), to'',
    '' * 	which one can feed in the difference computed with'',
    '' * 	**bpf_csum_diff**'' @ bsl @ '' ().'',
    '' *'',
    '' * Returns'',
    '' * 	The checksum result, or a negative error code in case of'',
    '' * 	failure.'',
    '' */'',
    ''static __s64 ('' @ ''* const bpf_csum_diff)(__be32 *from, __u32 from_size, __be32 *to, __u32 to_size, __wsum seed) = (void *) 28;'']"

definition hdef_bpf_skb_get_tunnel_opt :: "string list" where
  "hdef_bpf_skb_get_tunnel_opt = [
    ''/*'',
    '' * bpf_skb_get_tunnel_opt'',
    '' *'',
    '' * 	Retrieve tunnel options metadata for the packet associated to'',
    '' * 	*skb*, and store the raw tunnel option data to the buffer *opt*'',
    '' * 	of *size*.'',
    '' *'',
    '' * 	This helper can be used with encapsulation devices that can'',
    '' * 	operate in '' @ dq @ ''collect metadata'' @ dq @ '' mode (please refer to the related'',
    '' * 	note in the description of **bpf_skb_get_tunnel_key**'' @ bsl @ '' () for'',
    '' * 	more details). A particular example where this can be used is'',
    '' * 	in combination with the Geneve encapsulation protocol, where it'',
    '' * 	allows for pushing (with **bpf_skb_get_tunnel_opt**'' @ bsl @ '' () helper)'',
    '' * 	and retrieving arbitrary TLVs (Type-Length-Value headers) from'',
    '' * 	the eBPF program. This allows for full customization of these'',
    '' * 	headers.'',
    '' *'',
    '' * Returns'',
    '' * 	The size of the option data retrieved.'',
    '' */'',
    ''static long ('' @ ''* const bpf_skb_get_tunnel_opt)(struct __sk_buff *skb, void *opt, __u32 size) = (void *) 29;'']"

definition hdef_bpf_skb_set_tunnel_opt :: "string list" where
  "hdef_bpf_skb_set_tunnel_opt = [
    ''/*'',
    '' * bpf_skb_set_tunnel_opt'',
    '' *'',
    '' * 	Set tunnel options metadata for the packet associated to *skb*'',
    '' * 	to the option data contained in the raw buffer *opt* of *size*.'',
    '' *'',
    '' * 	See also the description of the **bpf_skb_get_tunnel_opt**'' @ bsl @ '' ()'',
    '' * 	helper for additional information.'',
    '' *'',
    '' * Returns'',
    '' * 	0 on success, or a negative error in case of failure.'',
    '' */'',
    ''static long ('' @ ''* const bpf_skb_set_tunnel_opt)(struct __sk_buff *skb, void *opt, __u32 size) = (void *) 30;'']"

definition hdef_bpf_skb_change_proto :: "string list" where
  "hdef_bpf_skb_change_proto = [
    ''/*'',
    '' * bpf_skb_change_proto'',
    '' *'',
    '' * 	Change the protocol of the *skb* to *proto*. Currently'',
    '' * 	supported are transition from IPv4 to IPv6, and from IPv6 to'',
    '' * 	IPv4. The helper takes care of the groundwork for the'',
    '' * 	transition, including resizing the socket buffer. The eBPF'',
    '' * 	program is expected to fill the new headers, if any, via'',
    '' * 	**skb_store_bytes**'' @ bsl @ '' () and to recompute the checksums with'',
    '' * 	**bpf_l3_csum_replace**'' @ bsl @ '' () and **bpf_l4_csum_replace**'' @ bsl,
    '' * 	(). The main case for this helper is to perform NAT64'',
    '' * 	operations out of an eBPF program.'',
    '' *'',
    '' * 	Internally, the GSO type is marked as dodgy so that headers are'',
    '' * 	checked and segments are recalculated by the GSO/GRO engine.'',
    '' * 	The size for GSO target is adapted as well.'',
    '' *'',
    '' * 	All values for *flags* are reserved for future usage, and must'',
    '' * 	be left at zero.'',
    '' *'',
    '' * 	A call to this helper is susceptible to change the underlying'',
    '' * 	packet buffer. Therefore, at load time, all checks on pointers'',
    '' * 	previously done by the verifier are invalidated and must be'',
    '' * 	performed again, if the helper is used in combination with'',
    '' * 	direct packet access.'',
    '' *'',
    '' * Returns'',
    '' * 	0 on success, or a negative error in case of failure.'',
    '' */'',
    ''static long ('' @ ''* const bpf_skb_change_proto)(struct __sk_buff *skb, __be16 proto, __u64 flags) = (void *) 31;'']"

definition hdef_bpf_skb_change_type :: "string list" where
  "hdef_bpf_skb_change_type = [
    ''/*'',
    '' * bpf_skb_change_type'',
    '' *'',
    '' * 	Change the packet type for the packet associated to *skb*. This'',
    '' * 	comes down to setting *skb*'' @ bsl @ '' **->pkt_type** to *type*, except'',
    '' * 	the eBPF program does not have a write access to *skb*'' @ bsl,
    '' * 	**->pkt_type** beside this helper. Using a helper here allows'',
    '' * 	for graceful handling of errors.'',
    '' *'',
    '' * 	The major use case is to change incoming *skb*s to'',
    '' * 	**PACKET_HOST** in a programmatic way instead of having to'',
    '' * 	recirculate via **redirect**'' @ bsl @ '' (..., **BPF_F_INGRESS**), for'',
    '' * 	example.'',
    '' *'',
    '' * 	Note that *type* only allows certain values. At this time, they'',
    '' * 	are:'',
    '' *'',
    '' * 	**PACKET_HOST**'',
    '' * 		Packet is for us.'',
    '' * 	**PACKET_BROADCAST**'',
    '' * 		Send packet to all.'',
    '' * 	**PACKET_MULTICAST**'',
    '' * 		Send packet to group.'',
    '' * 	**PACKET_OTHERHOST**'',
    '' * 		Send packet to someone else.'',
    '' *'',
    '' * Returns'',
    '' * 	0 on success, or a negative error in case of failure.'',
    '' */'',
    ''static long ('' @ ''* const bpf_skb_change_type)(struct __sk_buff *skb, __u32 type) = (void *) 32;'']"

definition hdef_bpf_skb_under_cgroup :: "string list" where
  "hdef_bpf_skb_under_cgroup = [
    ''/*'',
    '' * bpf_skb_under_cgroup'',
    '' *'',
    '' * 	Check whether *skb* is a descendant of the cgroup2 held by'',
    '' * 	*map* of type **BPF_MAP_TYPE_CGROUP_ARRAY**, at *index*.'',
    '' *'',
    '' * Returns'',
    '' * 	The return value depends on the result of the test, and can be:'',
    '' *'',
    '' * 	* 0, if the *skb* failed the cgroup2 descendant test.'',
    '' * 	* 1, if the *skb* succeeded the cgroup2 descendant test.'',
    '' * 	* A negative error code, if an error occurred.'',
    '' */'',
    ''static long ('' @ ''* const bpf_skb_under_cgroup)(struct __sk_buff *skb, void *map, __u32 index) = (void *) 33;'']"

definition hdef_bpf_get_hash_recalc :: "string list" where
  "hdef_bpf_get_hash_recalc = [
    ''/*'',
    '' * bpf_get_hash_recalc'',
    '' *'',
    '' * 	Retrieve the hash of the packet, *skb*'' @ bsl @ '' **->hash**. If it is'',
    '' * 	not set, in particular if the hash was cleared due to mangling,'',
    '' * 	recompute this hash. Later accesses to the hash can be done'',
    '' * 	directly with *skb*'' @ bsl @ '' **->hash**.'',
    '' *'',
    '' * 	Calling **bpf_set_hash_invalid**'' @ bsl @ '' (), changing a packet'',
    '' * 	prototype with **bpf_skb_change_proto**'' @ bsl @ '' (), or calling'',
    '' * 	**bpf_skb_store_bytes**'' @ bsl @ '' () with the'',
    '' * 	**BPF_F_INVALIDATE_HASH** are actions susceptible to clear'',
    '' * 	the hash and to trigger a new computation for the next call to'',
    '' * 	**bpf_get_hash_recalc**'' @ bsl @ '' ().'',
    '' *'',
    '' * Returns'',
    '' * 	The 32-bit hash.'',
    '' */'',
    ''static __u32 ('' @ ''* const bpf_get_hash_recalc)(struct __sk_buff *skb) = (void *) 34;'']"

definition hdef_bpf_get_current_task :: "string list" where
  "hdef_bpf_get_current_task = [
    ''/*'',
    '' * bpf_get_current_task'',
    '' *'',
    '' * 	Get the current task.'',
    '' *'',
    '' * Returns'',
    '' * 	A pointer to the current task struct.'',
    '' */'',
    ''static __u64 ('' @ ''* const bpf_get_current_task)(void) = (void *) 35;'']"

definition hdef_bpf_probe_write_user :: "string list" where
  "hdef_bpf_probe_write_user = [
    ''/*'',
    '' * bpf_probe_write_user'',
    '' *'',
    '' * 	Attempt in a safe way to write *len* bytes from the buffer'',
    '' * 	*src* to *dst* in memory. It only works for threads that are in'',
    '' * 	user context, and *dst* must be a valid user space address.'',
    '' *'',
    '' * 	This helper should not be used to implement any kind of'',
    '' * 	security mechanism because of TOC-TOU attacks, but rather to'',
    '' * 	debug, divert, and manipulate execution of semi-cooperative'',
    '' * 	processes.'',
    '' *'',
    '' * 	Keep in mind that this feature is meant for experiments, and it'',
    '' * 	has a risk of crashing the system and running programs.'',
    '' * 	Therefore, when an eBPF program using this helper is attached,'',
    '' * 	a warning including PID and process name is printed to kernel'',
    '' * 	logs.'',
    '' *'',
    '' * Returns'',
    '' * 	0 on success, or a negative error in case of failure.'',
    '' */'',
    ''static long ('' @ ''* const bpf_probe_write_user)(void *dst, const void *src, __u32 len) = (void *) 36;'']"

definition hdef_bpf_current_task_under_cgroup :: "string list" where
  "hdef_bpf_current_task_under_cgroup = [
    ''/*'',
    '' * bpf_current_task_under_cgroup'',
    '' *'',
    '' * 	Check whether the probe is being run is the context of a given'',
    '' * 	subset of the cgroup2 hierarchy. The cgroup2 to test is held by'',
    '' * 	*map* of type **BPF_MAP_TYPE_CGROUP_ARRAY**, at *index*.'',
    '' *'',
    '' * Returns'',
    '' * 	The return value depends on the result of the test, and can be:'',
    '' *'',
    '' * 	* 1, if current task belongs to the cgroup2.'',
    '' * 	* 0, if current task does not belong to the cgroup2.'',
    '' * 	* A negative error code, if an error occurred.'',
    '' */'',
    ''static long ('' @ ''* const bpf_current_task_under_cgroup)(void *map, __u32 index) = (void *) 37;'']"

definition hdef_bpf_skb_change_tail :: "string list" where
  "hdef_bpf_skb_change_tail = [
    ''/*'',
    '' * bpf_skb_change_tail'',
    '' *'',
    '' * 	Resize (trim or grow) the packet associated to *skb* to the'',
    '' * 	new *len*. The *flags* are reserved for future usage, and must'',
    '' * 	be left at zero.'',
    '' *'',
    '' * 	The basic idea is that the helper performs the needed work to'',
    '' * 	change the size of the packet, then the eBPF program rewrites'',
    '' * 	the rest via helpers like **bpf_skb_store_bytes**'' @ bsl @ '' (),'',
    '' * 	**bpf_l3_csum_replace**'' @ bsl @ '' (), **bpf_l3_csum_replace**'' @ bsl @ '' ()'',
    '' * 	and others. This helper is a slow path utility intended for'',
    '' * 	replies with control messages. And because it is targeted for'',
    '' * 	slow path, the helper itself can afford to be slow: it'',
    '' * 	implicitly linearizes, unclones and drops offloads from the'',
    '' * 	*skb*.'',
    '' *'',
    '' * 	A call to this helper is susceptible to change the underlying'',
    '' * 	packet buffer. Therefore, at load time, all checks on pointers'',
    '' * 	previously done by the verifier are invalidated and must be'',
    '' * 	performed again, if the helper is used in combination with'',
    '' * 	direct packet access.'',
    '' *'',
    '' * Returns'',
    '' * 	0 on success, or a negative error in case of failure.'',
    '' */'',
    ''static long ('' @ ''* const bpf_skb_change_tail)(struct __sk_buff *skb, __u32 len, __u64 flags) = (void *) 38;'']"

definition hdef_bpf_skb_pull_data :: "string list" where
  "hdef_bpf_skb_pull_data = [
    ''/*'',
    '' * bpf_skb_pull_data'',
    '' *'',
    '' * 	Pull in non-linear data in case the *skb* is non-linear and not'',
    '' * 	all of *len* are part of the linear section. Make *len* bytes'',
    '' * 	from *skb* readable and writable. If a zero value is passed for'',
    '' * 	*len*, then all bytes in the linear part of *skb* will be made'',
    '' * 	readable and writable.'',
    '' *'',
    '' * 	This helper is only needed for reading and writing with direct'',
    '' * 	packet access.'',
    '' *'',
    '' * 	For direct packet access, testing that offsets to access'',
    '' * 	are within packet boundaries (test on *skb*'' @ bsl @ '' **->data_end**) is'',
    '' * 	susceptible to fail if offsets are invalid, or if the requested'',
    '' * 	data is in non-linear parts of the *skb*. On failure the'',
    '' * 	program can just bail out, or in the case of a non-linear'',
    '' * 	buffer, use a helper to make the data available. The'',
    '' * 	**bpf_skb_load_bytes**'' @ bsl @ '' () helper is a first solution to access'',
    '' * 	the data. Another one consists in using **bpf_skb_pull_data**'',
    '' * 	to pull in once the non-linear parts, then retesting and'',
    '' * 	eventually access the data.'',
    '' *'',
    '' * 	At the same time, this also makes sure the *skb* is uncloned,'',
    '' * 	which is a necessary condition for direct write. As this needs'',
    '' * 	to be an invariant for the write part only, the verifier'',
    '' * 	detects writes and adds a prologue that is calling'',
    '' * 	**bpf_skb_pull_data()** to effectively unclone the *skb* from'',
    '' * 	the very beginning in case it is indeed cloned.'',
    '' *'',
    '' * 	A call to this helper is susceptible to change the underlying'',
    '' * 	packet buffer. Therefore, at load time, all checks on pointers'',
    '' * 	previously done by the verifier are invalidated and must be'',
    '' * 	performed again, if the helper is used in combination with'',
    '' * 	direct packet access.'',
    '' *'',
    '' * Returns'',
    '' * 	0 on success, or a negative error in case of failure.'',
    '' */'',
    ''static long ('' @ ''* const bpf_skb_pull_data)(struct __sk_buff *skb, __u32 len) = (void *) 39;'']"

definition hdef_bpf_csum_update :: "string list" where
  "hdef_bpf_csum_update = [
    ''/*'',
    '' * bpf_csum_update'',
    '' *'',
    '' * 	Add the checksum *csum* into *skb*'' @ bsl @ '' **->csum** in case the'',
    '' * 	driver has supplied a checksum for the entire packet into that'',
    '' * 	field. Return an error otherwise. This helper is intended to be'',
    '' * 	used in combination with **bpf_csum_diff**'' @ bsl @ '' (), in particular'',
    '' * 	when the checksum needs to be updated after data has been'',
    '' * 	written into the packet through direct packet access.'',
    '' *'',
    '' * Returns'',
    '' * 	The checksum on success, or a negative error code in case of'',
    '' * 	failure.'',
    '' */'',
    ''static __s64 ('' @ ''* const bpf_csum_update)(struct __sk_buff *skb, __wsum csum) = (void *) 40;'']"

definition hdef_bpf_set_hash_invalid :: "string list" where
  "hdef_bpf_set_hash_invalid = [
    ''/*'',
    '' * bpf_set_hash_invalid'',
    '' *'',
    '' * 	Invalidate the current *skb*'' @ bsl @ '' **->hash**. It can be used after'',
    '' * 	mangling on headers through direct packet access, in order to'',
    '' * 	indicate that the hash is outdated and to trigger a'',
    '' * 	recalculation the next time the kernel tries to access this'',
    '' * 	hash or when the **bpf_get_hash_recalc**'' @ bsl @ '' () helper is called.'',
    '' *'',
    '' * Returns'',
    '' * 	void.'',
    '' */'',
    ''static void ('' @ ''* const bpf_set_hash_invalid)(struct __sk_buff *skb) = (void *) 41;'']"

definition hdef_bpf_get_numa_node_id :: "string list" where
  "hdef_bpf_get_numa_node_id = [
    ''/*'',
    '' * bpf_get_numa_node_id'',
    '' *'',
    '' * 	Return the id of the current NUMA node. The primary use case'',
    '' * 	for this helper is the selection of sockets for the local NUMA'',
    '' * 	node, when the program is attached to sockets using the'',
    '' * 	**SO_ATTACH_REUSEPORT_EBPF** option (see also **socket(7)**),'',
    '' * 	but the helper is also available to other eBPF program types,'',
    '' * 	similarly to **bpf_get_smp_processor_id**'' @ bsl @ '' ().'',
    '' *'',
    '' * Returns'',
    '' * 	The id of current NUMA node.'',
    '' */'',
    ''static long ('' @ ''* const bpf_get_numa_node_id)(void) = (void *) 42;'']"

definition hdef_bpf_skb_change_head :: "string list" where
  "hdef_bpf_skb_change_head = [
    ''/*'',
    '' * bpf_skb_change_head'',
    '' *'',
    '' * 	Grows headroom of packet associated to *skb* and adjusts the'',
    '' * 	offset of the MAC header accordingly, adding *len* bytes of'',
    '' * 	space. It automatically extends and reallocates memory as'',
    '' * 	required.'',
    '' *'',
    '' * 	This helper can be used on a layer 3 *skb* to push a MAC header'',
    '' * 	for redirection into a layer 2 device.'',
    '' *'',
    '' * 	All values for *flags* are reserved for future usage, and must'',
    '' * 	be left at zero.'',
    '' *'',
    '' * 	A call to this helper is susceptible to change the underlying'',
    '' * 	packet buffer. Therefore, at load time, all checks on pointers'',
    '' * 	previously done by the verifier are invalidated and must be'',
    '' * 	performed again, if the helper is used in combination with'',
    '' * 	direct packet access.'',
    '' *'',
    '' * Returns'',
    '' * 	0 on success, or a negative error in case of failure.'',
    '' */'',
    ''static long ('' @ ''* const bpf_skb_change_head)(struct __sk_buff *skb, __u32 len, __u64 flags) = (void *) 43;'']"

definition hdef_bpf_xdp_adjust_head :: "string list" where
  "hdef_bpf_xdp_adjust_head = [
    ''/*'',
    '' * bpf_xdp_adjust_head'',
    '' *'',
    '' * 	Adjust (move) *xdp_md*'' @ bsl @ '' **->data** by *delta* bytes. Note that'',
    '' * 	it is possible to use a negative value for *delta*. This helper'',
    '' * 	can be used to prepare the packet for pushing or popping'',
    '' * 	headers.'',
    '' *'',
    '' * 	A call to this helper is susceptible to change the underlying'',
    '' * 	packet buffer. Therefore, at load time, all checks on pointers'',
    '' * 	previously done by the verifier are invalidated and must be'',
    '' * 	performed again, if the helper is used in combination with'',
    '' * 	direct packet access.'',
    '' *'',
    '' * Returns'',
    '' * 	0 on success, or a negative error in case of failure.'',
    '' */'',
    ''static long ('' @ ''* const bpf_xdp_adjust_head)(struct xdp_md *xdp_md, int delta) = (void *) 44;'']"

definition hdef_bpf_probe_read_str :: "string list" where
  "hdef_bpf_probe_read_str = [
    ''/*'',
    '' * bpf_probe_read_str'',
    '' *'',
    '' * 	Copy a NUL terminated string from an unsafe kernel address'',
    '' * 	*unsafe_ptr* to *dst*. See **bpf_probe_read_kernel_str**'' @ bsl @ '' () for'',
    '' * 	more details.'',
    '' *'',
    '' * 	Generally, use **bpf_probe_read_user_str**'' @ bsl @ '' () or'',
    '' * 	**bpf_probe_read_kernel_str**'' @ bsl @ '' () instead.'',
    '' *'',
    '' * Returns'',
    '' * 	On success, the strictly positive length of the string,'',
    '' * 	including the trailing NUL character. On error, a negative'',
    '' * 	value.'',
    '' */'',
    ''static long ('' @ ''* const bpf_probe_read_str)(void *dst, __u32 size, const void *unsafe_ptr) = (void *) 45;'']"

definition hdef_bpf_get_socket_cookie :: "string list" where
  "hdef_bpf_get_socket_cookie = [
    ''/*'',
    '' * bpf_get_socket_cookie'',
    '' *'',
    '' * 	If the **struct sk_buff** pointed by *skb* has a known socket,'',
    '' * 	retrieve the cookie (generated by the kernel) of this socket.'',
    '' * 	If no cookie has been set yet, generate a new cookie. Once'',
    '' * 	generated, the socket cookie remains stable for the life of the'',
    '' * 	socket. This helper can be useful for monitoring per socket'',
    '' * 	networking traffic statistics as it provides a global socket'',
    '' * 	identifier that can be assumed unique.'',
    '' *'',
    '' * Returns'',
    '' * 	A 8-byte long unique number on success, or 0 if the socket'',
    '' * 	field is missing inside *skb*.'',
    '' */'',
    ''static __u64 ('' @ ''* const bpf_get_socket_cookie)(void *ctx) = (void *) 46;'']"

definition hdef_bpf_get_socket_uid :: "string list" where
  "hdef_bpf_get_socket_uid = [
    ''/*'',
    '' * bpf_get_socket_uid'',
    '' *'',
    '' * 	Get the owner UID of the socked associated to *skb*.'',
    '' *'',
    '' * Returns'',
    '' * 	The owner UID of the socket associated to *skb*. If the socket'',
    '' * 	is **NULL**, or if it is not a full socket (i.e. if it is a'',
    '' * 	time-wait or a request socket instead), **overflowuid** value'',
    '' * 	is returned (note that **overflowuid** might also be the actual'',
    '' * 	UID value for the socket).'',
    '' */'',
    ''static __u32 ('' @ ''* const bpf_get_socket_uid)(struct __sk_buff *skb) = (void *) 47;'']"

definition hdef_bpf_set_hash :: "string list" where
  "hdef_bpf_set_hash = [
    ''/*'',
    '' * bpf_set_hash'',
    '' *'',
    '' * 	Set the full hash for *skb* (set the field *skb*'' @ bsl @ '' **->hash**)'',
    '' * 	to value *hash*.'',
    '' *'',
    '' * Returns'',
    '' * 	0'',
    '' */'',
    ''static long ('' @ ''* const bpf_set_hash)(struct __sk_buff *skb, __u32 hash) = (void *) 48;'']"

definition hdef_bpf_setsockopt :: "string list" where
  "hdef_bpf_setsockopt = [
    ''/*'',
    '' * bpf_setsockopt'',
    '' *'',
    '' * 	Emulate a call to **setsockopt()** on the socket associated to'',
    '' * 	*bpf_socket*, which must be a full socket. The *level* at'',
    '' * 	which the option resides and the name *optname* of the option'',
    '' * 	must be specified, see **setsockopt(2)** for more information.'',
    '' * 	The option value of length *optlen* is pointed by *optval*.'',
    '' *'',
    '' * 	*bpf_socket* should be one of the following:'',
    '' *'',
    '' * 	* **struct bpf_sock_ops** for **BPF_PROG_TYPE_SOCK_OPS**.'',
    '' * 	* **struct bpf_sock_addr** for **BPF_CGROUP_INET4_CONNECT**,'',
    '' * 	  **BPF_CGROUP_INET6_CONNECT** and **BPF_CGROUP_UNIX_CONNECT**.'',
    '' *'',
    '' * 	This helper actually implements a subset of **setsockopt()**.'',
    '' * 	It supports the following *level*'' @ bsl @ '' s:'',
    '' *'',
    '' * 	* **SOL_SOCKET**, which supports the following *optname*'' @ bsl @ '' s:'',
    '' * 	  **SO_RCVBUF**, **SO_SNDBUF**, **SO_MAX_PACING_RATE**,'',
    '' * 	  **SO_PRIORITY**, **SO_RCVLOWAT**, **SO_MARK**,'',
    '' * 	  **SO_BINDTODEVICE**, **SO_KEEPALIVE**, **SO_REUSEADDR**,'',
    '' * 	  **SO_REUSEPORT**, **SO_BINDTOIFINDEX**, **SO_TXREHASH**.'',
    '' * 	* **IPPROTO_TCP**, which supports the following *optname*'' @ bsl @ '' s:'',
    '' * 	  **TCP_CONGESTION**, **TCP_BPF_IW**,'',
    '' * 	  **TCP_BPF_SNDCWND_CLAMP**, **TCP_SAVE_SYN**,'',
    '' * 	  **TCP_KEEPIDLE**, **TCP_KEEPINTVL**, **TCP_KEEPCNT**,'',
    '' * 	  **TCP_SYNCNT**, **TCP_USER_TIMEOUT**, **TCP_NOTSENT_LOWAT**,'',
    '' * 	  **TCP_NODELAY**, **TCP_MAXSEG**, **TCP_WINDOW_CLAMP**,'',
    '' * 	  **TCP_THIN_LINEAR_TIMEOUTS**, **TCP_BPF_DELACK_MAX**,'',
    '' * 	  **TCP_BPF_RTO_MIN**, **TCP_BPF_SOCK_OPS_CB_FLAGS**.'',
    '' * 	* **IPPROTO_IP**, which supports *optname* **IP_TOS**.'',
    '' * 	* **IPPROTO_IPV6**, which supports the following *optname*'' @ bsl @ '' s:'',
    '' * 	  **IPV6_TCLASS**, **IPV6_AUTOFLOWLABEL**.'',
    '' *'',
    '' * Returns'',
    '' * 	0 on success, or a negative error in case of failure.'',
    '' */'',
    ''static long ('' @ ''* const bpf_setsockopt)(void *bpf_socket, int level, int optname, void *optval, int optlen) = (void *) 49;'']"

definition hdef_bpf_skb_adjust_room :: "string list" where
  "hdef_bpf_skb_adjust_room = [
    ''/*'',
    '' * bpf_skb_adjust_room'',
    '' *'',
    '' * 	Grow or shrink the room for data in the packet associated to'',
    '' * 	*skb* by *len_diff*, and according to the selected *mode*.'',
    '' *'',
    '' * 	By default, the helper will reset any offloaded checksum'',
    '' * 	indicator of the skb to CHECKSUM_NONE. This can be avoided'',
    '' * 	by the following flag:'',
    '' *'',
    '' * 	* **BPF_F_ADJ_ROOM_NO_CSUM_RESET**: Do not reset offloaded'',
    '' * 	  checksum data of the skb to CHECKSUM_NONE.'',
    '' *'',
    '' * 	There are two supported modes at this time:'',
    '' *'',
    '' * 	* **BPF_ADJ_ROOM_MAC**: Adjust room at the mac layer'',
    '' * 	  (room space is added or removed between the layer 2 and'',
    '' * 	  layer 3 headers).'',
    '' *'',
    '' * 	* **BPF_ADJ_ROOM_NET**: Adjust room at the network layer'',
    '' * 	  (room space is added or removed between the layer 3 and'',
    '' * 	  layer 4 headers).'',
    '' *'',
    '' * 	The following flags are supported at this time:'',
    '' *'',
    '' * 	* **BPF_F_ADJ_ROOM_FIXED_GSO**: Do not adjust gso_size.'',
    '' * 	  Adjusting mss in this way is not allowed for datagrams.'',
    '' *'',
    '' * 	* **BPF_F_ADJ_ROOM_ENCAP_L3_IPV4**,'',
    '' * 	  **BPF_F_ADJ_ROOM_ENCAP_L3_IPV6**:'',
    '' * 	  Any new space is reserved to hold a tunnel header.'',
    '' * 	  Configure skb offsets and other fields accordingly.'',
    '' *'',
    '' * 	* **BPF_F_ADJ_ROOM_ENCAP_L4_GRE**,'',
    '' * 	  **BPF_F_ADJ_ROOM_ENCAP_L4_UDP**:'',
    '' * 	  Use with ENCAP_L3 flags to further specify the tunnel type.'',
    '' *'',
    '' * 	* **BPF_F_ADJ_ROOM_ENCAP_L2**'' @ bsl @ '' ('' @ ''*len*):'',
    '' * 	  Use with ENCAP_L3/L4 flags to further specify the tunnel'',
    '' * 	  type; *len* is the length of the inner MAC header.'',
    '' *'',
    '' * 	* **BPF_F_ADJ_ROOM_ENCAP_L2_ETH**:'',
    '' * 	  Use with BPF_F_ADJ_ROOM_ENCAP_L2 flag to further specify the'',
    '' * 	  L2 type as Ethernet.'',
    '' *'',
    '' * 	* **BPF_F_ADJ_ROOM_DECAP_L3_IPV4**,'',
    '' * 	  **BPF_F_ADJ_ROOM_DECAP_L3_IPV6**:'',
    '' * 	  Indicate the new IP header version after decapsulating the outer'',
    '' * 	  IP header. Used when the inner and outer IP versions are different.'',
    '' *'',
    '' * 	A call to this helper is susceptible to change the underlying'',
    '' * 	packet buffer. Therefore, at load time, all checks on pointers'',
    '' * 	previously done by the verifier are invalidated and must be'',
    '' * 	performed again, if the helper is used in combination with'',
    '' * 	direct packet access.'',
    '' *'',
    '' * Returns'',
    '' * 	0 on success, or a negative error in case of failure.'',
    '' */'',
    ''static long ('' @ ''* const bpf_skb_adjust_room)(struct __sk_buff *skb, __s32 len_diff, __u32 mode, __u64 flags) = (void *) 50;'']"

definition helperBlocksB :: "string list list" where
  "helperBlocksB = [hdef_bpf_perf_event_output,
     hdef_bpf_skb_load_bytes,
     hdef_bpf_get_stackid,
     hdef_bpf_csum_diff,
     hdef_bpf_skb_get_tunnel_opt,
     hdef_bpf_skb_set_tunnel_opt,
     hdef_bpf_skb_change_proto,
     hdef_bpf_skb_change_type,
     hdef_bpf_skb_under_cgroup,
     hdef_bpf_get_hash_recalc,
     hdef_bpf_get_current_task,
     hdef_bpf_probe_write_user,
     hdef_bpf_current_task_under_cgroup,
     hdef_bpf_skb_change_tail,
     hdef_bpf_skb_pull_data,
     hdef_bpf_csum_update,
     hdef_bpf_set_hash_invalid,
     hdef_bpf_get_numa_node_id,
     hdef_bpf_skb_change_head,
     hdef_bpf_xdp_adjust_head,
     hdef_bpf_probe_read_str,
     hdef_bpf_get_socket_cookie,
     hdef_bpf_get_socket_uid,
     hdef_bpf_set_hash,
     hdef_bpf_setsockopt,
     hdef_bpf_skb_adjust_room]"

end
