(* ===== verification/Helper_Defs_C.thy ===== *)
theory Helper_Defs_C
  imports Go_Library
begin

text \<open>
  The helper declarations of \<^verbatim>\<open>tools/genhelpers/data/bpf_helper_defs.h\<close>, lines 1306 to 1898: for each
  helper the lines of its comment and its declaration, as in the header.
\<close>

definition hdef_bpf_redirect_map :: "string list" where
  "hdef_bpf_redirect_map = [
    ''/*'',
    '' * bpf_redirect_map'',
    '' *'',
    '' * 	Redirect the packet to the endpoint referenced by *map* at'',
    '' * 	index *key*. Depending on its type, this *map* can contain'',
    '' * 	references to net devices (for forwarding packets through other'',
    '' * 	ports), or to CPUs (for redirecting XDP frames to another CPU;'',
    '' * 	but this is only implemented for native XDP (with driver'',
    '' * 	support) as of this writing).'',
    '' *'',
    '' * 	The lower two bits of *flags* are used as the return code if'',
    '' * 	the map lookup fails. This is so that the return value can be'',
    '' * 	one of the XDP program return codes up to **XDP_TX**, as chosen'',
    '' * 	by the caller. The higher bits of *flags* can be set to'',
    '' * 	BPF_F_BROADCAST or BPF_F_EXCLUDE_INGRESS as defined below.'',
    '' *'',
    '' * 	With BPF_F_BROADCAST the packet will be broadcasted to all the'',
    '' * 	interfaces in the map, with BPF_F_EXCLUDE_INGRESS the ingress'',
    '' * 	interface will be excluded when do broadcasting.'',
    '' *'',
    '' * 	See also **bpf_redirect**'' @ bsl @ '' (), which only supports redirecting'',
    '' * 	to an ifindex, but doesn't require a map to do so.'',
    '' *'',
    '' * Returns'',
    '' * 	**XDP_REDIRECT** on success, or the value of the two lower bits'',
    '' * 	of the *flags* argument on error.'',
    '' */'',
    ''static long ('' @ ''* const bpf_redirect_map)(void *map, __u64 key, __u64 flags) = (void *) 51;'']"

definition hdef_bpf_sk_redirect_map :: "string list" where
  "hdef_bpf_sk_redirect_map = [
    ''/*'',
    '' * bpf_sk_redirect_map'',
    '' *'',
    '' * 	Redirect the packet to the socket referenced by *map* (of type'',
    '' * 	**BPF_MAP_TYPE_SOCKMAP**) at index *key*. Both ingress and'',
    '' * 	egress interfaces can be used for redirection. The'',
    '' * 	**BPF_F_INGRESS** value in *flags* is used to make the'',
    '' * 	distinction (ingress path is selected if the flag is present,'',
    '' * 	egress path otherwise). This is the only flag supported for now.'',
    '' *'',
    '' * Returns'',
    '' * 	**SK_PASS** on success, or **SK_DROP** on error.'',
    '' */'',
    ''static long ('' @ ''* const bpf_sk_redirect_map)(struct __sk_buff *skb, void *map, __u32 key, __u64 flags) = (void *) 52;'']"

definition hdef_bpf_sock_map_update :: "string list" where
  "hdef_bpf_sock_map_update = [
    ''/*'',
    '' * bpf_sock_map_update'',
    '' *'',
    '' * 	Add an entry to, or update a *map* referencing sockets. The'',
    '' * 	*skops* is used as a new value for the entry associated to'',
    '' * 	*key*. *flags* is one of:'',
    '' *'',
    '' * 	**BPF_NOEXIST**'',
    '' * 		The entry for *key* must not exist in the map.'',
    '' * 	**BPF_EXIST**'',
    '' * 		The entry for *key* must already exist in the map.'',
    '' * 	**BPF_ANY**'',
    '' * 		No condition on the existence of the entry for *key*.'',
    '' *'',
    '' * 	If the *map* has eBPF programs (parser and verdict), those will'',
    '' * 	be inherited by the socket being added. If the socket is'',
    '' * 	already attached to eBPF programs, this results in an error.'',
    '' *'',
    '' * Returns'',
    '' * 	0 on success, or a negative error in case of failure.'',
    '' */'',
    ''static long ('' @ ''* const bpf_sock_map_update)(struct bpf_sock_ops *skops, void *map, void *key, __u64 flags) = (void *) 53;'']"

definition hdef_bpf_xdp_adjust_meta :: "string list" where
  "hdef_bpf_xdp_adjust_meta = [
    ''/*'',
    '' * bpf_xdp_adjust_meta'',
    '' *'',
    '' * 	Adjust the address pointed by *xdp_md*'' @ bsl @ '' **->data_meta** by'',
    '' * 	*delta* (which can be positive or negative). Note that this'',
    '' * 	operation modifies the address stored in *xdp_md*'' @ bsl @ '' **->data**,'',
    '' * 	so the latter must be loaded only after the helper has been'',
    '' * 	called.'',
    '' *'',
    '' * 	The use of *xdp_md*'' @ bsl @ '' **->data_meta** is optional and programs'',
    '' * 	are not required to use it. The rationale is that when the'',
    '' * 	packet is processed with XDP (e.g. as DoS filter), it is'',
    '' * 	possible to push further meta data along with it before passing'',
    '' * 	to the stack, and to give the guarantee that an ingress eBPF'',
    '' * 	program attached as a TC classifier on the same device can pick'',
    '' * 	this up for further post-processing. Since TC works with socket'',
    '' * 	buffers, it remains possible to set from XDP the **mark** or'',
    '' * 	**priority** pointers, or other pointers for the socket buffer.'',
    '' * 	Having this scratch space generic and programmable allows for'',
    '' * 	more flexibility as the user is free to store whatever meta'',
    '' * 	data they need.'',
    '' *'',
    '' * 	A call to this helper is susceptible to change the underlying'',
    '' * 	packet buffer. Therefore, at load time, all checks on pointers'',
    '' * 	previously done by the verifier are invalidated and must be'',
    '' * 	performed again, if the helper is used in combination with'',
    '' * 	direct packet access.'',
    '' *'',
    '' * Returns'',
    '' * 	0 on success, or a negative error in case of failure.'',
    '' */'',
    ''static long ('' @ ''* const bpf_xdp_adjust_meta)(struct xdp_md *xdp_md, int delta) = (void *) 54;'']"

definition hdef_bpf_perf_event_read_value :: "string list" where
  "hdef_bpf_perf_event_read_value = [
    ''/*'',
    '' * bpf_perf_event_read_value'',
    '' *'',
    '' * 	Read the value of a perf event counter, and store it into *buf*'',
    '' * 	of size *buf_size*. This helper relies on a *map* of type'',
    '' * 	**BPF_MAP_TYPE_PERF_EVENT_ARRAY**. The nature of the perf event'',
    '' * 	counter is selected when *map* is updated with perf event file'',
    '' * 	descriptors. The *map* is an array whose size is the number of'',
    '' * 	available CPUs, and each cell contains a value relative to one'',
    '' * 	CPU. The value to retrieve is indicated by *flags*, that'',
    '' * 	contains the index of the CPU to look up, masked with'',
    '' * 	**BPF_F_INDEX_MASK**. Alternatively, *flags* can be set to'',
    '' * 	**BPF_F_CURRENT_CPU** to indicate that the value for the'',
    '' * 	current CPU should be retrieved.'',
    '' *'',
    '' * 	This helper behaves in a way close to'',
    '' * 	**bpf_perf_event_read**'' @ bsl @ '' () helper, save that instead of'',
    '' * 	just returning the value observed, it fills the *buf*'',
    '' * 	structure. This allows for additional data to be retrieved: in'',
    '' * 	particular, the enabled and running times (in *buf*'' @ bsl,
    '' * 	**->enabled** and *buf*'' @ bsl @ '' **->running**, respectively) are'',
    '' * 	copied. In general, **bpf_perf_event_read_value**'' @ bsl @ '' () is'',
    '' * 	recommended over **bpf_perf_event_read**'' @ bsl @ '' (), which has some'',
    '' * 	ABI issues and provides fewer functionalities.'',
    '' *'',
    '' * 	These values are interesting, because hardware PMU (Performance'',
    '' * 	Monitoring Unit) counters are limited resources. When there are'',
    '' * 	more PMU based perf events opened than available counters,'',
    '' * 	kernel will multiplex these events so each event gets certain'',
    '' * 	percentage (but not all) of the PMU time. In case that'',
    '' * 	multiplexing happens, the number of samples or counter value'',
    '' * 	will not reflect the case compared to when no multiplexing'',
    '' * 	occurs. This makes comparison between different runs difficult.'',
    '' * 	Typically, the counter value should be normalized before'',
    '' * 	comparing to other experiments. The usual normalization is done'',
    '' * 	as follows.'',
    '' *'',
    '' * 	::'',
    '' *'',
    '' * 		normalized_counter = counter * t_enabled / t_running'',
    '' *'',
    '' * 	Where t_enabled is the time enabled for event and t_running is'',
    '' * 	the time running for event since last normalization. The'',
    '' * 	enabled and running times are accumulated since the perf event'',
    '' * 	open. To achieve scaling factor between two invocations of an'',
    '' * 	eBPF program, users can use CPU id as the key (which is'',
    '' * 	typical for perf array usage model) to remember the previous'',
    '' * 	value and do the calculation inside the eBPF program.'',
    '' *'',
    '' * Returns'',
    '' * 	0 on success, or a negative error in case of failure.'',
    '' */'',
    ''static long ('' @ ''* const bpf_perf_event_read_value)(void *map, __u64 flags, struct bpf_perf_event_value *buf, __u32 buf_size) = (void *) 55;'']"

definition hdef_bpf_perf_prog_read_value :: "string list" where
  "hdef_bpf_perf_prog_read_value = [
    ''/*'',
    '' * bpf_perf_prog_read_value'',
    '' *'',
    '' * 	For an eBPF program attached to a perf event, retrieve the'',
    '' * 	value of the event counter associated to *ctx* and store it in'',
    '' * 	the structure pointed by *buf* and of size *buf_size*. Enabled'',
    '' * 	and running times are also stored in the structure (see'',
    '' * 	description of helper **bpf_perf_event_read_value**'' @ bsl @ '' () for'',
    '' * 	more details).'',
    '' *'',
    '' * Returns'',
    '' * 	0 on success, or a negative error in case of failure.'',
    '' */'',
    ''static long ('' @ ''* const bpf_perf_prog_read_value)(struct bpf_perf_event_data *ctx, struct bpf_perf_event_value *buf, __u32 buf_size) = (void *) 56;'']"

definition hdef_bpf_getsockopt :: "string list" where
  "hdef_bpf_getsockopt = [
    ''/*'',
    '' * bpf_getsockopt'',
    '' *'',
    '' * 	Emulate a call to **getsockopt()** on the socket associated to'',
    '' * 	*bpf_socket*, which must be a full socket. The *level* at'',
    '' * 	which the option resides and the name *optname* of the option'',
    '' * 	must be specified, see **getsockopt(2)** for more information.'',
    '' * 	The retrieved value is stored in the structure pointed by'',
    '' * 	*opval* and of length *optlen*.'',
    '' *'',
    '' * 	*bpf_socket* should be one of the following:'',
    '' *'',
    '' * 	* **struct bpf_sock_ops** for **BPF_PROG_TYPE_SOCK_OPS**.'',
    '' * 	* **struct bpf_sock_addr** for **BPF_CGROUP_INET4_CONNECT**,'',
    '' * 	  **BPF_CGROUP_INET6_CONNECT** and **BPF_CGROUP_UNIX_CONNECT**.'',
    '' *'',
    '' * 	This helper actually implements a subset of **getsockopt()**.'',
    '' * 	It supports the same set of *optname*'' @ bsl @ '' s that is supported by'',
    '' * 	the **bpf_setsockopt**'' @ bsl @ '' () helper.  The exceptions are'',
    '' * 	**TCP_BPF_*** is **bpf_setsockopt**'' @ bsl @ '' () only and'',
    '' * 	**TCP_SAVED_SYN** is **bpf_getsockopt**'' @ bsl @ '' () only.'',
    '' *'',
    '' * Returns'',
    '' * 	0 on success, or a negative error in case of failure.'',
    '' */'',
    ''static long ('' @ ''* const bpf_getsockopt)(void *bpf_socket, int level, int optname, void *optval, int optlen) = (void *) 57;'']"

definition hdef_bpf_override_return :: "string list" where
  "hdef_bpf_override_return = [
    ''/*'',
    '' * bpf_override_return'',
    '' *'',
    '' * 	Used for error injection, this helper uses kprobes to override'',
    '' * 	the return value of the probed function, and to set it to *rc*.'',
    '' * 	The first argument is the context *regs* on which the kprobe'',
    '' * 	works.'',
    '' *'',
    '' * 	This helper works by setting the PC (program counter)'',
    '' * 	to an override function which is run in place of the original'',
    '' * 	probed function. This means the probed function is not run at'',
    '' * 	all. The replacement function just returns with the required'',
    '' * 	value.'',
    '' *'',
    '' * 	This helper has security implications, and thus is subject to'',
    '' * 	restrictions. It is only available if the kernel was compiled'',
    '' * 	with the **CONFIG_BPF_KPROBE_OVERRIDE** configuration'',
    '' * 	option, and in this case it only works on functions tagged with'',
    '' * 	**ALLOW_ERROR_INJECTION** in the kernel code.'',
    '' *'',
    '' * Returns'',
    '' * 	0'',
    '' */'',
    ''static long ('' @ ''* const bpf_override_return)(struct pt_regs *regs, __u64 rc) = (void *) 58;'']"

definition hdef_bpf_sock_ops_cb_flags_set :: "string list" where
  "hdef_bpf_sock_ops_cb_flags_set = [
    ''/*'',
    '' * bpf_sock_ops_cb_flags_set'',
    '' *'',
    '' * 	Attempt to set the value of the **bpf_sock_ops_cb_flags** field'',
    '' * 	for the full TCP socket associated to *bpf_sock_ops* to'',
    '' * 	*argval*.'',
    '' *'',
    '' * 	The primary use of this field is to determine if there should'',
    '' * 	be calls to eBPF programs of type'',
    '' * 	**BPF_PROG_TYPE_SOCK_OPS** at various points in the TCP'',
    '' * 	code. A program of the same type can change its value, per'',
    '' * 	connection and as necessary, when the connection is'',
    '' * 	established. This field is directly accessible for reading, but'',
    '' * 	this helper must be used for updates in order to return an'',
    '' * 	error if an eBPF program tries to set a callback that is not'',
    '' * 	supported in the current kernel.'',
    '' *'',
    '' * 	*argval* is a flag array which can combine these flags:'',
    '' *'',
    '' * 	* **BPF_SOCK_OPS_RTO_CB_FLAG** (retransmission time out)'',
    '' * 	* **BPF_SOCK_OPS_RETRANS_CB_FLAG** (retransmission)'',
    '' * 	* **BPF_SOCK_OPS_STATE_CB_FLAG** (TCP state change)'',
    '' * 	* **BPF_SOCK_OPS_RTT_CB_FLAG** (every RTT)'',
    '' *'',
    '' * 	Therefore, this function can be used to clear a callback flag by'',
    '' * 	setting the appropriate bit to zero. e.g. to disable the RTO'',
    '' * 	callback:'',
    '' *'',
    '' * 	**bpf_sock_ops_cb_flags_set(bpf_sock,**'',
    '' * 		**bpf_sock->bpf_sock_ops_cb_flags & ~BPF_SOCK_OPS_RTO_CB_FLAG)**'',
    '' *'',
    '' * 	Here are some examples of where one could call such eBPF'',
    '' * 	program:'',
    '' *'',
    '' * 	* When RTO fires.'',
    '' * 	* When a packet is retransmitted.'',
    '' * 	* When the connection terminates.'',
    '' * 	* When a packet is sent.'',
    '' * 	* When a packet is received.'',
    '' *'',
    '' * Returns'',
    '' * 	Code **-EINVAL** if the socket is not a full TCP socket;'',
    '' * 	otherwise, a positive number containing the bits that could not'',
    '' * 	be set is returned (which comes down to 0 if all bits were set'',
    '' * 	as required).'',
    '' */'',
    ''static long ('' @ ''* const bpf_sock_ops_cb_flags_set)(struct bpf_sock_ops *bpf_sock, int argval) = (void *) 59;'']"

definition hdef_bpf_msg_redirect_map :: "string list" where
  "hdef_bpf_msg_redirect_map = [
    ''/*'',
    '' * bpf_msg_redirect_map'',
    '' *'',
    '' * 	This helper is used in programs implementing policies at the'',
    '' * 	socket level. If the message *msg* is allowed to pass (i.e. if'',
    '' * 	the verdict eBPF program returns **SK_PASS**), redirect it to'',
    '' * 	the socket referenced by *map* (of type'',
    '' * 	**BPF_MAP_TYPE_SOCKMAP**) at index *key*. Both ingress and'',
    '' * 	egress interfaces can be used for redirection. The'',
    '' * 	**BPF_F_INGRESS** value in *flags* is used to make the'',
    '' * 	distinction (ingress path is selected if the flag is present,'',
    '' * 	egress path otherwise). This is the only flag supported for now.'',
    '' *'',
    '' * Returns'',
    '' * 	**SK_PASS** on success, or **SK_DROP** on error.'',
    '' */'',
    ''static long ('' @ ''* const bpf_msg_redirect_map)(struct sk_msg_md *msg, void *map, __u32 key, __u64 flags) = (void *) 60;'']"

definition hdef_bpf_msg_apply_bytes :: "string list" where
  "hdef_bpf_msg_apply_bytes = [
    ''/*'',
    '' * bpf_msg_apply_bytes'',
    '' *'',
    '' * 	For socket policies, apply the verdict of the eBPF program to'',
    '' * 	the next *bytes* (number of bytes) of message *msg*.'',
    '' *'',
    '' * 	For example, this helper can be used in the following cases:'',
    '' *'',
    '' * 	* A single **sendmsg**'' @ bsl @ '' () or **sendfile**'' @ bsl @ '' () system call'',
    '' * 	  contains multiple logical messages that the eBPF program is'',
    '' * 	  supposed to read and for which it should apply a verdict.'',
    '' * 	* An eBPF program only cares to read the first *bytes* of a'',
    '' * 	  *msg*. If the message has a large payload, then setting up'',
    '' * 	  and calling the eBPF program repeatedly for all bytes, even'',
    '' * 	  though the verdict is already known, would create unnecessary'',
    '' * 	  overhead.'',
    '' *'',
    '' * 	When called from within an eBPF program, the helper sets a'',
    '' * 	counter internal to the BPF infrastructure, that is used to'',
    '' * 	apply the last verdict to the next *bytes*. If *bytes* is'',
    '' * 	smaller than the current data being processed from a'',
    '' * 	**sendmsg**'' @ bsl @ '' () or **sendfile**'' @ bsl @ '' () system call, the first'',
    '' * 	*bytes* will be sent and the eBPF program will be re-run with'',
    '' * 	the pointer for start of data pointing to byte number *bytes*'',
    '' * 	**+ 1**. If *bytes* is larger than the current data being'',
    '' * 	processed, then the eBPF verdict will be applied to multiple'',
    '' * 	**sendmsg**'' @ bsl @ '' () or **sendfile**'' @ bsl @ '' () calls until *bytes* are'',
    '' * 	consumed.'',
    '' *'',
    '' * 	Note that if a socket closes with the internal counter holding'',
    '' * 	a non-zero value, this is not a problem because data is not'',
    '' * 	being buffered for *bytes* and is sent as it is received.'',
    '' *'',
    '' * Returns'',
    '' * 	0'',
    '' */'',
    ''static long ('' @ ''* const bpf_msg_apply_bytes)(struct sk_msg_md *msg, __u32 bytes) = (void *) 61;'']"

definition hdef_bpf_msg_cork_bytes :: "string list" where
  "hdef_bpf_msg_cork_bytes = [
    ''/*'',
    '' * bpf_msg_cork_bytes'',
    '' *'',
    '' * 	For socket policies, prevent the execution of the verdict eBPF'',
    '' * 	program for message *msg* until *bytes* (byte number) have been'',
    '' * 	accumulated.'',
    '' *'',
    '' * 	This can be used when one needs a specific number of bytes'',
    '' * 	before a verdict can be assigned, even if the data spans'',
    '' * 	multiple **sendmsg**'' @ bsl @ '' () or **sendfile**'' @ bsl @ '' () calls. The extreme'',
    '' * 	case would be a user calling **sendmsg**'' @ bsl @ '' () repeatedly with'',
    '' * 	1-byte long message segments. Obviously, this is bad for'',
    '' * 	performance, but it is still valid. If the eBPF program needs'',
    '' * 	*bytes* bytes to validate a header, this helper can be used to'',
    '' * 	prevent the eBPF program to be called again until *bytes* have'',
    '' * 	been accumulated.'',
    '' *'',
    '' * Returns'',
    '' * 	0'',
    '' */'',
    ''static long ('' @ ''* const bpf_msg_cork_bytes)(struct sk_msg_md *msg, __u32 bytes) = (void *) 62;'']"

definition hdef_bpf_msg_pull_data :: "string list" where
  "hdef_bpf_msg_pull_data = [
    ''/*'',
    '' * bpf_msg_pull_data'',
    '' *'',
    '' * 	For socket policies, pull in non-linear data from user space'',
    '' * 	for *msg* and set pointers *msg*'' @ bsl @ '' **->data** and *msg*'' @ bsl,
    '' * 	**->data_end** to *start* and *end* bytes offsets into *msg*,'',
    '' * 	respectively.'',
    '' *'',
    '' * 	If a program of type **BPF_PROG_TYPE_SK_MSG** is run on a'',
    '' * 	*msg* it can only parse data that the ('' @ ''**data**, **data_end**)'',
    '' * 	pointers have already consumed. For **sendmsg**'' @ bsl @ '' () hooks this'',
    '' * 	is likely the first scatterlist element. But for calls relying'',
    '' * 	on the **sendpage** handler (e.g. **sendfile**'' @ bsl @ '' ()) this will'',
    '' * 	be the range ('' @ ''**0**, **0**) because the data is shared with'',
    '' * 	user space and by default the objective is to avoid allowing'',
    '' * 	user space to modify data while (or after) eBPF verdict is'',
    '' * 	being decided. This helper can be used to pull in data and to'',
    '' * 	set the start and end pointer to given values. Data will be'',
    '' * 	copied if necessary (i.e. if data was not linear and if start'',
    '' * 	and end pointers do not point to the same chunk).'',
    '' *'',
    '' * 	A call to this helper is susceptible to change the underlying'',
    '' * 	packet buffer. Therefore, at load time, all checks on pointers'',
    '' * 	previously done by the verifier are invalidated and must be'',
    '' * 	performed again, if the helper is used in combination with'',
    '' * 	direct packet access.'',
    '' *'',
    '' * 	All values for *flags* are reserved for future usage, and must'',
    '' * 	be left at zero.'',
    '' *'',
    '' * Returns'',
    '' * 	0 on success, or a negative error in case of failure.'',
    '' */'',
    ''static long ('' @ ''* const bpf_msg_pull_data)(struct sk_msg_md *msg, __u32 start, __u32 end, __u64 flags) = (void *) 63;'']"

definition hdef_bpf_bind :: "string list" where
  "hdef_bpf_bind = [
    ''/*'',
    '' * bpf_bind'',
    '' *'',
    '' * 	Bind the socket associated to *ctx* to the address pointed by'',
    '' * 	*addr*, of length *addr_len*. This allows for making outgoing'',
    '' * 	connection from the desired IP address, which can be useful for'',
    '' * 	example when all processes inside a cgroup should use one'',
    '' * 	single IP address on a host that has multiple IP configured.'',
    '' *'',
    '' * 	This helper works for IPv4 and IPv6, TCP and UDP sockets. The'',
    '' * 	domain ('' @ ''*addr*'' @ bsl @ '' **->sa_family**) must be **AF_INET** (or'',
    '' * 	**AF_INET6**). It's advised to pass zero port ('' @ ''**sin_port**'',
    '' * 	or **sin6_port**) which triggers IP_BIND_ADDRESS_NO_PORT-like'',
    '' * 	behavior and lets the kernel efficiently pick up an unused'',
    '' * 	port as long as 4-tuple is unique. Passing non-zero port might'',
    '' * 	lead to degraded performance.'',
    '' *'',
    '' * Returns'',
    '' * 	0 on success, or a negative error in case of failure.'',
    '' */'',
    ''static long ('' @ ''* const bpf_bind)(struct bpf_sock_addr *ctx, struct sockaddr *addr, int addr_len) = (void *) 64;'']"

definition hdef_bpf_xdp_adjust_tail :: "string list" where
  "hdef_bpf_xdp_adjust_tail = [
    ''/*'',
    '' * bpf_xdp_adjust_tail'',
    '' *'',
    '' * 	Adjust (move) *xdp_md*'' @ bsl @ '' **->data_end** by *delta* bytes. It is'',
    '' * 	possible to both shrink and grow the packet tail.'',
    '' * 	Shrink done via *delta* being a negative integer.'',
    '' *'',
    '' * 	A call to this helper is susceptible to change the underlying'',
    '' * 	packet buffer. Therefore, at load time, all checks on pointers'',
    '' * 	previously done by the verifier are invalidated and must be'',
    '' * 	performed again, if the helper is used in combination with'',
    '' * 	direct packet access.'',
    '' *'',
    '' * Returns'',
    '' * 	0 on success, or a negative error in case of failure.'',
    '' */'',
    ''static long ('' @ ''* const bpf_xdp_adjust_tail)(struct xdp_md *xdp_md, int delta) = (void *) 65;'']"

definition hdef_bpf_skb_get_xfrm_state :: "string list" where
  "hdef_bpf_skb_get_xfrm_state = [
    ''/*'',
    '' * bpf_skb_get_xfrm_state'',
    '' *'',
    '' * 	Retrieve the XFRM state (IP transform framework, see also'',
    '' * 	**ip-xfrm(8)**) at *index* in XFRM '' @ dq @ ''security path'' @ dq @ '' for *skb*.'',
    '' *'',
    '' * 	The retrieved value is stored in the **struct bpf_xfrm_state**'',
    '' * 	pointed by *xfrm_state* and of length *size*.'',
    '' *'',
    '' * 	All values for *flags* are reserved for future usage, and must'',
    '' * 	be left at zero.'',
    '' *'',
    '' * 	This helper is available only if the kernel was compiled with'',
    '' * 	**CONFIG_XFRM** configuration option.'',
    '' *'',
    '' * Returns'',
    '' * 	0 on success, or a negative error in case of failure.'',
    '' */'',
    ''static long ('' @ ''* const bpf_skb_get_xfrm_state)(struct __sk_buff *skb, __u32 index, struct bpf_xfrm_state *xfrm_state, __u32 size, __u64 flags) = (void *) 66;'']"

definition hdef_bpf_get_stack :: "string list" where
  "hdef_bpf_get_stack = [
    ''/*'',
    '' * bpf_get_stack'',
    '' *'',
    '' * 	Return a user or a kernel stack in bpf program provided buffer.'',
    '' * 	To achieve this, the helper needs *ctx*, which is a pointer'',
    '' * 	to the context on which the tracing program is executed.'',
    '' * 	To store the stacktrace, the bpf program provides *buf* with'',
    '' * 	a nonnegative *size*.'',
    '' *'',
    '' * 	The last argument, *flags*, holds the number of stack frames to'',
    '' * 	skip (from 0 to 255), masked with'',
    '' * 	**BPF_F_SKIP_FIELD_MASK**. The next bits can be used to set'',
    '' * 	the following flags:'',
    '' *'',
    '' * 	**BPF_F_USER_STACK**'',
    '' * 		Collect a user space stack instead of a kernel stack.'',
    '' * 	**BPF_F_USER_BUILD_ID**'',
    '' * 		Collect (build_id, file_offset) instead of ips for user'',
    '' * 		stack, only valid if **BPF_F_USER_STACK** is also'',
    '' * 		specified.'',
    '' *'',
    '' * 		*file_offset* is an offset relative to the beginning'',
    '' * 		of the executable or shared object file backing the vma'',
    '' * 		which the *ip* falls in. It is *not* an offset relative'',
    '' * 		to that object's base address. Accordingly, it must be'',
    '' * 		adjusted by adding (sh_addr - sh_offset), where'',
    '' * 		sh_{addr,offset} correspond to the executable section'',
    '' * 		containing *file_offset* in the object, for comparisons'',
    '' * 		to symbols' st_value to be valid.'',
    '' *'',
    '' * 	**bpf_get_stack**'' @ bsl @ '' () can collect up to'',
    '' * 	**PERF_MAX_STACK_DEPTH** both kernel and user frames, subject'',
    '' * 	to sufficient large buffer size. Note that'',
    '' * 	this limit can be controlled with the **sysctl** program, and'',
    '' * 	that it should be manually increased in order to profile long'',
    '' * 	user stacks (such as stacks for Java programs). To do so, use:'',
    '' *'',
    '' * 	::'',
    '' *'',
    '' * 		# sysctl kernel.perf_event_max_stack=<new value>'',
    '' *'',
    '' * Returns'',
    '' * 	The non-negative copied *buf* length equal to or less than'',
    '' * 	*size* on success, or a negative error in case of failure.'',
    '' */'',
    ''static long ('' @ ''* const bpf_get_stack)(void *ctx, void *buf, __u32 size, __u64 flags) = (void *) 67;'']"

definition hdef_bpf_skb_load_bytes_relative :: "string list" where
  "hdef_bpf_skb_load_bytes_relative = [
    ''/*'',
    '' * bpf_skb_load_bytes_relative'',
    '' *'',
    '' * 	This helper is similar to **bpf_skb_load_bytes**'' @ bsl @ '' () in that'',
    '' * 	it provides an easy way to load *len* bytes from *offset*'',
    '' * 	from the packet associated to *skb*, into the buffer pointed'',
    '' * 	by *to*. The difference to **bpf_skb_load_bytes**'' @ bsl @ '' () is that'',
    '' * 	a fifth argument *start_header* exists in order to select a'',
    '' * 	base offset to start from. *start_header* can be one of:'',
    '' *'',
    '' * 	**BPF_HDR_START_MAC**'',
    '' * 		Base offset to load data from is *skb*'s mac header.'',
    '' * 	**BPF_HDR_START_NET**'',
    '' * 		Base offset to load data from is *skb*'s network header.'',
    '' *'',
    '' * 	In general, '' @ dq @ ''direct packet access'' @ dq @ '' is the preferred method to'',
    '' * 	access packet data, however, this helper is in particular useful'',
    '' * 	in socket filters where *skb*'' @ bsl @ '' **->data** does not always point'',
    '' * 	to the start of the mac header and where '' @ dq @ ''direct packet access'' @ dq,
    '' * 	is not available.'',
    '' *'',
    '' * Returns'',
    '' * 	0 on success, or a negative error in case of failure.'',
    '' */'',
    ''static long ('' @ ''* const bpf_skb_load_bytes_relative)(const void *skb, __u32 offset, void *to, __u32 len, __u32 start_header) = (void *) 68;'']"

definition hdef_bpf_fib_lookup :: "string list" where
  "hdef_bpf_fib_lookup = [
    ''/*'',
    '' * bpf_fib_lookup'',
    '' *'',
    '' * 	Do FIB lookup in kernel tables using parameters in *params*.'',
    '' * 	If lookup is successful and result shows packet is to be'',
    '' * 	forwarded, the neighbor tables are searched for the nexthop.'',
    '' * 	If successful (ie., FIB lookup shows forwarding and nexthop'',
    '' * 	is resolved), the nexthop address is returned in ipv4_dst'',
    '' * 	or ipv6_dst based on family, smac is set to mac address of'',
    '' * 	egress device, dmac is set to nexthop mac address, rt_metric'',
    '' * 	is set to metric from route (IPv4/IPv6 only), and ifindex'',
    '' * 	is set to the device index of the nexthop from the FIB lookup.'',
    '' *'',
    '' * 	*plen* argument is the size of the passed in struct.'',
    '' * 	*flags* argument can be a combination of one or more of the'',
    '' * 	following values:'',
    '' *'',
    '' * 	**BPF_FIB_LOOKUP_DIRECT**'',
    '' * 		Do a direct table lookup vs full lookup using FIB'',
    '' * 		rules.'',
    '' * 	**BPF_FIB_LOOKUP_TBID**'',
    '' * 		Used with BPF_FIB_LOOKUP_DIRECT.'',
    '' * 		Use the routing table ID present in *params*->tbid'',
    '' * 		for the fib lookup.'',
    '' * 	**BPF_FIB_LOOKUP_OUTPUT**'',
    '' * 		Perform lookup from an egress perspective (default is'',
    '' * 		ingress).'',
    '' * 	**BPF_FIB_LOOKUP_SKIP_NEIGH**'',
    '' * 		Skip the neighbour table lookup. *params*->dmac'',
    '' * 		and *params*->smac will not be set as output. A common'',
    '' * 		use case is to call **bpf_redirect_neigh**'' @ bsl @ '' () after'',
    '' * 		doing **bpf_fib_lookup**'' @ bsl @ '' ().'',
    '' * 	**BPF_FIB_LOOKUP_SRC**'',
    '' * 		Derive and set source IP addr in *params*->ipv{4,6}_src'',
    '' * 		for the nexthop. If the src addr cannot be derived,'',
    '' * 		**BPF_FIB_LKUP_RET_NO_SRC_ADDR** is returned. In this'',
    '' * 		case, *params*->dmac and *params*->smac are not set either.'',
    '' * 	**BPF_FIB_LOOKUP_MARK**'',
    '' * 		Use the mark present in *params*->mark for the fib lookup.'',
    '' * 		This option should not be used with BPF_FIB_LOOKUP_DIRECT,'',
    '' * 		as it only has meaning for full lookups.'',
    '' *'',
    '' * 	*ctx* is either **struct xdp_md** for XDP programs or'',
    '' * 	**struct sk_buff** tc cls_act programs.'',
    '' *'',
    '' * Returns'',
    '' * 	* < 0 if any input argument is invalid'',
    '' * 	*   0 on success (packet is forwarded, nexthop neighbor exists)'',
    '' * 	* > 0 one of **BPF_FIB_LKUP_RET_** codes explaining why the'',
    '' * 	  packet is not forwarded or needs assist from full stack'',
    '' *'',
    '' * 	If lookup fails with BPF_FIB_LKUP_RET_FRAG_NEEDED, then the MTU'',
    '' * 	was exceeded and output params->mtu_result contains the MTU.'',
    '' */'',
    ''static long ('' @ ''* const bpf_fib_lookup)(void *ctx, struct bpf_fib_lookup *params, int plen, __u32 flags) = (void *) 69;'']"

definition hdef_bpf_sock_hash_update :: "string list" where
  "hdef_bpf_sock_hash_update = [
    ''/*'',
    '' * bpf_sock_hash_update'',
    '' *'',
    '' * 	Add an entry to, or update a sockhash *map* referencing sockets.'',
    '' * 	The *skops* is used as a new value for the entry associated to'',
    '' * 	*key*. *flags* is one of:'',
    '' *'',
    '' * 	**BPF_NOEXIST**'',
    '' * 		The entry for *key* must not exist in the map.'',
    '' * 	**BPF_EXIST**'',
    '' * 		The entry for *key* must already exist in the map.'',
    '' * 	**BPF_ANY**'',
    '' * 		No condition on the existence of the entry for *key*.'',
    '' *'',
    '' * 	If the *map* has eBPF programs (parser and verdict), those will'',
    '' * 	be inherited by the socket being added. If the socket is'',
    '' * 	already attached to eBPF programs, this results in an error.'',
    '' *'',
    '' * Returns'',
    '' * 	0 on success, or a negative error in case of failure.'',
    '' */'',
    ''static long ('' @ ''* const bpf_sock_hash_update)(struct bpf_sock_ops *skops, void *map, void *key, __u64 flags) = (void *) 70;'']"

definition helperBlocksC :: "string list list" where
  "helperBlocksC = [hdef_bpf_redirect_map,
     hdef_bpf_sk_redirect_map,
     hdef_bpf_sock_map_update,
     hdef_bpf_xdp_adjust_meta,
     hdef_bpf_perf_event_read_value,
     hdef_bpf_perf_prog_read_value,
     hdef_bpf_getsockopt,
     hdef_bpf_override_return,
     hdef_bpf_sock_ops_cb_flags_set,
     hdef_bpf_msg_redirect_map,
     hdef_bpf_msg_apply_bytes,
     hdef_bpf_msg_cork_bytes,
     hdef_bpf_msg_pull_data,
     hdef_bpf_bind,
     hdef_bpf_xdp_adjust_tail,
     hdef_bpf_skb_get_xfrm_state,
     hdef_bpf_get_stack,
     hdef_bpf_skb_load_bytes_relative,
     hdef_bpf_fib_lookup,
     hdef_bpf_sock_hash_update]"

end
