(* ===== verification/Helper_Defs_D.thy ===== *)
theory Helper_Defs_D
  imports Go_Library
begin

text \<open>
  The helper declarations of \<^verbatim>\<open>tools/genhelpers/data/bpf_helper_defs.h\<close>, lines 1900 to 2507: for each
  helper the lines of its comment and its declaration, as in the header.
\<close>

definition hdef_bpf_msg_redirect_hash :: "string list" where
  "hdef_bpf_msg_redirect_hash = [
    ''/*'',
    '' * bpf_msg_redirect_hash'',
    '' *'',
    '' * 	This helper is used in programs implementing policies at the'',
    '' * 	socket level. If the message *msg* is allowed to pass (i.e. if'',
    '' * 	the verdict eBPF program returns **SK_PASS**), redirect it to'',
    '' * 	the socket referenced by *map* (of type'',
    '' * 	**BPF_MAP_TYPE_SOCKHASH**) using hash *key*. Both ingress and'',
    '' * 	egress interfaces can be used for redirection. The'',
    '' * 	**BPF_F_INGRESS** value in *flags* is used to make the'',
    '' * 	distinction (ingress path is selected if the flag is present,'',
    '' * 	egress path otherwise). This is the only flag supported for now.'',
    '' *'',
    '' * Returns'',
    '' * 	**SK_PASS** on success, or **SK_DROP** on error.'',
    '' */'',
    ''static long ('' @ ''* const bpf_msg_redirect_hash)(struct sk_msg_md *msg, void *map, void *key, __u64 flags) = (void *) 71;'']"

definition hdef_bpf_sk_redirect_hash :: "string list" where
  "hdef_bpf_sk_redirect_hash = [
    ''/*'',
    '' * bpf_sk_redirect_hash'',
    '' *'',
    '' * 	This helper is used in programs implementing policies at the'',
    '' * 	skb socket level. If the sk_buff *skb* is allowed to pass (i.e.'',
    '' * 	if the verdict eBPF program returns **SK_PASS**), redirect it'',
    '' * 	to the socket referenced by *map* (of type'',
    '' * 	**BPF_MAP_TYPE_SOCKHASH**) using hash *key*. Both ingress and'',
    '' * 	egress interfaces can be used for redirection. The'',
    '' * 	**BPF_F_INGRESS** value in *flags* is used to make the'',
    '' * 	distinction (ingress path is selected if the flag is present,'',
    '' * 	egress otherwise). This is the only flag supported for now.'',
    '' *'',
    '' * Returns'',
    '' * 	**SK_PASS** on success, or **SK_DROP** on error.'',
    '' */'',
    ''static long ('' @ ''* const bpf_sk_redirect_hash)(struct __sk_buff *skb, void *map, void *key, __u64 flags) = (void *) 72;'']"

definition hdef_bpf_lwt_push_encap :: "string list" where
  "hdef_bpf_lwt_push_encap = [
    ''/*'',
    '' * bpf_lwt_push_encap'',
    '' *'',
    '' * 	Encapsulate the packet associated to *skb* within a Layer 3'',
    '' * 	protocol header. This header is provided in the buffer at'',
    '' * 	address *hdr*, with *len* its size in bytes. *type* indicates'',
    '' * 	the protocol of the header and can be one of:'',
    '' *'',
    '' * 	**BPF_LWT_ENCAP_SEG6**'',
    '' * 		IPv6 encapsulation with Segment Routing Header'',
    '' * 		('' @ ''**struct ipv6_sr_hdr**). *hdr* only contains the SRH,'',
    '' * 		the IPv6 header is computed by the kernel.'',
    '' * 	**BPF_LWT_ENCAP_SEG6_INLINE**'',
    '' * 		Only works if *skb* contains an IPv6 packet. Insert a'',
    '' * 		Segment Routing Header ('' @ ''**struct ipv6_sr_hdr**) inside'',
    '' * 		the IPv6 header.'',
    '' * 	**BPF_LWT_ENCAP_IP**'',
    '' * 		IP encapsulation (GRE/GUE/IPIP/etc). The outer header'',
    '' * 		must be IPv4 or IPv6, followed by zero or more'',
    '' * 		additional headers, up to **LWT_BPF_MAX_HEADROOM**'',
    '' * 		total bytes in all prepended headers. Please note that'',
    '' * 		if **skb_is_gso**'' @ bsl @ '' ('' @ ''*skb*) is true, no more than two'',
    '' * 		headers can be prepended, and the inner header, if'',
    '' * 		present, should be either GRE or UDP/GUE.'',
    '' *'',
    '' * 	**BPF_LWT_ENCAP_SEG6**'' @ bsl @ '' '' @ bsl @ ''* types can be called by BPF programs'',
    '' * 	of type **BPF_PROG_TYPE_LWT_IN**; **BPF_LWT_ENCAP_IP** type can'',
    '' * 	be called by bpf programs of types **BPF_PROG_TYPE_LWT_IN** and'',
    '' * 	**BPF_PROG_TYPE_LWT_XMIT**.'',
    '' *'',
    '' * 	A call to this helper is susceptible to change the underlying'',
    '' * 	packet buffer. Therefore, at load time, all checks on pointers'',
    '' * 	previously done by the verifier are invalidated and must be'',
    '' * 	performed again, if the helper is used in combination with'',
    '' * 	direct packet access.'',
    '' *'',
    '' * Returns'',
    '' * 	0 on success, or a negative error in case of failure.'',
    '' */'',
    ''static long ('' @ ''* const bpf_lwt_push_encap)(struct __sk_buff *skb, __u32 type, void *hdr, __u32 len) = (void *) 73;'']"

definition hdef_bpf_lwt_seg6_store_bytes :: "string list" where
  "hdef_bpf_lwt_seg6_store_bytes = [
    ''/*'',
    '' * bpf_lwt_seg6_store_bytes'',
    '' *'',
    '' * 	Store *len* bytes from address *from* into the packet'',
    '' * 	associated to *skb*, at *offset*. Only the flags, tag and TLVs'',
    '' * 	inside the outermost IPv6 Segment Routing Header can be'',
    '' * 	modified through this helper.'',
    '' *'',
    '' * 	A call to this helper is susceptible to change the underlying'',
    '' * 	packet buffer. Therefore, at load time, all checks on pointers'',
    '' * 	previously done by the verifier are invalidated and must be'',
    '' * 	performed again, if the helper is used in combination with'',
    '' * 	direct packet access.'',
    '' *'',
    '' * Returns'',
    '' * 	0 on success, or a negative error in case of failure.'',
    '' */'',
    ''static long ('' @ ''* const bpf_lwt_seg6_store_bytes)(struct __sk_buff *skb, __u32 offset, const void *from, __u32 len) = (void *) 74;'']"

definition hdef_bpf_lwt_seg6_adjust_srh :: "string list" where
  "hdef_bpf_lwt_seg6_adjust_srh = [
    ''/*'',
    '' * bpf_lwt_seg6_adjust_srh'',
    '' *'',
    '' * 	Adjust the size allocated to TLVs in the outermost IPv6'',
    '' * 	Segment Routing Header contained in the packet associated to'',
    '' * 	*skb*, at position *offset* by *delta* bytes. Only offsets'',
    '' * 	after the segments are accepted. *delta* can be as well'',
    '' * 	positive (growing) as negative (shrinking).'',
    '' *'',
    '' * 	A call to this helper is susceptible to change the underlying'',
    '' * 	packet buffer. Therefore, at load time, all checks on pointers'',
    '' * 	previously done by the verifier are invalidated and must be'',
    '' * 	performed again, if the helper is used in combination with'',
    '' * 	direct packet access.'',
    '' *'',
    '' * Returns'',
    '' * 	0 on success, or a negative error in case of failure.'',
    '' */'',
    ''static long ('' @ ''* const bpf_lwt_seg6_adjust_srh)(struct __sk_buff *skb, __u32 offset, __s32 delta) = (void *) 75;'']"

definition hdef_bpf_lwt_seg6_action :: "string list" where
  "hdef_bpf_lwt_seg6_action = [
    ''/*'',
    '' * bpf_lwt_seg6_action'',
    '' *'',
    '' * 	Apply an IPv6 Segment Routing action of type *action* to the'',
    '' * 	packet associated to *skb*. Each action takes a parameter'',
    '' * 	contained at address *param*, and of length *param_len* bytes.'',
    '' * 	*action* can be one of:'',
    '' *'',
    '' * 	**SEG6_LOCAL_ACTION_END_X**'',
    '' * 		End.X action: Endpoint with Layer-3 cross-connect.'',
    '' * 		Type of *param*: **struct in6_addr**.'',
    '' * 	**SEG6_LOCAL_ACTION_END_T**'',
    '' * 		End.T action: Endpoint with specific IPv6 table lookup.'',
    '' * 		Type of *param*: **int**.'',
    '' * 	**SEG6_LOCAL_ACTION_END_B6**'',
    '' * 		End.B6 action: Endpoint bound to an SRv6 policy.'',
    '' * 		Type of *param*: **struct ipv6_sr_hdr**.'',
    '' * 	**SEG6_LOCAL_ACTION_END_B6_ENCAP**'',
    '' * 		End.B6.Encap action: Endpoint bound to an SRv6'',
    '' * 		encapsulation policy.'',
    '' * 		Type of *param*: **struct ipv6_sr_hdr**.'',
    '' *'',
    '' * 	A call to this helper is susceptible to change the underlying'',
    '' * 	packet buffer. Therefore, at load time, all checks on pointers'',
    '' * 	previously done by the verifier are invalidated and must be'',
    '' * 	performed again, if the helper is used in combination with'',
    '' * 	direct packet access.'',
    '' *'',
    '' * Returns'',
    '' * 	0 on success, or a negative error in case of failure.'',
    '' */'',
    ''static long ('' @ ''* const bpf_lwt_seg6_action)(struct __sk_buff *skb, __u32 action, void *param, __u32 param_len) = (void *) 76;'']"

definition hdef_bpf_rc_repeat :: "string list" where
  "hdef_bpf_rc_repeat = [
    ''/*'',
    '' * bpf_rc_repeat'',
    '' *'',
    '' * 	This helper is used in programs implementing IR decoding, to'',
    '' * 	report a successfully decoded repeat key message. This delays'',
    '' * 	the generation of a key up event for previously generated'',
    '' * 	key down event.'',
    '' *'',
    '' * 	Some IR protocols like NEC have a special IR message for'',
    '' * 	repeating last button, for when a button is held down.'',
    '' *'',
    '' * 	The *ctx* should point to the lirc sample as passed into'',
    '' * 	the program.'',
    '' *'',
    '' * 	This helper is only available is the kernel was compiled with'',
    '' * 	the **CONFIG_BPF_LIRC_MODE2** configuration option set to'',
    '' * 	'' @ dq @ ''**y**'' @ dq @ ''.'',
    '' *'',
    '' * Returns'',
    '' * 	0'',
    '' */'',
    ''static long ('' @ ''* const bpf_rc_repeat)(void *ctx) = (void *) 77;'']"

definition hdef_bpf_rc_keydown :: "string list" where
  "hdef_bpf_rc_keydown = [
    ''/*'',
    '' * bpf_rc_keydown'',
    '' *'',
    '' * 	This helper is used in programs implementing IR decoding, to'',
    '' * 	report a successfully decoded key press with *scancode*,'',
    '' * 	*toggle* value in the given *protocol*. The scancode will be'',
    '' * 	translated to a keycode using the rc keymap, and reported as'',
    '' * 	an input key down event. After a period a key up event is'',
    '' * 	generated. This period can be extended by calling either'',
    '' * 	**bpf_rc_keydown**'' @ bsl @ '' () again with the same values, or calling'',
    '' * 	**bpf_rc_repeat**'' @ bsl @ '' ().'',
    '' *'',
    '' * 	Some protocols include a toggle bit, in case the button was'',
    '' * 	released and pressed again between consecutive scancodes.'',
    '' *'',
    '' * 	The *ctx* should point to the lirc sample as passed into'',
    '' * 	the program.'',
    '' *'',
    '' * 	The *protocol* is the decoded protocol number (see'',
    '' * 	**enum rc_proto** for some predefined values).'',
    '' *'',
    '' * 	This helper is only available is the kernel was compiled with'',
    '' * 	the **CONFIG_BPF_LIRC_MODE2** configuration option set to'',
    '' * 	'' @ dq @ ''**y**'' @ dq @ ''.'',
    '' *'',
    '' * Returns'',
    '' * 	0'',
    '' */'',
    ''static long ('' @ ''* const bpf_rc_keydown)(void *ctx, __u32 protocol, __u64 scancode, __u32 toggle) = (void *) 78;'']"

definition hdef_bpf_skb_cgroup_id :: "string list" where
  "hdef_bpf_skb_cgroup_id = [
    ''/*'',
    '' * bpf_skb_cgroup_id'',
    '' *'',
    '' * 	Return the cgroup v2 id of the socket associated with the *skb*.'',
    '' * 	This is roughly similar to the **bpf_get_cgroup_classid**'' @ bsl @ '' ()'',
    '' * 	helper for cgroup v1 by providing a tag resp. identifier that'',
    '' * 	can be matched on or used for map lookups e.g. to implement'',
    '' * 	policy. The cgroup v2 id of a given path in the hierarchy is'',
    '' * 	exposed in user space through the f_handle API in order to get'',
    '' * 	to the same 64-bit id.'',
    '' *'',
    '' * 	This helper can be used on TC egress path, but not on ingress,'',
    '' * 	and is available only if the kernel was compiled with the'',
    '' * 	**CONFIG_SOCK_CGROUP_DATA** configuration option.'',
    '' *'',
    '' * Returns'',
    '' * 	The id is returned or 0 in case the id could not be retrieved.'',
    '' */'',
    ''static __u64 ('' @ ''* const bpf_skb_cgroup_id)(struct __sk_buff *skb) = (void *) 79;'']"

definition hdef_bpf_get_current_cgroup_id :: "string list" where
  "hdef_bpf_get_current_cgroup_id = [
    ''/*'',
    '' * bpf_get_current_cgroup_id'',
    '' *'',
    '' * 	Get the current cgroup id based on the cgroup within which'',
    '' * 	the current task is running.'',
    '' *'',
    '' * Returns'',
    '' * 	A 64-bit integer containing the current cgroup id based'',
    '' * 	on the cgroup within which the current task is running.'',
    '' */'',
    ''static __u64 ('' @ ''* const bpf_get_current_cgroup_id)(void) = (void *) 80;'']"

definition hdef_bpf_get_local_storage :: "string list" where
  "hdef_bpf_get_local_storage = [
    ''/*'',
    '' * bpf_get_local_storage'',
    '' *'',
    '' * 	Get the pointer to the local storage area.'',
    '' * 	The type and the size of the local storage is defined'',
    '' * 	by the *map* argument.'',
    '' * 	The *flags* meaning is specific for each map type,'',
    '' * 	and has to be 0 for cgroup local storage.'',
    '' *'',
    '' * 	Depending on the BPF program type, a local storage area'',
    '' * 	can be shared between multiple instances of the BPF program,'',
    '' * 	running simultaneously.'',
    '' *'',
    '' * 	A user should care about the synchronization by himself.'',
    '' * 	For example, by using the **BPF_ATOMIC** instructions to alter'',
    '' * 	the shared data.'',
    '' *'',
    '' * Returns'',
    '' * 	A pointer to the local storage area.'',
    '' */'',
    ''static void *('' @ ''* const bpf_get_local_storage)(void *map, __u64 flags) = (void *) 81;'']"

definition hdef_bpf_sk_select_reuseport :: "string list" where
  "hdef_bpf_sk_select_reuseport = [
    ''/*'',
    '' * bpf_sk_select_reuseport'',
    '' *'',
    '' * 	Select a **SO_REUSEPORT** socket from a'',
    '' * 	**BPF_MAP_TYPE_REUSEPORT_SOCKARRAY** *map*.'',
    '' * 	It checks the selected socket is matching the incoming'',
    '' * 	request in the socket buffer.'',
    '' *'',
    '' * Returns'',
    '' * 	0 on success, or a negative error in case of failure.'',
    '' */'',
    ''static long ('' @ ''* const bpf_sk_select_reuseport)(struct sk_reuseport_md *reuse, void *map, void *key, __u64 flags) = (void *) 82;'']"

definition hdef_bpf_skb_ancestor_cgroup_id :: "string list" where
  "hdef_bpf_skb_ancestor_cgroup_id = [
    ''/*'',
    '' * bpf_skb_ancestor_cgroup_id'',
    '' *'',
    '' * 	Return id of cgroup v2 that is ancestor of cgroup associated'',
    '' * 	with the *skb* at the *ancestor_level*.  The root cgroup is at'',
    '' * 	*ancestor_level* zero and each step down the hierarchy'',
    '' * 	increments the level. If *ancestor_level* == level of cgroup'',
    '' * 	associated with *skb*, then return value will be same as that'',
    '' * 	of **bpf_skb_cgroup_id**'' @ bsl @ '' ().'',
    '' *'',
    '' * 	The helper is useful to implement policies based on cgroups'',
    '' * 	that are upper in hierarchy than immediate cgroup associated'',
    '' * 	with *skb*.'',
    '' *'',
    '' * 	The format of returned id and helper limitations are same as in'',
    '' * 	**bpf_skb_cgroup_id**'' @ bsl @ '' ().'',
    '' *'',
    '' * Returns'',
    '' * 	The id is returned or 0 in case the id could not be retrieved.'',
    '' */'',
    ''static __u64 ('' @ ''* const bpf_skb_ancestor_cgroup_id)(struct __sk_buff *skb, int ancestor_level) = (void *) 83;'']"

definition hdef_bpf_sk_lookup_tcp :: "string list" where
  "hdef_bpf_sk_lookup_tcp = [
    ''/*'',
    '' * bpf_sk_lookup_tcp'',
    '' *'',
    '' * 	Look for TCP socket matching *tuple*, optionally in a child'',
    '' * 	network namespace *netns*. The return value must be checked,'',
    '' * 	and if non-**NULL**, released via **bpf_sk_release**'' @ bsl @ '' ().'',
    '' *'',
    '' * 	The *ctx* should point to the context of the program, such as'',
    '' * 	the skb or socket (depending on the hook in use). This is used'',
    '' * 	to determine the base network namespace for the lookup.'',
    '' *'',
    '' * 	*tuple_size* must be one of:'',
    '' *'',
    '' * 	**sizeof**'' @ bsl @ '' ('' @ ''*tuple*'' @ bsl @ '' **->ipv4**)'',
    '' * 		Look for an IPv4 socket.'',
    '' * 	**sizeof**'' @ bsl @ '' ('' @ ''*tuple*'' @ bsl @ '' **->ipv6**)'',
    '' * 		Look for an IPv6 socket.'',
    '' *'',
    '' * 	If the *netns* is a negative signed 32-bit integer, then the'',
    '' * 	socket lookup table in the netns associated with the *ctx*'',
    '' * 	will be used. For the TC hooks, this is the netns of the device'',
    '' * 	in the skb. For socket hooks, this is the netns of the socket.'',
    '' * 	If *netns* is any other signed 32-bit value greater than or'',
    '' * 	equal to zero then it specifies the ID of the netns relative to'',
    '' * 	the netns associated with the *ctx*. *netns* values beyond the'',
    '' * 	range of 32-bit integers are reserved for future use.'',
    '' *'',
    '' * 	All values for *flags* are reserved for future usage, and must'',
    '' * 	be left at zero.'',
    '' *'',
    '' * 	This helper is available only if the kernel was compiled with'',
    '' * 	**CONFIG_NET** configuration option.'',
    '' *'',
    '' * Returns'',
    '' * 	Pointer to **struct bpf_sock**, or **NULL** in case of failure.'',
    '' * 	For sockets with reuseport option, the **struct bpf_sock**'',
    '' * 	result is from *reuse*'' @ bsl @ '' **->socks**'' @ bsl @ '' [] using the hash of the'',
    '' * 	tuple.'',
    '' */'',
    ''static struct bpf_sock *('' @ ''* const bpf_sk_lookup_tcp)(void *ctx, struct bpf_sock_tuple *tuple, __u32 tuple_size, __u64 netns, __u64 flags) = (void *) 84;'']"

definition hdef_bpf_sk_lookup_udp :: "string list" where
  "hdef_bpf_sk_lookup_udp = [
    ''/*'',
    '' * bpf_sk_lookup_udp'',
    '' *'',
    '' * 	Look for UDP socket matching *tuple*, optionally in a child'',
    '' * 	network namespace *netns*. The return value must be checked,'',
    '' * 	and if non-**NULL**, released via **bpf_sk_release**'' @ bsl @ '' ().'',
    '' *'',
    '' * 	The *ctx* should point to the context of the program, such as'',
    '' * 	the skb or socket (depending on the hook in use). This is used'',
    '' * 	to determine the base network namespace for the lookup.'',
    '' *'',
    '' * 	*tuple_size* must be one of:'',
    '' *'',
    '' * 	**sizeof**'' @ bsl @ '' ('' @ ''*tuple*'' @ bsl @ '' **->ipv4**)'',
    '' * 		Look for an IPv4 socket.'',
    '' * 	**sizeof**'' @ bsl @ '' ('' @ ''*tuple*'' @ bsl @ '' **->ipv6**)'',
    '' * 		Look for an IPv6 socket.'',
    '' *'',
    '' * 	If the *netns* is a negative signed 32-bit integer, then the'',
    '' * 	socket lookup table in the netns associated with the *ctx*'',
    '' * 	will be used. For the TC hooks, this is the netns of the device'',
    '' * 	in the skb. For socket hooks, this is the netns of the socket.'',
    '' * 	If *netns* is any other signed 32-bit value greater than or'',
    '' * 	equal to zero then it specifies the ID of the netns relative to'',
    '' * 	the netns associated with the *ctx*. *netns* values beyond the'',
    '' * 	range of 32-bit integers are reserved for future use.'',
    '' *'',
    '' * 	All values for *flags* are reserved for future usage, and must'',
    '' * 	be left at zero.'',
    '' *'',
    '' * 	This helper is available only if the kernel was compiled with'',
    '' * 	**CONFIG_NET** configuration option.'',
    '' *'',
    '' * Returns'',
    '' * 	Pointer to **struct bpf_sock**, or **NULL** in case of failure.'',
    '' * 	For sockets with reuseport option, the **struct bpf_sock**'',
    '' * 	result is from *reuse*'' @ bsl @ '' **->socks**'' @ bsl @ '' [] using the hash of the'',
    '' * 	tuple.'',
    '' */'',
    ''static struct bpf_sock *('' @ ''* const bpf_sk_lookup_udp)(void *ctx, struct bpf_sock_tuple *tuple, __u32 tuple_size, __u64 netns, __u64 flags) = (void *) 85;'']"

definition hdef_bpf_sk_release :: "string list" where
  "hdef_bpf_sk_release = [
    ''/*'',
    '' * bpf_sk_release'',
    '' *'',
    '' * 	Release the reference held by *sock*. *sock* must be a'',
    '' * 	non-**NULL** pointer that was returned from'',
    '' * 	**bpf_sk_lookup_xxx**'' @ bsl @ '' ().'',
    '' *'',
    '' * Returns'',
    '' * 	0 on success, or a negative error in case of failure.'',
    '' */'',
    ''static long ('' @ ''* const bpf_sk_release)(void *sock) = (void *) 86;'']"

definition hdef_bpf_map_push_elem :: "string list" where
  "hdef_bpf_map_push_elem = [
    ''/*'',
    '' * bpf_map_push_elem'',
    '' *'',
    '' * 	Push an element *value* in *map*. *flags* is one of:'',
    '' *'',
    '' * 	**BPF_EXIST**'',
    '' * 		If the queue/stack is full, the oldest element is'',
    '' * 		removed to make room for this.'',
    '' *'',
    '' * Returns'',
    '' * 	0 on success, or a negative error in case of failure.'',
    '' */'',
    ''static long ('' @ ''* const bpf_map_push_elem)(void *map, const void *value, __u64 flags) = (void *) 87;'']"

definition hdef_bpf_map_pop_elem :: "string list" where
  "hdef_bpf_map_pop_elem = [
    ''/*'',
    '' * bpf_map_pop_elem'',
    '' *'',
    '' * 	Pop an element from *map*.'',
    '' *'',
    '' * Returns'',
    '' * 	0 on success, or a negative error in case of failure.'',
    '' */'',
    ''static long ('' @ ''* const bpf_map_pop_elem)(void *map, void *value) = (void *) 88;'']"

definition hdef_bpf_map_peek_elem :: "string list" where
  "hdef_bpf_map_peek_elem = [
    ''/*'',
    '' * bpf_map_peek_elem'',
    '' *'',
    '' * 	Get an element from *map* without removing it.'',
    '' *'',
    '' * Returns'',
    '' * 	0 on success, or a negative error in case of failure.'',
    '' */'',
    ''static long ('' @ ''* const bpf_map_peek_elem)(void *map, void *value) = (void *) 89;'']"

definition hdef_bpf_msg_push_data :: "string list" where
  "hdef_bpf_msg_push_data = [
    ''/*'',
    '' * bpf_msg_push_data'',
    '' *'',
    '' * 	For socket policies, insert *len* bytes into *msg* at offset'',
    '' * 	*start*.'',
    '' *'',
    '' * 	If a program of type **BPF_PROG_TYPE_SK_MSG** is run on a'',
    '' * 	*msg* it may want to insert metadata or options into the *msg*.'',
    '' * 	This can later be read and used by any of the lower layer BPF'',
    '' * 	hooks.'',
    '' *'',
    '' * 	This helper may fail if under memory pressure (a malloc'',
    '' * 	fails) in these cases BPF programs will get an appropriate'',
    '' * 	error and BPF programs will need to handle them.'',
    '' *'',
    '' * Returns'',
    '' * 	0 on success, or a negative error in case of failure.'',
    '' */'',
    ''static long ('' @ ''* const bpf_msg_push_data)(struct sk_msg_md *msg, __u32 start, __u32 len, __u64 flags) = (void *) 90;'']"

definition hdef_bpf_msg_pop_data :: "string list" where
  "hdef_bpf_msg_pop_data = [
    ''/*'',
    '' * bpf_msg_pop_data'',
    '' *'',
    '' * 	Will remove *len* bytes from a *msg* starting at byte *start*.'',
    '' * 	This may result in **ENOMEM** errors under certain situations if'',
    '' * 	an allocation and copy are required due to a full ring buffer.'',
    '' * 	However, the helper will try to avoid doing the allocation'',
    '' * 	if possible. Other errors can occur if input parameters are'',
    '' * 	invalid either due to *start* byte not being valid part of *msg*'',
    '' * 	payload and/or *pop* value being to large.'',
    '' *'',
    '' * Returns'',
    '' * 	0 on success, or a negative error in case of failure.'',
    '' */'',
    ''static long ('' @ ''* const bpf_msg_pop_data)(struct sk_msg_md *msg, __u32 start, __u32 len, __u64 flags) = (void *) 91;'']"

definition hdef_bpf_rc_pointer_rel :: "string list" where
  "hdef_bpf_rc_pointer_rel = [
    ''/*'',
    '' * bpf_rc_pointer_rel'',
    '' *'',
    '' * 	This helper is used in programs implementing IR decoding, to'',
    '' * 	report a successfully decoded pointer movement.'',
    '' *'',
    '' * 	The *ctx* should point to the lirc sample as passed into'',
    '' * 	the program.'',
    '' *'',
    '' * 	This helper is only available is the kernel was compiled with'',
    '' * 	the **CONFIG_BPF_LIRC_MODE2** configuration option set to'',
    '' * 	'' @ dq @ ''**y**'' @ dq @ ''.'',
    '' *'',
    '' * Returns'',
    '' * 	0'',
    '' */'',
    ''static long ('' @ ''* const bpf_rc_pointer_rel)(void *ctx, __s32 rel_x, __s32 rel_y) = (void *) 92;'']"

definition hdef_bpf_spin_lock :: "string list" where
  "hdef_bpf_spin_lock = [
    ''/*'',
    '' * bpf_spin_lock'',
    '' *'',
    '' * 	Acquire a spinlock represented by the pointer *lock*, which is'',
    '' * 	stored as part of a value of a map. Taking the lock allows to'',
    '' * 	safely update the rest of the fields in that value. The'',
    '' * 	spinlock can (and must) later be released with a call to'',
    '' * 	**bpf_spin_unlock**'' @ bsl @ '' ('' @ bsl @ '' *lock*'' @ bsl @ '' ).'',
    '' *'',
    '' * 	Spinlocks in BPF programs come with a number of restrictions'',
    '' * 	and constraints:'',
    '' *'',
    '' * 	* **bpf_spin_lock** objects are only allowed inside maps of'',
    '' * 	  types **BPF_MAP_TYPE_HASH** and **BPF_MAP_TYPE_ARRAY** (this'',
    '' * 	  list could be extended in the future).'',
    '' * 	* BTF description of the map is mandatory.'',
    '' * 	* The BPF program can take ONE lock at a time, since taking two'',
    '' * 	  or more could cause dead locks.'',
    '' * 	* Only one **struct bpf_spin_lock** is allowed per map element.'',
    '' * 	* When the lock is taken, calls (either BPF to BPF or helpers)'',
    '' * 	  are not allowed.'',
    '' * 	* The **BPF_LD_ABS** and **BPF_LD_IND** instructions are not'',
    '' * 	  allowed inside a spinlock-ed region.'',
    '' * 	* The BPF program MUST call **bpf_spin_unlock**'' @ bsl @ '' () to release'',
    '' * 	  the lock, on all execution paths, before it returns.'',
    '' * 	* The BPF program can access **struct bpf_spin_lock** only via'',
    '' * 	  the **bpf_spin_lock**'' @ bsl @ '' () and **bpf_spin_unlock**'' @ bsl @ '' ()'',
    '' * 	  helpers. Loading or storing data into the **struct'',
    '' * 	  bpf_spin_lock** *lock*'' @ bsl @ '' **;** field of a map is not allowed.'',
    '' * 	* To use the **bpf_spin_lock**'' @ bsl @ '' () helper, the BTF description'',
    '' * 	  of the map value must be a struct and have **struct'',
    '' * 	  bpf_spin_lock** *anyname*'' @ bsl @ '' **;** field at the top level.'',
    '' * 	  Nested lock inside another struct is not allowed.'',
    '' * 	* The **struct bpf_spin_lock** *lock* field in a map value must'',
    '' * 	  be aligned on a multiple of 4 bytes in that value.'',
    '' * 	* Syscall with command **BPF_MAP_LOOKUP_ELEM** does not copy'',
    '' * 	  the **bpf_spin_lock** field to user space.'',
    '' * 	* Syscall with command **BPF_MAP_UPDATE_ELEM**, or update from'',
    '' * 	  a BPF program, do not update the **bpf_spin_lock** field.'',
    '' * 	* **bpf_spin_lock** cannot be on the stack or inside a'',
    '' * 	  networking packet (it can only be inside of a map values).'',
    '' * 	* **bpf_spin_lock** is available to root only.'',
    '' * 	* Tracing programs and socket filter programs cannot use'',
    '' * 	  **bpf_spin_lock**'' @ bsl @ '' () due to insufficient preemption checks'',
    '' * 	  (but this may change in the future).'',
    '' * 	* **bpf_spin_lock** is not allowed in inner maps of map-in-map.'',
    '' *'',
    '' * Returns'',
    '' * 	0'',
    '' */'',
    ''static long ('' @ ''* const bpf_spin_lock)(struct bpf_spin_lock *lock) = (void *) 93;'']"

definition hdef_bpf_spin_unlock :: "string list" where
  "hdef_bpf_spin_unlock = [
    ''/*'',
    '' * bpf_spin_unlock'',
    '' *'',
    '' * 	Release the *lock* previously locked by a call to'',
    '' * 	**bpf_spin_lock**'' @ bsl @ '' ('' @ bsl @ '' *lock*'' @ bsl @ '' ).'',
    '' *'',
    '' * Returns'',
    '' * 	0'',
    '' */'',
    ''static long ('' @ ''* const bpf_spin_unlock)(struct bpf_spin_lock *lock) = (void *) 94;'']"

definition hdef_bpf_sk_fullsock :: "string list" where
  "hdef_bpf_sk_fullsock = [
    ''/*'',
    '' * bpf_sk_fullsock'',
    '' *'',
    '' * 	This helper gets a **struct bpf_sock** pointer such'',
    '' * 	that all the fields in this **bpf_sock** can be accessed.'',
    '' *'',
    '' * Returns'',
    '' * 	A **struct bpf_sock** pointer on success, or **NULL** in'',
    '' * 	case of failure.'',
    '' */'',
    ''static struct bpf_sock *('' @ ''* const bpf_sk_fullsock)(struct bpf_sock *sk) = (void *) 95;'']"

definition hdef_bpf_tcp_sock :: "string list" where
  "hdef_bpf_tcp_sock = [
    ''/*'',
    '' * bpf_tcp_sock'',
    '' *'',
    '' * 	This helper gets a **struct bpf_tcp_sock** pointer from a'',
    '' * 	**struct bpf_sock** pointer.'',
    '' *'',
    '' * Returns'',
    '' * 	A **struct bpf_tcp_sock** pointer on success, or **NULL** in'',
    '' * 	case of failure.'',
    '' */'',
    ''static struct bpf_tcp_sock *('' @ ''* const bpf_tcp_sock)(struct bpf_sock *sk) = (void *) 96;'']"

definition hdef_bpf_skb_ecn_set_ce :: "string list" where
  "hdef_bpf_skb_ecn_set_ce = [
    ''/*'',
    '' * bpf_skb_ecn_set_ce'',
    '' *'',
    '' * 	Set ECN (Explicit Congestion Notification) field of IP header'',
    '' * 	to **CE** (Congestion Encountered) if current value is **ECT**'',
    '' * 	(ECN Capable Transport). Otherwise, do nothing. Works with IPv6'',
    '' * 	and IPv4.'',
    '' *'',
    '' * Returns'',
    '' * 	1 if the **CE** flag is set (either by the current helper call'',
    '' * 	or because it was already present), 0 if it is not set.'',
    '' */'',
    ''static long ('' @ ''* const bpf_skb_ecn_set_ce)(struct __sk_buff *skb) = (void *) 97;'']"

definition hdef_bpf_get_listener_sock :: "string list" where
  "hdef_bpf_get_listener_sock = [
    ''/*'',
    '' * bpf_get_listener_sock'',
    '' *'',
    '' * 	Return a **struct bpf_sock** pointer in **TCP_LISTEN** state.'',
    '' * 	**bpf_sk_release**'' @ bsl @ '' () is unnecessary and not allowed.'',
    '' *'',
    '' * Returns'',
    '' * 	A **struct bpf_sock** pointer on success, or **NULL** in'',
    '' * 	case of failure.'',
    '' */'',
    ''static struct bpf_sock *('' @ ''* const bpf_get_listener_sock)(struct bpf_sock *sk) = (void *) 98;'']"

definition hdef_bpf_skc_lookup_tcp :: "string list" where
  "hdef_bpf_skc_lookup_tcp = [
    ''/*'',
    '' * bpf_skc_lookup_tcp'',
    '' *'',
    '' * 	Look for TCP socket matching *tuple*, optionally in a child'',
    '' * 	network namespace *netns*. The return value must be checked,'',
    '' * 	and if non-**NULL**, released via **bpf_sk_release**'' @ bsl @ '' ().'',
    '' *'',
    '' * 	This function is identical to **bpf_sk_lookup_tcp**'' @ bsl @ '' (), except'',
    '' * 	that it also returns timewait or request sockets. Use'',
    '' * 	**bpf_sk_fullsock**'' @ bsl @ '' () or **bpf_tcp_sock**'' @ bsl @ '' () to access the'',
    '' * 	full structure.'',
    '' *'',
    '' * 	This helper is available only if the kernel was compiled with'',
    '' * 	**CONFIG_NET** configuration option.'',
    '' *'',
    '' * Returns'',
    '' * 	Pointer to **struct bpf_sock**, or **NULL** in case of failure.'',
    '' * 	For sockets with reuseport option, the **struct bpf_sock**'',
    '' * 	result is from *reuse*'' @ bsl @ '' **->socks**'' @ bsl @ '' [] using the hash of the'',
    '' * 	tuple.'',
    '' */'',
    ''static struct bpf_sock *('' @ ''* const bpf_skc_lookup_tcp)(void *ctx, struct bpf_sock_tuple *tuple, __u32 tuple_size, __u64 netns, __u64 flags) = (void *) 99;'']"

definition helperBlocksD :: "string list list" where
  "helperBlocksD = [hdef_bpf_msg_redirect_hash,
     hdef_bpf_sk_redirect_hash,
     hdef_bpf_lwt_push_encap,
     hdef_bpf_lwt_seg6_store_bytes,
     hdef_bpf_lwt_seg6_adjust_srh,
     hdef_bpf_lwt_seg6_action,
     hdef_bpf_rc_repeat,
     hdef_bpf_rc_keydown,
     hdef_bpf_skb_cgroup_id,
     hdef_bpf_get_current_cgroup_id,
     hdef_bpf_get_local_storage,
     hdef_bpf_sk_select_reuseport,
     hdef_bpf_skb_ancestor_cgroup_id,
     hdef_bpf_sk_lookup_tcp,
     hdef_bpf_sk_lookup_udp,
     hdef_bpf_sk_release,
     hdef_bpf_map_push_elem,
     hdef_bpf_map_pop_elem,
     hdef_bpf_map_peek_elem,
     hdef_bpf_msg_push_data,
     hdef_bpf_msg_pop_data,
     hdef_bpf_rc_pointer_rel,
     hdef_bpf_spin_lock,
     hdef_bpf_spin_unlock,
     hdef_bpf_sk_fullsock,
     hdef_bpf_tcp_sock,
     hdef_bpf_skb_ecn_set_ce,
     hdef_bpf_get_listener_sock,
     hdef_bpf_skc_lookup_tcp]"

end
