(* ===== verification/Helper_Defs_E.thy ===== *)
theory Helper_Defs_E
  imports Go_Library
begin

text \<open>
  The helper declarations of \<^verbatim>\<open>tools/genhelpers/data/bpf_helper_defs.h\<close>, lines 2509 to 3111: for each
  helper the lines of its comment and its declaration, as in the header.
\<close>

definition hdef_bpf_tcp_check_syncookie :: "string list" where
  "hdef_bpf_tcp_check_syncookie = [
    ''/*'',
    '' * bpf_tcp_check_syncookie'',
    '' *'',
    '' * 	Check whether *iph* and *th* contain a valid SYN cookie ACK for'',
    '' * 	the listening socket in *sk*.'',
    '' *'',
    '' * 	*iph* points to the start of the IPv4 or IPv6 header, while'',
    '' * 	*iph_len* contains **sizeof**'' @ bsl @ '' ('' @ ''**struct iphdr**) or'',
    '' * 	**sizeof**'' @ bsl @ '' ('' @ ''**struct ipv6hdr**).'',
    '' *'',
    '' * 	*th* points to the start of the TCP header, while *th_len*'',
    '' * 	contains the length of the TCP header (at least'',
    '' * 	**sizeof**'' @ bsl @ '' ('' @ ''**struct tcphdr**)).'',
    '' *'',
    '' * Returns'',
    '' * 	0 if *iph* and *th* are a valid SYN cookie ACK, or a negative'',
    '' * 	error otherwise.'',
    '' */'',
    ''static long ('' @ ''* const bpf_tcp_check_syncookie)(void *sk, void *iph, __u32 iph_len, struct tcphdr *th, __u32 th_len) = (void *) 100;'']"

definition hdef_bpf_sysctl_get_name :: "string list" where
  "hdef_bpf_sysctl_get_name = [
    ''/*'',
    '' * bpf_sysctl_get_name'',
    '' *'',
    '' * 	Get name of sysctl in /proc/sys/ and copy it into provided by'',
    '' * 	program buffer *buf* of size *buf_len*.'',
    '' *'',
    '' * 	The buffer is always NUL terminated, unless it's zero-sized.'',
    '' *'',
    '' * 	If *flags* is zero, full name (e.g. '' @ dq @ ''net/ipv4/tcp_mem'' @ dq @ '') is'',
    '' * 	copied. Use **BPF_F_SYSCTL_BASE_NAME** flag to copy base name'',
    '' * 	only (e.g. '' @ dq @ ''tcp_mem'' @ dq @ '').'',
    '' *'',
    '' * Returns'',
    '' * 	Number of character copied (not including the trailing NUL).'',
    '' *'',
    '' * 	**-E2BIG** if the buffer wasn't big enough ('' @ ''*buf* will contain'',
    '' * 	truncated name in this case).'',
    '' */'',
    ''static long ('' @ ''* const bpf_sysctl_get_name)(struct bpf_sysctl *ctx, char *buf, unsigned long buf_len, __u64 flags) = (void *) 101;'']"

definition hdef_bpf_sysctl_get_current_value :: "string list" where
  "hdef_bpf_sysctl_get_current_value = [
    ''/*'',
    '' * bpf_sysctl_get_current_value'',
    '' *'',
    '' * 	Get current value of sysctl as it is presented in /proc/sys'',
    '' * 	(incl. newline, etc), and copy it as a string into provided'',
    '' * 	by program buffer *buf* of size *buf_len*.'',
    '' *'',
    '' * 	The whole value is copied, no matter what file position user'',
    '' * 	space issued e.g. sys_read at.'',
    '' *'',
    '' * 	The buffer is always NUL terminated, unless it's zero-sized.'',
    '' *'',
    '' * Returns'',
    '' * 	Number of character copied (not including the trailing NUL).'',
    '' *'',
    '' * 	**-E2BIG** if the buffer wasn't big enough ('' @ ''*buf* will contain'',
    '' * 	truncated name in this case).'',
    '' *'',
    '' * 	**-EINVAL** if current value was unavailable, e.g. because'',
    '' * 	sysctl is uninitialized and read returns -EIO for it.'',
    '' */'',
    ''static long ('' @ ''* const bpf_sysctl_get_current_value)(struct bpf_sysctl *ctx, char *buf, unsigned long buf_len) = (void *) 102;'']"

definition hdef_bpf_sysctl_get_new_value :: "string list" where
  "hdef_bpf_sysctl_get_new_value = [
    ''/*'',
    '' * bpf_sysctl_get_new_value'',
    '' *'',
    '' * 	Get new value being written by user space to sysctl (before'',
    '' * 	the actual write happens) and copy it as a string into'',
    '' * 	provided by program buffer *buf* of size *buf_len*.'',
    '' *'',
    '' * 	User space may write new value at file position > 0.'',
    '' *'',
    '' * 	The buffer is always NUL terminated, unless it's zero-sized.'',
    '' *'',
    '' * Returns'',
    '' * 	Number of character copied (not including the trailing NUL).'',
    '' *'',
    '' * 	**-E2BIG** if the buffer wasn't big enough ('' @ ''*buf* will contain'',
    '' * 	truncated name in this case).'',
    '' *'',
    '' * 	**-EINVAL** if sysctl is being read.'',
    '' */'',
    ''static long ('' @ ''* const bpf_sysctl_get_new_value)(struct bpf_sysctl *ctx, char *buf, unsigned long buf_len) = (void *) 103;'']"

definition hdef_bpf_sysctl_set_new_value :: "string list" where
  "hdef_bpf_sysctl_set_new_value = [
    ''/*'',
    '' * bpf_sysctl_set_new_value'',
    '' *'',
    '' * 	Override new value being written by user space to sysctl with'',
    '' * 	value provided by program in buffer *buf* of size *buf_len*.'',
    '' *'',
    '' * 	*buf* should contain a string in same form as provided by user'',
    '' * 	space on sysctl write.'',
    '' *'',
    '' * 	User space may write new value at file position > 0. To override'',
    '' * 	the whole sysctl value file position should be set to zero.'',
    '' *'',
    '' * Returns'',
    '' * 	0 on success.'',
    '' *'',
    '' * 	**-E2BIG** if the *buf_len* is too big.'',
    '' *'',
    '' * 	**-EINVAL** if sysctl is being read.'',
    '' */'',
    ''static long ('' @ ''* const bpf_sysctl_set_new_value)(struct bpf_sysctl *ctx, const char *buf, unsigned long buf_len) = (void *) 104;'']"

definition hdef_bpf_strtol :: "string list" where
  "hdef_bpf_strtol = [
    ''/*'',
    '' * bpf_strtol'',
    '' *'',
    '' * 	Convert the initial part of the string from buffer *buf* of'',
    '' * 	size *buf_len* to a long integer according to the given base'',
    '' * 	and save the result in *res*.'',
    '' *'',
    '' * 	The string may begin with an arbitrary amount of white space'',
    '' * 	(as determined by **isspace**'' @ bsl @ '' (3)) followed by a single'',
    '' * 	optional '**-**' sign.'',
    '' *'',
    '' * 	Five least significant bits of *flags* encode base, other bits'',
    '' * 	are currently unused.'',
    '' *'',
    '' * 	Base must be either 8, 10, 16 or 0 to detect it automatically'',
    '' * 	similar to user space **strtol**'' @ bsl @ '' (3).'',
    '' *'',
    '' * Returns'',
    '' * 	Number of characters consumed on success. Must be positive but'',
    '' * 	no more than *buf_len*.'',
    '' *'',
    '' * 	**-EINVAL** if no valid digits were found or unsupported base'',
    '' * 	was provided.'',
    '' *'',
    '' * 	**-ERANGE** if resulting value was out of range.'',
    '' */'',
    ''static long ('' @ ''* const bpf_strtol)(const char *buf, unsigned long buf_len, __u64 flags, long *res) = (void *) 105;'']"

definition hdef_bpf_strtoul :: "string list" where
  "hdef_bpf_strtoul = [
    ''/*'',
    '' * bpf_strtoul'',
    '' *'',
    '' * 	Convert the initial part of the string from buffer *buf* of'',
    '' * 	size *buf_len* to an unsigned long integer according to the'',
    '' * 	given base and save the result in *res*.'',
    '' *'',
    '' * 	The string may begin with an arbitrary amount of white space'',
    '' * 	(as determined by **isspace**'' @ bsl @ '' (3)).'',
    '' *'',
    '' * 	Five least significant bits of *flags* encode base, other bits'',
    '' * 	are currently unused.'',
    '' *'',
    '' * 	Base must be either 8, 10, 16 or 0 to detect it automatically'',
    '' * 	similar to user space **strtoul**'' @ bsl @ '' (3).'',
    '' *'',
    '' * Returns'',
    '' * 	Number of characters consumed on success. Must be positive but'',
    '' * 	no more than *buf_len*.'',
    '' *'',
    '' * 	**-EINVAL** if no valid digits were found or unsupported base'',
    '' * 	was provided.'',
    '' *'',
    '' * 	**-ERANGE** if resulting value was out of range.'',
    '' */'',
    ''static long ('' @ ''* const bpf_strtoul)(const char *buf, unsigned long buf_len, __u64 flags, unsigned long *res) = (void *) 106;'']"

definition hdef_bpf_sk_storage_get :: "string list" where
  "hdef_bpf_sk_storage_get = [
    ''/*'',
    '' * bpf_sk_storage_get'',
    '' *'',
    '' * 	Get a bpf-local-storage from a *sk*.'',
    '' *'',
    '' * 	Logically, it could be thought of getting the value from'',
    '' * 	a *map* with *sk* as the **key**.  From this'',
    '' * 	perspective,  the usage is not much different from'',
    '' * 	**bpf_map_lookup_elem**'' @ bsl @ '' ('' @ ''*map*, **&**'' @ bsl @ '' *sk*) except this'',
    '' * 	helper enforces the key must be a full socket and the map must'',
    '' * 	be a **BPF_MAP_TYPE_SK_STORAGE** also.'',
    '' *'',
    '' * 	Underneath, the value is stored locally at *sk* instead of'',
    '' * 	the *map*.  The *map* is used as the bpf-local-storage'',
    '' * 	'' @ dq @ ''type'' @ dq @ ''. The bpf-local-storage '' @ dq @ ''type'' @ dq @ '' (i.e. the *map*) is'',
    '' * 	searched against all bpf-local-storages residing at *sk*.'',
    '' *'',
    '' * 	*sk* is a kernel **struct sock** pointer for LSM program.'',
    '' * 	*sk* is a **struct bpf_sock** pointer for other program types.'',
    '' *'',
    '' * 	An optional *flags* ('' @ ''**BPF_SK_STORAGE_GET_F_CREATE**) can be'',
    '' * 	used such that a new bpf-local-storage will be'',
    '' * 	created if one does not exist.  *value* can be used'',
    '' * 	together with **BPF_SK_STORAGE_GET_F_CREATE** to specify'',
    '' * 	the initial value of a bpf-local-storage.  If *value* is'',
    '' * 	**NULL**, the new bpf-local-storage will be zero initialized.'',
    '' *'',
    '' * Returns'',
    '' * 	A bpf-local-storage pointer is returned on success.'',
    '' *'',
    '' * 	**NULL** if not found or there was an error in adding'',
    '' * 	a new bpf-local-storage.'',
    '' */'',
    ''static void *('' @ ''* const bpf_sk_storage_get)(void *map, void *sk, void *value, __u64 flags) = (void *) 107;'']"

definition hdef_bpf_sk_storage_delete :: "string list" where
  "hdef_bpf_sk_storage_delete = [
    ''/*'',
    '' * bpf_sk_storage_delete'',
    '' *'',
    '' * 	Delete a bpf-local-storage from a *sk*.'',
    '' *'',
    '' * Returns'',
    '' * 	0 on success.'',
    '' *'',
    '' * 	**-ENOENT** if the bpf-local-storage cannot be found.'',
    '' * 	**-EINVAL** if sk is not a fullsock (e.g. a request_sock).'',
    '' */'',
    ''static long ('' @ ''* const bpf_sk_storage_delete)(void *map, void *sk) = (void *) 108;'']"

definition hdef_bpf_send_signal :: "string list" where
  "hdef_bpf_send_signal = [
    ''/*'',
    '' * bpf_send_signal'',
    '' *'',
    '' * 	Send signal *sig* to the process of the current task.'',
    '' * 	The signal may be delivered to any of this process's threads.'',
    '' *'',
    '' * Returns'',
    '' * 	0 on success or successfully queued.'',
    '' *'',
    '' * 	**-EBUSY** if work queue under nmi is full.'',
    '' *'',
    '' * 	**-EINVAL** if *sig* is invalid.'',
    '' *'',
    '' * 	**-EPERM** if no permission to send the *sig*.'',
    '' *'',
    '' * 	**-EAGAIN** if bpf program can try again.'',
    '' */'',
    ''static long ('' @ ''* const bpf_send_signal)(__u32 sig) = (void *) 109;'']"

definition hdef_bpf_tcp_gen_syncookie :: "string list" where
  "hdef_bpf_tcp_gen_syncookie = [
    ''/*'',
    '' * bpf_tcp_gen_syncookie'',
    '' *'',
    '' * 	Try to issue a SYN cookie for the packet with corresponding'',
    '' * 	IP/TCP headers, *iph* and *th*, on the listening socket in *sk*.'',
    '' *'',
    '' * 	*iph* points to the start of the IPv4 or IPv6 header, while'',
    '' * 	*iph_len* contains **sizeof**'' @ bsl @ '' ('' @ ''**struct iphdr**) or'',
    '' * 	**sizeof**'' @ bsl @ '' ('' @ ''**struct ipv6hdr**).'',
    '' *'',
    '' * 	*th* points to the start of the TCP header, while *th_len*'',
    '' * 	contains the length of the TCP header with options (at least'',
    '' * 	**sizeof**'' @ bsl @ '' ('' @ ''**struct tcphdr**)).'',
    '' *'',
    '' * Returns'',
    '' * 	On success, lower 32 bits hold the generated SYN cookie in'',
    '' * 	followed by 16 bits which hold the MSS value for that cookie,'',
    '' * 	and the top 16 bits are unused.'',
    '' *'',
    '' * 	On failure, the returned value is one of the following:'',
    '' *'',
    '' * 	**-EINVAL** SYN cookie cannot be issued due to error'',
    '' *'',
    '' * 	**-ENOENT** SYN cookie should not be issued (no SYN flood)'',
    '' *'',
    '' * 	**-EOPNOTSUPP** kernel configuration does not enable SYN cookies'',
    '' *'',
    '' * 	**-EPROTONOSUPPORT** IP packet version is not 4 or 6'',
    '' */'',
    ''static __s64 ('' @ ''* const bpf_tcp_gen_syncookie)(void *sk, void *iph, __u32 iph_len, struct tcphdr *th, __u32 th_len) = (void *) 110;'']"

definition hdef_bpf_skb_output :: "string list" where
  "hdef_bpf_skb_output = [
    ''/*'',
    '' * bpf_skb_output'',
    '' *'',
    '' * 	Write raw *data* blob into a special BPF perf event held by'',
    '' * 	*map* of type **BPF_MAP_TYPE_PERF_EVENT_ARRAY**. This perf'',
    '' * 	event must have the following attributes: **PERF_SAMPLE_RAW**'',
    '' * 	as **sample_type**, **PERF_TYPE_SOFTWARE** as **type**, and'',
    '' * 	**PERF_COUNT_SW_BPF_OUTPUT** as **config**.'',
    '' *'',
    '' * 	The *flags* are used to indicate the index in *map* for which'',
    '' * 	the value must be put, masked with **BPF_F_INDEX_MASK**.'',
    '' * 	Alternatively, *flags* can be set to **BPF_F_CURRENT_CPU**'',
    '' * 	to indicate that the index of the current CPU core should be'',
    '' * 	used.'',
    '' *'',
    '' * 	The value to write, of *size*, is passed through eBPF stack and'',
    '' * 	pointed by *data*.'',
    '' *'',
    '' * 	*ctx* is a pointer to in-kernel struct sk_buff.'',
    '' *'',
    '' * 	This helper is similar to **bpf_perf_event_output**'' @ bsl @ '' () but'',
    '' * 	restricted to raw_tracepoint bpf programs.'',
    '' *'',
    '' * Returns'',
    '' * 	0 on success, or a negative error in case of failure.'',
    '' */'',
    ''static long ('' @ ''* const bpf_skb_output)(void *ctx, void *map, __u64 flags, void *data, __u64 size) = (void *) 111;'']"

definition hdef_bpf_probe_read_user :: "string list" where
  "hdef_bpf_probe_read_user = [
    ''/*'',
    '' * bpf_probe_read_user'',
    '' *'',
    '' * 	Safely attempt to read *size* bytes from user space address'',
    '' * 	*unsafe_ptr* and store the data in *dst*.'',
    '' *'',
    '' * Returns'',
    '' * 	0 on success, or a negative error in case of failure.'',
    '' */'',
    ''static long ('' @ ''* const bpf_probe_read_user)(void *dst, __u32 size, const void *unsafe_ptr) = (void *) 112;'']"

definition hdef_bpf_probe_read_kernel :: "string list" where
  "hdef_bpf_probe_read_kernel = [
    ''/*'',
    '' * bpf_probe_read_kernel'',
    '' *'',
    '' * 	Safely attempt to read *size* bytes from kernel space address'',
    '' * 	*unsafe_ptr* and store the data in *dst*.'',
    '' *'',
    '' * Returns'',
    '' * 	0 on success, or a negative error in case of failure.'',
    '' */'',
    ''static long ('' @ ''* const bpf_probe_read_kernel)(void *dst, __u32 size, const void *unsafe_ptr) = (void *) 113;'']"

definition hdef_bpf_probe_read_user_str :: "string list" where
  "hdef_bpf_probe_read_user_str = [
    ''/*'',
    '' * bpf_probe_read_user_str'',
    '' *'',
    '' * 	Copy a NUL terminated string from an unsafe user address'',
    '' * 	*unsafe_ptr* to *dst*. The *size* should include the'',
    '' * 	terminating NUL byte. In case the string length is smaller than'',
    '' * 	*size*, the target is not padded with further NUL bytes. If the'',
    '' * 	string length is larger than *size*, just *size*-1 bytes are'',
    '' * 	copied and the last byte is set to NUL.'',
    '' *'',
    '' * 	On success, returns the number of bytes that were written,'',
    '' * 	including the terminal NUL. This makes this helper useful in'',
    '' * 	tracing programs for reading strings, and more importantly to'',
    '' * 	get its length at runtime. See the following snippet:'',
    '' *'',
    '' * 	::'',
    '' *'',
    '' * 		SEC('' @ dq @ ''kprobe/sys_open'' @ dq @ '')'',
    '' * 		void bpf_sys_open(struct pt_regs *ctx)'',
    '' * 		{'',
    '' * 		        char buf[PATHLEN]; // PATHLEN is defined to 256'',
    '' * 		        int res = bpf_probe_read_user_str(buf, sizeof(buf),'',
    '' * 			                                  ctx->di);'',
    '' *'',
    '' * 			// Consume buf, for example push it to'',
    '' * 			// userspace via bpf_perf_event_output(); we'',
    '' * 			// can use res (the string length) as event'',
    '' * 			// size, after checking its boundaries.'',
    '' * 		}'',
    '' *'',
    '' * 	In comparison, using **bpf_probe_read_user**'' @ bsl @ '' () helper here'',
    '' * 	instead to read the string would require to estimate the length'',
    '' * 	at compile time, and would often result in copying more memory'',
    '' * 	than necessary.'',
    '' *'',
    '' * 	Another useful use case is when parsing individual process'',
    '' * 	arguments or individual environment variables navigating'',
    '' * 	*current*'' @ bsl @ '' **->mm->arg_start** and *current*'' @ bsl,
    '' * 	**->mm->env_start**: using this helper and the return value,'',
    '' * 	one can quickly iterate at the right offset of the memory area.'',
    '' *'',
    '' * Returns'',
    '' * 	On success, the strictly positive length of the output string,'',
    '' * 	including the trailing NUL character. On error, a negative'',
    '' * 	value.'',
    '' */'',
    ''static long ('' @ ''* const bpf_probe_read_user_str)(void *dst, __u32 size, const void *unsafe_ptr) = (void *) 114;'']"

definition hdef_bpf_probe_read_kernel_str :: "string list" where
  "hdef_bpf_probe_read_kernel_str = [
    ''/*'',
    '' * bpf_probe_read_kernel_str'',
    '' *'',
    '' * 	Copy a NUL terminated string from an unsafe kernel address *unsafe_ptr*'',
    '' * 	to *dst*. Same semantics as with **bpf_probe_read_user_str**'' @ bsl @ '' () apply.'',
    '' *'',
    '' * Returns'',
    '' * 	On success, the strictly positive length of the string, including'',
    '' * 	the trailing NUL character. On error, a negative value.'',
    '' */'',
    ''static long ('' @ ''* const bpf_probe_read_kernel_str)(void *dst, __u32 size, const void *unsafe_ptr) = (void *) 115;'']"

definition hdef_bpf_tcp_send_ack :: "string list" where
  "hdef_bpf_tcp_send_ack = [
    ''/*'',
    '' * bpf_tcp_send_ack'',
    '' *'',
    '' * 	Send out a tcp-ack. *tp* is the in-kernel struct **tcp_sock**.'',
    '' * 	*rcv_nxt* is the ack_seq to be sent out.'',
    '' *'',
    '' * Returns'',
    '' * 	0 on success, or a negative error in case of failure.'',
    '' */'',
    ''static long ('' @ ''* const bpf_tcp_send_ack)(void *tp, __u32 rcv_nxt) = (void *) 116;'']"

definition hdef_bpf_send_signal_thread :: "string list" where
  "hdef_bpf_send_signal_thread = [
    ''/*'',
    '' * bpf_send_signal_thread'',
    '' *'',
    '' * 	Send signal *sig* to the thread corresponding to the current task.'',
    '' *'',
    '' * Returns'',
    '' * 	0 on success or successfully queued.'',
    '' *'',
    '' * 	**-EBUSY** if work queue under nmi is full.'',
    '' *'',
    '' * 	**-EINVAL** if *sig* is invalid.'',
    '' *'',
    '' * 	**-EPERM** if no permission to send the *sig*.'',
    '' *'',
    '' * 	**-EAGAIN** if bpf program can try again.'',
    '' */'',
    ''static long ('' @ ''* const bpf_send_signal_thread)(__u32 sig) = (void *) 117;'']"

definition hdef_bpf_jiffies64 :: "string list" where
  "hdef_bpf_jiffies64 = [
    ''/*'',
    '' * bpf_jiffies64'',
    '' *'',
    '' * 	Obtain the 64bit jiffies'',
    '' *'',
    '' * Returns'',
    '' * 	The 64 bit jiffies'',
    '' */'',
    ''static __u64 ('' @ ''* const bpf_jiffies64)(void) = (void *) 118;'']"

definition hdef_bpf_read_branch_records :: "string list" where
  "hdef_bpf_read_branch_records = [
    ''/*'',
    '' * bpf_read_branch_records'',
    '' *'',
    '' * 	For an eBPF program attached to a perf event, retrieve the'',
    '' * 	branch records ('' @ ''**struct perf_branch_entry**) associated to *ctx*'',
    '' * 	and store it in the buffer pointed by *buf* up to size'',
    '' * 	*size* bytes.'',
    '' *'',
    '' * Returns'',
    '' * 	On success, number of bytes written to *buf*. On error, a'',
    '' * 	negative value.'',
    '' *'',
    '' * 	The *flags* can be set to **BPF_F_GET_BRANCH_RECORDS_SIZE** to'',
    '' * 	instead return the number of bytes required to store all the'',
    '' * 	branch entries. If this flag is set, *buf* may be NULL.'',
    '' *'',
    '' * 	**-EINVAL** if arguments invalid or **size** not a multiple'',
    '' * 	of **sizeof**'' @ bsl @ '' ('' @ ''**struct perf_branch_entry**'' @ bsl @ '' ).'',
    '' *'',
    '' * 	**-ENOENT** if architecture does not support branch records.'',
    '' */'',
    ''static long ('' @ ''* const bpf_read_branch_records)(struct bpf_perf_event_data *ctx, void *buf, __u32 size, __u64 flags) = (void *) 119;'']"

definition hdef_bpf_get_ns_current_pid_tgid :: "string list" where
  "hdef_bpf_get_ns_current_pid_tgid = [
    ''/*'',
    '' * bpf_get_ns_current_pid_tgid'',
    '' *'',
    '' * 	Returns 0 on success, values for *pid* and *tgid* as seen from the current'',
    '' * 	*namespace* will be returned in *nsdata*.'',
    '' *'',
    '' * Returns'',
    '' * 	0 on success, or one of the following in case of failure:'',
    '' *'',
    '' * 	**-EINVAL** if dev and inum supplied don't match dev_t and inode number'',
    '' * 	with nsfs of current task, or if dev conversion to dev_t lost high bits.'',
    '' *'',
    '' * 	**-ENOENT** if pidns does not exists for the current task.'',
    '' */'',
    ''static long ('' @ ''* const bpf_get_ns_current_pid_tgid)(__u64 dev, __u64 ino, struct bpf_pidns_info *nsdata, __u32 size) = (void *) 120;'']"

definition hdef_bpf_xdp_output :: "string list" where
  "hdef_bpf_xdp_output = [
    ''/*'',
    '' * bpf_xdp_output'',
    '' *'',
    '' * 	Write raw *data* blob into a special BPF perf event held by'',
    '' * 	*map* of type **BPF_MAP_TYPE_PERF_EVENT_ARRAY**. This perf'',
    '' * 	event must have the following attributes: **PERF_SAMPLE_RAW**'',
    '' * 	as **sample_type**, **PERF_TYPE_SOFTWARE** as **type**, and'',
    '' * 	**PERF_COUNT_SW_BPF_OUTPUT** as **config**.'',
    '' *'',
    '' * 	The *flags* are used to indicate the index in *map* for which'',
    '' * 	the value must be put, masked with **BPF_F_INDEX_MASK**.'',
    '' * 	Alternatively, *flags* can be set to **BPF_F_CURRENT_CPU**'',
    '' * 	to indicate that the index of the current CPU core should be'',
    '' * 	used.'',
    '' *'',
    '' * 	The value to write, of *size*, is passed through eBPF stack and'',
    '' * 	pointed by *data*.'',
    '' *'',
    '' * 	*ctx* is a pointer to in-kernel struct xdp_buff.'',
    '' *'',
    '' * 	This helper is similar to **bpf_perf_eventoutput**'' @ bsl @ '' () but'',
    '' * 	restricted to raw_tracepoint bpf programs.'',
    '' *'',
    '' * Returns'',
    '' * 	0 on success, or a negative error in case of failure.'',
    '' */'',
    ''static long ('' @ ''* const bpf_xdp_output)(void *ctx, void *map, __u64 flags, void *data, __u64 size) = (void *) 121;'']"

definition hdef_bpf_get_netns_cookie :: "string list" where
  "hdef_bpf_get_netns_cookie = [
    ''/*'',
    '' * bpf_get_netns_cookie'',
    '' *'',
    '' * 	Retrieve the cookie (generated by the kernel) of the network'',
    '' * 	namespace the input *ctx* is associated with. The network'',
    '' * 	namespace cookie remains stable for its lifetime and provides'',
    '' * 	a global identifier that can be assumed unique. If *ctx* is'',
    '' * 	NULL, then the helper returns the cookie for the initial'',
    '' * 	network namespace. The cookie itself is very similar to that'',
    '' * 	of **bpf_get_socket_cookie**'' @ bsl @ '' () helper, but for network'',
    '' * 	namespaces instead of sockets.'',
    '' *'',
    '' * Returns'',
    '' * 	A 8-byte long opaque number.'',
    '' */'',
    ''static __u64 ('' @ ''* const bpf_get_netns_cookie)(void *ctx) = (void *) 122;'']"

definition hdef_bpf_get_current_ancestor_cgroup_id :: "string list" where
  "hdef_bpf_get_current_ancestor_cgroup_id = [
    ''/*'',
    '' * bpf_get_current_ancestor_cgroup_id'',
    '' *'',
    '' * 	Return id of cgroup v2 that is ancestor of the cgroup associated'',
    '' * 	with the current task at the *ancestor_level*. The root cgroup'',
    '' * 	is at *ancestor_level* zero and each step down the hierarchy'',
    '' * 	increments the level. If *ancestor_level* == level of cgroup'',
    '' * 	associated with the current task, then return value will be the'',
    '' * 	same as that of **bpf_get_current_cgroup_id**'' @ bsl @ '' ().'',
    '' *'',
    '' * 	The helper is useful to implement policies based on cgroups'',
    '' * 	that are upper in hierarchy than immediate cgroup associated'',
    '' * 	with the current task.'',
    '' *'',
    '' * 	The format of returned id and helper limitations are same as in'',
    '' * 	**bpf_get_current_cgroup_id**'' @ bsl @ '' ().'',
    '' *'',
    '' * Returns'',
    '' * 	The id is returned or 0 in case the id could not be retrieved.'',
    '' */'',
    ''static __u64 ('' @ ''* const bpf_get_current_ancestor_cgroup_id)(int ancestor_level) = (void *) 123;'']"

definition hdef_bpf_sk_assign :: "string list" where
  "hdef_bpf_sk_assign = [
    ''/*'',
    '' * bpf_sk_assign'',
    '' *'',
    '' * 	Helper is overloaded depending on BPF program type. This'',
    '' * 	description applies to **BPF_PROG_TYPE_SCHED_CLS** and'',
    '' * 	**BPF_PROG_TYPE_SCHED_ACT** programs.'',
    '' *'',
    '' * 	Assign the *sk* to the *skb*. When combined with appropriate'',
    '' * 	routing configuration to receive the packet towards the socket,'',
    '' * 	will cause *skb* to be delivered to the specified socket.'',
    '' * 	Subsequent redirection of *skb* via  **bpf_redirect**'' @ bsl @ '' (),'',
    '' * 	**bpf_clone_redirect**'' @ bsl @ '' () or other methods outside of BPF may'',
    '' * 	interfere with successful delivery to the socket.'',
    '' *'',
    '' * 	This operation is only valid from TC ingress path.'',
    '' *'',
    '' * 	The *flags* argument must be zero.'',
    '' *'',
    '' * Returns'',
    '' * 	0 on success, or a negative error in case of failure:'',
    '' *'',
    '' * 	**-EINVAL** if specified *flags* are not supported.'',
    '' *'',
    '' * 	**-ENOENT** if the socket is unavailable for assignment.'',
    '' *'',
    '' * 	**-ENETUNREACH** if the socket is unreachable (wrong netns).'',
    '' *'',
    '' * 	**-EOPNOTSUPP** if the operation is not supported, for example'',
    '' * 	a call from outside of TC ingress.'',
    '' */'',
    ''static long ('' @ ''* const bpf_sk_assign)(void *ctx, void *sk, __u64 flags) = (void *) 124;'']"

definition hdef_bpf_ktime_get_boot_ns :: "string list" where
  "hdef_bpf_ktime_get_boot_ns = [
    ''/*'',
    '' * bpf_ktime_get_boot_ns'',
    '' *'',
    '' * 	Return the time elapsed since system boot, in nanoseconds.'',
    '' * 	Does include the time the system was suspended.'',
    '' * 	See: **clock_gettime**'' @ bsl @ '' ('' @ ''**CLOCK_BOOTTIME**)'',
    '' *'',
    '' * Returns'',
    '' * 	Current *ktime*.'',
    '' */'',
    ''static __u64 ('' @ ''* const bpf_ktime_get_boot_ns)(void) = (void *) 125;'']"

definition hdef_bpf_seq_printf :: "string list" where
  "hdef_bpf_seq_printf = [
    ''/*'',
    '' * bpf_seq_printf'',
    '' *'',
    '' * 	**bpf_seq_printf**'' @ bsl @ '' () uses seq_file **seq_printf**'' @ bsl @ '' () to print'',
    '' * 	out the format string.'',
    '' * 	The *m* represents the seq_file. The *fmt* and *fmt_size* are for'',
    '' * 	the format string itself. The *data* and *data_len* are format string'',
    '' * 	arguments. The *data* are a **u64** array and corresponding format string'',
    '' * 	values are stored in the array. For strings and pointers where pointees'',
    '' * 	are accessed, only the pointer values are stored in the *data* array.'',
    '' * 	The *data_len* is the size of *data* in bytes - must be a multiple of 8.'',
    '' *'',
    '' * 	Formats **%s**, **%p{i,I}{4,6}** requires to read kernel memory.'',
    '' * 	Reading kernel memory may fail due to either invalid address or'',
    '' * 	valid address but requiring a major memory fault. If reading kernel memory'',
    '' * 	fails, the string for **%s** will be an empty string, and the ip'',
    '' * 	address for **%p{i,I}{4,6}** will be 0. Not returning error to'',
    '' * 	bpf program is consistent with what **bpf_trace_printk**'' @ bsl @ '' () does for now.'',
    '' *'',
    '' * Returns'',
    '' * 	0 on success, or a negative error in case of failure:'',
    '' *'',
    '' * 	**-EBUSY** if per-CPU memory copy buffer is busy, can try again'',
    '' * 	by returning 1 from bpf program.'',
    '' *'',
    '' * 	**-EINVAL** if arguments are invalid, or if *fmt* is invalid/unsupported.'',
    '' *'',
    '' * 	**-E2BIG** if *fmt* contains too many format specifiers.'',
    '' *'',
    '' * 	**-EOVERFLOW** if an overflow happened: The same object will be tried again.'',
    '' */'',
    ''static long ('' @ ''* const bpf_seq_printf)(struct seq_file *m, const char *fmt, __u32 fmt_size, const void *data, __u32 data_len) = (void *) 126;'']"

definition hdef_bpf_seq_write :: "string list" where
  "hdef_bpf_seq_write = [
    ''/*'',
    '' * bpf_seq_write'',
    '' *'',
    '' * 	**bpf_seq_write**'' @ bsl @ '' () uses seq_file **seq_write**'' @ bsl @ '' () to write the data.'',
    '' * 	The *m* represents the seq_file. The *data* and *len* represent the'',
    '' * 	data to write in bytes.'',
    '' *'',
    '' * Returns'',
    '' * 	0 on success, or a negative error in case of failure:'',
    '' *'',
    '' * 	**-EOVERFLOW** if an overflow happened: The same object will be tried again.'',
    '' */'',
    ''static long ('' @ ''* const bpf_seq_write)(struct seq_file *m, const void *data, __u32 len) = (void *) 127;'']"

definition helperBlocksE :: "string list list" where
  "helperBlocksE = [hdef_bpf_tcp_check_syncookie,
     hdef_bpf_sysctl_get_name,
     hdef_bpf_sysctl_get_current_value,
     hdef_bpf_sysctl_get_new_value,
     hdef_bpf_sysctl_set_new_value,
     hdef_bpf_strtol,
     hdef_bpf_strtoul,
     hdef_bpf_sk_storage_get,
     hdef_bpf_sk_storage_delete,
     hdef_bpf_send_signal,
     hdef_bpf_tcp_gen_syncookie,
     hdef_bpf_skb_output,
     hdef_bpf_probe_read_user,
     hdef_bpf_probe_read_kernel,
     hdef_bpf_probe_read_user_str,
     hdef_bpf_probe_read_kernel_str,
     hdef_bpf_tcp_send_ack,
     hdef_bpf_send_signal_thread,
     hdef_bpf_jiffies64,
     hdef_bpf_read_branch_records,
     hdef_bpf_get_ns_current_pid_tgid,
     hdef_bpf_xdp_output,
     hdef_bpf_get_netns_cookie,
     hdef_bpf_get_current_ancestor_cgroup_id,
     hdef_bpf_sk_assign,
     hdef_bpf_ktime_get_boot_ns,
     hdef_bpf_seq_printf,
     hdef_bpf_seq_write]"

end
