(* ===== verification/Helper_Defs_F.thy ===== *)
theory Helper_Defs_F
  imports Go_Library
begin

text \<open>
  The helper declarations of \<^verbatim>\<open>tools/genhelpers/data/bpf_helper_defs.h\<close>, lines 3113 to 3714: for each
  helper the lines of its comment and its declaration, as in the header.
\<close>

definition hdef_bpf_sk_cgroup_id :: "string list" where
  "hdef_bpf_sk_cgroup_id = [
    ''/*'',
    '' * bpf_sk_cgroup_id'',
    '' *'',
    '' * 	Return the cgroup v2 id of the socket *sk*.'',
    '' *'',
    '' * 	*sk* must be a non-**NULL** pointer to a socket, e.g. one'',
    '' * 	returned from **bpf_sk_lookup_xxx**'' @ bsl @ '' (),'',
    '' * 	**bpf_sk_fullsock**'' @ bsl @ '' (), etc. The format of returned id is'',
    '' * 	same as in **bpf_skb_cgroup_id**'' @ bsl @ '' ().'',
    '' *'',
    '' * 	This helper is available only if the kernel was compiled with'',
    '' * 	the **CONFIG_SOCK_CGROUP_DATA** configuration option.'',
    '' *'',
    '' * Returns'',
    '' * 	The id is returned or 0 in case the id could not be retrieved.'',
    '' */'',
    ''static __u64 ('' @ ''* const bpf_sk_cgroup_id)(void *sk) = (void *) 128;'']"

definition hdef_bpf_sk_ancestor_cgroup_id :: "string list" where
  "hdef_bpf_sk_ancestor_cgroup_id = [
    ''/*'',
    '' * bpf_sk_ancestor_cgroup_id'',
    '' *'',
    '' * 	Return id of cgroup v2 that is ancestor of cgroup associated'',
    '' * 	with the *sk* at the *ancestor_level*.  The root cgroup is at'',
    '' * 	*ancestor_level* zero and each step down the hierarchy'',
    '' * 	increments the level. If *ancestor_level* == level of cgroup'',
    '' * 	associated with *sk*, then return value will be same as that'',
    '' * 	of **bpf_sk_cgroup_id**'' @ bsl @ '' ().'',
    '' *'',
    '' * 	The helper is useful to implement policies based on cgroups'',
    '' * 	that are upper in hierarchy than immediate cgroup associated'',
    '' * 	with *sk*.'',
    '' *'',
    '' * 	The format of returned id and helper limitations are same as in'',
    '' * 	**bpf_sk_cgroup_id**'' @ bsl @ '' ().'',
    '' *'',
    '' * Returns'',
    '' * 	The id is returned or 0 in case the id could not be retrieved.'',
    '' */'',
    ''static __u64 ('' @ ''* const bpf_sk_ancestor_cgroup_id)(void *sk, int ancestor_level) = (void *) 129;'']"

definition hdef_bpf_ringbuf_output :: "string list" where
  "hdef_bpf_ringbuf_output = [
    ''/*'',
    '' * bpf_ringbuf_output'',
    '' *'',
    '' * 	Copy *size* bytes from *data* into a ring buffer *ringbuf*.'',
    '' * 	If **BPF_RB_NO_WAKEUP** is specified in *flags*, no notification'',
    '' * 	of new data availability is sent.'',
    '' * 	If **BPF_RB_FORCE_WAKEUP** is specified in *flags*, notification'',
    '' * 	of new data availability is sent unconditionally.'',
    '' * 	If **0** is specified in *flags*, an adaptive notification'',
    '' * 	of new data availability is sent.'',
    '' *'',
    '' * 	An adaptive notification is a notification sent whenever the user-space'',
    '' * 	process has caught up and consumed all available payloads. In case the user-space'',
    '' * 	process is still processing a previous payload, then no notification is needed'',
    '' * 	as it will process the newly added payload automatically.'',
    '' *'',
    '' * Returns'',
    '' * 	0 on success, or a negative error in case of failure.'',
    '' */'',
    ''static long ('' @ ''* const bpf_ringbuf_output)(void *ringbuf, void *data, __u64 size, __u64 flags) = (void *) 130;'']"

definition hdef_bpf_ringbuf_reserve :: "string list" where
  "hdef_bpf_ringbuf_reserve = [
    ''/*'',
    '' * bpf_ringbuf_reserve'',
    '' *'',
    '' * 	Reserve *size* bytes of payload in a ring buffer *ringbuf*.'',
    '' * 	*flags* must be 0.'',
    '' *'',
    '' * Returns'',
    '' * 	Valid pointer with *size* bytes of memory available; NULL,'',
    '' * 	otherwise.'',
    '' */'',
    ''static void *('' @ ''* const bpf_ringbuf_reserve)(void *ringbuf, __u64 size, __u64 flags) = (void *) 131;'']"

definition hdef_bpf_ringbuf_submit :: "string list" where
  "hdef_bpf_ringbuf_submit = [
    ''/*'',
    '' * bpf_ringbuf_submit'',
    '' *'',
    '' * 	Submit reserved ring buffer sample, pointed to by *data*.'',
    '' * 	If **BPF_RB_NO_WAKEUP** is specified in *flags*, no notification'',
    '' * 	of new data availability is sent.'',
    '' * 	If **BPF_RB_FORCE_WAKEUP** is specified in *flags*, notification'',
    '' * 	of new data availability is sent unconditionally.'',
    '' * 	If **0** is specified in *flags*, an adaptive notification'',
    '' * 	of new data availability is sent.'',
    '' *'',
    '' * 	See 'bpf_ringbuf_output()' for the definition of adaptive notification.'',
    '' *'',
    '' * Returns'',
    '' * 	Nothing. Always succeeds.'',
    '' */'',
    ''static void ('' @ ''* const bpf_ringbuf_submit)(void *data, __u64 flags) = (void *) 132;'']"

definition hdef_bpf_ringbuf_discard :: "string list" where
  "hdef_bpf_ringbuf_discard = [
    ''/*'',
    '' * bpf_ringbuf_discard'',
    '' *'',
    '' * 	Discard reserved ring buffer sample, pointed to by *data*.'',
    '' * 	If **BPF_RB_NO_WAKEUP** is specified in *flags*, no notification'',
    '' * 	of new data availability is sent.'',
    '' * 	If **BPF_RB_FORCE_WAKEUP** is specified in *flags*, notification'',
    '' * 	of new data availability is sent unconditionally.'',
    '' * 	If **0** is specified in *flags*, an adaptive notification'',
    '' * 	of new data availability is sent.'',
    '' *'',
    '' * 	See 'bpf_ringbuf_output()' for the definition of adaptive notification.'',
    '' *'',
    '' * Returns'',
    '' * 	Nothing. Always succeeds.'',
    '' */'',
    ''static void ('' @ ''* const bpf_ringbuf_discard)(void *data, __u64 flags) = (void *) 133;'']"

definition hdef_bpf_ringbuf_query :: "string list" where
  "hdef_bpf_ringbuf_query = [
    ''/*'',
    '' * bpf_ringbuf_query'',
    '' *'',
    '' * 	Query various characteristics of provided ring buffer. What'',
    '' * 	exactly is queries is determined by *flags*:'',
    '' *'',
    '' * 	* **BPF_RB_AVAIL_DATA**: Amount of data not yet consumed.'',
    '' * 	* **BPF_RB_RING_SIZE**: The size of ring buffer.'',
    '' * 	* **BPF_RB_CONS_POS**: Consumer position (can wrap around).'',
    '' * 	* **BPF_RB_PROD_POS**: Producer(s) position (can wrap around).'',
    '' *'',
    '' * 	Data returned is just a momentary snapshot of actual values'',
    '' * 	and could be inaccurate, so this facility should be used to'',
    '' * 	power heuristics and for reporting, not to make 100% correct'',
    '' * 	calculation.'',
    '' *'',
    '' * Returns'',
    '' * 	Requested value, or 0, if *flags* are not recognized.'',
    '' */'',
    ''static __u64 ('' @ ''* const bpf_ringbuf_query)(void *ringbuf, __u64 flags) = (void *) 134;'']"

definition hdef_bpf_csum_level :: "string list" where
  "hdef_bpf_csum_level = [
    ''/*'',
    '' * bpf_csum_level'',
    '' *'',
    '' * 	Change the skbs checksum level by one layer up or down, or'',
    '' * 	reset it entirely to none in order to have the stack perform'',
    '' * 	checksum validation. The level is applicable to the following'',
    '' * 	protocols: TCP, UDP, GRE, SCTP, FCOE. For example, a decap of'',
    '' * 	| ETH | IP | UDP | GUE | IP | TCP | into | ETH | IP | TCP |'',
    '' * 	through **bpf_skb_adjust_room**'' @ bsl @ '' () helper with passing in'',
    '' * 	**BPF_F_ADJ_ROOM_NO_CSUM_RESET** flag would require one	call'',
    '' * 	to **bpf_csum_level**'' @ bsl @ '' () with **BPF_CSUM_LEVEL_DEC** since'',
    '' * 	the UDP header is removed. Similarly, an encap of the latter'',
    '' * 	into the former could be accompanied by a helper call to'',
    '' * 	**bpf_csum_level**'' @ bsl @ '' () with **BPF_CSUM_LEVEL_INC** if the'',
    '' * 	skb is still intended to be processed in higher layers of the'',
    '' * 	stack instead of just egressing at tc.'',
    '' *'',
    '' * 	There are three supported level settings at this time:'',
    '' *'',
    '' * 	* **BPF_CSUM_LEVEL_INC**: Increases skb->csum_level for skbs'',
    '' * 	  with CHECKSUM_UNNECESSARY.'',
    '' * 	* **BPF_CSUM_LEVEL_DEC**: Decreases skb->csum_level for skbs'',
    '' * 	  with CHECKSUM_UNNECESSARY.'',
    '' * 	* **BPF_CSUM_LEVEL_RESET**: Resets skb->csum_level to 0 and'',
    '' * 	  sets CHECKSUM_NONE to force checksum validation by the stack.'',
    '' * 	* **BPF_CSUM_LEVEL_QUERY**: No-op, returns the current'',
    '' * 	  skb->csum_level.'',
    '' *'',
    '' * Returns'',
    '' * 	0 on success, or a negative error in case of failure. In the'',
    '' * 	case of **BPF_CSUM_LEVEL_QUERY**, the current skb->csum_level'',
    '' * 	is returned or the error code -EACCES in case the skb is not'',
    '' * 	subject to CHECKSUM_UNNECESSARY.'',
    '' */'',
    ''static long ('' @ ''* const bpf_csum_level)(struct __sk_buff *skb, __u64 level) = (void *) 135;'']"

definition hdef_bpf_skc_to_tcp6_sock :: "string list" where
  "hdef_bpf_skc_to_tcp6_sock = [
    ''/*'',
    '' * bpf_skc_to_tcp6_sock'',
    '' *'',
    '' * 	Dynamically cast a *sk* pointer to a *tcp6_sock* pointer.'',
    '' *'',
    '' * Returns'',
    '' * 	*sk* if casting is valid, or **NULL** otherwise.'',
    '' */'',
    ''static struct tcp6_sock *('' @ ''* const bpf_skc_to_tcp6_sock)(void *sk) = (void *) 136;'']"

definition hdef_bpf_skc_to_tcp_sock :: "string list" where
  "hdef_bpf_skc_to_tcp_sock = [
    ''/*'',
    '' * bpf_skc_to_tcp_sock'',
    '' *'',
    '' * 	Dynamically cast a *sk* pointer to a *tcp_sock* pointer.'',
    '' *'',
    '' * Returns'',
    '' * 	*sk* if casting is valid, or **NULL** otherwise.'',
    '' */'',
    ''static struct tcp_sock *('' @ ''* const bpf_skc_to_tcp_sock)(void *sk) = (void *) 137;'']"

definition hdef_bpf_skc_to_tcp_timewait_sock :: "string list" where
  "hdef_bpf_skc_to_tcp_timewait_sock = [
    ''/*'',
    '' * bpf_skc_to_tcp_timewait_sock'',
    '' *'',
    '' * 	Dynamically cast a *sk* pointer to a *tcp_timewait_sock* pointer.'',
    '' *'',
    '' * Returns'',
    '' * 	*sk* if casting is valid, or **NULL** otherwise.'',
    '' */'',
    ''static struct tcp_timewait_sock *('' @ ''* const bpf_skc_to_tcp_timewait_sock)(void *sk) = (void *) 138;'']"

definition hdef_bpf_skc_to_tcp_request_sock :: "string list" where
  "hdef_bpf_skc_to_tcp_request_sock = [
    ''/*'',
    '' * bpf_skc_to_tcp_request_sock'',
    '' *'',
    '' * 	Dynamically cast a *sk* pointer to a *tcp_request_sock* pointer.'',
    '' *'',
    '' * Returns'',
    '' * 	*sk* if casting is valid, or **NULL** otherwise.'',
    '' */'',
    ''static struct tcp_request_sock *('' @ ''* const bpf_skc_to_tcp_request_sock)(void *sk) = (void *) 139;'']"

definition hdef_bpf_skc_to_udp6_sock :: "string list" where
  "hdef_bpf_skc_to_udp6_sock = [
    ''/*'',
    '' * bpf_skc_to_udp6_sock'',
    '' *'',
    '' * 	Dynamically cast a *sk* pointer to a *udp6_sock* pointer.'',
    '' *'',
    '' * Returns'',
    '' * 	*sk* if casting is valid, or **NULL** otherwise.'',
    '' */'',
    ''static struct udp6_sock *('' @ ''* const bpf_skc_to_udp6_sock)(void *sk) = (void *) 140;'']"

definition hdef_bpf_get_task_stack :: "string list" where
  "hdef_bpf_get_task_stack = [
    ''/*'',
    '' * bpf_get_task_stack'',
    '' *'',
    '' * 	Return a user or a kernel stack in bpf program provided buffer.'',
    '' * 	Note: the user stack will only be populated if the *task* is'',
    '' * 	the current task; all other tasks will return -EOPNOTSUPP.'',
    '' * 	To achieve this, the helper needs *task*, which is a valid'',
    '' * 	pointer to **struct task_struct**. To store the stacktrace, the'',
    '' * 	bpf program provides *buf* with a nonnegative *size*.'',
    '' *'',
    '' * 	The last argument, *flags*, holds the number of stack frames to'',
    '' * 	skip (from 0 to 255), masked with'',
    '' * 	**BPF_F_SKIP_FIELD_MASK**. The next bits can be used to set'',
    '' * 	the following flags:'',
    '' *'',
    '' * 	**BPF_F_USER_STACK**'',
    '' * 		Collect a user space stack instead of a kernel stack.'',
    '' * 		The *task* must be the current task.'',
    '' * 	**BPF_F_USER_BUILD_ID**'',
    '' * 		Collect buildid+offset instead of ips for user stack,'',
    '' * 		only valid if **BPF_F_USER_STACK** is also specified.'',
    '' *'',
    '' * 	**bpf_get_task_stack**'' @ bsl @ '' () can collect up to'',
    '' * 	**PERF_MAX_STACK_DEPTH** both kernel and user frames, subject'',
    '' * 	to sufficient large buffer size. Note that'',
    '' * 	this limit can be controlled with the **sysctl** program, and'',
    '' * 	that it should be manually increased in order to profile long'',
    '' * 	user stacks (such as stacks for Java programs). To do so, use:'',
    '' *'',
    '' * 	::'',
    '' *'',
    '' * 		# sysctl kernel.perf_event_max_stack=<new value>'',
    '' *'',
    '' * Returns'',
    '' * 	The non-negative copied *buf* length equal to or less than'',
    '' * 	*size* on success, or a negative error in case of failure.'',
    '' */'',
    ''static long ('' @ ''* const bpf_get_task_stack)(struct task_struct *task, void *buf, __u32 size, __u64 flags) = (void *) 141;'']"

definition hdef_bpf_load_hdr_opt :: "string list" where
  "hdef_bpf_load_hdr_opt = [
    ''/*'',
    '' * bpf_load_hdr_opt'',
    '' *'',
    '' * 	Load header option.  Support reading a particular TCP header'',
    '' * 	option for bpf program ('' @ ''**BPF_PROG_TYPE_SOCK_OPS**).'',
    '' *'',
    '' * 	If *flags* is 0, it will search the option from the'',
    '' * 	*skops*'' @ bsl @ '' **->skb_data**.  The comment in **struct bpf_sock_ops**'',
    '' * 	has details on what skb_data contains under different'',
    '' * 	*skops*'' @ bsl @ '' **->op**.'',
    '' *'',
    '' * 	The first byte of the *searchby_res* specifies the'',
    '' * 	kind that it wants to search.'',
    '' *'',
    '' * 	If the searching kind is an experimental kind'',
    '' * 	(i.e. 253 or 254 according to RFC6994).  It also'',
    '' * 	needs to specify the '' @ dq @ ''magic'' @ dq @ '' which is either'',
    '' * 	2 bytes or 4 bytes.  It then also needs to'',
    '' * 	specify the size of the magic by using'',
    '' * 	the 2nd byte which is '' @ dq @ ''kind-length'' @ dq @ '' of a TCP'',
    '' * 	header option and the '' @ dq @ ''kind-length'' @ dq @ '' also'',
    '' * 	includes the first 2 bytes '' @ dq @ ''kind'' @ dq @ '' and '' @ dq @ ''kind-length'' @ dq,
    '' * 	itself as a normal TCP header option also does.'',
    '' *'',
    '' * 	For example, to search experimental kind 254 with'',
    '' * 	2 byte magic 0xeB9F, the searchby_res should be'',
    '' * 	[ 254, 4, 0xeB, 0x9F, 0, 0, .... 0 ].'',
    '' *'',
    '' * 	To search for the standard window scale option (3),'',
    '' * 	the *searchby_res* should be [ 3, 0, 0, .... 0 ].'',
    '' * 	Note, kind-length must be 0 for regular option.'',
    '' *'',
    '' * 	Searching for No-Op (0) and End-of-Option-List (1) are'',
    '' * 	not supported.'',
    '' *'',
    '' * 	*len* must be at least 2 bytes which is the minimal size'',
    '' * 	of a header option.'',
    '' *'',
    '' * 	Supported flags:'',
    '' *'',
    '' * 	* **BPF_LOAD_HDR_OPT_TCP_SYN** to search from the'',
    '' * 	  saved_syn packet or the just-received syn packet.'',
    '' *'',
    '' *'',
    '' * Returns'',
    '' * 	> 0 when found, the header option is copied to *searchby_res*.'',
    '' * 	The return value is the total length copied. On failure, a'',
    '' * 	negative error code is returned:'',
    '' *'',
    '' * 	**-EINVAL** if a parameter is invalid.'',
    '' *'',
    '' * 	**-ENOMSG** if the option is not found.'',
    '' *'',
    '' * 	**-ENOENT** if no syn packet is available when'',
    '' * 	**BPF_LOAD_HDR_OPT_TCP_SYN** is used.'',
    '' *'',
    '' * 	**-ENOSPC** if there is not enough space.  Only *len* number of'',
    '' * 	bytes are copied.'',
    '' *'',
    '' * 	**-EFAULT** on failure to parse the header options in the'',
    '' * 	packet.'',
    '' *'',
    '' * 	**-EPERM** if the helper cannot be used under the current'',
    '' * 	*skops*'' @ bsl @ '' **->op**.'',
    '' */'',
    ''static long ('' @ ''* const bpf_load_hdr_opt)(struct bpf_sock_ops *skops, void *searchby_res, __u32 len, __u64 flags) = (void *) 142;'']"

definition hdef_bpf_store_hdr_opt :: "string list" where
  "hdef_bpf_store_hdr_opt = [
    ''/*'',
    '' * bpf_store_hdr_opt'',
    '' *'',
    '' * 	Store header option.  The data will be copied'',
    '' * 	from buffer *from* with length *len* to the TCP header.'',
    '' *'',
    '' * 	The buffer *from* should have the whole option that'',
    '' * 	includes the kind, kind-length, and the actual'',
    '' * 	option data.  The *len* must be at least kind-length'',
    '' * 	long.  The kind-length does not have to be 4 byte'',
    '' * 	aligned.  The kernel will take care of the padding'',
    '' * 	and setting the 4 bytes aligned value to th->doff.'',
    '' *'',
    '' * 	This helper will check for duplicated option'',
    '' * 	by searching the same option in the outgoing skb.'',
    '' *'',
    '' * 	This helper can only be called during'',
    '' * 	**BPF_SOCK_OPS_WRITE_HDR_OPT_CB**.'',
    '' *'',
    '' *'',
    '' * Returns'',
    '' * 	0 on success, or negative error in case of failure:'',
    '' *'',
    '' * 	**-EINVAL** If param is invalid.'',
    '' *'',
    '' * 	**-ENOSPC** if there is not enough space in the header.'',
    '' * 	Nothing has been written'',
    '' *'',
    '' * 	**-EEXIST** if the option already exists.'',
    '' *'',
    '' * 	**-EFAULT** on failure to parse the existing header options.'',
    '' *'',
    '' * 	**-EPERM** if the helper cannot be used under the current'',
    '' * 	*skops*'' @ bsl @ '' **->op**.'',
    '' */'',
    ''static long ('' @ ''* const bpf_store_hdr_opt)(struct bpf_sock_ops *skops, const void *from, __u32 len, __u64 flags) = (void *) 143;'']"

definition hdef_bpf_reserve_hdr_opt :: "string list" where
  "hdef_bpf_reserve_hdr_opt = [
    ''/*'',
    '' * bpf_reserve_hdr_opt'',
    '' *'',
    '' * 	Reserve *len* bytes for the bpf header option.  The'',
    '' * 	space will be used by **bpf_store_hdr_opt**'' @ bsl @ '' () later in'',
    '' * 	**BPF_SOCK_OPS_WRITE_HDR_OPT_CB**.'',
    '' *'',
    '' * 	If **bpf_reserve_hdr_opt**'' @ bsl @ '' () is called multiple times,'',
    '' * 	the total number of bytes will be reserved.'',
    '' *'',
    '' * 	This helper can only be called during'',
    '' * 	**BPF_SOCK_OPS_HDR_OPT_LEN_CB**.'',
    '' *'',
    '' *'',
    '' * Returns'',
    '' * 	0 on success, or negative error in case of failure:'',
    '' *'',
    '' * 	**-EINVAL** if a parameter is invalid.'',
    '' *'',
    '' * 	**-ENOSPC** if there is not enough space in the header.'',
    '' *'',
    '' * 	**-EPERM** if the helper cannot be used under the current'',
    '' * 	*skops*'' @ bsl @ '' **->op**.'',
    '' */'',
    ''static long ('' @ ''* const bpf_reserve_hdr_opt)(struct bpf_sock_ops *skops, __u32 len, __u64 flags) = (void *) 144;'']"

definition hdef_bpf_inode_storage_get :: "string list" where
  "hdef_bpf_inode_storage_get = [
    ''/*'',
    '' * bpf_inode_storage_get'',
    '' *'',
    '' * 	Get a bpf_local_storage from an *inode*.'',
    '' *'',
    '' * 	Logically, it could be thought of as getting the value from'',
    '' * 	a *map* with *inode* as the **key**.  From this'',
    '' * 	perspective,  the usage is not much different from'',
    '' * 	**bpf_map_lookup_elem**'' @ bsl @ '' ('' @ ''*map*, **&**'' @ bsl @ '' *inode*) except this'',
    '' * 	helper enforces the key must be an inode and the map must also'',
    '' * 	be a **BPF_MAP_TYPE_INODE_STORAGE**.'',
    '' *'',
    '' * 	Underneath, the value is stored locally at *inode* instead of'',
    '' * 	the *map*.  The *map* is used as the bpf-local-storage'',
    '' * 	'' @ dq @ ''type'' @ dq @ ''. The bpf-local-storage '' @ dq @ ''type'' @ dq @ '' (i.e. the *map*) is'',
    '' * 	searched against all bpf_local_storage residing at *inode*.'',
    '' *'',
    '' * 	An optional *flags* ('' @ ''**BPF_LOCAL_STORAGE_GET_F_CREATE**) can be'',
    '' * 	used such that a new bpf_local_storage will be'',
    '' * 	created if one does not exist.  *value* can be used'',
    '' * 	together with **BPF_LOCAL_STORAGE_GET_F_CREATE** to specify'',
    '' * 	the initial value of a bpf_local_storage.  If *value* is'',
    '' * 	**NULL**, the new bpf_local_storage will be zero initialized.'',
    '' *'',
    '' * Returns'',
    '' * 	A bpf_local_storage pointer is returned on success.'',
    '' *'',
    '' * 	**NULL** if not found or there was an error in adding'',
    '' * 	a new bpf_local_storage.'',
    '' */'',
    ''static void *('' @ ''* const bpf_inode_storage_get)(void *map, void *inode, void *value, __u64 flags) = (void *) 145;'']"

definition hdef_bpf_inode_storage_delete :: "string list" where
  "hdef_bpf_inode_storage_delete = [
    ''/*'',
    '' * bpf_inode_storage_delete'',
    '' *'',
    '' * 	Delete a bpf_local_storage from an *inode*.'',
    '' *'',
    '' * Returns'',
    '' * 	0 on success.'',
    '' *'',
    '' * 	**-ENOENT** if the bpf_local_storage cannot be found.'',
    '' */'',
    ''static int ('' @ ''* const bpf_inode_storage_delete)(void *map, void *inode) = (void *) 146;'']"

definition hdef_bpf_d_path :: "string list" where
  "hdef_bpf_d_path = [
    ''/*'',
    '' * bpf_d_path'',
    '' *'',
    '' * 	Return full path for given **struct path** object, which'',
    '' * 	needs to be the kernel BTF *path* object. The path is'',
    '' * 	returned in the provided buffer *buf* of size *sz* and'',
    '' * 	is zero terminated.'',
    '' *'',
    '' *'',
    '' * Returns'',
    '' * 	On success, the strictly positive length of the string,'',
    '' * 	including the trailing NUL character. On error, a negative'',
    '' * 	value.'',
    '' */'',
    ''static long ('' @ ''* const bpf_d_path)(struct path *path, char *buf, __u32 sz) = (void *) 147;'']"

definition hdef_bpf_copy_from_user :: "string list" where
  "hdef_bpf_copy_from_user = [
    ''/*'',
    '' * bpf_copy_from_user'',
    '' *'',
    '' * 	Read *size* bytes from user space address *user_ptr* and store'',
    '' * 	the data in *dst*. This is a wrapper of **copy_from_user**'' @ bsl @ '' ().'',
    '' *'',
    '' * Returns'',
    '' * 	0 on success, or a negative error in case of failure.'',
    '' */'',
    ''static long ('' @ ''* const bpf_copy_from_user)(void *dst, __u32 size, const void *user_ptr) = (void *) 148;'']"

definition hdef_bpf_snprintf_btf :: "string list" where
  "hdef_bpf_snprintf_btf = [
    ''/*'',
    '' * bpf_snprintf_btf'',
    '' *'',
    '' * 	Use BTF to store a string representation of *ptr*->ptr in *str*,'',
    '' * 	using *ptr*->type_id.  This value should specify the type'',
    '' * 	that *ptr*->ptr points to. LLVM __builtin_btf_type_id(type, 1)'',
    '' * 	can be used to look up vmlinux BTF type ids. Traversing the'',
    '' * 	data structure using BTF, the type information and values are'',
    '' * 	stored in the first *str_size* - 1 bytes of *str*.  Safe copy of'',
    '' * 	the pointer data is carried out to avoid kernel crashes during'',
    '' * 	operation.  Smaller types can use string space on the stack;'',
    '' * 	larger programs can use map data to store the string'',
    '' * 	representation.'',
    '' *'',
    '' * 	The string can be subsequently shared with userspace via'',
    '' * 	bpf_perf_event_output() or ring buffer interfaces.'',
    '' * 	bpf_trace_printk() is to be avoided as it places too small'',
    '' * 	a limit on string size to be useful.'',
    '' *'',
    '' * 	*flags* is a combination of'',
    '' *'',
    '' * 	**BTF_F_COMPACT**'',
    '' * 		no formatting around type information'',
    '' * 	**BTF_F_NONAME**'',
    '' * 		no struct/union member names/types'',
    '' * 	**BTF_F_PTR_RAW**'',
    '' * 		show raw (unobfuscated) pointer values;'',
    '' * 		equivalent to printk specifier %px.'',
    '' * 	**BTF_F_ZERO**'',
    '' * 		show zero-valued struct/union members; they'',
    '' * 		are not displayed by default'',
    '' *'',
    '' *'',
    '' * Returns'',
    '' * 	The number of bytes that were written (or would have been'',
    '' * 	written if output had to be truncated due to string size),'',
    '' * 	or a negative error in cases of failure.'',
    '' */'',
    ''static long ('' @ ''* const bpf_snprintf_btf)(char *str, __u32 str_size, struct btf_ptr *ptr, __u32 btf_ptr_size, __u64 flags) = (void *) 149;'']"

definition hdef_bpf_seq_printf_btf :: "string list" where
  "hdef_bpf_seq_printf_btf = [
    ''/*'',
    '' * bpf_seq_printf_btf'',
    '' *'',
    '' * 	Use BTF to write to seq_write a string representation of'',
    '' * 	*ptr*->ptr, using *ptr*->type_id as per bpf_snprintf_btf().'',
    '' * 	*flags* are identical to those used for bpf_snprintf_btf.'',
    '' *'',
    '' * Returns'',
    '' * 	0 on success or a negative error in case of failure.'',
    '' */'',
    ''static long ('' @ ''* const bpf_seq_printf_btf)(struct seq_file *m, struct btf_ptr *ptr, __u32 ptr_size, __u64 flags) = (void *) 150;'']"

definition hdef_bpf_skb_cgroup_classid :: "string list" where
  "hdef_bpf_skb_cgroup_classid = [
    ''/*'',
    '' * bpf_skb_cgroup_classid'',
    '' *'',
    '' * 	See **bpf_get_cgroup_classid**'' @ bsl @ '' () for the main description.'',
    '' * 	This helper differs from **bpf_get_cgroup_classid**'' @ bsl @ '' () in that'',
    '' * 	the cgroup v1 net_cls class is retrieved only from the *skb*'s'',
    '' * 	associated socket instead of the current process.'',
    '' *'',
    '' * Returns'',
    '' * 	The id is returned or 0 in case the id could not be retrieved.'',
    '' */'',
    ''static __u64 ('' @ ''* const bpf_skb_cgroup_classid)(struct __sk_buff *skb) = (void *) 151;'']"

definition hdef_bpf_redirect_neigh :: "string list" where
  "hdef_bpf_redirect_neigh = [
    ''/*'',
    '' * bpf_redirect_neigh'',
    '' *'',
    '' * 	Redirect the packet to another net device of index *ifindex*'',
    '' * 	and fill in L2 addresses from neighboring subsystem. This helper'',
    '' * 	is somewhat similar to **bpf_redirect**'' @ bsl @ '' (), except that it'',
    '' * 	populates L2 addresses as well, meaning, internally, the helper'',
    '' * 	relies on the neighbor lookup for the L2 address of the nexthop.'',
    '' *'',
    '' * 	The helper will perform a FIB lookup based on the skb's'',
    '' * 	networking header to get the address of the next hop, unless'',
    '' * 	this is supplied by the caller in the *params* argument. The'',
    '' * 	*plen* argument indicates the len of *params* and should be set'',
    '' * 	to 0 if *params* is NULL.'',
    '' *'',
    '' * 	The *flags* argument is reserved and must be 0. The helper is'',
    '' * 	currently only supported for tc BPF program types, and enabled'',
    '' * 	for IPv4 and IPv6 protocols.'',
    '' *'',
    '' * Returns'',
    '' * 	The helper returns **TC_ACT_REDIRECT** on success or'',
    '' * 	**TC_ACT_SHOT** on error.'',
    '' */'',
    ''static long ('' @ ''* const bpf_redirect_neigh)(__u32 ifindex, struct bpf_redir_neigh *params, int plen, __u64 flags) = (void *) 152;'']"

definition hdef_bpf_per_cpu_ptr :: "string list" where
  "hdef_bpf_per_cpu_ptr = [
    ''/*'',
    '' * bpf_per_cpu_ptr'',
    '' *'',
    '' * 	Take a pointer to a percpu ksym, *percpu_ptr*, and return a'',
    '' * 	pointer to the percpu kernel variable on *cpu*. A ksym is an'',
    '' * 	extern variable decorated with '__ksym'. For ksym, there is a'',
    '' * 	global var (either static or global) defined of the same name'',
    '' * 	in the kernel. The ksym is percpu if the global var is percpu.'',
    '' * 	The returned pointer points to the global percpu var on *cpu*.'',
    '' *'',
    '' * 	bpf_per_cpu_ptr() has the same semantic as per_cpu_ptr() in the'',
    '' * 	kernel, except that bpf_per_cpu_ptr() may return NULL. This'',
    '' * 	happens if *cpu* is larger than nr_cpu_ids. The caller of'',
    '' * 	bpf_per_cpu_ptr() must check the returned value.'',
    '' *'',
    '' * Returns'',
    '' * 	A pointer pointing to the kernel percpu variable on *cpu*, or'',
    '' * 	NULL, if *cpu* is invalid.'',
    '' */'',
    ''static void *('' @ ''* const bpf_per_cpu_ptr)(const void *percpu_ptr, __u32 cpu) = (void *) 153;'']"

definition hdef_bpf_this_cpu_ptr :: "string list" where
  "hdef_bpf_this_cpu_ptr = [
    ''/*'',
    '' * bpf_this_cpu_ptr'',
    '' *'',
    '' * 	Take a pointer to a percpu ksym, *percpu_ptr*, and return a'',
    '' * 	pointer to the percpu kernel variable on this cpu. See the'',
    '' * 	description of 'ksym' in **bpf_per_cpu_ptr**'' @ bsl @ '' ().'',
    '' *'',
    '' * 	bpf_this_cpu_ptr() has the same semantic as this_cpu_ptr() in'',
    '' * 	the kernel. Different from **bpf_per_cpu_ptr**'' @ bsl @ '' (), it would'',
    '' * 	never return NULL.'',
    '' *'',
    '' * Returns'',
    '' * 	A pointer pointing to the kernel percpu variable on this cpu.'',
    '' */'',
    ''static void *('' @ ''* const bpf_this_cpu_ptr)(const void *percpu_ptr) = (void *) 154;'']"

definition hdef_bpf_redirect_peer :: "string list" where
  "hdef_bpf_redirect_peer = [
    ''/*'',
    '' * bpf_redirect_peer'',
    '' *'',
    '' * 	Redirect the packet to another net device of index *ifindex*.'',
    '' * 	This helper is somewhat similar to **bpf_redirect**'' @ bsl @ '' (), except'',
    '' * 	that the redirection happens to the *ifindex*' peer device and'',
    '' * 	the netns switch takes place from ingress to ingress without'',
    '' * 	going through the CPU's backlog queue.'',
    '' *'',
    '' * 	The *flags* argument is reserved and must be 0. The helper is'',
    '' * 	currently only supported for tc BPF program types at the'',
    '' * 	ingress hook and for veth and netkit target device types. The'',
    '' * 	peer device must reside in a different network namespace.'',
    '' *'',
    '' * Returns'',
    '' * 	The helper returns **TC_ACT_REDIRECT** on success or'',
    '' * 	**TC_ACT_SHOT** on error.'',
    '' */'',
    ''static long ('' @ ''* const bpf_redirect_peer)(__u32 ifindex, __u64 flags) = (void *) 155;'']"

definition helperBlocksF :: "string list list" where
  "helperBlocksF = [hdef_bpf_sk_cgroup_id,
     hdef_bpf_sk_ancestor_cgroup_id,
     hdef_bpf_ringbuf_output,
     hdef_bpf_ringbuf_reserve,
     hdef_bpf_ringbuf_submit,
     hdef_bpf_ringbuf_discard,
     hdef_bpf_ringbuf_query,
     hdef_bpf_csum_level,
     hdef_bpf_skc_to_tcp6_sock,
     hdef_bpf_skc_to_tcp_sock,
     hdef_bpf_skc_to_tcp_timewait_sock,
     hdef_bpf_skc_to_tcp_request_sock,
     hdef_bpf_skc_to_udp6_sock,
     hdef_bpf_get_task_stack,
     hdef_bpf_load_hdr_opt,
     hdef_bpf_store_hdr_opt,
     hdef_bpf_reserve_hdr_opt,
     hdef_bpf_inode_storage_get,
     hdef_bpf_inode_storage_delete,
     hdef_bpf_d_path,
     hdef_bpf_copy_from_user,
     hdef_bpf_snprintf_btf,
     hdef_bpf_seq_printf_btf,
     hdef_bpf_skb_cgroup_classid,
     hdef_bpf_redirect_neigh,
     hdef_bpf_per_cpu_ptr,
     hdef_bpf_this_cpu_ptr,
     hdef_bpf_redirect_peer]"

end
