(* ===== verification/Helper_Defs_H.thy ===== *)
theory Helper_Defs_H
  imports Go_Library
begin

text \<open>
  The helper declarations of \<^verbatim>\<open>tools/genhelpers/data/bpf_helper_defs.h\<close>, lines 4332 to 4773: for each
  helper the lines of its comment and its declaration, as in the header.
\<close>

definition hdef_bpf_xdp_get_buff_len :: "string list" where
  "hdef_bpf_xdp_get_buff_len = [
    ''/*'',
    '' * bpf_xdp_get_buff_len'',
    '' *'',
    '' * 	Get the total size of a given xdp buff (linear and paged area)'',
    '' *'',
    '' * Returns'',
    '' * 	The total size of a given xdp buffer.'',
    '' */'',
    ''static __u64 ('' @ ''* const bpf_xdp_get_buff_len)(struct xdp_md *xdp_md) = (void *) 188;'']"

definition hdef_bpf_xdp_load_bytes :: "string list" where
  "hdef_bpf_xdp_load_bytes = [
    ''/*'',
    '' * bpf_xdp_load_bytes'',
    '' *'',
    '' * 	This helper is provided as an easy way to load data from a'',
    '' * 	xdp buffer. It can be used to load *len* bytes from *offset* from'',
    '' * 	the frame associated to *xdp_md*, into the buffer pointed by'',
    '' * 	*buf*.'',
    '' *'',
    '' * Returns'',
    '' * 	0 on success, or a negative error in case of failure.'',
    '' */'',
    ''static long ('' @ ''* const bpf_xdp_load_bytes)(struct xdp_md *xdp_md, __u32 offset, void *buf, __u32 len) = (void *) 189;'']"

definition hdef_bpf_xdp_store_bytes :: "string list" where
  "hdef_bpf_xdp_store_bytes = [
    ''/*'',
    '' * bpf_xdp_store_bytes'',
    '' *'',
    '' * 	Store *len* bytes from buffer *buf* into the frame'',
    '' * 	associated to *xdp_md*, at *offset*.'',
    '' *'',
    '' * Returns'',
    '' * 	0 on success, or a negative error in case of failure.'',
    '' */'',
    ''static long ('' @ ''* const bpf_xdp_store_bytes)(struct xdp_md *xdp_md, __u32 offset, void *buf, __u32 len) = (void *) 190;'']"

definition hdef_bpf_copy_from_user_task :: "string list" where
  "hdef_bpf_copy_from_user_task = [
    ''/*'',
    '' * bpf_copy_from_user_task'',
    '' *'',
    '' * 	Read *size* bytes from user space address *user_ptr* in *tsk*'s'',
    '' * 	address space, and stores the data in *dst*. *flags* is not'',
    '' * 	used yet and is provided for future extensibility. This helper'',
    '' * 	can only be used by sleepable programs.'',
    '' *'',
    '' * Returns'',
    '' * 	0 on success, or a negative error in case of failure. On error'',
    '' * 	*dst* buffer is zeroed out.'',
    '' */'',
    ''static long ('' @ ''* const bpf_copy_from_user_task)(void *dst, __u32 size, const void *user_ptr, struct task_struct *tsk, __u64 flags) = (void *) 191;'']"

definition hdef_bpf_skb_set_tstamp :: "string list" where
  "hdef_bpf_skb_set_tstamp = [
    ''/*'',
    '' * bpf_skb_set_tstamp'',
    '' *'',
    '' * 	Change the __sk_buff->tstamp_type to *tstamp_type*'',
    '' * 	and set *tstamp* to the __sk_buff->tstamp together.'',
    '' *'',
    '' * 	If there is no need to change the __sk_buff->tstamp_type,'',
    '' * 	the tstamp value can be directly written to __sk_buff->tstamp'',
    '' * 	instead.'',
    '' *'',
    '' * 	BPF_SKB_TSTAMP_DELIVERY_MONO is the only tstamp that'',
    '' * 	will be kept during bpf_redirect_*().  A non zero'',
    '' * 	*tstamp* must be used with the BPF_SKB_TSTAMP_DELIVERY_MONO'',
    '' * 	*tstamp_type*.'',
    '' *'',
    '' * 	A BPF_SKB_TSTAMP_UNSPEC *tstamp_type* can only be used'',
    '' * 	with a zero *tstamp*.'',
    '' *'',
    '' * 	Only IPv4 and IPv6 skb->protocol are supported.'',
    '' *'',
    '' * 	This function is most useful when it needs to set a'',
    '' * 	mono delivery time to __sk_buff->tstamp and then'',
    '' * 	bpf_redirect_*() to the egress of an iface.  For example,'',
    '' * 	changing the (rcv) timestamp in __sk_buff->tstamp at'',
    '' * 	ingress to a mono delivery time and then bpf_redirect_*()'',
    '' * 	to sch_fq@phy-dev.'',
    '' *'',
    '' * Returns'',
    '' * 	0 on success.'',
    '' * 	**-EINVAL** for invalid input'',
    '' * 	**-EOPNOTSUPP** for unsupported protocol'',
    '' */'',
    ''static long ('' @ ''* const bpf_skb_set_tstamp)(struct __sk_buff *skb, __u64 tstamp, __u32 tstamp_type) = (void *) 192;'']"

definition hdef_bpf_ima_file_hash :: "string list" where
  "hdef_bpf_ima_file_hash = [
    ''/*'',
    '' * bpf_ima_file_hash'',
    '' *'',
    '' * 	Returns a calculated IMA hash of the *file*.'',
    '' * 	If the hash is larger than *size*, then only *size*'',
    '' * 	bytes will be copied to *dst*'',
    '' *'',
    '' * Returns'',
    '' * 	The **hash_algo** is returned on success,'',
    '' * 	**-EOPNOTSUPP** if the hash calculation failed or **-EINVAL** if'',
    '' * 	invalid arguments are passed.'',
    '' */'',
    ''static long ('' @ ''* const bpf_ima_file_hash)(struct file *file, void *dst, __u32 size) = (void *) 193;'']"

definition hdef_bpf_kptr_xchg :: "string list" where
  "hdef_bpf_kptr_xchg = [
    ''/*'',
    '' * bpf_kptr_xchg'',
    '' *'',
    '' * 	Exchange kptr at pointer *dst* with *ptr*, and return the old value.'',
    '' * 	*dst* can be map value or local kptr. *ptr* can be NULL, otherwise'',
    '' * 	it must be a referenced pointer which will be released when this helper'',
    '' * 	is called.'',
    '' *'',
    '' * Returns'',
    '' * 	The old value of kptr (which can be NULL). The returned pointer'',
    '' * 	if not NULL, is a reference which must be released using its'',
    '' * 	corresponding release function, or moved into a BPF map before'',
    '' * 	program exit.'',
    '' */'',
    ''static void *('' @ ''* const bpf_kptr_xchg)(void *dst, void *ptr) = (void *) 194;'']"

definition hdef_bpf_map_lookup_percpu_elem :: "string list" where
  "hdef_bpf_map_lookup_percpu_elem = [
    ''/*'',
    '' * bpf_map_lookup_percpu_elem'',
    '' *'',
    '' * 	Perform a lookup in *percpu map* for an entry associated to'',
    '' * 	*key* on *cpu*.'',
    '' *'',
    '' * Returns'',
    '' * 	Map value associated to *key* on *cpu*, or **NULL** if no entry'',
    '' * 	was found or *cpu* is invalid.'',
    '' */'',
    ''static void *('' @ ''* const bpf_map_lookup_percpu_elem)(void *map, const void *key, __u32 cpu) = (void *) 195;'']"

definition hdef_bpf_skc_to_mptcp_sock :: "string list" where
  "hdef_bpf_skc_to_mptcp_sock = [
    ''/*'',
    '' * bpf_skc_to_mptcp_sock'',
    '' *'',
    '' * 	Dynamically cast a *sk* pointer to a *mptcp_sock* pointer.'',
    '' *'',
    '' * Returns'',
    '' * 	*sk* if casting is valid, or **NULL** otherwise.'',
    '' */'',
    ''static struct mptcp_sock *('' @ ''* const bpf_skc_to_mptcp_sock)(void *sk) = (void *) 196;'']"

definition hdef_bpf_dynptr_from_mem :: "string list" where
  "hdef_bpf_dynptr_from_mem = [
    ''/*'',
    '' * bpf_dynptr_from_mem'',
    '' *'',
    '' * 	Get a dynptr to local memory *data*.'',
    '' *'',
    '' * 	*data* must be a ptr to a map value.'',
    '' * 	The maximum *size* supported is DYNPTR_MAX_SIZE.'',
    '' * 	*flags* is currently unused.'',
    '' *'',
    '' * Returns'',
    '' * 	0 on success, -E2BIG if the size exceeds DYNPTR_MAX_SIZE,'',
    '' * 	-EINVAL if flags is not 0.'',
    '' */'',
    ''static long ('' @ ''* const bpf_dynptr_from_mem)(void *data, __u32 size, __u64 flags, struct bpf_dynptr *ptr) = (void *) 197;'']"

definition hdef_bpf_ringbuf_reserve_dynptr :: "string list" where
  "hdef_bpf_ringbuf_reserve_dynptr = [
    ''/*'',
    '' * bpf_ringbuf_reserve_dynptr'',
    '' *'',
    '' * 	Reserve *size* bytes of payload in a ring buffer *ringbuf*'',
    '' * 	through the dynptr interface. *flags* must be 0.'',
    '' *'',
    '' * 	Please note that a corresponding bpf_ringbuf_submit_dynptr or'',
    '' * 	bpf_ringbuf_discard_dynptr must be called on *ptr*, even if the'',
    '' * 	reservation fails. This is enforced by the verifier.'',
    '' *'',
    '' * Returns'',
    '' * 	0 on success, or a negative error in case of failure.'',
    '' */'',
    ''static long ('' @ ''* const bpf_ringbuf_reserve_dynptr)(void *ringbuf, __u32 size, __u64 flags, struct bpf_dynptr *ptr) = (void *) 198;'']"

definition hdef_bpf_ringbuf_submit_dynptr :: "string list" where
  "hdef_bpf_ringbuf_submit_dynptr = [
    ''/*'',
    '' * bpf_ringbuf_submit_dynptr'',
    '' *'',
    '' * 	Submit reserved ring buffer sample, pointed to by *data*,'',
    '' * 	through the dynptr interface. This is a no-op if the dynptr is'',
    '' * 	invalid/null.'',
    '' *'',
    '' * 	For more information on *flags*, please see'',
    '' * 	'bpf_ringbuf_submit'.'',
    '' *'',
    '' * Returns'',
    '' * 	Nothing. Always succeeds.'',
    '' */'',
    ''static void ('' @ ''* const bpf_ringbuf_submit_dynptr)(struct bpf_dynptr *ptr, __u64 flags) = (void *) 199;'']"

definition hdef_bpf_ringbuf_discard_dynptr :: "string list" where
  "hdef_bpf_ringbuf_discard_dynptr = [
    ''/*'',
    '' * bpf_ringbuf_discard_dynptr'',
    '' *'',
    '' * 	Discard reserved ring buffer sample through the dynptr'',
    '' * 	interface. This is a no-op if the dynptr is invalid/null.'',
    '' *'',
    '' * 	For more information on *flags*, please see'',
    '' * 	'bpf_ringbuf_discard'.'',
    '' *'',
    '' * Returns'',
    '' * 	Nothing. Always succeeds.'',
    '' */'',
    ''static void ('' @ ''* const bpf_ringbuf_discard_dynptr)(struct bpf_dynptr *ptr, __u64 flags) = (void *) 200;'']"

definition hdef_bpf_dynptr_read :: "string list" where
  "hdef_bpf_dynptr_read = [
    ''/*'',
    '' * bpf_dynptr_read'',
    '' *'',
    '' * 	Read *len* bytes from *src* into *dst*, starting from *offset*'',
    '' * 	into *src*.'',
    '' * 	*flags* is currently unused.'',
    '' *'',
    '' * Returns'',
    '' * 	0 on success, -E2BIG if *offset* + *len* exceeds the length'',
    '' * 	of *src*'s data, -EINVAL if *src* is an invalid dynptr or if'',
    '' * 	*flags* is not 0.'',
    '' */'',
    ''static long ('' @ ''* const bpf_dynptr_read)(void *dst, __u32 len, const struct bpf_dynptr *src, __u32 offset, __u64 flags) = (void *) 201;'']"

definition hdef_bpf_dynptr_write :: "string list" where
  "hdef_bpf_dynptr_write = [
    ''/*'',
    '' * bpf_dynptr_write'',
    '' *'',
    '' * 	Write *len* bytes from *src* into *dst*, starting from *offset*'',
    '' * 	into *dst*.'',
    '' *'',
    '' * 	*flags* must be 0 except for skb-type dynptrs.'',
    '' *'',
    '' * 	For skb-type dynptrs:'',
    '' * 	    *  All data slices of the dynptr are automatically'',
    '' * 	       invalidated after **bpf_dynptr_write**'' @ bsl @ '' (). This is'',
    '' * 	       because writing may pull the skb and change the'',
    '' * 	       underlying packet buffer.'',
    '' *'',
    '' * 	    *  For *flags*, please see the flags accepted by'',
    '' * 	       **bpf_skb_store_bytes**'' @ bsl @ '' ().'',
    '' *'',
    '' * Returns'',
    '' * 	0 on success, -E2BIG if *offset* + *len* exceeds the length'',
    '' * 	of *dst*'s data, -EINVAL if *dst* is an invalid dynptr or if *dst*'',
    '' * 	is a read-only dynptr or if *flags* is not correct. For skb-type dynptrs,'',
    '' * 	other errors correspond to errors returned by **bpf_skb_store_bytes**'' @ bsl @ '' ().'',
    '' */'',
    ''static long ('' @ ''* const bpf_dynptr_write)(const struct bpf_dynptr *dst, __u32 offset, void *src, __u32 len, __u64 flags) = (void *) 202;'']"

definition hdef_bpf_dynptr_data :: "string list" where
  "hdef_bpf_dynptr_data = [
    ''/*'',
    '' * bpf_dynptr_data'',
    '' *'',
    '' * 	Get a pointer to the underlying dynptr data.'',
    '' *'',
    '' * 	*len* must be a statically known value. The returned data slice'',
    '' * 	is invalidated whenever the dynptr is invalidated.'',
    '' *'',
    '' * 	skb and xdp type dynptrs may not use bpf_dynptr_data. They should'',
    '' * 	instead use bpf_dynptr_slice and bpf_dynptr_slice_rdwr.'',
    '' *'',
    '' * Returns'',
    '' * 	Pointer to the underlying dynptr data, NULL if the dynptr is'',
    '' * 	read-only, if the dynptr is invalid, or if the offset and length'',
    '' * 	is out of bounds.'',
    '' */'',
    ''static void *('' @ ''* const bpf_dynptr_data)(const struct bpf_dynptr *ptr, __u32 offset, __u32 len) = (void *) 203;'']"

definition hdef_bpf_tcp_raw_gen_syncookie_ipv4 :: "string list" where
  "hdef_bpf_tcp_raw_gen_syncookie_ipv4 = [
    ''/*'',
    '' * bpf_tcp_raw_gen_syncookie_ipv4'',
    '' *'',
    '' * 	Try to issue a SYN cookie for the packet with corresponding'',
    '' * 	IPv4/TCP headers, *iph* and *th*, without depending on a'',
    '' * 	listening socket.'',
    '' *'',
    '' * 	*iph* points to the IPv4 header.'',
    '' *'',
    '' * 	*th* points to the start of the TCP header, while *th_len*'',
    '' * 	contains the length of the TCP header (at least'',
    '' * 	**sizeof**'' @ bsl @ '' ('' @ ''**struct tcphdr**)).'',
    '' *'',
    '' * Returns'',
    '' * 	On success, lower 32 bits hold the generated SYN cookie in'',
    '' * 	followed by 16 bits which hold the MSS value for that cookie,'',
    '' * 	and the top 16 bits are unused.'',
    '' *'',
    '' * 	On failure, the returned value is one of the following:'',
    '' *'',
    '' * 	**-EINVAL** if *th_len* is invalid.'',
    '' */'',
    ''static __s64 ('' @ ''* const bpf_tcp_raw_gen_syncookie_ipv4)(struct iphdr *iph, struct tcphdr *th, __u32 th_len) = (void *) 204;'']"

definition hdef_bpf_tcp_raw_gen_syncookie_ipv6 :: "string list" where
  "hdef_bpf_tcp_raw_gen_syncookie_ipv6 = [
    ''/*'',
    '' * bpf_tcp_raw_gen_syncookie_ipv6'',
    '' *'',
    '' * 	Try to issue a SYN cookie for the packet with corresponding'',
    '' * 	IPv6/TCP headers, *iph* and *th*, without depending on a'',
    '' * 	listening socket.'',
    '' *'',
    '' * 	*iph* points to the IPv6 header.'',
    '' *'',
    '' * 	*th* points to the start of the TCP header, while *th_len*'',
    '' * 	contains the length of the TCP header (at least'',
    '' * 	**sizeof**'' @ bsl @ '' ('' @ ''**struct tcphdr**)).'',
    '' *'',
    '' * Returns'',
    '' * 	On success, lower 32 bits hold the generated SYN cookie in'',
    '' * 	followed by 16 bits which hold the MSS value for that cookie,'',
    '' * 	and the top 16 bits are unused.'',
    '' *'',
    '' * 	On failure, the returned value is one of the following:'',
    '' *'',
    '' * 	**-EINVAL** if *th_len* is invalid.'',
    '' *'',
    '' * 	**-EPROTONOSUPPORT** if CONFIG_IPV6 is not builtin.'',
    '' */'',
    ''static __s64 ('' @ ''* const bpf_tcp_raw_gen_syncookie_ipv6)(struct ipv6hdr *iph, struct tcphdr *th, __u32 th_len) = (void *) 205;'']"

definition hdef_bpf_tcp_raw_check_syncookie_ipv4 :: "string list" where
  "hdef_bpf_tcp_raw_check_syncookie_ipv4 = [
    ''/*'',
    '' * bpf_tcp_raw_check_syncookie_ipv4'',
    '' *'',
    '' * 	Check whether *iph* and *th* contain a valid SYN cookie ACK'',
    '' * 	without depending on a listening socket.'',
    '' *'',
    '' * 	*iph* points to the IPv4 header.'',
    '' *'',
    '' * 	*th* points to the TCP header.'',
    '' *'',
    '' * Returns'',
    '' * 	0 if *iph* and *th* are a valid SYN cookie ACK.'',
    '' *'',
    '' * 	On failure, the returned value is one of the following:'',
    '' *'',
    '' * 	**-EACCES** if the SYN cookie is not valid.'',
    '' */'',
    ''static long ('' @ ''* const bpf_tcp_raw_check_syncookie_ipv4)(struct iphdr *iph, struct tcphdr *th) = (void *) 206;'']"

definition hdef_bpf_tcp_raw_check_syncookie_ipv6 :: "string list" where
  "hdef_bpf_tcp_raw_check_syncookie_ipv6 = [
    ''/*'',
    '' * bpf_tcp_raw_check_syncookie_ipv6'',
    '' *'',
    '' * 	Check whether *iph* and *th* contain a valid SYN cookie ACK'',
    '' * 	without depending on a listening socket.'',
    '' *'',
    '' * 	*iph* points to the IPv6 header.'',
    '' *'',
    '' * 	*th* points to the TCP header.'',
    '' *'',
    '' * Returns'',
    '' * 	0 if *iph* and *th* are a valid SYN cookie ACK.'',
    '' *'',
    '' * 	On failure, the returned value is one of the following:'',
    '' *'',
    '' * 	**-EACCES** if the SYN cookie is not valid.'',
    '' *'',
    '' * 	**-EPROTONOSUPPORT** if CONFIG_IPV6 is not builtin.'',
    '' */'',
    ''static long ('' @ ''* const bpf_tcp_raw_check_syncookie_ipv6)(struct ipv6hdr *iph, struct tcphdr *th) = (void *) 207;'']"

definition hdef_bpf_ktime_get_tai_ns :: "string list" where
  "hdef_bpf_ktime_get_tai_ns = [
    ''/*'',
    '' * bpf_ktime_get_tai_ns'',
    '' *'',
    '' * 	A nonsettable system-wide clock derived from wall-clock time but'',
    '' * 	ignoring leap seconds.  This clock does not experience'',
    '' * 	discontinuities and backwards jumps caused by NTP inserting leap'',
    '' * 	seconds as CLOCK_REALTIME does.'',
    '' *'',
    '' * 	See: **clock_gettime**'' @ bsl @ '' ('' @ ''**CLOCK_TAI**)'',
    '' *'',
    '' * Returns'',
    '' * 	Current *ktime*.'',
    '' */'',
    ''static __u64 ('' @ ''* const bpf_ktime_get_tai_ns)(void) = (void *) 208;'']"

definition hdef_bpf_user_ringbuf_drain :: "string list" where
  "hdef_bpf_user_ringbuf_drain = [
    ''/*'',
    '' * bpf_user_ringbuf_drain'',
    '' *'',
    '' * 	Drain samples from the specified user ring buffer, and invoke'',
    '' * 	the provided callback for each such sample:'',
    '' *'',
    '' * 	long ('' @ bsl @ ''*callback_fn)(const struct bpf_dynptr '' @ bsl @ ''*dynptr, void '' @ bsl @ ''*ctx);'',
    '' *'',
    '' * 	If **callback_fn** returns 0, the helper will continue to try'',
    '' * 	and drain the next sample, up to a maximum of'',
    '' * 	BPF_MAX_USER_RINGBUF_SAMPLES samples. If the return value is 1,'',
    '' * 	the helper will skip the rest of the samples and return. Other'',
    '' * 	return values are not used now, and will be rejected by the'',
    '' * 	verifier.'',
    '' *'',
    '' * Returns'',
    '' * 	The number of drained samples if no error was encountered while'',
    '' * 	draining samples, or 0 if no samples were present in the ring'',
    '' * 	buffer. If a user-space producer was epoll-waiting on this map,'',
    '' * 	and at least one sample was drained, they will receive an event'',
    '' * 	notification notifying them of available space in the ring'',
    '' * 	buffer. If the BPF_RB_NO_WAKEUP flag is passed to this'',
    '' * 	function, no wakeup notification will be sent. If the'',
    '' * 	BPF_RB_FORCE_WAKEUP flag is passed, a wakeup notification will'',
    '' * 	be sent even if no sample was drained.'',
    '' *'',
    '' * 	On failure, the returned value is one of the following:'',
    '' *'',
    '' * 	**-EBUSY** if the ring buffer is contended, and another calling'',
    '' * 	context was concurrently draining the ring buffer.'',
    '' *'',
    '' * 	**-EINVAL** if user-space is not properly tracking the ring'',
    '' * 	buffer due to the producer position not being aligned to 8'',
    '' * 	bytes, a sample not being aligned to 8 bytes, or the producer'',
    '' * 	position not matching the advertised length of a sample.'',
    '' *'',
    '' * 	**-E2BIG** if user-space has tried to publish a sample which is'',
    '' * 	larger than the size of the ring buffer, or which cannot fit'',
    '' * 	within a struct bpf_dynptr.'',
    '' */'',
    ''static long ('' @ ''* const bpf_user_ringbuf_drain)(void *map, void *callback_fn, void *ctx, __u64 flags) = (void *) 209;'']"

definition hdef_bpf_cgrp_storage_get :: "string list" where
  "hdef_bpf_cgrp_storage_get = [
    ''/*'',
    '' * bpf_cgrp_storage_get'',
    '' *'',
    '' * 	Get a bpf_local_storage from the *cgroup*.'',
    '' *'',
    '' * 	Logically, it could be thought of as getting the value from'',
    '' * 	a *map* with *cgroup* as the **key**.  From this'',
    '' * 	perspective,  the usage is not much different from'',
    '' * 	**bpf_map_lookup_elem**'' @ bsl @ '' ('' @ ''*map*, **&**'' @ bsl @ '' *cgroup*) except this'',
    '' * 	helper enforces the key must be a cgroup struct and the map must also'',
    '' * 	be a **BPF_MAP_TYPE_CGRP_STORAGE**.'',
    '' *'',
    '' * 	In reality, the local-storage value is embedded directly inside of the'',
    '' * 	*cgroup* object itself, rather than being located in the'',
    '' * 	**BPF_MAP_TYPE_CGRP_STORAGE** map. When the local-storage value is'',
    '' * 	queried for some *map* on a *cgroup* object, the kernel will perform an'',
    '' * 	O(n) iteration over all of the live local-storage values for that'',
    '' * 	*cgroup* object until the local-storage value for the *map* is found.'',
    '' *'',
    '' * 	An optional *flags* ('' @ ''**BPF_LOCAL_STORAGE_GET_F_CREATE**) can be'',
    '' * 	used such that a new bpf_local_storage will be'',
    '' * 	created if one does not exist.  *value* can be used'',
    '' * 	together with **BPF_LOCAL_STORAGE_GET_F_CREATE** to specify'',
    '' * 	the initial value of a bpf_local_storage.  If *value* is'',
    '' * 	**NULL**, the new bpf_local_storage will be zero initialized.'',
    '' *'',
    '' * Returns'',
    '' * 	A bpf_local_storage pointer is returned on success.'',
    '' *'',
    '' * 	**NULL** if not found or there was an error in adding'',
    '' * 	a new bpf_local_storage.'',
    '' */'',
    ''static void *('' @ ''* const bpf_cgrp_storage_get)(void *map, struct cgroup *cgroup, void *value, __u64 flags) = (void *) 210;'']"

definition hdef_bpf_cgrp_storage_delete :: "string list" where
  "hdef_bpf_cgrp_storage_delete = [
    ''/*'',
    '' * bpf_cgrp_storage_delete'',
    '' *'',
    '' * 	Delete a bpf_local_storage from a *cgroup*.'',
    '' *'',
    '' * Returns'',
    '' * 	0 on success.'',
    '' *'',
    '' * 	**-ENOENT** if the bpf_local_storage cannot be found.'',
    '' */'',
    ''static long ('' @ ''* const bpf_cgrp_storage_delete)(void *map, struct cgroup *cgroup) = (void *) 211;'']"

definition helperBlocksH :: "string list list" where
  "helperBlocksH = [hdef_bpf_xdp_get_buff_len,
     hdef_bpf_xdp_load_bytes,
     hdef_bpf_xdp_store_bytes,
     hdef_bpf_copy_from_user_task,
     hdef_bpf_skb_set_tstamp,
     hdef_bpf_ima_file_hash,
     hdef_bpf_kptr_xchg,
     hdef_bpf_map_lookup_percpu_elem,
     hdef_bpf_skc_to_mptcp_sock,
     hdef_bpf_dynptr_from_mem,
     hdef_bpf_ringbuf_reserve_dynptr,
     hdef_bpf_ringbuf_submit_dynptr,
     hdef_bpf_ringbuf_discard_dynptr,
     hdef_bpf_dynptr_read,
     hdef_bpf_dynptr_write,
     hdef_bpf_dynptr_data,
     hdef_bpf_tcp_raw_gen_syncookie_ipv4,
     hdef_bpf_tcp_raw_gen_syncookie_ipv6,
     hdef_bpf_tcp_raw_check_syncookie_ipv4,
     hdef_bpf_tcp_raw_check_syncookie_ipv6,
     hdef_bpf_ktime_get_tai_ns,
     hdef_bpf_user_ringbuf_drain,
     hdef_bpf_cgrp_storage_get,
     hdef_bpf_cgrp_storage_delete]"

end
