(* ===== verification/Helper_Header.thy ===== *)
theory Helper_Header
  imports Gen_Helpers Helper_Defs_A Helper_Defs_B Helper_Defs_C Helper_Defs_D
    Helper_Defs_E Helper_Defs_F Helper_Defs_G Helper_Defs_H
begin

text \<open>
  The generator applied to the header it is shipped with.  \<open>headerLines\<close> is the whole of
  \<^verbatim>\<open>tools/genhelpers/data/bpf_helper_defs.h\<close>; the lists \<open>stubsA\<close> to \<open>stubsH\<close> hold, in the
  order of the header, what the committed \<^verbatim>\<open>bpf/helpers_generated.go\<close> says of each helper: its
  stub with the line breaks of gofmt undone, or the reason why it was skipped.
\<close>

section \<open>The header and the committed stubs\<close>

definition headerPreamble :: "string list" where
  "headerPreamble = [
     ''/* This is auto-generated file. See bpf_doc.py for details. */'',
     '''',
     ''/* Forward declarations of BPF structs */'',
     ''struct bpf_fib_lookup;'',
     ''struct bpf_sk_lookup;'',
     ''struct bpf_perf_event_data;'',
     ''struct bpf_perf_event_value;'',
     ''struct bpf_pidns_info;'',
     ''struct bpf_redir_neigh;'',
     ''struct bpf_sock;'',
     ''struct bpf_sock_addr;'',
     ''struct bpf_sock_ops;'',
     ''struct bpf_sock_tuple;'',
     ''struct bpf_spin_lock;'',
     ''struct bpf_sysctl;'',
     ''struct bpf_tcp_sock;'',
     ''struct bpf_tunnel_key;'',
     ''struct bpf_xfrm_state;'',
     ''struct linux_binprm;'',
     ''struct pt_regs;'',
     ''struct sk_reuseport_md;'',
     ''struct sockaddr;'',
     ''struct tcphdr;'',
     ''struct seq_file;'',
     ''struct tcp6_sock;'',
     ''struct tcp_sock;'',
     ''struct tcp_timewait_sock;'',
     ''struct tcp_request_sock;'',
     ''struct udp6_sock;'',
     ''struct unix_sock;'',
     ''struct task_struct;'',
     ''struct cgroup;'',
     ''struct __sk_buff;'',
     ''struct sk_msg_md;'',
     ''struct xdp_md;'',
     ''struct path;'',
     ''struct btf_ptr;'',
     ''struct inode;'',
     ''struct socket;'',
     ''struct file;'',
     ''struct bpf_timer;'',
     ''struct mptcp_sock;'',
     ''struct bpf_dynptr;'',
     ''struct iphdr;'',
     ''struct ipv6hdr;'',
     '''',
     ''#ifndef __bpf_fastcall'',
     ''#if __has_attribute(bpf_fastcall)'',
     ''#define __bpf_fastcall __attribute__((bpf_fastcall))'',
     ''#else'',
     ''#define __bpf_fastcall'',
     ''#endif'',
     ''#endif'',
     '''']"

definition helperBlocks :: "string list list" where
  "helperBlocks = helperBlocksA @ helperBlocksB @ helperBlocksC @ helperBlocksD
     @ helperBlocksE @ helperBlocksF @ helperBlocksG @ helperBlocksH"

text \<open>A blank line follows every declaration; the file ends with one more.\<close>

definition headerLines :: "string list" where
  "headerLines = headerPreamble @ concat (map (\<lambda>b. b @ ['''']) helperBlocks) @ ['''']"

definition stubsA :: "(string \<times> string res) list" where
  "stubsA = [
    (''bpf_map_lookup_elem'', Inr (''func MapLookupElem(map_ unsafe.Pointer, key unsafe.Pointer) unsafe.Pointer { panic(stubMsg) }'')),
    (''bpf_map_update_elem'', Inr (''func MapUpdateElem(map_ unsafe.Pointer, key unsafe.Pointer, value unsafe.Pointer, flags uint64) int64 { panic(stubMsg) }'')),
    (''bpf_map_delete_elem'', Inr (''func MapDeleteElem(map_ unsafe.Pointer, key unsafe.Pointer) int64 { panic(stubMsg) }'')),
    (''bpf_probe_read'', Inr (''func ProbeRead(dst unsafe.Pointer, size uint32, unsafe_ptr unsafe.Pointer) int64 { panic(stubMsg) }'')),
    (''bpf_ktime_get_ns'', Inr (''func KtimeGetNs() uint64 { panic(stubMsg) }'')),
    (''bpf_trace_printk'', Inl (''variadic helpers are not yet supported'')),
    (''bpf_get_prandom_u32'', Inr (''func GetPrandomU32() uint32 { panic(stubMsg) }'')),
    (''bpf_get_smp_processor_id'', Inr (''func GetSmpProcessorId() uint32 { panic(stubMsg) }'')),
    (''bpf_skb_store_bytes'', Inr (''func SkbStoreBytes(skb unsafe.Pointer, offset uint32, from unsafe.Pointer, len uint32, flags uint64) int64 { panic(stubMsg) }'')),
    (''bpf_l3_csum_replace'', Inr (''func L3CsumReplace(skb unsafe.Pointer, offset uint32, from uint64, to uint64, size uint64) int64 { panic(stubMsg) }'')),
    (''bpf_l4_csum_replace'', Inr (''func L4CsumReplace(skb unsafe.Pointer, offset uint32, from uint64, to uint64, flags uint64) int64 { panic(stubMsg) }'')),
    (''bpf_tail_call'', Inr (''func TailCall(ctx unsafe.Pointer, prog_array_map unsafe.Pointer, index uint32) int64 { panic(stubMsg) }'')),
    (''bpf_clone_redirect'', Inr (''func CloneRedirect(skb unsafe.Pointer, ifindex uint32, flags uint64) int64 { panic(stubMsg) }'')),
    (''bpf_get_current_pid_tgid'', Inr (''func GetCurrentPidTgid() uint64 { panic(stubMsg) }'')),
    (''bpf_get_current_uid_gid'', Inr (''func GetCurrentUidGid() uint64 { panic(stubMsg) }'')),
    (''bpf_get_current_comm'', Inr (''func GetCurrentComm(buf unsafe.Pointer, size_of_buf uint32) int64 { panic(stubMsg) }'')),
    (''bpf_get_cgroup_classid'', Inr (''func GetCgroupClassid(skb unsafe.Pointer) uint32 { panic(stubMsg) }'')),
    (''bpf_skb_vlan_push'', Inr (''func SkbVlanPush(skb unsafe.Pointer, vlan_proto uint16, vlan_tci uint16) int64 { panic(stubMsg) }'')),
    (''bpf_skb_vlan_pop'', Inr (''func SkbVlanPop(skb unsafe.Pointer) int64 { panic(stubMsg) }'')),
    (''bpf_skb_get_tunnel_key'', Inr (''func SkbGetTunnelKey(skb unsafe.Pointer, key unsafe.Pointer, size uint32, flags uint64) int64 { panic(stubMsg) }'')),
    (''bpf_skb_set_tunnel_key'', Inr (''func SkbSetTunnelKey(skb unsafe.Pointer, key unsafe.Pointer, size uint32, flags uint64) int64 { panic(stubMsg) }'')),
    (''bpf_perf_event_read'', Inr (''func PerfEventRead(map_ unsafe.Pointer, flags uint64) uint64 { panic(stubMsg) }'')),
    (''bpf_redirect'', Inr (''func Redirect(ifindex uint32, flags uint64) int64 { panic(stubMsg) }'')),
    (''bpf_get_route_realm'', Inr (''func GetRouteRealm(skb unsafe.Pointer) uint32 { panic(stubMsg) }''))]"

definition stubsB :: "(string \<times> string res) list" where
  "stubsB = [
    (''bpf_perf_event_output'', Inr (''func PerfEventOutput(ctx unsafe.Pointer, map_ unsafe.Pointer, flags uint64, data unsafe.Pointer, size uint64) int64 { panic(stubMsg) }'')),
    (''bpf_skb_load_bytes'', Inr (''func SkbLoadBytes(skb unsafe.Pointer, offset uint32, to unsafe.Pointer, len uint32) int64 { panic(stubMsg) }'')),
    (''bpf_get_stackid'', Inr (''func GetStackid(ctx unsafe.Pointer, map_ unsafe.Pointer, flags uint64) int64 { panic(stubMsg) }'')),
    (''bpf_csum_diff'', Inr (''func CsumDiff(from unsafe.Pointer, from_size uint32, to unsafe.Pointer, to_size uint32, seed uint32) int64 { panic(stubMsg) }'')),
    (''bpf_skb_get_tunnel_opt'', Inr (''func SkbGetTunnelOpt(skb unsafe.Pointer, opt unsafe.Pointer, size uint32) int64 { panic(stubMsg) }'')),
    (''bpf_skb_set_tunnel_opt'', Inr (''func SkbSetTunnelOpt(skb unsafe.Pointer, opt unsafe.Pointer, size uint32) int64 { panic(stubMsg) }'')),
    (''bpf_skb_change_proto'', Inr (''func SkbChangeProto(skb unsafe.Pointer, proto uint16, flags uint64) int64 { panic(stubMsg) }'')),
    (''bpf_skb_change_type'', Inr (''func SkbChangeType(skb unsafe.Pointer, type_ uint32) int64 { panic(stubMsg) }'')),
    (''bpf_skb_under_cgroup'', Inr (''func SkbUnderCgroup(skb unsafe.Pointer, map_ unsafe.Pointer, index uint32) int64 { panic(stubMsg) }'')),
    (''bpf_get_hash_recalc'', Inr (''func GetHashRecalc(skb unsafe.Pointer) uint32 { panic(stubMsg) }'')),
    (''bpf_get_current_task'', Inr (''func GetCurrentTask() uint64 { panic(stubMsg) }'')),
    (''bpf_probe_write_user'', Inr (''func ProbeWriteUser(dst unsafe.Pointer, src unsafe.Pointer, len uint32) int64 { panic(stubMsg) }'')),
    (''bpf_current_task_under_cgroup'', Inr (''func CurrentTaskUnderCgroup(map_ unsafe.Pointer, index uint32) int64 { panic(stubMsg) }'')),
    (''bpf_skb_change_tail'', Inr (''func SkbChangeTail(skb unsafe.Pointer, len uint32, flags uint64) int64 { panic(stubMsg) }'')),
    (''bpf_skb_pull_data'', Inr (''func SkbPullData(skb unsafe.Pointer, len uint32) int64 { panic(stubMsg) }'')),
    (''bpf_csum_update'', Inr (''func CsumUpdate(skb unsafe.Pointer, csum uint32) int64 { panic(stubMsg) }'')),
    (''bpf_set_hash_invalid'', Inr (''func SetHashInvalid(skb unsafe.Pointer) { panic(stubMsg) }'')),
    (''bpf_get_numa_node_id'', Inr (''func GetNumaNodeId() int64 { panic(stubMsg) }'')),
    (''bpf_skb_change_head'', Inr (''func SkbChangeHead(skb unsafe.Pointer, len uint32, flags uint64) int64 { panic(stubMsg) }'')),
    (''bpf_xdp_adjust_head'', Inr (''func XdpAdjustHead(xdp_md unsafe.Pointer, delta int32) int64 { panic(stubMsg) }'')),
    (''bpf_probe_read_str'', Inr (''func ProbeReadStr(dst unsafe.Pointer, size uint32, unsafe_ptr unsafe.Pointer) int64 { panic(stubMsg) }'')),
    (''bpf_get_socket_cookie'', Inr (''func GetSocketCookie(ctx unsafe.Pointer) uint64 { panic(stubMsg) }'')),
    (''bpf_get_socket_uid'', Inr (''func GetSocketUid(skb unsafe.Pointer) uint32 { panic(stubMsg) }'')),
    (''bpf_set_hash'', Inr (''func SetHash(skb unsafe.Pointer, hash uint32) int64 { panic(stubMsg) }'')),
    (''bpf_setsockopt'', Inr (''func Setsockopt(bpf_socket unsafe.Pointer, level int32, optname int32, optval unsafe.Pointer, optlen int32) int64 { panic(stubMsg) }'')),
    (''bpf_skb_adjust_room'', Inr (''func SkbAdjustRoom(skb unsafe.Pointer, len_diff int32, mode uint32, flags uint64) int64 { panic(stubMsg) }''))]"

definition stubsC :: "(string \<times> string res) list" where
  "stubsC = [
    (''bpf_redirect_map'', Inr (''func RedirectMap(map_ unsafe.Pointer, key uint64, flags uint64) int64 { panic(stubMsg) }'')),
    (''bpf_sk_redirect_map'', Inr (''func SkRedirectMap(skb unsafe.Pointer, map_ unsafe.Pointer, key uint32, flags uint64) int64 { panic(stubMsg) }'')),
    (''bpf_sock_map_update'', Inr (''func SockMapUpdate(skops unsafe.Pointer, map_ unsafe.Pointer, key unsafe.Pointer, flags uint64) int64 { panic(stubMsg) }'')),
    (''bpf_xdp_adjust_meta'', Inr (''func XdpAdjustMeta(xdp_md unsafe.Pointer, delta int32) int64 { panic(stubMsg) }'')),
    (''bpf_perf_event_read_value'', Inr (''func PerfEventReadValue(map_ unsafe.Pointer, flags uint64, buf unsafe.Pointer, buf_size uint32) int64 { panic(stubMsg) }'')),
    (''bpf_perf_prog_read_value'', Inr (''func PerfProgReadValue(ctx unsafe.Pointer, buf unsafe.Pointer, buf_size uint32) int64 { panic(stubMsg) }'')),
    (''bpf_getsockopt'', Inr (''func Getsockopt(bpf_socket unsafe.Pointer, level int32, optname int32, optval unsafe.Pointer, optlen int32) int64 { panic(stubMsg) }'')),
    (''bpf_override_return'', Inr (''func OverrideReturn(regs unsafe.Pointer, rc uint64) int64 { panic(stubMsg) }'')),
    (''bpf_sock_ops_cb_flags_set'', Inr (''func SockOpsCbFlagsSet(bpf_sock unsafe.Pointer, argval int32) int64 { panic(stubMsg) }'')),
    (''bpf_msg_redirect_map'', Inr (''func MsgRedirectMap(msg unsafe.Pointer, map_ unsafe.Pointer, key uint32, flags uint64) int64 { panic(stubMsg) }'')),
    (''bpf_msg_apply_bytes'', Inr (''func MsgApplyBytes(msg unsafe.Pointer, bytes uint32) int64 { panic(stubMsg) }'')),
    (''bpf_msg_cork_bytes'', Inr (''func MsgCorkBytes(msg unsafe.Pointer, bytes uint32) int64 { panic(stubMsg) }'')),
    (''bpf_msg_pull_data'', Inr (''func MsgPullData(msg unsafe.Pointer, start uint32, end uint32, flags uint64) int64 { panic(stubMsg) }'')),
    (''bpf_bind'', Inr (''func Bind(ctx unsafe.Pointer, addr unsafe.Pointer, addr_len int32) int64 { panic(stubMsg) }'')),
    (''bpf_xdp_adjust_tail'', Inr (''func XdpAdjustTail(xdp_md unsafe.Pointer, delta int32) int64 { panic(stubMsg) }'')),
    (''bpf_skb_get_xfrm_state'', Inr (''func SkbGetXfrmState(skb unsafe.Pointer, index uint32, xfrm_state unsafe.Pointer, size uint32, flags uint64) int64 { panic(stubMsg) }'')),
    (''bpf_get_stack'', Inr (''func GetStack(ctx unsafe.Pointer, buf unsafe.Pointer, size uint32, flags uint64) int64 { panic(stubMsg) }'')),
    (''bpf_skb_load_bytes_relative'', Inr (''func SkbLoadBytesRelative(skb unsafe.Pointer, offset uint32, to unsafe.Pointer, len uint32, start_header uint32) int64 { panic(stubMsg) }'')),
    (''bpf_fib_lookup'', Inr (''func FibLookup(ctx unsafe.Pointer, params unsafe.Pointer, plen int32, flags uint32) int64 { panic(stubMsg) }'')),
    (''bpf_sock_hash_update'', Inr (''func SockHashUpdate(skops unsafe.Pointer, map_ unsafe.Pointer, key unsafe.Pointer, flags uint64) int64 { panic(stubMsg) }''))]"

definition stubsD :: "(string \<times> string res) list" where
  "stubsD = [
    (''bpf_msg_redirect_hash'', Inr (''func MsgRedirectHash(msg unsafe.Pointer, map_ unsafe.Pointer, key unsafe.Pointer, flags uint64) int64 { panic(stubMsg) }'')),
    (''bpf_sk_redirect_hash'', Inr (''func SkRedirectHash(skb unsafe.Pointer, map_ unsafe.Pointer, key unsafe.Pointer, flags uint64) int64 { panic(stubMsg) }'')),
    (''bpf_lwt_push_encap'', Inr (''func LwtPushEncap(skb unsafe.Pointer, type_ uint32, hdr unsafe.Pointer, len uint32) int64 { panic(stubMsg) }'')),
    (''bpf_lwt_seg6_store_bytes'', Inr (''func LwtSeg6StoreBytes(skb unsafe.Pointer, offset uint32, from unsafe.Pointer, len uint32) int64 { panic(stubMsg) }'')),
    (''bpf_lwt_seg6_adjust_srh'', Inr (''func LwtSeg6AdjustSrh(skb unsafe.Pointer, offset uint32, delta int32) int64 { panic(stubMsg) }'')),
    (''bpf_lwt_seg6_action'', Inr (''func LwtSeg6Action(skb unsafe.Pointer, action uint32, param unsafe.Pointer, param_len uint32) int64 { panic(stubMsg) }'')),
    (''bpf_rc_repeat'', Inr (''func RcRepeat(ctx unsafe.Pointer) int64 { panic(stubMsg) }'')),
    (''bpf_rc_keydown'', Inr (''func RcKeydown(ctx unsafe.Pointer, protocol uint32, scancode uint64, toggle uint32) int64 { panic(stubMsg) }'')),
    (''bpf_skb_cgroup_id'', Inr (''func SkbCgroupId(skb unsafe.Pointer) uint64 { panic(stubMsg) }'')),
    (''bpf_get_current_cgroup_id'', Inr (''func GetCurrentCgroupId() uint64 { panic(stubMsg) }'')),
    (''bpf_get_local_storage'', Inr (''func GetLocalStorage(map_ unsafe.Pointer, flags uint64) unsafe.Pointer { panic(stubMsg) }'')),
    (''bpf_sk_select_reuseport'', Inr (''func SkSelectReuseport(reuse unsafe.Pointer, map_ unsafe.Pointer, key unsafe.Pointer, flags uint64) int64 { panic(stubMsg) }'')),
    (''bpf_skb_ancestor_cgroup_id'', Inr (''func SkbAncestorCgroupId(skb unsafe.Pointer, ancestor_level int32) uint64 { panic(stubMsg) }'')),
    (''bpf_sk_lookup_tcp'', Inr (''func SkLookupTcp(ctx unsafe.Pointer, tuple unsafe.Pointer, tuple_size uint32, netns uint64, flags uint64) unsafe.Pointer { panic(stubMsg) }'')),
    (''bpf_sk_lookup_udp'', Inr (''func SkLookupUdp(ctx unsafe.Pointer, tuple unsafe.Pointer, tuple_size uint32, netns uint64, flags uint64) unsafe.Pointer { panic(stubMsg) }'')),
    (''bpf_sk_release'', Inr (''func SkRelease(sock unsafe.Pointer) int64 { panic(stubMsg) }'')),
    (''bpf_map_push_elem'', Inr (''func MapPushElem(map_ unsafe.Pointer, value unsafe.Pointer, flags uint64) int64 { panic(stubMsg) }'')),
    (''bpf_map_pop_elem'', Inr (''func MapPopElem(map_ unsafe.Pointer, value unsafe.Pointer) int64 { panic(stubMsg) }'')),
    (''bpf_map_peek_elem'', Inr (''func MapPeekElem(map_ unsafe.Pointer, value unsafe.Pointer) int64 { panic(stubMsg) }'')),
    (''bpf_msg_push_data'', Inr (''func MsgPushData(msg unsafe.Pointer, start uint32, len uint32, flags uint64) int64 { panic(stubMsg) }'')),
    (''bpf_msg_pop_data'', Inr (''func MsgPopData(msg unsafe.Pointer, start uint32, len uint32, flags uint64) int64 { panic(stubMsg) }'')),
    (''bpf_rc_pointer_rel'', Inr (''func RcPointerRel(ctx unsafe.Pointer, rel_x int32, rel_y int32) int64 { panic(stubMsg) }'')),
    (''bpf_spin_lock'', Inr (''func SpinLock(lock unsafe.Pointer) int64 { panic(stubMsg) }'')),
    (''bpf_spin_unlock'', Inr (''func SpinUnlock(lock unsafe.Pointer) int64 { panic(stubMsg) }'')),
    (''bpf_sk_fullsock'', Inr (''func SkFullsock(sk unsafe.Pointer) unsafe.Pointer { panic(stubMsg) }'')),
    (''bpf_tcp_sock'', Inr (''func TcpSock(sk unsafe.Pointer) unsafe.Pointer { panic(stubMsg) }'')),
    (''bpf_skb_ecn_set_ce'', Inr (''func SkbEcnSetCe(skb unsafe.Pointer) int64 { panic(stubMsg) }'')),
    (''bpf_get_listener_sock'', Inr (''func GetListenerSock(sk unsafe.Pointer) unsafe.Pointer { panic(stubMsg) }'')),
    (''bpf_skc_lookup_tcp'', Inr (''func SkcLookupTcp(ctx unsafe.Pointer, tuple unsafe.Pointer, tuple_size uint32, netns uint64, flags uint64) unsafe.Pointer { panic(stubMsg) }''))]"

definition stubsE :: "(string \<times> string res) list" where
  "stubsE = [
    (''bpf_tcp_check_syncookie'', Inr (''func TcpCheckSyncookie(sk unsafe.Pointer, iph unsafe.Pointer, iph_len uint32, th unsafe.Pointer, th_len uint32) int64 { panic(stubMsg) }'')),
    (''bpf_sysctl_get_name'', Inl (''parameter '' @ dq @ ''buf'' @ dq @ '' (char *): string-typed parameters are not BPF-safe'')),
    (''bpf_sysctl_get_current_value'', Inl (''parameter '' @ dq @ ''buf'' @ dq @ '' (char *): string-typed parameters are not BPF-safe'')),
    (''bpf_sysctl_get_new_value'', Inl (''parameter '' @ dq @ ''buf'' @ dq @ '' (char *): string-typed parameters are not BPF-safe'')),
    (''bpf_sysctl_set_new_value'', Inl (''parameter '' @ dq @ ''buf'' @ dq @ '' (const char *): string-typed parameters are not BPF-safe'')),
    (''bpf_strtol'', Inl (''parameter '' @ dq @ ''buf'' @ dq @ '' (const char *): string-typed parameters are not BPF-safe'')),
    (''bpf_strtoul'', Inl (''parameter '' @ dq @ ''buf'' @ dq @ '' (const char *): string-typed parameters are not BPF-safe'')),
    (''bpf_sk_storage_get'', Inr (''func SkStorageGet(map_ unsafe.Pointer, sk unsafe.Pointer, value unsafe.Pointer, flags uint64) unsafe.Pointer { panic(stubMsg) }'')),
    (''bpf_sk_storage_delete'', Inr (''func SkStorageDelete(map_ unsafe.Pointer, sk unsafe.Pointer) int64 { panic(stubMsg) }'')),
    (''bpf_send_signal'', Inr (''func SendSignal(sig uint32) int64 { panic(stubMsg) }'')),
    (''bpf_tcp_gen_syncookie'', Inr (''func TcpGenSyncookie(sk unsafe.Pointer, iph unsafe.Pointer, iph_len uint32, th unsafe.Pointer, th_len uint32) int64 { panic(stubMsg) }'')),
    (''bpf_skb_output'', Inr (''func SkbOutput(ctx unsafe.Pointer, map_ unsafe.Pointer, flags uint64, data unsafe.Pointer, size uint64) int64 { panic(stubMsg) }'')),
    (''bpf_probe_read_user'', Inr (''func ProbeReadUser(dst unsafe.Pointer, size uint32, unsafe_ptr unsafe.Pointer) int64 { panic(stubMsg) }'')),
    (''bpf_probe_read_kernel'', Inr (''func ProbeReadKernel(dst unsafe.Pointer, size uint32, unsafe_ptr unsafe.Pointer) int64 { panic(stubMsg) }'')),
    (''bpf_probe_read_user_str'', Inr (''func ProbeReadUserStr(dst unsafe.Pointer, size uint32, unsafe_ptr unsafe.Pointer) int64 { panic(stubMsg) }'')),
    (''bpf_probe_read_kernel_str'', Inr (''func ProbeReadKernelStr(dst unsafe.Pointer, size uint32, unsafe_ptr unsafe.Pointer) int64 { panic(stubMsg) }'')),
    (''bpf_tcp_send_ack'', Inr (''func TcpSendAck(tp unsafe.Pointer, rcv_nxt uint32) int64 { panic(stubMsg) }'')),
    (''bpf_send_signal_thread'', Inr (''func SendSignalThread(sig uint32) int64 { panic(stubMsg) }'')),
    (''bpf_jiffies64'', Inr (''func Jiffies64() uint64 { panic(stubMsg) }'')),
    (''bpf_read_branch_records'', Inr (''func ReadBranchRecords(ctx unsafe.Pointer, buf unsafe.Pointer, size uint32, flags uint64) int64 { panic(stubMsg) }'')),
    (''bpf_get_ns_current_pid_tgid'', Inr (''func GetNsCurrentPidTgid(dev uint64, ino uint64, nsdata unsafe.Pointer, size uint32) int64 { panic(stubMsg) }'')),
    (''bpf_xdp_output'', Inr (''func XdpOutput(ctx unsafe.Pointer, map_ unsafe.Pointer, flags uint64, data unsafe.Pointer, size uint64) int64 { panic(stubMsg) }'')),
    (''bpf_get_netns_cookie'', Inr (''func GetNetnsCookie(ctx unsafe.Pointer) uint64 { panic(stubMsg) }'')),
    (''bpf_get_current_ancestor_cgroup_id'', Inr (''func GetCurrentAncestorCgroupId(ancestor_level int32) uint64 { panic(stubMsg) }'')),
    (''bpf_sk_assign'', Inr (''func SkAssign(ctx unsafe.Pointer, sk unsafe.Pointer, flags uint64) int64 { panic(stubMsg) }'')),
    (''bpf_ktime_get_boot_ns'', Inr (''func KtimeGetBootNs() uint64 { panic(stubMsg) }'')),
    (''bpf_seq_printf'', Inl (''parameter '' @ dq @ ''fmt'' @ dq @ '' (const char *): string-typed parameters are not BPF-safe'')),
    (''bpf_seq_write'', Inr (''func SeqWrite(m unsafe.Pointer, data unsafe.Pointer, len uint32) int64 { panic(stubMsg) }''))]"

definition stubsF :: "(string \<times> string res) list" where
  "stubsF = [
    (''bpf_sk_cgroup_id'', Inr (''func SkCgroupId(sk unsafe.Pointer) uint64 { panic(stubMsg) }'')),
    (''bpf_sk_ancestor_cgroup_id'', Inr (''func SkAncestorCgroupId(sk unsafe.Pointer, ancestor_level int32) uint64 { panic(stubMsg) }'')),
    (''bpf_ringbuf_output'', Inr (''func RingbufOutput(ringbuf unsafe.Pointer, data unsafe.Pointer, size uint64, flags uint64) int64 { panic(stubMsg) }'')),
    (''bpf_ringbuf_reserve'', Inr (''func RingbufReserve(ringbuf unsafe.Pointer, size uint64, flags uint64) unsafe.Pointer { panic(stubMsg) }'')),
    (''bpf_ringbuf_submit'', Inr (''func RingbufSubmit(data unsafe.Pointer, flags uint64) { panic(stubMsg) }'')),
    (''bpf_ringbuf_discard'', Inr (''func RingbufDiscard(data unsafe.Pointer, flags uint64) { panic(stubMsg) }'')),
    (''bpf_ringbuf_query'', Inr (''func RingbufQuery(ringbuf unsafe.Pointer, flags uint64) uint64 { panic(stubMsg) }'')),
    (''bpf_csum_level'', Inr (''func CsumLevel(skb unsafe.Pointer, level uint64) int64 { panic(stubMsg) }'')),
    (''bpf_skc_to_tcp6_sock'', Inr (''func SkcToTcp6Sock(sk unsafe.Pointer) unsafe.Pointer { panic(stubMsg) }'')),
    (''bpf_skc_to_tcp_sock'', Inr (''func SkcToTcpSock(sk unsafe.Pointer) unsafe.Pointer { panic(stubMsg) }'')),
    (''bpf_skc_to_tcp_timewait_sock'', Inr (''func SkcToTcpTimewaitSock(sk unsafe.Pointer) unsafe.Pointer { panic(stubMsg) }'')),
    (''bpf_skc_to_tcp_request_sock'', Inr (''func SkcToTcpRequestSock(sk unsafe.Pointer) unsafe.Pointer { panic(stubMsg) }'')),
    (''bpf_skc_to_udp6_sock'', Inr (''func SkcToUdp6Sock(sk unsafe.Pointer) unsafe.Pointer { panic(stubMsg) }'')),
    (''bpf_get_task_stack'', Inr (''func GetTaskStack(task unsafe.Pointer, buf unsafe.Pointer, size uint32, flags uint64) int64 { panic(stubMsg) }'')),
    (''bpf_load_hdr_opt'', Inr (''func LoadHdrOpt(skops unsafe.Pointer, searchby_res unsafe.Pointer, len uint32, flags uint64) int64 { panic(stubMsg) }'')),
    (''bpf_store_hdr_opt'', Inr (''func StoreHdrOpt(skops unsafe.Pointer, from unsafe.Pointer, len uint32, flags uint64) int64 { panic(stubMsg) }'')),
    (''bpf_reserve_hdr_opt'', Inr (''func ReserveHdrOpt(skops unsafe.Pointer, len uint32, flags uint64) int64 { panic(stubMsg) }'')),
    (''bpf_inode_storage_get'', Inr (''func InodeStorageGet(map_ unsafe.Pointer, inode unsafe.Pointer, value unsafe.Pointer, flags uint64) unsafe.Pointer { panic(stubMsg) }'')),
    (''bpf_inode_storage_delete'', Inr (''func InodeStorageDelete(map_ unsafe.Pointer, inode unsafe.Pointer) int32 { panic(stubMsg) }'')),
    (''bpf_d_path'', Inl (''parameter '' @ dq @ ''buf'' @ dq @ '' (char *): string-typed parameters are not BPF-safe'')),
    (''bpf_copy_from_user'', Inr (''func CopyFromUser(dst unsafe.Pointer, size uint32, user_ptr unsafe.Pointer) int64 { panic(stubMsg) }'')),
    (''bpf_snprintf_btf'', Inl (''parameter '' @ dq @ ''str'' @ dq @ '' (char *): string-typed parameters are not BPF-safe'')),
    (''bpf_seq_printf_btf'', Inr (''func SeqPrintfBtf(m unsafe.Pointer, ptr unsafe.Pointer, ptr_size uint32, flags uint64) int64 { panic(stubMsg) }'')),
    (''bpf_skb_cgroup_classid'', Inr (''func SkbCgroupClassid(skb unsafe.Pointer) uint64 { panic(stubMsg) }'')),
    (''bpf_redirect_neigh'', Inr (''func RedirectNeigh(ifindex uint32, params unsafe.Pointer, plen int32, flags uint64) int64 { panic(stubMsg) }'')),
    (''bpf_per_cpu_ptr'', Inr (''func PerCpuPtr(percpu_ptr unsafe.Pointer, cpu uint32) unsafe.Pointer { panic(stubMsg) }'')),
    (''bpf_this_cpu_ptr'', Inr (''func ThisCpuPtr(percpu_ptr unsafe.Pointer) unsafe.Pointer { panic(stubMsg) }'')),
    (''bpf_redirect_peer'', Inr (''func RedirectPeer(ifindex uint32, flags uint64) int64 { panic(stubMsg) }''))]"

definition stubsG :: "(string \<times> string res) list" where
  "stubsG = [
    (''bpf_task_storage_get'', Inr (''func TaskStorageGet(map_ unsafe.Pointer, task unsafe.Pointer, value unsafe.Pointer, flags uint64) unsafe.Pointer { panic(stubMsg) }'')),
    (''bpf_task_storage_delete'', Inr (''func TaskStorageDelete(map_ unsafe.Pointer, task unsafe.Pointer) int64 { panic(stubMsg) }'')),
    (''bpf_get_current_task_btf'', Inr (''func GetCurrentTaskBtf() unsafe.Pointer { panic(stubMsg) }'')),
    (''bpf_bprm_opts_set'', Inr (''func BprmOptsSet(bprm unsafe.Pointer, flags uint64) int64 { panic(stubMsg) }'')),
    (''bpf_ktime_get_coarse_ns'', Inr (''func KtimeGetCoarseNs() uint64 { panic(stubMsg) }'')),
    (''bpf_ima_inode_hash'', Inr (''func ImaInodeHash(inode unsafe.Pointer, dst unsafe.Pointer, size uint32) int64 { panic(stubMsg) }'')),
    (''bpf_sock_from_file'', Inr (''func SockFromFile(file unsafe.Pointer) unsafe.Pointer { panic(stubMsg) }'')),
    (''bpf_check_mtu'', Inr (''func CheckMtu(ctx unsafe.Pointer, ifindex uint32, mtu_len unsafe.Pointer, len_diff int32, flags uint64) int64 { panic(stubMsg) }'')),
    (''bpf_for_each_map_elem'', Inr (''func ForEachMapElem(map_ unsafe.Pointer, callback_fn unsafe.Pointer, callback_ctx unsafe.Pointer, flags uint64) int64 { panic(stubMsg) }'')),
    (''bpf_snprintf'', Inl (''parameter '' @ dq @ ''str'' @ dq @ '' (char *): string-typed parameters are not BPF-safe'')),
    (''bpf_sys_bpf'', Inr (''func SysBpf(cmd uint32, attr unsafe.Pointer, attr_size uint32) int64 { panic(stubMsg) }'')),
    (''bpf_btf_find_by_name_kind'', Inl (''parameter '' @ dq @ ''name'' @ dq @ '' (char *): string-typed parameters are not BPF-safe'')),
    (''bpf_sys_close'', Inr (''func SysClose(fd uint32) int64 { panic(stubMsg) }'')),
    (''bpf_timer_init'', Inr (''func TimerInit(timer unsafe.Pointer, map_ unsafe.Pointer, flags uint64) int64 { panic(stubMsg) }'')),
    (''bpf_timer_set_callback'', Inr (''func TimerSetCallback(timer unsafe.Pointer, callback_fn unsafe.Pointer) int64 { panic(stubMsg) }'')),
    (''bpf_timer_start'', Inr (''func TimerStart(timer unsafe.Pointer, nsecs uint64, flags uint64) int64 { panic(stubMsg) }'')),
    (''bpf_timer_cancel'', Inr (''func TimerCancel(timer unsafe.Pointer) int64 { panic(stubMsg) }'')),
    (''bpf_get_func_ip'', Inr (''func GetFuncIp(ctx unsafe.Pointer) uint64 { panic(stubMsg) }'')),
    (''bpf_get_attach_cookie'', Inr (''func GetAttachCookie(ctx unsafe.Pointer) uint64 { panic(stubMsg) }'')),
    (''bpf_task_pt_regs'', Inr (''func TaskPtRegs(task unsafe.Pointer) int64 { panic(stubMsg) }'')),
    (''bpf_get_branch_snapshot'', Inr (''func GetBranchSnapshot(entries unsafe.Pointer, size uint32, flags uint64) int64 { panic(stubMsg) }'')),
    (''bpf_trace_vprintk'', Inl (''parameter '' @ dq @ ''fmt'' @ dq @ '' (const char *): string-typed parameters are not BPF-safe'')),
    (''bpf_skc_to_unix_sock'', Inr (''func SkcToUnixSock(sk unsafe.Pointer) unsafe.Pointer { panic(stubMsg) }'')),
    (''bpf_kallsyms_lookup_name'', Inl (''parameter '' @ dq @ ''name'' @ dq @ '' (const char *): string-typed parameters are not BPF-safe'')),
    (''bpf_find_vma'', Inr (''func FindVma(task unsafe.Pointer, addr uint64, callback_fn unsafe.Pointer, callback_ctx unsafe.Pointer, flags uint64) int64 { panic(stubMsg) }'')),
    (''bpf_loop'', Inr (''func Loop(nr_loops uint32, callback_fn unsafe.Pointer, callback_ctx unsafe.Pointer, flags uint64) int64 { panic(stubMsg) }'')),
    (''bpf_strncmp'', Inl (''parameter '' @ dq @ ''s1'' @ dq @ '' (const char *): string-typed parameters are not BPF-safe'')),
    (''bpf_get_func_arg'', Inr (''func GetFuncArg(ctx unsafe.Pointer, n uint32, value unsafe.Pointer) int64 { panic(stubMsg) }'')),
    (''bpf_get_func_ret'', Inr (''func GetFuncRet(ctx unsafe.Pointer, value unsafe.Pointer) int64 { panic(stubMsg) }'')),
    (''bpf_get_func_arg_cnt'', Inr (''func GetFuncArgCnt(ctx unsafe.Pointer) int64 { panic(stubMsg) }'')),
    (''bpf_get_retval'', Inr (''func GetRetval() int32 { panic(stubMsg) }'')),
    (''bpf_set_retval'', Inr (''func SetRetval(retval int32) int32 { panic(stubMsg) }''))]"

definition stubsH :: "(string \<times> string res) list" where
  "stubsH = [
    (''bpf_xdp_get_buff_len'', Inr (''func XdpGetBuffLen(xdp_md unsafe.Pointer) uint64 { panic(stubMsg) }'')),
    (''bpf_xdp_load_bytes'', Inr (''func XdpLoadBytes(xdp_md unsafe.Pointer, offset uint32, buf unsafe.Pointer, len uint32) int64 { panic(stubMsg) }'')),
    (''bpf_xdp_store_bytes'', Inr (''func XdpStoreBytes(xdp_md unsafe.Pointer, offset uint32, buf unsafe.Pointer, len uint32) int64 { panic(stubMsg) }'')),
    (''bpf_copy_from_user_task'', Inr (''func CopyFromUserTask(dst unsafe.Pointer, size uint32, user_ptr unsafe.Pointer, tsk unsafe.Pointer, flags uint64) int64 { panic(stubMsg) }'')),
    (''bpf_skb_set_tstamp'', Inr (''func SkbSetTstamp(skb unsafe.Pointer, tstamp uint64, tstamp_type uint32) int64 { panic(stubMsg) }'')),
    (''bpf_ima_file_hash'', Inr (''func ImaFileHash(file unsafe.Pointer, dst unsafe.Pointer, size uint32) int64 { panic(stubMsg) }'')),
    (''bpf_kptr_xchg'', Inr (''func KptrXchg(dst unsafe.Pointer, ptr unsafe.Pointer) unsafe.Pointer { panic(stubMsg) }'')),
    (''bpf_map_lookup_percpu_elem'', Inr (''func MapLookupPercpuElem(map_ unsafe.Pointer, key unsafe.Pointer, cpu uint32) unsafe.Pointer { panic(stubMsg) }'')),
    (''bpf_skc_to_mptcp_sock'', Inr (''func SkcToMptcpSock(sk unsafe.Pointer) unsafe.Pointer { panic(stubMsg) }'')),
    (''bpf_dynptr_from_mem'', Inr (''func DynptrFromMem(data unsafe.Pointer, size uint32, flags uint64, ptr unsafe.Pointer) int64 { panic(stubMsg) }'')),
    (''bpf_ringbuf_reserve_dynptr'', Inr (''func RingbufReserveDynptr(ringbuf unsafe.Pointer, size uint32, flags uint64, ptr unsafe.Pointer) int64 { panic(stubMsg) }'')),
    (''bpf_ringbuf_submit_dynptr'', Inr (''func RingbufSubmitDynptr(ptr unsafe.Pointer, flags uint64) { panic(stubMsg) }'')),
    (''bpf_ringbuf_discard_dynptr'', Inr (''func RingbufDiscardDynptr(ptr unsafe.Pointer, flags uint64) { panic(stubMsg) }'')),
    (''bpf_dynptr_read'', Inr (''func DynptrRead(dst unsafe.Pointer, len uint32, src unsafe.Pointer, offset uint32, flags uint64) int64 { panic(stubMsg) }'')),
    (''bpf_dynptr_write'', Inr (''func DynptrWrite(dst unsafe.Pointer, offset uint32, src unsafe.Pointer, len uint32, flags uint64) int64 { panic(stubMsg) }'')),
    (''bpf_dynptr_data'', Inr (''func DynptrData(ptr unsafe.Pointer, offset uint32, len uint32) unsafe.Pointer { panic(stubMsg) }'')),
    (''bpf_tcp_raw_gen_syncookie_ipv4'', Inr (''func TcpRawGenSyncookieIpv4(iph unsafe.Pointer, th unsafe.Pointer, th_len uint32) int64 { panic(stubMsg) }'')),
    (''bpf_tcp_raw_gen_syncookie_ipv6'', Inr (''func TcpRawGenSyncookieIpv6(iph unsafe.Pointer, th unsafe.Pointer, th_len uint32) int64 { panic(stubMsg) }'')),
    (''bpf_tcp_raw_check_syncookie_ipv4'', Inr (''func TcpRawCheckSyncookieIpv4(iph unsafe.Pointer, th unsafe.Pointer) int64 { panic(stubMsg) }'')),
    (''bpf_tcp_raw_check_syncookie_ipv6'', Inr (''func TcpRawCheckSyncookieIpv6(iph unsafe.Pointer, th unsafe.Pointer) int64 { panic(stubMsg) }'')),
    (''bpf_ktime_get_tai_ns'', Inr (''func KtimeGetTaiNs() uint64 { panic(stubMsg) }'')),
    (''bpf_user_ringbuf_drain'', Inr (''func UserRingbufDrain(map_ unsafe.Pointer, callback_fn unsafe.Pointer, ctx unsafe.Pointer, flags uint64) int64 { panic(stubMsg) }'')),
    (''bpf_cgrp_storage_get'', Inr (''func CgrpStorageGet(map_ unsafe.Pointer, cgroup unsafe.Pointer, value unsafe.Pointer, flags uint64) unsafe.Pointer { panic(stubMsg) }'')),
    (''bpf_cgrp_storage_delete'', Inr (''func CgrpStorageDelete(map_ unsafe.Pointer, cgroup unsafe.Pointer) int64 { panic(stubMsg) }''))]"

definition generatedStubs :: "(string \<times> string res) list" where
  "generatedStubs = stubsA @ stubsB @ stubsC @ stubsD @ stubsE @ stubsF @ stubsG @ stubsH"

section \<open>One block\<close>

definition helperStub :: "helper \<Rightarrow> string \<times> string res" where
  "helperStub h = (hcName h, if hskip h = [] then Inr (stubSignature h) else Inl (hskip h))"

definition docText :: "string \<Rightarrow> string" where
  "docText line = trimPrefix (trimPrefix line '' * '') '' *''"

text \<open>The stub of a block, if its comment begins with the name of the helper it declares.\<close>

definition stubOf :: "string \<Rightarrow> string \<Rightarrow> (string \<times> string res) option" where
  "stubOf title decl = (case matchDecl (trimSpace decl) of
     None \<Rightarrow> None
   | Some m \<Rightarrow> if docText title = fst (snd m) then Some (helperStub (buildHelper m [])) else None)"

definition blockStub :: "string list \<Rightarrow> (string \<times> string res) option" where
  "blockStub b = stubOf (b ! 1) (last b)"

definition plainLine :: "string \<Rightarrow> bool" where
  "plainLine l \<longleftrightarrow> \<not> docStart l \<and> \<not> docEnd l"

definition wfBlock :: "string list \<Rightarrow> bool" where
  "wfBlock b \<longleftrightarrow> length b > 3 \<and> hd b = ''/*'' \<and> last (butlast b) = '' */'' \<and> plainLine (last b)
     \<and> list_all plainLine (tl (butlast (butlast b)))"

lemma buildHelper_doc: "buildHelper m docs = (buildHelper m [])\<lparr>hdoc := docs\<rparr>"
  by (auto simp: buildHelper_def mapTypes_def Let_def split: prod.splits sum.splits)

lemma buildHelper_name: "hcName (buildHelper m docs) = fst (snd m)"
  by (auto simp: buildHelper_def mapTypes_def Let_def split: prod.splits sum.splits)

lemma helperStub_doc [simp]: "helperStub (h\<lparr>hdoc := docs\<rparr>) = helperStub h"
  by (simp add: helperStub_def stubSignature_def)

lemma scan_docs:
  "list_all plainLine ls \<Longrightarrow> inDoc st \<Longrightarrow> fold scanLine ls st = st\<lparr>curDoc := curDoc st @ map docText ls\<rparr>"
  by (induction ls arbitrary: st) (simp_all add: scanLine_def plainLine_def docText_def)

lemma wfBlock_split:
  assumes "wfBlock b"
  obtains docs decl where "b = ''/*'' # docs @ ['' */'', decl]" "list_all plainLine docs" "plainLine decl"
    "decl = last b" "docs \<noteq> []"
proof -
  let ?docs = "tl (butlast (butlast b))"
  have l: "length b > 3" using assms by (simp add: wfBlock_def)
  then have ne: "b \<noteq> []" "butlast b \<noteq> []" "butlast (butlast b) \<noteq> []" "?docs \<noteq> []"
    by (auto simp: length_butlast[symmetric] simp flip: length_greater_0_conv)
  have "hd (butlast (butlast b)) = hd b" using ne l by (cases b) auto
  then have "butlast (butlast b) = ''/*'' # ?docs" using assms ne by (metis wfBlock_def list.collapse)
  moreover have "b = butlast (butlast b) @ [last (butlast b), last b]"
    using append_butlast_last_id[OF ne(1)] append_butlast_last_id[OF ne(2)]
    by (metis append.assoc append_Cons append_Nil)
  ultimately have "b = ''/*'' # ?docs @ ['' */'', last b]" using assms by (metis wfBlock_def append_Cons)
  then show ?thesis using that[of ?docs "last b"] assms ne by (simp add: wfBlock_def)
qed

text \<open>Scanning one block adds one helper, with the comment as its documentation.\<close>

lemma scan_block:
  assumes "wfBlock b" and "blockStub b = Some s"
  shows "\<exists>h. fold scanLine b st = st\<lparr>inDoc := False, curDoc := hdoc h, pendingDoc := [], found := found st @ [h]\<rparr>
           \<and> helperStub h = s \<and> hdoc h \<noteq> [] \<and> hd (hdoc h) = hcName h"
proof -
  from assms(1) obtain docs decl where b: "b = ''/*'' # docs @ ['' */'', decl]"
    and docs: "list_all plainLine docs" "docs \<noteq> []" and decl: "plainLine decl" "decl = last b"
    by (rule wfBlock_split)
  from assms(2) obtain m where m: "matchDecl (trimSpace decl) = Some m" "docText (b ! 1) = fst (snd m)"
    "s = helperStub (buildHelper m [])"
    by (auto simp: blockStub_def stubOf_def decl(2) split: option.splits if_splits)
  let ?h = "buildHelper m (map docText docs)"
  have e: "docEnd '' */''" "\<not> docStart '' */''" by code_simp+
  let ?s1 = "scanLine ''/*'' st"
  have s1: "?s1 = st\<lparr>inDoc := True, curDoc := []\<rparr>" by (simp add: scanLine_def docStart_def)
  have f: "fold scanLine b st = scanLine decl (scanLine '' */'' (fold scanLine docs ?s1))" by (simp add: b)
  have s2: "fold scanLine docs ?s1 = st\<lparr>inDoc := True, curDoc := map docText docs\<rparr>"
    using scan_docs[OF docs(1), of ?s1] by (simp add: s1)
  have "fold scanLine b st = st\<lparr>inDoc := False, curDoc := map docText docs, pendingDoc := [], found := found st @ [?h]\<rparr>"
    using decl(1) m(1) e unfolding f s2 by (simp add: scanLine_def plainLine_def)
  moreover have "hdoc ?h = map docText docs" "helperStub ?h = s"
    by (simp_all add: buildHelper_doc[of m "map docText docs"] m(3))
  moreover have "hd (map docText docs) = hcName ?h"
    using m(2) docs(2) by (cases docs) (simp_all add: b buildHelper_name)
  ultimately show ?thesis using docs(2) by (intro exI[of _ ?h]) simp
qed

text \<open>
  Introduction rules for \<open>wfBlock\<close> on a literal block: they look at the first characters of a
  line only.
\<close>

definition blockTail :: "string list \<Rightarrow> bool" where
  "blockTail ls \<longleftrightarrow> length ls > 1 \<and> last (butlast ls) = '' */'' \<and> plainLine (last ls)
     \<and> list_all plainLine (butlast (butlast ls))"

lemma blockTail_end: "plainLine decl \<Longrightarrow> blockTail ['' */'', decl]"
  by (simp add: blockTail_def)

lemma blockTail_step: "plainLine l \<Longrightarrow> blockTail ls \<Longrightarrow> blockTail (l # ls)"
  by (cases ls) (auto simp: blockTail_def)

lemma wfBlockI: "plainLine l \<Longrightarrow> blockTail ls \<Longrightarrow> wfBlock (''/*'' # l # ls)"
  by (cases ls) (auto simp: blockTail_def wfBlock_def)

lemma plainLine_star: "plainLine '' *''" "plainLine (CHR '' '' # CHR ''*'' # CHR '' '' # r)"
    "plainLine ((CHR '' '' # CHR ''*'' # CHR '' '' # r) @ s)"
  and plainLine_static: "plainLine (CHR ''s'' # r)" "plainLine ((CHR ''s'' # r) @ s)"
  by (simp_all add: plainLine_def docStart_def docEnd_def rxSpace_def)

lemma list_all_intros: "list_all P []" "P x \<Longrightarrow> list_all P xs \<Longrightarrow> list_all P (x # xs)"
  by simp_all

lemmas wfBlock_intros = wfBlockI blockTail_end blockTail_step plainLine_star plainLine_static

text \<open>The stub of a literal block depends on its second and its last line.\<close>

definition lastIs :: "string list \<Rightarrow> string \<Rightarrow> bool" where
  "lastIs ls d \<longleftrightarrow> ls \<noteq> [] \<and> last ls = d"

lemma lastIs_one: "lastIs [d] d"
  and lastIs_step: "lastIs (y # ys) d \<Longrightarrow> lastIs (x # y # ys) d"
  by (simp_all add: lastIs_def)

lemma blockStubI: "lastIs ls d \<Longrightarrow> stubOf l d = Some s \<Longrightarrow> blockStub (a # l # ls) = Some s"
  by (cases ls) (auto simp: lastIs_def blockStub_def)

lemma map_stub_intros: "map blockStub [] = map Some []"
  "blockStub b = Some s \<Longrightarrow> map blockStub bs = map Some ss \<Longrightarrow> map blockStub (b # bs) = map Some (s # ss)"
  by simp_all

section \<open>The whole header\<close>

lemma scan_blank: "\<not> inDoc st \<Longrightarrow> scanLine '''' st = st"
proof -
  have "\<not> docStart ''''" "\<not> docEnd ''''" "matchDecl (trimSpace '''') = None" by code_simp+
  then show "\<not> inDoc st \<Longrightarrow> scanLine '''' st = st" by (simp add: scanLine_def)
qed

lemma scan_blocks:
  assumes "list_all wfBlock bs" and "map blockStub bs = map Some ss" and "\<not> inDoc st"
  shows "\<exists>hs. found (fold scanLine (concat (map (\<lambda>b. b @ ['''']) bs)) st) = found st @ hs
           \<and> \<not> inDoc (fold scanLine (concat (map (\<lambda>b. b @ ['''']) bs)) st)
           \<and> map helperStub hs = ss \<and> list_all (\<lambda>h. hdoc h \<noteq> [] \<and> hd (hdoc h) = hcName h) hs"
  using assms
proof (induction bs arbitrary: ss st)
  case Nil
  then show ?case by simp
next
  case (Cons b bs)
  then obtain s ss' where ss: "ss = s # ss'" "blockStub b = Some s" "map blockStub bs = map Some ss'" by auto
  from Cons.prems(1) have w: "wfBlock b" "list_all wfBlock bs" by simp_all
  from scan_block[OF w(1) ss(2), of st] obtain h where
    h: "fold scanLine b st = st\<lparr>inDoc := False, curDoc := hdoc h, pendingDoc := [], found := found st @ [h]\<rparr>"
    "helperStub h = s" "hdoc h \<noteq> []" "hd (hdoc h) = hcName h" by blast
  let ?st = "fold scanLine b st"
  have nd: "\<not> inDoc ?st" by (simp add: h(1))
  have f: "fold scanLine (concat (map (\<lambda>b. b @ ['''']) (b # bs))) st = fold scanLine (concat (map (\<lambda>b. b @ ['''']) bs)) ?st"
    using scan_blank[OF nd] by simp
  from Cons.IH[OF w(2) ss(3) nd] obtain hs where
    hs: "found (fold scanLine (concat (map (\<lambda>b. b @ ['''']) bs)) ?st) = found ?st @ hs"
    "\<not> inDoc (fold scanLine (concat (map (\<lambda>b. b @ ['''']) bs)) ?st)"
    "map helperStub hs = ss'" "list_all (\<lambda>h. hdoc h \<noteq> [] \<and> hd (hdoc h) = hcName h) hs" by blast
  show ?case unfolding f using hs h ss(1) by (intro exI[of _ "h # hs"]) simp
qed

lemma preamble_scan: "fold scanLine headerPreamble emptyScan = emptyScan"
  by code_simp

lemma blocksA_wf: "list_all wfBlock helperBlocksA"
  unfolding helperBlocksA_def
    hdef_bpf_map_lookup_elem_def hdef_bpf_map_update_elem_def hdef_bpf_map_delete_elem_def
    hdef_bpf_probe_read_def hdef_bpf_ktime_get_ns_def hdef_bpf_trace_printk_def
    hdef_bpf_get_prandom_u32_def hdef_bpf_get_smp_processor_id_def hdef_bpf_skb_store_bytes_def
    hdef_bpf_l3_csum_replace_def hdef_bpf_l4_csum_replace_def hdef_bpf_tail_call_def
    hdef_bpf_clone_redirect_def hdef_bpf_get_current_pid_tgid_def hdef_bpf_get_current_uid_gid_def
    hdef_bpf_get_current_comm_def hdef_bpf_get_cgroup_classid_def hdef_bpf_skb_vlan_push_def
    hdef_bpf_skb_vlan_pop_def hdef_bpf_skb_get_tunnel_key_def hdef_bpf_skb_set_tunnel_key_def
    hdef_bpf_perf_event_read_def hdef_bpf_redirect_def hdef_bpf_get_route_realm_def
  by (intro list_all_intros wfBlock_intros)

lemma blocksB_wf: "list_all wfBlock helperBlocksB"
  unfolding helperBlocksB_def
    hdef_bpf_perf_event_output_def hdef_bpf_skb_load_bytes_def hdef_bpf_get_stackid_def
    hdef_bpf_csum_diff_def hdef_bpf_skb_get_tunnel_opt_def hdef_bpf_skb_set_tunnel_opt_def
    hdef_bpf_skb_change_proto_def hdef_bpf_skb_change_type_def hdef_bpf_skb_under_cgroup_def
    hdef_bpf_get_hash_recalc_def hdef_bpf_get_current_task_def hdef_bpf_probe_write_user_def
    hdef_bpf_current_task_under_cgroup_def hdef_bpf_skb_change_tail_def hdef_bpf_skb_pull_data_def
    hdef_bpf_csum_update_def hdef_bpf_set_hash_invalid_def hdef_bpf_get_numa_node_id_def
    hdef_bpf_skb_change_head_def hdef_bpf_xdp_adjust_head_def hdef_bpf_probe_read_str_def
    hdef_bpf_get_socket_cookie_def hdef_bpf_get_socket_uid_def hdef_bpf_set_hash_def
    hdef_bpf_setsockopt_def hdef_bpf_skb_adjust_room_def
  by (intro list_all_intros wfBlock_intros)

lemma blocksC_wf: "list_all wfBlock helperBlocksC"
  unfolding helperBlocksC_def
    hdef_bpf_redirect_map_def hdef_bpf_sk_redirect_map_def hdef_bpf_sock_map_update_def
    hdef_bpf_xdp_adjust_meta_def hdef_bpf_perf_event_read_value_def hdef_bpf_perf_prog_read_value_def
    hdef_bpf_getsockopt_def hdef_bpf_override_return_def hdef_bpf_sock_ops_cb_flags_set_def
    hdef_bpf_msg_redirect_map_def hdef_bpf_msg_apply_bytes_def hdef_bpf_msg_cork_bytes_def
    hdef_bpf_msg_pull_data_def hdef_bpf_bind_def hdef_bpf_xdp_adjust_tail_def
    hdef_bpf_skb_get_xfrm_state_def hdef_bpf_get_stack_def hdef_bpf_skb_load_bytes_relative_def
    hdef_bpf_fib_lookup_def hdef_bpf_sock_hash_update_def
  by (intro list_all_intros wfBlock_intros)

lemma blocksD_wf: "list_all wfBlock helperBlocksD"
  unfolding helperBlocksD_def
    hdef_bpf_msg_redirect_hash_def hdef_bpf_sk_redirect_hash_def hdef_bpf_lwt_push_encap_def
    hdef_bpf_lwt_seg6_store_bytes_def hdef_bpf_lwt_seg6_adjust_srh_def hdef_bpf_lwt_seg6_action_def
    hdef_bpf_rc_repeat_def hdef_bpf_rc_keydown_def hdef_bpf_skb_cgroup_id_def
    hdef_bpf_get_current_cgroup_id_def hdef_bpf_get_local_storage_def hdef_bpf_sk_select_reuseport_def
    hdef_bpf_skb_ancestor_cgroup_id_def hdef_bpf_sk_lookup_tcp_def hdef_bpf_sk_lookup_udp_def
    hdef_bpf_sk_release_def hdef_bpf_map_push_elem_def hdef_bpf_map_pop_elem_def
    hdef_bpf_map_peek_elem_def hdef_bpf_msg_push_data_def hdef_bpf_msg_pop_data_def
    hdef_bpf_rc_pointer_rel_def hdef_bpf_spin_lock_def hdef_bpf_spin_unlock_def
    hdef_bpf_sk_fullsock_def hdef_bpf_tcp_sock_def hdef_bpf_skb_ecn_set_ce_def
    hdef_bpf_get_listener_sock_def hdef_bpf_skc_lookup_tcp_def
  by (intro list_all_intros wfBlock_intros)

lemma blocksE_wf: "list_all wfBlock helperBlocksE"
  unfolding helperBlocksE_def
    hdef_bpf_tcp_check_syncookie_def hdef_bpf_sysctl_get_name_def hdef_bpf_sysctl_get_current_value_def
    hdef_bpf_sysctl_get_new_value_def hdef_bpf_sysctl_set_new_value_def hdef_bpf_strtol_def
    hdef_bpf_strtoul_def hdef_bpf_sk_storage_get_def hdef_bpf_sk_storage_delete_def
    hdef_bpf_send_signal_def hdef_bpf_tcp_gen_syncookie_def hdef_bpf_skb_output_def
    hdef_bpf_probe_read_user_def hdef_bpf_probe_read_kernel_def hdef_bpf_probe_read_user_str_def
    hdef_bpf_probe_read_kernel_str_def hdef_bpf_tcp_send_ack_def hdef_bpf_send_signal_thread_def
    hdef_bpf_jiffies64_def hdef_bpf_read_branch_records_def hdef_bpf_get_ns_current_pid_tgid_def
    hdef_bpf_xdp_output_def hdef_bpf_get_netns_cookie_def hdef_bpf_get_current_ancestor_cgroup_id_def
    hdef_bpf_sk_assign_def hdef_bpf_ktime_get_boot_ns_def hdef_bpf_seq_printf_def
    hdef_bpf_seq_write_def
  by (intro list_all_intros wfBlock_intros)

lemma blocksF_wf: "list_all wfBlock helperBlocksF"
  unfolding helperBlocksF_def
    hdef_bpf_sk_cgroup_id_def hdef_bpf_sk_ancestor_cgroup_id_def hdef_bpf_ringbuf_output_def
    hdef_bpf_ringbuf_reserve_def hdef_bpf_ringbuf_submit_def hdef_bpf_ringbuf_discard_def
    hdef_bpf_ringbuf_query_def hdef_bpf_csum_level_def hdef_bpf_skc_to_tcp6_sock_def
    hdef_bpf_skc_to_tcp_sock_def hdef_bpf_skc_to_tcp_timewait_sock_def hdef_bpf_skc_to_tcp_request_sock_def
    hdef_bpf_skc_to_udp6_sock_def hdef_bpf_get_task_stack_def hdef_bpf_load_hdr_opt_def
    hdef_bpf_store_hdr_opt_def hdef_bpf_reserve_hdr_opt_def hdef_bpf_inode_storage_get_def
    hdef_bpf_inode_storage_delete_def hdef_bpf_d_path_def hdef_bpf_copy_from_user_def
    hdef_bpf_snprintf_btf_def hdef_bpf_seq_printf_btf_def hdef_bpf_skb_cgroup_classid_def
    hdef_bpf_redirect_neigh_def hdef_bpf_per_cpu_ptr_def hdef_bpf_this_cpu_ptr_def
    hdef_bpf_redirect_peer_def
  by (intro list_all_intros wfBlock_intros)

lemma blocksG_wf: "list_all wfBlock helperBlocksG"
  unfolding helperBlocksG_def
    hdef_bpf_task_storage_get_def hdef_bpf_task_storage_delete_def hdef_bpf_get_current_task_btf_def
    hdef_bpf_bprm_opts_set_def hdef_bpf_ktime_get_coarse_ns_def hdef_bpf_ima_inode_hash_def
    hdef_bpf_sock_from_file_def hdef_bpf_check_mtu_def hdef_bpf_for_each_map_elem_def
    hdef_bpf_snprintf_def hdef_bpf_sys_bpf_def hdef_bpf_btf_find_by_name_kind_def
    hdef_bpf_sys_close_def hdef_bpf_timer_init_def hdef_bpf_timer_set_callback_def
    hdef_bpf_timer_start_def hdef_bpf_timer_cancel_def hdef_bpf_get_func_ip_def
    hdef_bpf_get_attach_cookie_def hdef_bpf_task_pt_regs_def hdef_bpf_get_branch_snapshot_def
    hdef_bpf_trace_vprintk_def hdef_bpf_skc_to_unix_sock_def hdef_bpf_kallsyms_lookup_name_def
    hdef_bpf_find_vma_def hdef_bpf_loop_def hdef_bpf_strncmp_def
    hdef_bpf_get_func_arg_def hdef_bpf_get_func_ret_def hdef_bpf_get_func_arg_cnt_def
    hdef_bpf_get_retval_def hdef_bpf_set_retval_def
  by (intro list_all_intros wfBlock_intros)

lemma blocksH_wf: "list_all wfBlock helperBlocksH"
  unfolding helperBlocksH_def
    hdef_bpf_xdp_get_buff_len_def hdef_bpf_xdp_load_bytes_def hdef_bpf_xdp_store_bytes_def
    hdef_bpf_copy_from_user_task_def hdef_bpf_skb_set_tstamp_def hdef_bpf_ima_file_hash_def
    hdef_bpf_kptr_xchg_def hdef_bpf_map_lookup_percpu_elem_def hdef_bpf_skc_to_mptcp_sock_def
    hdef_bpf_dynptr_from_mem_def hdef_bpf_ringbuf_reserve_dynptr_def hdef_bpf_ringbuf_submit_dynptr_def
    hdef_bpf_ringbuf_discard_dynptr_def hdef_bpf_dynptr_read_def hdef_bpf_dynptr_write_def
    hdef_bpf_dynptr_data_def hdef_bpf_tcp_raw_gen_syncookie_ipv4_def hdef_bpf_tcp_raw_gen_syncookie_ipv6_def
    hdef_bpf_tcp_raw_check_syncookie_ipv4_def hdef_bpf_tcp_raw_check_syncookie_ipv6_def hdef_bpf_ktime_get_tai_ns_def
    hdef_bpf_user_ringbuf_drain_def hdef_bpf_cgrp_storage_get_def hdef_bpf_cgrp_storage_delete_def
  by (intro list_all_intros wfBlock_intros)

lemma blocksA_stubs: "map blockStub helperBlocksA = map Some stubsA"
  unfolding helperBlocksA_def stubsA_def
    hdef_bpf_map_lookup_elem_def hdef_bpf_map_update_elem_def hdef_bpf_map_delete_elem_def
    hdef_bpf_probe_read_def hdef_bpf_ktime_get_ns_def hdef_bpf_trace_printk_def
    hdef_bpf_get_prandom_u32_def hdef_bpf_get_smp_processor_id_def hdef_bpf_skb_store_bytes_def
    hdef_bpf_l3_csum_replace_def hdef_bpf_l4_csum_replace_def hdef_bpf_tail_call_def
    hdef_bpf_clone_redirect_def hdef_bpf_get_current_pid_tgid_def hdef_bpf_get_current_uid_gid_def
    hdef_bpf_get_current_comm_def hdef_bpf_get_cgroup_classid_def hdef_bpf_skb_vlan_push_def
    hdef_bpf_skb_vlan_pop_def hdef_bpf_skb_get_tunnel_key_def hdef_bpf_skb_set_tunnel_key_def
    hdef_bpf_perf_event_read_def hdef_bpf_redirect_def hdef_bpf_get_route_realm_def
  by (intro map_stub_intros; rule blockStubI, ((rule lastIs_one | rule lastIs_step)+), code_simp)

lemma blocksB_stubs: "map blockStub helperBlocksB = map Some stubsB"
  unfolding helperBlocksB_def stubsB_def
    hdef_bpf_perf_event_output_def hdef_bpf_skb_load_bytes_def hdef_bpf_get_stackid_def
    hdef_bpf_csum_diff_def hdef_bpf_skb_get_tunnel_opt_def hdef_bpf_skb_set_tunnel_opt_def
    hdef_bpf_skb_change_proto_def hdef_bpf_skb_change_type_def hdef_bpf_skb_under_cgroup_def
    hdef_bpf_get_hash_recalc_def hdef_bpf_get_current_task_def hdef_bpf_probe_write_user_def
    hdef_bpf_current_task_under_cgroup_def hdef_bpf_skb_change_tail_def hdef_bpf_skb_pull_data_def
    hdef_bpf_csum_update_def hdef_bpf_set_hash_invalid_def hdef_bpf_get_numa_node_id_def
    hdef_bpf_skb_change_head_def hdef_bpf_xdp_adjust_head_def hdef_bpf_probe_read_str_def
    hdef_bpf_get_socket_cookie_def hdef_bpf_get_socket_uid_def hdef_bpf_set_hash_def
    hdef_bpf_setsockopt_def hdef_bpf_skb_adjust_room_def
  by (intro map_stub_intros; rule blockStubI, ((rule lastIs_one | rule lastIs_step)+), code_simp)

lemma blocksC_stubs: "map blockStub helperBlocksC = map Some stubsC"
  unfolding helperBlocksC_def stubsC_def
    hdef_bpf_redirect_map_def hdef_bpf_sk_redirect_map_def hdef_bpf_sock_map_update_def
    hdef_bpf_xdp_adjust_meta_def hdef_bpf_perf_event_read_value_def hdef_bpf_perf_prog_read_value_def
    hdef_bpf_getsockopt_def hdef_bpf_override_return_def hdef_bpf_sock_ops_cb_flags_set_def
    hdef_bpf_msg_redirect_map_def hdef_bpf_msg_apply_bytes_def hdef_bpf_msg_cork_bytes_def
    hdef_bpf_msg_pull_data_def hdef_bpf_bind_def hdef_bpf_xdp_adjust_tail_def
    hdef_bpf_skb_get_xfrm_state_def hdef_bpf_get_stack_def hdef_bpf_skb_load_bytes_relative_def
    hdef_bpf_fib_lookup_def hdef_bpf_sock_hash_update_def
  by (intro map_stub_intros; rule blockStubI, ((rule lastIs_one | rule lastIs_step)+), code_simp)

lemma blocksD_stubs: "map blockStub helperBlocksD = map Some stubsD"
  unfolding helperBlocksD_def stubsD_def
    hdef_bpf_msg_redirect_hash_def hdef_bpf_sk_redirect_hash_def hdef_bpf_lwt_push_encap_def
    hdef_bpf_lwt_seg6_store_bytes_def hdef_bpf_lwt_seg6_adjust_srh_def hdef_bpf_lwt_seg6_action_def
    hdef_bpf_rc_repeat_def hdef_bpf_rc_keydown_def hdef_bpf_skb_cgroup_id_def
    hdef_bpf_get_current_cgroup_id_def hdef_bpf_get_local_storage_def hdef_bpf_sk_select_reuseport_def
    hdef_bpf_skb_ancestor_cgroup_id_def hdef_bpf_sk_lookup_tcp_def hdef_bpf_sk_lookup_udp_def
    hdef_bpf_sk_release_def hdef_bpf_map_push_elem_def hdef_bpf_map_pop_elem_def
    hdef_bpf_map_peek_elem_def hdef_bpf_msg_push_data_def hdef_bpf_msg_pop_data_def
    hdef_bpf_rc_pointer_rel_def hdef_bpf_spin_lock_def hdef_bpf_spin_unlock_def
    hdef_bpf_sk_fullsock_def hdef_bpf_tcp_sock_def hdef_bpf_skb_ecn_set_ce_def
    hdef_bpf_get_listener_sock_def hdef_bpf_skc_lookup_tcp_def
  by (intro map_stub_intros; rule blockStubI, ((rule lastIs_one | rule lastIs_step)+), code_simp)

lemma blocksE_stubs: "map blockStub helperBlocksE = map Some stubsE"
  unfolding helperBlocksE_def stubsE_def
    hdef_bpf_tcp_check_syncookie_def hdef_bpf_sysctl_get_name_def hdef_bpf_sysctl_get_current_value_def
    hdef_bpf_sysctl_get_new_value_def hdef_bpf_sysctl_set_new_value_def hdef_bpf_strtol_def
    hdef_bpf_strtoul_def hdef_bpf_sk_storage_get_def hdef_bpf_sk_storage_delete_def
    hdef_bpf_send_signal_def hdef_bpf_tcp_gen_syncookie_def hdef_bpf_skb_output_def
    hdef_bpf_probe_read_user_def hdef_bpf_probe_read_kernel_def hdef_bpf_probe_read_user_str_def
    hdef_bpf_probe_read_kernel_str_def hdef_bpf_tcp_send_ack_def hdef_bpf_send_signal_thread_def
    hdef_bpf_jiffies64_def hdef_bpf_read_branch_records_def hdef_bpf_get_ns_current_pid_tgid_def
    hdef_bpf_xdp_output_def hdef_bpf_get_netns_cookie_def hdef_bpf_get_current_ancestor_cgroup_id_def
    hdef_bpf_sk_assign_def hdef_bpf_ktime_get_boot_ns_def hdef_bpf_seq_printf_def
    hdef_bpf_seq_write_def
  by (intro map_stub_intros; rule blockStubI, ((rule lastIs_one | rule lastIs_step)+), code_simp)

lemma blocksF_stubs: "map blockStub helperBlocksF = map Some stubsF"
  unfolding helperBlocksF_def stubsF_def
    hdef_bpf_sk_cgroup_id_def hdef_bpf_sk_ancestor_cgroup_id_def hdef_bpf_ringbuf_output_def
    hdef_bpf_ringbuf_reserve_def hdef_bpf_ringbuf_submit_def hdef_bpf_ringbuf_discard_def
    hdef_bpf_ringbuf_query_def hdef_bpf_csum_level_def hdef_bpf_skc_to_tcp6_sock_def
    hdef_bpf_skc_to_tcp_sock_def hdef_bpf_skc_to_tcp_timewait_sock_def hdef_bpf_skc_to_tcp_request_sock_def
    hdef_bpf_skc_to_udp6_sock_def hdef_bpf_get_task_stack_def hdef_bpf_load_hdr_opt_def
    hdef_bpf_store_hdr_opt_def hdef_bpf_reserve_hdr_opt_def hdef_bpf_inode_storage_get_def
    hdef_bpf_inode_storage_delete_def hdef_bpf_d_path_def hdef_bpf_copy_from_user_def
    hdef_bpf_snprintf_btf_def hdef_bpf_seq_printf_btf_def hdef_bpf_skb_cgroup_classid_def
    hdef_bpf_redirect_neigh_def hdef_bpf_per_cpu_ptr_def hdef_bpf_this_cpu_ptr_def
    hdef_bpf_redirect_peer_def
  by (intro map_stub_intros; rule blockStubI, ((rule lastIs_one | rule lastIs_step)+), code_simp)

lemma blocksG_stubs: "map blockStub helperBlocksG = map Some stubsG"
  unfolding helperBlocksG_def stubsG_def
    hdef_bpf_task_storage_get_def hdef_bpf_task_storage_delete_def hdef_bpf_get_current_task_btf_def
    hdef_bpf_bprm_opts_set_def hdef_bpf_ktime_get_coarse_ns_def hdef_bpf_ima_inode_hash_def
    hdef_bpf_sock_from_file_def hdef_bpf_check_mtu_def hdef_bpf_for_each_map_elem_def
    hdef_bpf_snprintf_def hdef_bpf_sys_bpf_def hdef_bpf_btf_find_by_name_kind_def
    hdef_bpf_sys_close_def hdef_bpf_timer_init_def hdef_bpf_timer_set_callback_def
    hdef_bpf_timer_start_def hdef_bpf_timer_cancel_def hdef_bpf_get_func_ip_def
    hdef_bpf_get_attach_cookie_def hdef_bpf_task_pt_regs_def hdef_bpf_get_branch_snapshot_def
    hdef_bpf_trace_vprintk_def hdef_bpf_skc_to_unix_sock_def hdef_bpf_kallsyms_lookup_name_def
    hdef_bpf_find_vma_def hdef_bpf_loop_def hdef_bpf_strncmp_def
    hdef_bpf_get_func_arg_def hdef_bpf_get_func_ret_def hdef_bpf_get_func_arg_cnt_def
    hdef_bpf_get_retval_def hdef_bpf_set_retval_def
  by (intro map_stub_intros; rule blockStubI, ((rule lastIs_one | rule lastIs_step)+), code_simp)

lemma blocksH_stubs: "map blockStub helperBlocksH = map Some stubsH"
  unfolding helperBlocksH_def stubsH_def
    hdef_bpf_xdp_get_buff_len_def hdef_bpf_xdp_load_bytes_def hdef_bpf_xdp_store_bytes_def
    hdef_bpf_copy_from_user_task_def hdef_bpf_skb_set_tstamp_def hdef_bpf_ima_file_hash_def
    hdef_bpf_kptr_xchg_def hdef_bpf_map_lookup_percpu_elem_def hdef_bpf_skc_to_mptcp_sock_def
    hdef_bpf_dynptr_from_mem_def hdef_bpf_ringbuf_reserve_dynptr_def hdef_bpf_ringbuf_submit_dynptr_def
    hdef_bpf_ringbuf_discard_dynptr_def hdef_bpf_dynptr_read_def hdef_bpf_dynptr_write_def
    hdef_bpf_dynptr_data_def hdef_bpf_tcp_raw_gen_syncookie_ipv4_def hdef_bpf_tcp_raw_gen_syncookie_ipv6_def
    hdef_bpf_tcp_raw_check_syncookie_ipv4_def hdef_bpf_tcp_raw_check_syncookie_ipv6_def hdef_bpf_ktime_get_tai_ns_def
    hdef_bpf_user_ringbuf_drain_def hdef_bpf_cgrp_storage_get_def hdef_bpf_cgrp_storage_delete_def
  by (intro map_stub_intros; rule blockStubI, ((rule lastIs_one | rule lastIs_step)+), code_simp)

lemmas blocks_wf = blocksA_wf blocksB_wf blocksC_wf blocksD_wf blocksE_wf blocksF_wf blocksG_wf blocksH_wf

lemmas blocks_stubs = blocksA_stubs blocksB_stubs blocksC_stubs blocksD_stubs blocksE_stubs blocksF_stubs blocksG_stubs blocksH_stubs

lemma header_scan:
  "\<exists>hs. found (fold scanLine headerLines emptyScan) = hs \<and> map helperStub hs = generatedStubs
     \<and> list_all (\<lambda>h. hdoc h \<noteq> [] \<and> hd (hdoc h) = hcName h) hs"
proof -
  have w: "list_all wfBlock helperBlocks"
    by (simp add: helperBlocks_def blocks_wf)
  have s: "map blockStub helperBlocks = map Some generatedStubs"
    by (simp add: helperBlocks_def generatedStubs_def blocks_stubs)
  have "\<not> inDoc emptyScan" by (simp add: emptyScan_def)
  from scan_blocks[OF w s this] obtain hs where
    hs: "found (fold scanLine (concat (map (\<lambda>b. b @ ['''']) helperBlocks)) emptyScan) = hs"
    "\<not> inDoc (fold scanLine (concat (map (\<lambda>b. b @ ['''']) helperBlocks)) emptyScan)"
    "map helperStub hs = generatedStubs" "list_all (\<lambda>h. hdoc h \<noteq> [] \<and> hd (hdoc h) = hcName h) hs"
    by (auto simp: emptyScan_def)
  have "fold scanLine headerLines emptyScan = fold scanLine (concat (map (\<lambda>b. b @ ['''']) helperBlocks)) emptyScan"
    by (simp add: headerLines_def preamble_scan scan_blank[OF hs(2)])
  with hs show ?thesis by auto
qed

section \<open>The stubs as a whole\<close>

text \<open>How many stubs and skipped helpers there are, and that the emitter finds every name back.\<close>

definition isStub :: "string \<times> string res \<Rightarrow> bool" where
  "isStub s = (case snd s of Inr _ \<Rightarrow> True | Inl _ \<Rightarrow> False)"

lemma stub_counts:
  "length (filter isStub stubsA) = 23" "length stubsA = 24"
  "length (filter isStub stubsB) = 26" "length stubsB = 26"
  "length (filter isStub stubsC) = 20" "length stubsC = 20"
  "length (filter isStub stubsD) = 29" "length stubsD = 29"
  "length (filter isStub stubsE) = 21" "length stubsE = 28"
  "length (filter isStub stubsF) = 26" "length stubsF = 28"
  "length (filter isStub stubsG) = 27" "length stubsG = 32"
  "length (filter isStub stubsH) = 24" "length stubsH = 24"
  by (simp_all add: isStub_def stubsA_def stubsB_def stubsC_def stubsD_def stubsE_def stubsF_def stubsG_def stubsH_def)

lemma stub_names:
  "list_all (\<lambda>s. validHelperName (fst s)) stubsA"
  "list_all (\<lambda>s. validHelperName (fst s)) stubsB"
  "list_all (\<lambda>s. validHelperName (fst s)) stubsC"
  "list_all (\<lambda>s. validHelperName (fst s)) stubsD"
  "list_all (\<lambda>s. validHelperName (fst s)) stubsE"
  "list_all (\<lambda>s. validHelperName (fst s)) stubsF"
  "list_all (\<lambda>s. validHelperName (fst s)) stubsG"
  "list_all (\<lambda>s. validHelperName (fst s)) stubsH"
  by code_simp+

lemma generated_counts: "length (filter isStub generatedStubs) = 196" "length generatedStubs = 211"
  by (simp_all add: generatedStubs_def stub_counts)

lemma generated_names: "list_all (\<lambda>s. validHelperName (fst s)) generatedStubs"
  by (simp add: generatedStubs_def stub_names)

lemma countEmitted_stubs: "countEmitted hs = length (filter isStub (map helperStub hs))"
  and countSkipped_stubs: "countSkipped hs + countEmitted hs = length hs"
  by (induction hs) (auto simp: countEmitted_def countSkipped_def isStub_def helperStub_def)

text \<open>The Go names with a translation of their own in the tables of the emitter.\<close>

definition overriddenNames :: "string list" where
  "overriddenNames = map fst bpfHelperExpansions @ map fst bpfHelperFuncs"

lemma stub_overridden:
  "list_all (\<lambda>s. goNameFor (fst s) \<notin> set overriddenNames) stubsA"
  "list_all (\<lambda>s. goNameFor (fst s) \<notin> set overriddenNames) stubsB"
  "list_all (\<lambda>s. goNameFor (fst s) \<notin> set overriddenNames) stubsC"
  "list_all (\<lambda>s. goNameFor (fst s) \<notin> set overriddenNames) stubsD"
  "list_all (\<lambda>s. goNameFor (fst s) \<notin> set overriddenNames) stubsE"
  "list_all (\<lambda>s. goNameFor (fst s) \<notin> set overriddenNames) stubsF"
  "list_all (\<lambda>s. goNameFor (fst s) \<notin> set overriddenNames) stubsG"
  "list_all (\<lambda>s. goNameFor (fst s) \<notin> set overriddenNames) stubsH"
  by code_simp+

lemma generated_overridden: "list_all (\<lambda>s. goNameFor (fst s) \<notin> set overriddenNames) generatedStubs"
  by (simp add: generatedStubs_def stub_overridden)

lemma header_names:
  "list_all (\<lambda>h. goNameToBpfHelper (hgoName h) = hcName h \<and> hgoName h \<notin> set overriddenNames)
     (found (fold scanLine headerLines emptyScan))"
proof -
  let ?hs = "found (fold scanLine headerLines emptyScan)"
  have stubs: "map helperStub ?hs = generatedStubs" using header_scan by blast
  have names: "list_all typedStub ?hs" by (rule scanReach_typed[OF scanReach_fold[OF scanReach.start]])
  {
    fix h assume h: "h \<in> set ?hs"
    then have "helperStub h \<in> set generatedStubs" using stubs by (metis image_eqI list.set_map)
    then have "validHelperName (hcName h)" "goNameFor (hcName h) \<notin> set overriddenNames"
      using generated_names generated_overridden by (auto simp: list_all_iff helperStub_def)
    moreover have "hgoName h = goNameFor (hcName h)" using h names by (simp add: list_all_iff typedStub_def)
    ultimately have "goNameToBpfHelper (hgoName h) = hcName h \<and> hgoName h \<notin> set overriddenNames"
      by (simp add: goNameToBpfHelper_goNameFor)
  }
  then show ?thesis by (simp add: list_all_iff)
qed

end
