(* ===== verification/C_Grammar.thy ===== *)
theory C_Grammar
  imports Go_Library
begin

text \<open>
  The reading of C expressions: a recursive descent parser for the part of the grammar of C that the
  emitter uses, names and integer constants, unary, postfix, cast, \<^verbatim>\<open>sizeof\<close> and left associative binary
  operators.  A syntax tree is what the parser finds in its own tokens exactly when its names and
  constants are those of C and every operand binds at least as tightly as its place in the tree asks for
  (\<open>grouped cPrec\<close>).
\<close>

section \<open>Trees and tokens\<close>

datatype ctoken = Word string | Punct string

datatype ctree = CAtom string
  | CParen ctree
  | CPre string ctree
  | CCast string ctree
  | CBin ctree string ctree
  | CIndex ctree ctree
  | CMember ctree string string
  | CCall ctree "ctree list"
  | CSizeof ctree

fun isBin :: "ctree \<Rightarrow> bool" where
  "isBin (CBin _ _ _) = True"
| "isBin _ = False"

fun isPost :: "ctree \<Rightarrow> bool" where
  "isPost (CBin _ _ _) = False"
| "isPost (CPre _ _) = False"
| "isPost (CCast _ _) = False"
| "isPost (CSizeof _) = False"
| "isPost _ = True"

fun isCast :: "ctree \<Rightarrow> bool" where
  "isCast (CCast _ _) = True"
| "isCast _ = False"

fun rootOp :: "ctree \<Rightarrow> string" where
  "rootOp (CBin _ o' _) = o'"
| "rootOp _ = []"

definition cTypeNames :: "string list" where
  "cTypeNames = [''bool'', ''__s8'', ''__s16'', ''__s32'', ''__s64'', ''__u8'', ''__u16'', ''__u32'', ''__u64'']"

text \<open>The keywords of C and those that compilers for the kernel add.\<close>

definition cKeywords :: "string list" where
  "cKeywords = [''auto'', ''break'', ''case'', ''char'', ''const'', ''continue'', ''default'', ''do'', ''double'',
     ''else'', ''enum'', ''extern'', ''float'', ''for'', ''goto'', ''if'', ''inline'', ''int'', ''long'', ''register'',
     ''restrict'', ''return'', ''short'', ''signed'', ''sizeof'', ''static'', ''struct'', ''switch'', ''typedef'', ''union'',
     ''unsigned'', ''void'', ''volatile'', ''while'', ''_Alignas'', ''_Alignof'', ''_Atomic'', ''_Bool'', ''_Complex'',
     ''_Generic'', ''_Imaginary'', ''_Noreturn'', ''_Static_assert'', ''_Thread_local'', ''asm'', ''typeof'']"

definition reserved :: "string \<Rightarrow> bool" where
  "reserved w \<longleftrightarrow> w \<in> set cTypeNames \<or> w \<in> set cKeywords"

definition isWordText :: "string \<Rightarrow> bool" where
  "isWordText w \<longleftrightarrow> w \<noteq> [] \<and> list_all isWord w"

text \<open>
  Identifiers, as operands and as members, where the name of a type is no obstacle.  Integer constants:
  decimal, octal, hexadecimal and, as in GNU C, binary; suffixes are left out.
\<close>

definition cMemberName :: "string \<Rightarrow> bool" where
  "cMemberName w \<longleftrightarrow> isWordText w \<and> \<not> isDigit (hd w) \<and> w \<notin> set cKeywords"

definition cIdentifier :: "string \<Rightarrow> bool" where
  "cIdentifier w \<longleftrightarrow> isWordText w \<and> \<not> isDigit (hd w) \<and> \<not> reserved w"

definition isOctal :: "char \<Rightarrow> bool" where
  "isOctal c \<longleftrightarrow> CHR ''0'' \<le> c \<and> c \<le> CHR ''7''"

definition isHex :: "char \<Rightarrow> bool" where
  "isHex c \<longleftrightarrow> isDigit c \<or> CHR ''a'' \<le> c \<and> c \<le> CHR ''f'' \<or> CHR ''A'' \<le> c \<and> c \<le> CHR ''F''"

definition cConstant :: "string \<Rightarrow> bool" where
  "cConstant w = (case w of
     [] \<Rightarrow> False
   | c # r \<Rightarrow>
       (if c \<noteq> CHR ''0'' then list_all isDigit w
        else list_all isOctal r
          \<or> (case r of [] \<Rightarrow> False | x # ds \<Rightarrow> ds \<noteq> [] \<and>
               (if x = CHR ''x'' \<or> x = CHR ''X'' then list_all isHex ds
                else (x = CHR ''b'' \<or> x = CHR ''B'') \<and> list_all (\<lambda>d. d = CHR ''0'' \<or> d = CHR ''1'') ds))))"

definition cOperand :: "string \<Rightarrow> bool" where
  "cOperand w \<longleftrightarrow> cIdentifier w \<or> cConstant w"

text \<open>An operand that begins with a digit: what follows it may still belong to the number.\<close>

fun isNumber :: "ctree \<Rightarrow> bool" where
  "isNumber (CAtom w) \<longleftrightarrow> w = [] \<or> isDigit (hd w)"
| "isNumber _ \<longleftrightarrow> False"

definition prefixOps :: "string list" where
  "prefixOps = [''!'', ''-'', ''~'', ''&'', ''*'']"

text \<open>The types of casts, with their tokens.\<close>

definition castTypes :: "(string \<times> ctoken list) list" where
  "castTypes = map (\<lambda>w. (w, [Word w])) cTypeNames
     @ [(''char *'', [Word ''char'', Punct ''*'']), (''const char *'', [Word ''const'', Word ''char'', Punct ''*'']),
        (''const char *const *'', [Word ''const'', Word ''char'', Punct ''*'', Word ''const'', Punct ''*''])]"

definition castType :: "string \<Rightarrow> bool" where
  "castType ty \<longleftrightarrow> ty \<in> set (map fst castTypes)"

definition typeToks :: "string \<Rightarrow> ctoken list" where
  "typeToks ty = (case map_of castTypes ty of Some tt \<Rightarrow> tt | None \<Rightarrow> [])"

text \<open>The binary operators of C with their precedence.\<close>

definition cOps :: "(string \<times> nat) list" where
  "cOps = [(''*'', 10), (''/'', 10), (''%'', 10), (''+'', 9), (''-'', 9), (''<<'', 8), (''>>'', 8),
     (''<'', 7), (''<='', 7), (''>'', 7), (''>='', 7), (''=='', 6), (''!='', 6), (''&'', 5), (''^'', 4), (''|'', 3),
     (''&&'', 2), (''||'', 1)]"

definition cPrec :: "string \<Rightarrow> nat" where
  "cPrec o' = (case map_of cOps o' of Some n \<Rightarrow> n | None \<Rightarrow> 0)"

abbreviation cBinOp :: "string \<Rightarrow> bool" where
  "cBinOp o' \<equiv> 0 < cPrec o'"

text \<open>
  A tree is grouped by a precedence when it needs no further parentheses: the operands of a binary
  operator bind tighter, on the left at least as tightly, and the operand of a prefix, a cast, a
  \<^verbatim>\<open>sizeof\<close> or a postfix is not of a looser form.  Its names and constants are C's, and no constant has
  a member.
\<close>

fun grouped :: "(string \<Rightarrow> nat) \<Rightarrow> ctree \<Rightarrow> bool" where
  "grouped prec (CAtom w) \<longleftrightarrow> cOperand w"
| "grouped prec (CParen t) \<longleftrightarrow> grouped prec t"
| "grouped prec (CPre p t) \<longleftrightarrow> p \<in> set prefixOps \<and> \<not> isBin t \<and> grouped prec t"
| "grouped prec (CCast ty t) \<longleftrightarrow> castType ty \<and> \<not> isBin t \<and> grouped prec t"
| "grouped prec (CBin l o' r) \<longleftrightarrow> 0 < prec o' \<and> grouped prec l \<and> grouped prec r
     \<and> (isBin l \<longrightarrow> prec o' \<le> prec (rootOp l)) \<and> (isBin r \<longrightarrow> prec o' < prec (rootOp r))"
| "grouped prec (CIndex b i) \<longleftrightarrow> isPost b \<and> grouped prec b \<and> grouped prec i"
| "grouped prec (CMember b a w) \<longleftrightarrow> (a = ''.'' \<or> a = ''->'') \<and> cMemberName w \<and> isPost b \<and> \<not> isNumber b \<and> grouped prec b"
| "grouped prec (CCall f as) \<longleftrightarrow> isPost f \<and> grouped prec f \<and> list_all (grouped prec) as"
| "grouped prec (CSizeof t) \<longleftrightarrow> \<not> isBin t \<and> \<not> isCast t \<and> grouped prec t"

section \<open>Parser\<close>

definition castHead :: "ctoken list \<Rightarrow> (string \<times> ctoken list) option" where
  "castHead ts = (case filter (\<lambda>(ty, tt). take (Suc (length tt)) ts = tt @ [Punct '')'']) castTypes of
     [] \<Rightarrow> None
   | (ty, tt) # _ \<Rightarrow> Some (ty, drop (Suc (length tt)) ts))"

text \<open>The next binary operator and its operand, added to the tree read so far.\<close>

fun attach :: "ctree \<Rightarrow> string \<Rightarrow> ctree \<Rightarrow> ctree" where
  "attach (CBin l p r) o' u = (if cPrec p < cPrec o' then CBin l p (attach r o' u) else CBin (CBin l p r) o' u)"
| "attach t o' u = CBin t o' u"

text \<open>
  A recursive call on the rest of another one is guarded by its length, which makes the parser total;
  the rest of a successful call is always shorter.
\<close>

function (sequential) cExpr :: "ctoken list \<Rightarrow> (ctree \<times> ctoken list) option"
  and cTail :: "ctree \<Rightarrow> ctoken list \<Rightarrow> (ctree \<times> ctoken list) option"
  and cUnary :: "ctoken list \<Rightarrow> (ctree \<times> ctoken list) option"
  and cPost :: "ctree \<Rightarrow> ctoken list \<Rightarrow> (ctree \<times> ctoken list) option"
  and cArgs :: "ctoken list \<Rightarrow> (ctree list \<times> ctoken list) option"
  and cMore :: "ctoken list \<Rightarrow> (ctree list \<times> ctoken list) option" where
  "cExpr ts = (case cUnary ts of
     None \<Rightarrow> None
   | Some (t, r) \<Rightarrow> if length r < length ts then cTail t r else None)"
| "cTail t (Punct o' # ts) = (if \<not> cBinOp o' then Some (t, Punct o' # ts) else (case cUnary ts of
     None \<Rightarrow> None
   | Some (u, r) \<Rightarrow> if length r < length ts then cTail (attach t o' u) r else None))"
| "cTail t ts = Some (t, ts)"
| "cUnary [] = None"
| "cUnary (Word w # ts) =
     (if w = ''sizeof'' then (case cUnary ts of None \<Rightarrow> None | Some (t, r) \<Rightarrow> if isCast t then None else Some (CSizeof t, r))
      else if cOperand w then cPost (CAtom w) ts else None)"
| "cUnary (Punct p # ts) =
     (if p \<in> set prefixOps then (case cUnary ts of None \<Rightarrow> None | Some (t, r) \<Rightarrow> Some (CPre p t, r))
      else if p \<noteq> ''('' then None
      else (case castHead ts of
          Some (ty, r) \<Rightarrow>
            (if length r < length ts then (case cUnary r of None \<Rightarrow> None | Some (t, r') \<Rightarrow> Some (CCast ty t, r')) else None)
        | None \<Rightarrow> (case cExpr ts of
            Some (t, Punct q # r) \<Rightarrow> if q = '')'' \<and> length r < length ts then cPost (CParen t) r else None
          | _ \<Rightarrow> None)))"
| "cPost t (Punct p # ts) =
     (if p = ''['' then (case cExpr ts of
          Some (i, Punct q # r) \<Rightarrow> if q = '']'' \<and> length r < length ts then cPost (CIndex t i) r else None
        | _ \<Rightarrow> None)
      else if p = ''.'' \<or> p = ''->'' then (case ts of
          Word w # r \<Rightarrow> if cMemberName w \<and> \<not> isNumber t then cPost (CMember t p w) r else None
        | _ \<Rightarrow> None)
      else if p = ''('' then (case cArgs ts of
          Some (as, r) \<Rightarrow> if length r < length ts then cPost (CCall t as) r else None
        | None \<Rightarrow> None)
      else Some (t, Punct p # ts))"
| "cPost t ts = Some (t, ts)"
| "cArgs (Punct p # ts) = (if p = '')'' then Some ([], ts) else cMore (Punct p # ts))"
| "cArgs ts = cMore ts"
| "cMore ts = (case cExpr ts of
     Some (t, Punct q # r) \<Rightarrow>
       (if q = '')'' then Some ([t], r)
        else if q = '','' \<and> length r < length ts then (case cMore r of None \<Rightarrow> None | Some (as, r') \<Rightarrow> Some (t # as, r'))
        else None)
   | _ \<Rightarrow> None)"
  by pat_completeness auto
termination
  by size_change

lemmas parser_simps = cExpr.simps cTail.simps cUnary.simps cPost.simps cArgs.simps cMore.simps

declare parser_simps [simp del]

definition cParse :: "ctoken list \<Rightarrow> ctree option" where
  "cParse ts = (case cExpr ts of Some (t, []) \<Rightarrow> Some t | _ \<Rightarrow> None)"

section \<open>Tokens of a tree\<close>

fun argToks :: "ctoken list list \<Rightarrow> ctoken list" where
  "argToks [] = []"
| "argToks [a] = a"
| "argToks (a # b # as) = a @ Punct '','' # argToks (b # as)"

fun toks :: "ctree \<Rightarrow> ctoken list" where
  "toks (CAtom w) = [Word w]"
| "toks (CParen t) = Punct ''('' # toks t @ [Punct '')'']"
| "toks (CPre p t) = Punct p # toks t"
| "toks (CCast ty t) = Punct ''('' # typeToks ty @ Punct '')'' # toks t"
| "toks (CBin l o' r) = toks l @ Punct o' # toks r"
| "toks (CIndex b i) = toks b @ Punct ''['' # toks i @ [Punct '']'']"
| "toks (CMember b a w) = toks b @ [Punct a, Word w]"
| "toks (CCall f as) = toks f @ Punct ''('' # argToks (map toks as) @ [Punct '')'']"
| "toks (CSizeof t) = Word ''sizeof'' # toks t"

section \<open>What the parser finds\<close>

lemma attach_root:
  "rootOp (attach t o' u) = (if isBin t \<and> cPrec (rootOp t) < cPrec o' then rootOp t else o')" "isBin (attach t o' u)"
  by (cases t; simp)+

lemma attach_grouped:
  "grouped cPrec t \<Longrightarrow> cBinOp o' \<Longrightarrow> grouped cPrec u \<Longrightarrow> \<not> isBin u \<Longrightarrow> grouped cPrec (attach t o' u)"
  by (induction t o' u rule: attach.induct) (auto simp: attach_root)

lemma not_prefix: "''('' \<notin> set prefixOps"
  by (simp add: prefixOps_def)

lemma isPost_not_isBin: "isPost t \<Longrightarrow> \<not> isBin t"
  by (cases t) auto

lemma attach_toks: "toks (attach t o' u) = toks t @ Punct o' # toks u"
  by (induction t o' u rule: attach.induct) auto

lemma distinct_castTypes: "distinct (map fst castTypes)"
  by code_simp

lemma typeToks_in: "(ty, tt) \<in> set castTypes \<Longrightarrow> typeToks ty = tt"
  using distinct_castTypes by (simp add: typeToks_def)

lemma castHead_Some: "castHead ts = Some (ty, r) \<Longrightarrow> castType ty \<and> ts = typeToks ty @ Punct '')'' # r"
proof -
  assume "castHead ts = Some (ty, r)"
  then obtain tt x where f: "filter (\<lambda>(ty, tt). take (Suc (length tt)) ts = tt @ [Punct '')'']) castTypes = (ty, tt) # x"
    and r: "r = drop (Suc (length tt)) ts" by (auto simp: castHead_def split: list.splits)
  from arg_cong[OF f, of set] have "(ty, tt) \<in> set castTypes" "take (Suc (length tt)) ts = tt @ [Punct '')'']" by auto
  then show ?thesis
    using r append_take_drop_id[of "Suc (length tt)" ts] by (auto simp: castType_def typeToks_in rev_image_eqI)
qed

lemma take_stop: "p \<notin> set xs \<Longrightarrow> p \<notin> set ys \<Longrightarrow> take (Suc (length ys)) (xs @ p # r) = ys @ [p] \<longleftrightarrow> xs = ys"
proof (induction xs arbitrary: ys)
  case Nil
  then show ?case by (cases ys) auto
next
  case (Cons x xs)
  then show ?case by (cases ys) auto
qed

lemma filter_snd: "distinct (map snd xs) \<Longrightarrow> (a, b) \<in> set xs \<Longrightarrow> filter (\<lambda>(x, y). b = y) xs = [(a, b)]"
proof (induction xs)
  case (Cons z xs)
  have "b \<notin> snd ` set xs \<Longrightarrow> filter (\<lambda>(x, y). b = y) xs = []" by (force simp: filter_empty_conv)
  with Cons show ?case by (cases z) (auto simp: rev_image_eqI)
qed simp

lemma castHead_typeToks: "castType ty \<Longrightarrow> castHead (typeToks ty @ Punct '')'' # r) = Some (ty, r)"
proof -
  assume "castType ty"
  then obtain tt where tt: "(ty, tt) \<in> set castTypes" by (auto simp: castType_def)
  have stop: "list_all (\<lambda>(ty, tt). Punct '')'' \<notin> set tt) castTypes" and dist: "distinct (map snd castTypes)" by code_simp+
  have "(take (Suc (length yy)) (tt @ Punct '')'' # r) = yy @ [Punct '')'']) \<longleftrightarrow> tt = yy" if "(y, yy) \<in> set castTypes" for y yy
    using stop that tt by (intro take_stop) (auto simp: list_all_iff)
  then have "filter (\<lambda>(y, yy). take (Suc (length yy)) (tt @ Punct '')'' # r) = yy @ [Punct '')'']) castTypes =
      filter (\<lambda>(y, yy). tt = yy) castTypes" by (intro filter_cong) (auto simp del: take_append)
  then have "filter (\<lambda>(y, yy). take (Suc (length yy)) (tt @ Punct '')'' # r) = yy @ [Punct '')'']) castTypes = [(ty, tt)]"
    using filter_snd[OF dist tt] by simp
  then show ?thesis by (simp add: castHead_def typeToks_in[OF tt])
qed

lemma argToks_Cons: "as \<noteq> [] \<Longrightarrow> argToks (a # as) = a @ Punct '','' # argToks as"
  by (cases as) auto

lemma cMore_nonempty: "cMore ts = Some (as, r) \<Longrightarrow> as \<noteq> []"
  by (auto simp: cMore.simps[of ts] split: option.splits list.splits ctoken.splits if_splits)

text \<open>Every tree the parser returns is grouped and has the tokens that the parser has consumed.\<close>

lemma parser_sound:
  "cExpr ts = Some (t, r) \<Longrightarrow> grouped cPrec t \<and> ts = toks t @ r"
  "cTail a ts = Some (t, r) \<Longrightarrow> grouped cPrec a \<Longrightarrow> grouped cPrec t \<and> toks a @ ts = toks t @ r"
  "cUnary ts = Some (t, r) \<Longrightarrow> grouped cPrec t \<and> \<not> isBin t \<and> ts = toks t @ r"
  "cPost a ts = Some (t, r) \<Longrightarrow> grouped cPrec a \<Longrightarrow> isPost a \<Longrightarrow> grouped cPrec t \<and> isPost t \<and> toks a @ ts = toks t @ r"
  "cArgs ts = Some (as, r) \<Longrightarrow> list_all (grouped cPrec) as \<and> ts = argToks (map toks as) @ Punct '')'' # r"
  "cMore ts = Some (as, r) \<Longrightarrow> list_all (grouped cPrec) as \<and> ts = argToks (map toks as) @ Punct '')'' # r"
proof (induction ts and a ts and ts and a ts and ts and ts arbitrary: t r and t r and t r and t r and as r and as r
    rule: cExpr_cTail_cUnary_cPost_cArgs_cMore.induct)
  case (1 ts)
  from 1(3) obtain u q where "cUnary ts = Some (u, q)" "length q < length ts" "cTail u q = Some (t, r)"
    by (auto simp: cExpr.simps split: option.splits if_splits)
  with 1(1)[of u q] 1(2)[of "(u, q)" u q t r] show ?case by simp
next
  case (2 a o' ts)
  show ?case
  proof (cases "cBinOp o'")
    case True
    with 2(3) obtain u q where "cUnary ts = Some (u, q)" "length q < length ts" "cTail (attach a o' u) q = Some (t, r)"
      by (auto simp: cTail.simps split: option.splits if_splits)
    with True 2(1)[of u q] 2(2)[of "(u, q)" u q t r] 2(4) attach_grouped show ?thesis by (simp add: attach_toks)
  next
    case False
    with 2(3,4) show ?thesis by (simp add: cTail.simps)
  qed
next
  case (6 p ts)
  then show ?case
    by (auto simp: cUnary.simps isPost_not_isBin split: option.splits if_splits list.splits ctoken.splits)
       (drule castHead_Some, simp)+
next
  case (7 a p ts)
  then show ?case
    by (auto simp: cPost.simps split: option.splits if_splits list.splits ctoken.splits)
next
  case (11 ts)
  then show ?case
    by (auto simp: cMore.simps[of ts] split: option.splits if_splits list.splits ctoken.splits)
       (frule cMore_nonempty, simp add: argToks_Cons)
qed (auto simp: parser_simps isPost_not_isBin split: if_splits option.splits)

lemma cParse_Some: "cParse ts = Some t \<Longrightarrow> ts = toks t \<and> grouped cPrec t"
  by (auto simp: cParse_def dest: parser_sound(1) split: option.splits list.splits)

section \<open>Reading a grouped tree\<close>

definition postOps :: "string list" where
  "postOps = [''['', ''.'', ''->'', ''('']"

text \<open>The tokens after an operand and after an expression.\<close>

fun stops :: "ctoken list \<Rightarrow> bool" where
  "stops (Punct p # _) \<longleftrightarrow> p \<notin> set postOps"
| "stops _ \<longleftrightarrow> True"

text \<open>The operators and operands of a tree, added one by one to another tree.\<close>

fun absorb :: "ctree \<Rightarrow> string \<Rightarrow> ctree \<Rightarrow> ctree" where
  "absorb a o' (CBin l p r) = absorb (absorb a o' l) p r"
| "absorb a o' t = attach a o' t"

lemma absorb_below:
  "grouped cPrec t \<Longrightarrow> cPrec q < cPrec o' \<Longrightarrow> (isBin t \<longrightarrow> cPrec q < cPrec (rootOp t)) \<Longrightarrow>
   absorb (CBin l q x) o' t = CBin l q (absorb x o' t)"
  by (induction t arbitrary: x o') (auto simp: less_le_trans)

lemma attach_blocked: "(isBin l \<longrightarrow> cPrec o' \<le> cPrec (rootOp l)) \<Longrightarrow> attach l o' t = CBin l o' t"
  by (cases l) auto

lemma absorb_grouped:
  "grouped cPrec (CBin l o' r) \<Longrightarrow> absorb l o' r = CBin l o' r"
proof (induction r arbitrary: l o')
  case (CBin x p y)
  have "absorb l o' x = CBin l o' x" using CBin.prems CBin.IH(1)[of l o'] by auto
  moreover have "absorb (CBin l o' x) p y = CBin l o' (absorb x p y)"
    using CBin.prems by (intro absorb_below) auto
  moreover have "absorb x p y = CBin x p y" using CBin.prems CBin.IH(2)[of x p] by auto
  ultimately show ?case by simp
qed (simp_all add: attach_blocked)

lemma binOp_not_post: "cBinOp o' \<Longrightarrow> o' \<notin> set postOps"
  by (auto simp: postOps_def cPrec_def cOps_def)

definition parses :: "ctree \<Rightarrow> bool" where
  "parses t \<longleftrightarrow> (\<forall>r. isPost t \<longrightarrow> cUnary (toks t @ r) = cPost t r)
     \<and> (\<forall>r. \<not> isBin t \<longrightarrow> stops r \<longrightarrow> cUnary (toks t @ r) = Some (t, r))
     \<and> (\<forall>a o' r. cBinOp o' \<longrightarrow> stops r \<longrightarrow> cTail a (Punct o' # toks t @ r) = cTail (absorb a o' t) r)
     \<and> (\<forall>r. stops r \<longrightarrow> cExpr (toks t @ r) = cTail t r)"

lemma toks_nonempty: "0 < length (toks t)"
  by (cases t) auto

lemma cPost_stops: "stops r \<Longrightarrow> cPost t r = Some (t, r)"
  by (cases r rule: stops.cases) (auto simp: cPost.simps postOps_def)

lemma absorb_operand: "\<not> isBin t \<Longrightarrow> absorb a o' t = attach a o' t"
  by (cases t) auto

text \<open>An operand is an expression and the right side of an operator.\<close>

lemma parses_operand:
  assumes "\<not> isBin t" and "\<And>r. stops r \<Longrightarrow> cUnary (toks t @ r) = Some (t, r)"
    and "\<And>r. isPost t \<Longrightarrow> cUnary (toks t @ r) = cPost t r"
  shows "parses t"
  using assms toks_nonempty[of t] by (auto simp: parses_def cTail.simps cExpr.simps absorb_operand)

lemma parses_post:
  assumes "isPost t" and "\<And>r. cUnary (toks t @ r) = cPost t r"
  shows "parses t"
  using assms by (intro parses_operand) (auto simp: isPost_not_isBin cPost_stops)

lemma parses_close: "parses t \<Longrightarrow> \<not> cBinOp q \<Longrightarrow> q \<notin> set postOps \<Longrightarrow> cExpr (toks t @ Punct q # r) = Some (t, Punct q # r)"
  by (simp add: parses_def cTail.simps)

lemma closers: "\<not> cBinOp '')''" "\<not> cBinOp '']''" "\<not> cBinOp '',''" "'')'' \<notin> set postOps" "'']'' \<notin> set postOps" "'','' \<notin> set postOps"
  by (simp_all add: cPrec_def cOps_def postOps_def)

text \<open>The words an expression can begin with; none of them begins a type.\<close>

definition starts :: "string \<Rightarrow> bool" where
  "starts w \<longleftrightarrow> cOperand w \<or> w = ''sizeof''"

lemma hd_toks: "grouped prec t \<Longrightarrow> hd (toks t) = Word w \<Longrightarrow> starts w"
  using toks_nonempty by (induction t) (auto simp: hd_append starts_def)

lemma castHead_None: "(\<And>w. hd ts = Word w \<Longrightarrow> starts w) \<Longrightarrow> castHead ts = None"
proof -
  assume hd: "\<And>w. hd ts = Word w \<Longrightarrow> starts w"
  have types: "list_all (\<lambda>(ty, tt). case tt of Word w # _ \<Rightarrow> \<not> starts w | _ \<Rightarrow> False) castTypes" by code_simp
  have "take (Suc (length tt)) ts \<noteq> tt @ [Punct '')'']" if "(ty, tt) \<in> set castTypes" for ty tt
  proof
    assume t: "take (Suc (length tt)) ts = tt @ [Punct '')'']"
    from that types obtain w tt' where "tt = Word w # tt'" "\<not> starts w"
      by (fastforce simp: list_all_iff split: list.splits ctoken.splits)
    with t hd show False by (cases ts) auto
  qed
  then have "filter (\<lambda>(ty, tt). take (Suc (length tt)) ts = tt @ [Punct '')'']) castTypes = []" by (auto simp: filter_empty_conv)
  then show ?thesis by (simp add: castHead_def)
qed

lemma castHead_toks: "grouped prec t \<Longrightarrow> castHead (toks t @ r) = None"
  using hd_toks toks_nonempty[of t] by (intro castHead_None) (simp add: hd_append)

lemma parses_paren: "parses t \<Longrightarrow> grouped cPrec t \<Longrightarrow> parses (CParen t)"
  by (rule parses_post) (simp_all add: cUnary.simps not_prefix castHead_toks parses_close closers)

lemma cOperand_not_sizeof: "cOperand w \<Longrightarrow> w \<noteq> ''sizeof''"
  by (auto simp: cOperand_def cIdentifier_def reserved_def cKeywords_def cConstant_def isDigit_def less_eq_char_def)

lemma parses_atom: "cOperand w \<Longrightarrow> parses (CAtom w)"
  by (rule parses_post) (simp_all add: cUnary.simps cOperand_not_sizeof)

lemma parses_unary: "parses t \<Longrightarrow> \<not> isBin t \<Longrightarrow> stops r \<Longrightarrow> cUnary (toks t @ r) = Some (t, r)"
  by (simp add: parses_def)

lemma parses_pre: "parses t \<Longrightarrow> \<not> isBin t \<Longrightarrow> p \<in> set prefixOps \<Longrightarrow> parses (CPre p t)"
  by (rule parses_operand) (simp_all add: cUnary.simps parses_unary)

lemma parses_cast: "parses t \<Longrightarrow> \<not> isBin t \<Longrightarrow> castType ty \<Longrightarrow> parses (CCast ty t)"
  by (rule parses_operand) (simp_all add: cUnary.simps not_prefix parses_unary castHead_typeToks)

lemma parses_sizeof: "parses t \<Longrightarrow> \<not> isBin t \<Longrightarrow> \<not> isCast t \<Longrightarrow> parses (CSizeof t)"
  by (rule parses_operand) (simp_all add: cUnary.simps parses_unary)

lemma parses_base: "parses b \<Longrightarrow> isPost b \<Longrightarrow> cUnary (toks b @ r) = cPost b r"
  by (simp add: parses_def)

lemma parses_index: "parses b \<Longrightarrow> isPost b \<Longrightarrow> parses i \<Longrightarrow> parses (CIndex b i)"
  by (rule parses_post) (simp_all add: parses_base cPost.simps parses_close closers)

lemma parses_member:
  "parses b \<Longrightarrow> isPost b \<Longrightarrow> \<not> isNumber b \<Longrightarrow> cMemberName w \<Longrightarrow> a = ''.'' \<or> a = ''->'' \<Longrightarrow> parses (CMember b a w)"
  by (rule parses_post) (auto simp add: parses_base cPost.simps)

lemma cMore_args:
  "as \<noteq> [] \<Longrightarrow> list_all parses as \<Longrightarrow> cMore (argToks (map toks as) @ Punct '')'' # r) = Some (as, r)"
proof (induction as rule: induct_list012)
  case (2 a)
  then show ?case by (simp add: cMore.simps parses_close closers)
next
  case (3 a b as)
  then have "cMore (argToks (map toks (b # as)) @ Punct '')'' # r) = Some (b # as, r)" by simp
  with 3 show ?case by (simp add: cMore.simps[of "toks a @ _"] parses_close closers)
qed simp

lemma hd_toks_closer: "grouped cPrec t \<Longrightarrow> hd (toks t) \<noteq> Punct '')''"
  using toks_nonempty by (induction t) (auto simp: hd_append prefixOps_def)

lemma cArgs_more: "h \<noteq> Punct '')'' \<Longrightarrow> cArgs (h # ts) = cMore (h # ts)"
  by (cases h) (simp_all add: cArgs.simps)

lemma cArgs_args:
  assumes "list_all parses as" and "list_all (grouped cPrec) as"
  shows "cArgs (argToks (map toks as) @ Punct '')'' # r) = Some (as, r)"
proof (cases as)
  case (Cons a as')
  have "hd (argToks (map toks as) @ Punct '')'' # r) = hd (toks a)" "argToks (map toks as) \<noteq> []"
    using toks_nonempty[of a] Cons by (cases as'; simp add: hd_append)+
  then obtain h ts where "argToks (map toks as) @ Punct '')'' # r = h # ts" "h = hd (toks a)"
    by (metis append_is_Nil_conv list.collapse)
  moreover have "h \<noteq> Punct '')''" using hd_toks_closer[of a] calculation(2) assms(2) Cons by simp
  ultimately have "cArgs (argToks (map toks as) @ Punct '')'' # r) = cMore (argToks (map toks as) @ Punct '')'' # r)"
    using cArgs_more[of h ts] by simp
  then show ?thesis using cMore_args[OF _ assms(1), of r] Cons by simp
qed (simp add: cArgs.simps)

lemma parses_call: "parses f \<Longrightarrow> isPost f \<Longrightarrow> list_all parses as \<Longrightarrow> list_all (grouped cPrec) as \<Longrightarrow> parses (CCall f as)"
  by (rule parses_post) (simp_all add: parses_base cPost.simps cArgs_args)

lemma parses_bin:
  assumes "parses l" and "parses r" and "grouped cPrec (CBin l o' r)"
  shows "parses (CBin l o' r)"
  using assms absorb_grouped[OF assms(3)] binOp_not_post[of o'] by (simp add: parses_def)

lemma grouped_parses: "grouped cPrec t \<Longrightarrow> parses t"
  by (induction t)
     (auto intro!: parses_paren parses_atom parses_pre parses_cast parses_index parses_member parses_call parses_sizeof simp: list_all_iff
       intro: parses_bin)

theorem cParse_toks: "cParse (toks t) = Some t \<longleftrightarrow> grouped cPrec t"
proof
  show "grouped cPrec t \<Longrightarrow> cParse (toks t) = Some t"
    using grouped_parses[of t] by (auto simp: parses_def cParse_def cTail.simps dest!: spec[of _ "[]"])
qed (simp add: cParse_Some)

end
