(* ===== verification/C_Text.thy ===== *)
theory C_Text
  imports C_Grammar
begin

text \<open>
  The text of C expressions: the lexer, the printing of trees in the format of the emitter, and when
  a printed tree is read back as itself.
\<close>

section \<open>Lexer\<close>

text \<open>
  The punctuators of two and three characters.  The texts of the emitter's expressions contain no comments.
\<close>

definition punct2 :: "string list" where
  "punct2 = [''->'', ''++'', ''--'', ''<<'', ''>>'', ''<='', ''>='', ''=='', ''!='', ''&&'', ''||'', ''+='', ''-='', ''*='',
     ''/='', ''%='', ''&='', ''|='', ''^='', ''##'']"

definition punct3 :: "string list" where
  "punct3 = [''<<='', ''>>='', ''...'']"

definition munch :: "string \<Rightarrow> nat" where
  "munch s = (if take 3 s \<in> set punct3 then 3 else if take 2 s \<in> set punct2 then 2 else 1)"

text \<open>
  A number runs over letters, digits and dots, and over a sign after the letter of an exponent, whether
  or not the result is a constant.
\<close>

definition isExponent :: "char \<Rightarrow> bool" where
  "isExponent c \<longleftrightarrow> c \<in> {CHR ''e'', CHR ''E'', CHR ''p'', CHR ''P''}"

definition isSign :: "char \<Rightarrow> bool" where
  "isSign c \<longleftrightarrow> c = CHR ''+'' \<or> c = CHR ''-''"

fun numberSplit :: "string \<Rightarrow> string \<times> string" where
  "numberSplit [] = ([], [])"
| "numberSplit [c] = (if isWord c \<or> c = CHR ''.'' then ([c], []) else ([], [c]))"
| "numberSplit (c # d # s) =
     (if isExponent c \<and> isSign d
      then (let (a, b) = numberSplit s in (c # d # a, b))
      else if isWord c \<or> c = CHR ''.'' then (let (a, b) = numberSplit (d # s) in (c # a, b))
      else ([], c # d # s))"

lemma numberSplit_length: "length (snd (numberSplit s)) \<le> length s"
  by (induction s rule: numberSplit.induct) (auto simp: Let_def split_beta)

lemma numberSplit_digit: "isDigit c \<Longrightarrow> length (snd (numberSplit (c # s))) < length (c # s)"
  using numberSplit_length[of s] numberSplit_length[of "tl s"]
  by (cases s) (auto simp: Let_def split_beta isWord_def)

function (sequential) clex :: "string \<Rightarrow> ctoken list" where
  "clex [] = []"
| "clex (c # s) =
     (if c = CHR '' '' then clex s
      else if isDigit c then Word (fst (numberSplit (c # s))) # clex (snd (numberSplit (c # s)))
      else if isWord c then Word (takeWhile isWord (c # s)) # clex (dropWhile isWord (c # s))
      else Punct (take (munch (c # s)) (c # s)) # clex (drop (munch (c # s)) (c # s)))"
  by pat_completeness auto
termination
  by (relation "measure length") (auto simp: munch_def le_imp_less_Suc length_dropWhile_le dest: numberSplit_digit)

definition cRead :: "string \<Rightarrow> ctree option" where
  "cRead s = cParse (clex s)"

section \<open>Printing\<close>

fun cText :: "ctree \<Rightarrow> string" where
  "cText (CAtom w) = w"
| "cText (CParen t) = ''('' @ cText t @ '')''"
| "cText (CPre p t) = p @ cText t"
| "cText (CCast ty t) = ''('' @ ty @ '')'' @ cText t"
| "cText (CBin l o' r) = cText l @ '' '' @ o' @ '' '' @ cText r"
| "cText (CIndex b i) = cText b @ ''['' @ cText i @ '']''"
| "cText (CMember b a w) = cText b @ a @ w"
| "cText (CCall f as) = cText f @ ''('' @ joinWith '', '' (map cText as) @ '')''"
| "cText (CSizeof t) = ''sizeof'' @ cText t"

fun isParen :: "ctree \<Rightarrow> bool" where
  "isParen (CParen _) = True"
| "isParen _ = False"

text \<open>The atoms and members are words, and the operand of \<^verbatim>\<open>sizeof\<close> is in parentheses.\<close>

fun wordy :: "ctree \<Rightarrow> bool" where
  "wordy (CAtom w) \<longleftrightarrow> isWordText w"
| "wordy (CParen t) \<longleftrightarrow> wordy t"
| "wordy (CPre p t) \<longleftrightarrow> wordy t"
| "wordy (CCast ty t) \<longleftrightarrow> wordy t"
| "wordy (CBin l o' r) \<longleftrightarrow> wordy l \<and> wordy r"
| "wordy (CIndex b i) \<longleftrightarrow> wordy b \<and> wordy i"
| "wordy (CMember b a w) \<longleftrightarrow> wordy b \<and> isWordText w"
| "wordy (CCall f as) \<longleftrightarrow> wordy f \<and> list_all wordy as"
| "wordy (CSizeof t) \<longleftrightarrow> isParen t \<and> wordy t"

text \<open>Two prefix operators whose characters the lexer joins: \<^verbatim>\<open>--x\<close> and \<^verbatim>\<open>&&x\<close>.\<close>

fun joins :: "string \<Rightarrow> ctree \<Rightarrow> bool" where
  "joins p (CPre q t) \<longleftrightarrow> p = q \<and> (p = ''-'' \<or> p = ''&'')"
| "joins p _ \<longleftrightarrow> False"

fun separate :: "ctree \<Rightarrow> bool" where
  "separate (CAtom w) \<longleftrightarrow> True"
| "separate (CParen t) \<longleftrightarrow> separate t"
| "separate (CPre p t) \<longleftrightarrow> \<not> joins p t \<and> separate t"
| "separate (CCast ty t) \<longleftrightarrow> separate t"
| "separate (CBin l o' r) \<longleftrightarrow> separate l \<and> separate r"
| "separate (CIndex b i) \<longleftrightarrow> separate b \<and> separate i"
| "separate (CMember b a w) \<longleftrightarrow> separate b"
| "separate (CCall f as) \<longleftrightarrow> separate f \<and> list_all separate as"
| "separate (CSizeof t) \<longleftrightarrow> separate t"

section \<open>Lexing a printed tree\<close>

definition wordEnds :: "string \<Rightarrow> bool" where
  "wordEnds s \<longleftrightarrow> s = [] \<or> \<not> isWord (hd s)"

definition numberEnds :: "string \<Rightarrow> bool" where
  "numberEnds s \<longleftrightarrow> s = [] \<or> \<not> isWord (hd s) \<and> hd s \<noteq> CHR ''.'' \<and> \<not> isSign (hd s)"

lemma wordEnds_simps [simp]: "wordEnds []" "wordEnds (c # s) \<longleftrightarrow> \<not> isWord c"
    "numberEnds []" "numberEnds (c # s) \<longleftrightarrow> \<not> isWord c \<and> c \<noteq> CHR ''.'' \<and> \<not> isSign c"
  by (simp_all add: wordEnds_def numberEnds_def)

lemma numberEnds_word: "numberEnds s \<Longrightarrow> wordEnds s"
  by (auto simp: wordEnds_def numberEnds_def)

lemma not_word [simp]:
  "\<not> isWord CHR '' ''" "\<not> isWord CHR ''(''" "\<not> isWord CHR '')''" "\<not> isWord CHR ''[''" "\<not> isWord CHR '']''" "\<not> isWord CHR '',''"
  "\<not> isWord CHR ''.''" "\<not> isWord CHR ''-''" "\<not> isWord CHR ''&''" "\<not> isWord CHR ''!''" "\<not> isWord CHR ''~''" "\<not> isWord CHR ''*''"
  "\<not> isWord CHR ''/''" "\<not> isWord CHR ''%''" "\<not> isWord CHR ''+''" "\<not> isWord CHR ''<''" "\<not> isWord CHR ''>''" "\<not> isWord CHR ''=''"
  "\<not> isWord CHR ''^''" "\<not> isWord CHR ''|''"
  by (simp_all add: isWord_code)

lemma not_digit [simp]: "\<not> isWord c \<Longrightarrow> \<not> isDigit c"
  by (simp add: isWord_def)

lemma type_letters [simp]: "\<not> isDigit CHR ''_''" "\<not> isDigit CHR ''b''" "\<not> isDigit CHR ''c''" "\<not> isDigit CHR ''s''"
  by (simp_all add: isDigit_def less_eq_char_def)

lemma closing_signs [simp]: "\<not> isSign CHR '' ''" "\<not> isSign CHR ''(''" "\<not> isSign CHR '')''" "\<not> isSign CHR ''[''"
    "\<not> isSign CHR '']''" "\<not> isSign CHR '',''"
  by (simp_all add: isSign_def)

lemma isSign_not_word: "isWord c \<Longrightarrow> \<not> isSign c"
  by (auto simp: isSign_def)

lemma clex_space [simp]: "clex (CHR '' '' # s) = clex s"
  by simp

lemma clex_word: "isWordText w \<Longrightarrow> \<not> isDigit (hd w) \<Longrightarrow> wordEnds s \<Longrightarrow> clex (w @ s) = Word w # clex s"
proof -
  assume w: "isWordText w" "\<not> isDigit (hd w)" and s: "wordEnds s"
  then obtain c w' where cw: "w = c # w'" "isWord c" by (cases w) (auto simp: isWordText_def)
  have "takeWhile isWord (w @ s) = w" "dropWhile isWord (w @ s) = s"
    using w s by (cases s; simp add: isWordText_def takeWhile_append2 list_all_iff dropWhile_append2)+
  moreover have "c \<noteq> CHR '' ''" using cw(2) by auto
  ultimately show ?thesis using cw w(2) by simp
qed

lemma numberSplit_end: "numberEnds s \<Longrightarrow> numberSplit s = ([], s)"
  by (cases s rule: numberSplit.cases) (auto simp: isExponent_def isWord_code)

lemma numberSplit_word: "list_all isWord w \<Longrightarrow> numberEnds s \<Longrightarrow> numberSplit (w @ s) = (w, s)"
proof (induction w)
  case Nil
  then show ?case by (simp add: numberSplit_end)
next
  case (Cons c w)
  then have IH: "numberSplit (w @ s) = (w, s)" and c: "isWord c" by simp_all
  show ?case
  proof (cases "w @ s")
    case Nil
    with c show ?thesis by simp
  next
    case (Cons d t)
    then have "\<not> isSign d" using \<open>list_all isWord (c # w)\<close> \<open>numberEnds s\<close> by (cases w) (auto simp: isSign_not_word)
    with Cons IH c show ?thesis by simp
  qed
qed

lemma clex_number: "isWordText w \<Longrightarrow> isDigit (hd w) \<Longrightarrow> numberEnds s \<Longrightarrow> clex (w @ s) = Word w # clex s"
proof -
  assume w: "isWordText w" "isDigit (hd w)" and s: "numberEnds s"
  then obtain c w' where cw: "w = c # w'" "isWord c" by (cases w) (auto simp: isWordText_def)
  have "numberSplit (w @ s) = (w, s)" using w s by (intro numberSplit_word) (simp_all add: isWordText_def)
  moreover have "c \<noteq> CHR '' ''" using cw(2) by auto
  ultimately show ?thesis using cw w(2) by simp
qed

lemma clex_single:
  assumes "\<not> isWord c" and "c \<noteq> CHR '' ''" and "take 2 (c # s) \<notin> set punct2" and "take 3 (c # s) \<notin> set punct3"
  shows "clex (c # s) = Punct [c] # clex s"
  using assms by (auto simp: munch_def isWord_def)

declare clex.simps(2) [simp del]

lemma clex_bracket:
  "clex (CHR ''('' # s) = Punct ''('' # clex s" "clex (CHR '')'' # s) = Punct '')'' # clex s"
  "clex (CHR ''['' # s) = Punct ''['' # clex s" "clex (CHR '']'' # s) = Punct '']'' # clex s"
  "clex (CHR '','' # s) = Punct '','' # clex s"
  by (rule clex_single; simp add: punct2_def punct3_def)+

lemma clex_binop: "cBinOp o' \<Longrightarrow> clex (o' @ CHR '' '' # s) = Punct o' # clex s"
  by (auto simp: cPrec_def cOps_def clex.simps(2) munch_def punct2_def punct3_def split: if_splits)

lemma clex_member: "a = ''.'' \<or> a = ''->'' \<Longrightarrow> isWordText w \<Longrightarrow> clex (a @ w @ s) = Punct a # clex (w @ s)"
  by (cases w) (auto simp: clex.simps(2) munch_def punct2_def punct3_def isWordText_def)

lemma cText_post:
  "isPost t \<Longrightarrow> wordy t \<Longrightarrow> grouped prec t \<Longrightarrow> \<exists>c s. cText t = c # s \<and> (isWord c \<or> c = CHR ''('')"
  by (induction t) (auto simp: isWordText_def neq_Nil_conv)

text \<open>The first character of an operand.\<close>

lemma cText_operand:
  assumes "\<not> isBin t" and "wordy t" and "grouped prec t"
  obtains c s where "cText t = c # s" "isWord c \<or> c = CHR ''('' \<or> (\<exists>t'. t = CPre [c] t' \<and> [c] \<in> set prefixOps)"
proof (cases "isPost t")
  case True
  with cText_post[OF True assms(2,3)] that show ?thesis by blast
next
  case False
  with assms that show ?thesis by (cases t) (auto simp: prefixOps_def isWord_code)
qed

lemma clex_prefix:
  assumes "p \<in> set prefixOps" and "\<not> joins p t" and "\<not> isBin t" and "wordy t" and "grouped prec t"
  shows "clex (p @ cText t @ s) = Punct p # clex (cText t @ s)"
proof -
  obtain c s' where c: "cText t = c # s'" "isWord c \<or> c = CHR ''('' \<or> (\<exists>t'. t = CPre [c] t' \<and> [c] \<in> set prefixOps)"
    using assms(3-5) by (rule cText_operand)
  obtain d where d: "p = [d]" "d \<in> {CHR ''!'', CHR ''-'', CHR ''~'', CHR ''&'', CHR ''*''}"
    using assms(1) by (auto simp: prefixOps_def)
  have "c = d \<Longrightarrow> d \<noteq> CHR ''-'' \<and> d \<noteq> CHR ''&''" using c(2) d assms(2) by auto
  moreover have "c \<noteq> CHR ''='' \<and> c \<noteq> CHR ''>''" using c(2) by (auto simp: prefixOps_def)
  ultimately have "[d, c] \<notin> set punct2" using d(2) by (auto simp: punct2_def)
  moreover have "d # x \<notin> set punct3" "\<not> isWord d" "d \<noteq> CHR '' ''" for x using d(2) by (auto simp: punct3_def)
  ultimately show ?thesis using clex_single[of d "c # s' @ s"] by (simp add: c(1) d(1))
qed

lemma clex_type: "castType ty \<Longrightarrow> clex (ty @ CHR '')'' # s) = typeToks ty @ Punct '')'' # clex s"
  by (auto simp: castType_def castTypes_def cTypeNames_def typeToks_def clex.simps(2) isWord_code munch_def punct2_def punct3_def)

text \<open>
  A tree with two prefix operators that join is not split into its tokens, whatever the tokens after it.
\<close>

definition lexes :: "ctree \<Rightarrow> bool" where
  "lexes t \<longleftrightarrow> (\<forall>s u. (if isPost t \<and> \<not> isNumber t then wordEnds s else numberEnds s) \<longrightarrow>
     clex (cText t @ s) = toks t @ u \<longleftrightarrow> separate t \<and> clex s = u)"

lemma lexesD: "lexes t \<Longrightarrow> numberEnds s \<Longrightarrow> clex (cText t @ s) = toks t @ u \<longleftrightarrow> separate t \<and> clex s = u"
  using numberEnds_word by (auto simp: lexes_def)

lemma lexes_args:
  "list_all lexes as \<Longrightarrow>
   clex (joinWith '', '' (map cText as) @ CHR '')'' # s) = argToks (map toks as) @ Punct '')'' # u \<longleftrightarrow>
   list_all separate as \<and> clex s = u"
  by (induction as rule: induct_list012) (auto simp: lexesD clex_bracket)

lemma clex_joined: "joins p t \<Longrightarrow> \<exists>r. clex (p @ cText t @ s) = Punct (p @ p) # r"
  by (cases t) (auto simp: clex.simps(2) munch_def punct2_def punct3_def)

lemma grouped_lexes: "grouped cPrec t \<Longrightarrow> wordy t \<Longrightarrow> lexes t"
proof (induction t)
  case (CAtom w)
  then show ?case by (cases "isDigit (hd w)") (auto simp: lexes_def clex_word clex_number isWordText_def numberEnds_word)
next
  case (CParen t)
  then show ?case by (auto simp: lexes_def clex_bracket)
next
  case (CPre p t)
  show ?case
  proof (cases "joins p t")
    case True
    then have "p \<noteq> []" by (cases t) auto
    then have "clex (p @ cText t @ s) \<noteq> Punct p # u" for s u using clex_joined[OF True, of s] by auto
    then show ?thesis using True by (simp add: lexes_def)
  next
    case False
    moreover have "lexes t" using CPre by simp
    ultimately show ?thesis using CPre.prems clex_prefix[of p t cPrec] lexesD[of t] by (simp add: lexes_def[of "CPre p t"])
  qed
next
  case (CCast ty t)
  then have "lexes t" by simp
  with CCast.prems show ?case using clex_type[of ty] lexesD[of t] by (simp add: lexes_def[of "CCast ty t"] clex_bracket)
next
  case (CBin l o' r)
  then have "lexes l" "lexes r" by simp_all
  then show ?case using CBin.prems clex_binop[of o'] lexesD[of l] lexesD[of r] by (auto simp: lexes_def[of "CBin l o' r"])
next
  case (CIndex b i)
  then have "lexes b" "lexes i" by simp_all
  then show ?case using lexesD[of b] lexesD[of i] by (auto simp: lexes_def[of "CIndex b i"] clex_bracket)
next
  case (CMember b a w)
  then have "lexes b" "isPost b" "\<not> isNumber b" "cMemberName w" "a = ''.'' \<or> a = ''->''" by simp_all
  moreover from this have "wordEnds (a @ w @ s)" for s by auto
  ultimately show ?case using CMember.prems clex_member[of a w] clex_word[of w]
    by (auto simp: lexes_def cMemberName_def)
next
  case (CCall f as)
  then have "list_all lexes as" "lexes f" by (simp_all add: list_all_iff)
  then show ?case using lexes_args[of as] lexesD[of f] by (auto simp: lexes_def[of "CCall f as"] clex_bracket)
next
  case (CSizeof t)
  then have "lexes t" by simp
  moreover obtain s' where "cText t = CHR ''('' # s'" using CSizeof.prems(2) by (cases t) auto
  then have "clex (''sizeof'' @ cText t @ s) = Word ''sizeof'' # clex (cText t @ s)" for s
    by (intro clex_word) (simp_all add: isWordText_def isWord_code)
  ultimately show ?case using lexesD[of t] by (simp add: lexes_def[of "CSizeof t"])
qed

text \<open>
  A printed tree is read as itself exactly when it is grouped by the precedences of C and no two of its
  prefix operators join.
\<close>

theorem cRead_cText:
  assumes "wordy t"
  shows "cRead (cText t) = Some t \<longleftrightarrow> grouped cPrec t \<and> separate t"
proof -
  have lex: "clex (cText t) = toks t \<longleftrightarrow> separate t" if "grouped cPrec t"
    using grouped_lexes[OF that assms, unfolded lexes_def, rule_format, of "[]" "[]"] by simp
  show ?thesis using lex cParse_Some[of "clex (cText t)" t] cParse_toks[of t] by (auto simp: cRead_def)
qed

end
