(* ===== verification/Emit_Calls.thy ===== *)
theory Emit_Calls
  imports Emit_Expr
begin

text \<open>
  What \<open>formatCall\<close> makes of a call, by the form of the function and the type of the receiver: one lemma
  per rule, with all earlier rules out of the way.
\<close>

section \<open>Methods of the map types\<close>

lemmas receiver_defs = methodOn_def selectorOf_def identOf_def namedOf_def deref_def

definition specialReceivers :: "string list" where
  "specialReceivers = [''RingBuf'', ''Queue'', ''Stack'', ''ProgArray'', ''PerfEventArray''] @ redirectMapTypes
     @ map fst storageMapHelpers"

text \<open>A receiver with no rule of its own leaves the call to the map methods and the plain calls.\<close>

lemma plain_receiver:
  assumes "n \<notin> set specialReceivers" and "idName sel \<noteq> ''Pointer''"
    and "idType i = Some (Named (Some bpfPkgPath) n ts)"
  shows "formatCall e p (SelectorExpr m (IdentE i) sel) fn fargs =
    (case mapMethodCall (SelectorExpr m (IdentE i) sel) of
       Some (mapName, _, helper) \<Rightarrow> formatMapCall mapName helper fargs
     | None \<Rightarrow> (case bpfFuncName (SelectorExpr m (IdentE i) sel) of
           Some name \<Rightarrow> formatHelperCall name fargs
         | None \<Rightarrow> rbind fn (\<lambda>fnS. rbind (rsequence fargs) (\<lambda>args. Inr (callText fnS args)))))"
proof -
  let ?f = "SelectorExpr m (IdentE i) sel"
  have n: "n \<noteq> ''RingBuf''" "n \<noteq> ''Queue''" "n \<noteq> ''Stack''" "n \<noteq> ''ProgArray''" "n \<noteq> ''PerfEventArray''"
    "n \<notin> set redirectMapTypes" "n \<notin> set (map fst storageMapHelpers)"
    using assms(1) unfolding specialReceivers_def set_append by (simp_all only: Un_iff list.set insert_iff de_Morgan_disj simp_thms)
  have "map_of storageMapHelpers n = None" using n(7) by (simp add: map_of_eq_None_iff)
  then have "storageMethodCall e p ?f fargs = Inr None"
    using assms(3) by (auto simp: storageMethodCall_def storageMapInfo_def receiver_defs split: list.splits)
  moreover have "ringbufMethodCall e p ?f fargs = Inr None" "queueLikeMethodCall e p ?f fargs = Inr None"
    "progArrayMethodCall e p ?f fargs = Inr None" "perfEventArrayMethodCall e p ?f fargs = Inr None"
    "redirectMapCall e p ?f fargs = Inr None"
    using n assms(3)
    by (simp_all add: ringbufMethodCall_def queueLikeMethodCall_def progArrayMethodCall_def perfEventArrayMethodCall_def
        redirectMapCall_def isRingBufNamed_def isQueueOrStackNamed_def receiver_defs)
  moreover have "\<not> isUnsafePointer ?f" using assms(2) by (simp add: isUnsafePointer_def receiver_defs)
  ultimately show ?thesis unfolding formatCall_def orElse_def by (simp add: identOf_def)
qed

lemma std_call:
  assumes "n \<in> set kernelMapGoTypes" and "map_of mapMethodToHelper (idName sel) = Some h"
    and "idType i = Some (Named (Some bpfPkgPath) n [a, b])"
  shows "formatCall e p (SelectorExpr m (IdentE i) sel) fn (map Inr args) =
    Inr (callText h ((''&'' @ idName i) # args @ (if h = ''bpf_map_update_elem'' then [''BPF_ANY''] else [])))"
proof -
  have "list_all (\<lambda>n. n \<notin> set specialReceivers) kernelMapGoTypes"
    "list_all (\<lambda>(g, _). g \<noteq> ''Pointer'') mapMethodToHelper" by code_simp+
  then have "n \<notin> set specialReceivers" "idName sel \<noteq> ''Pointer''"
    using assms(1) map_of_SomeD[OF assms(2)] by (fastforce simp: list_all_iff)+
  from plain_receiver[OF this assms(3)] show ?thesis
    using assms by (simp add: mapMethodCall_def isMapNamed_def receiver_defs formatMapCall_def rsequence_Inr)
qed

lemma bloom_call:
  assumes "idName sel \<in> {''Add'', ''Contains''}" and "idUse i = Some (OtherObj k)"
    and "idType i = Some (Named (Some bpfPkgPath) ''BloomFilter'' ts)"
  shows "formatCall e p (SelectorExpr m (IdentE i) sel) fn (map Inr args) = rbind fn (\<lambda>fnS. Inr (callText fnS args))"
proof -
  have "''BloomFilter'' \<notin> set specialReceivers" by code_simp
  moreover have "idName sel \<noteq> ''Pointer''" and m: "map_of mapMethodToHelper (idName sel) = None"
    using assms(1) by (auto simp: mapMethodToHelper_def)
  ultimately show ?thesis using assms(2) plain_receiver[OF _ _ assms(3)]
    by (simp add: mapMethodCall_def m bpfFuncName_def receiver_defs rsequence_Inr)
qed

text \<open>The receivers with a rule of their own.\<close>

lemma ringbuf_call:
  assumes "idName sel \<in> {''Submit'', ''Discard'', ''Output''}"
    and "idType i = Some (Named (Some bpfPkgPath) ''RingBuf'' ts)"
  shows "formatCall e p (SelectorExpr m (IdentE i) sel) fn [Inr a] =
    (if idName sel = ''Submit'' then Inr (callText ''bpf_ringbuf_submit'' [a, ''0''])
     else if idName sel = ''Discard'' then Inr (callText ''bpf_ringbuf_discard'' [a, ''0''])
     else Inr (callText ''bpf_ringbuf_output'' [''&'' @ idName i, a, ''sizeof(*'' @ a @ '')'', ''0'']))"
  using assms
  by (elim insertE emptyE; simp add: formatCall_def orElse_def ringbufMethodCall_def isRingBufNamed_def isUnsafePointer_def
      receiver_defs callText_def)

lemma queue_call:
  assumes "idName sel \<in> {''Push'', ''Pop'', ''Peek''}" and "n \<in> {''Queue'', ''Stack''}"
    and "idType i = Some (Named (Some bpfPkgPath) n ts)"
  shows "formatCall e p (SelectorExpr m (IdentE i) sel) fn [Inr a] =
    (if idName sel = ''Push'' then Inr (callText ''bpf_map_push_elem'' [''&'' @ idName i, a, ''0''])
     else if idName sel = ''Pop'' then Inr (callText ''bpf_map_pop_elem'' [''&'' @ idName i, a])
     else Inr (callText ''bpf_map_peek_elem'' [''&'' @ idName i, a]))"
proof -
  have "n \<noteq> ''RingBuf''" using assms(2) by auto
  then have r: "ringbufMethodCall e p (SelectorExpr m (IdentE i) sel) [Inr a] = Inr None"
    using assms(3) by (simp add: ringbufMethodCall_def isRingBufNamed_def receiver_defs)
  show ?thesis
    using assms(1,3) isQueueOrStackNamed_def[of "Some bpfPkgPath" n] assms(2)
    by (elim insertE[of "idName sel"] emptyE; simp add: formatCall_def orElse_def r queueLikeMethodCall_def isUnsafePointer_def
        receiver_defs callText_def)
qed

lemma tail_call:
  assumes "idName sel = ''TailCall''" and "idType i = Some (Named (Some bpfPkgPath) ''ProgArray'' ts)"
  shows "formatCall e p (SelectorExpr m (IdentE i) sel) fn [Inr a, Inr b] =
    Inr (callText ''bpf_tail_call'' [a, ''&'' @ idName i, b])"
  using assms
  by (simp add: formatCall_def orElse_def ringbufMethodCall_def isRingBufNamed_def queueLikeMethodCall_def
      isQueueOrStackNamed_def progArrayMethodCall_def isUnsafePointer_def receiver_defs callText_def)

lemma perf_call:
  assumes "idName sel = ''Output''" and "idType i = Some (Named (Some bpfPkgPath) ''PerfEventArray'' ts)"
  shows "formatCall e p (SelectorExpr m (IdentE i) sel) fn [Inr a, Inr b] =
    Inr (callText ''bpf_perf_event_output'' [a, ''&'' @ idName i, ''BPF_F_CURRENT_CPU'', b, ''sizeof(*'' @ b @ '')''])"
  using assms
  by (simp add: formatCall_def orElse_def ringbufMethodCall_def isRingBufNamed_def queueLikeMethodCall_def
      isQueueOrStackNamed_def progArrayMethodCall_def perfEventArrayMethodCall_def isUnsafePointer_def receiver_defs callText_def)

lemma no_early_rule:
  assumes "n \<notin> {''RingBuf'', ''Queue'', ''Stack'', ''ProgArray'', ''PerfEventArray''}"
    and "idType i = Some (Named (Some bpfPkgPath) n ts)"
  shows "ringbufMethodCall e p (SelectorExpr m (IdentE i) sel) fargs = Inr None"
    "queueLikeMethodCall e p (SelectorExpr m (IdentE i) sel) fargs = Inr None"
    "progArrayMethodCall e p (SelectorExpr m (IdentE i) sel) fargs = Inr None"
    "perfEventArrayMethodCall e p (SelectorExpr m (IdentE i) sel) fargs = Inr None"
  using assms
  by (simp_all add: ringbufMethodCall_def queueLikeMethodCall_def progArrayMethodCall_def perfEventArrayMethodCall_def
      isRingBufNamed_def isQueueOrStackNamed_def receiver_defs)

lemma storage_call:
  assumes "map_of storageMapHelpers n = Some h" and "idType i = Some (Named (Some bpfPkgPath) n [t])"
  shows "idName sel = ''Get'' \<Longrightarrow> formatCall e p (SelectorExpr m (IdentE i) sel) fn [Inr a] =
      Inr (callText (GetFn h) [''&'' @ idName i, a, ''NULL'', ''0''])"
    and "idName sel = ''Delete'' \<Longrightarrow> formatCall e p (SelectorExpr m (IdentE i) sel) fn [Inr a] =
      Inr (callText (DeleteFn h) [''&'' @ idName i, a])"
    and "idName sel = ''GetOrCreate'' \<Longrightarrow> formatCall e p (SelectorExpr m (IdentE i) sel) fn [Inr a, Inr b] =
      Inr (callText (GetFn h) [''&'' @ idName i, a, b, ''BPF_LOCAL_STORAGE_GET_F_CREATE''])"
proof -
  have "list_all (\<lambda>(n, _). n \<notin> {''RingBuf'', ''Queue'', ''Stack'', ''ProgArray'', ''PerfEventArray''}) storageMapHelpers"
    by code_simp
  then have "n \<notin> {''RingBuf'', ''Queue'', ''Stack'', ''ProgArray'', ''PerfEventArray''}"
    using map_of_SomeD[OF assms(1)] by (fastforce simp: list_all_iff)
  note none = no_early_rule[OF this assms(2)]
  show "idName sel = ''Get'' \<Longrightarrow> formatCall e p (SelectorExpr m (IdentE i) sel) fn [Inr a] =
      Inr (callText (GetFn h) [''&'' @ idName i, a, ''NULL'', ''0''])"
    "idName sel = ''Delete'' \<Longrightarrow> formatCall e p (SelectorExpr m (IdentE i) sel) fn [Inr a] =
      Inr (callText (DeleteFn h) [''&'' @ idName i, a])"
    "idName sel = ''GetOrCreate'' \<Longrightarrow> formatCall e p (SelectorExpr m (IdentE i) sel) fn [Inr a, Inr b] =
      Inr (callText (GetFn h) [''&'' @ idName i, a, b, ''BPF_LOCAL_STORAGE_GET_F_CREATE''])"
    using assms
    by (simp_all add: formatCall_def orElse_def none storageMethodCall_def storageMapInfo_def storageHelpersOf_def
        isUnsafePointer_def receiver_defs callText_def)
qed

lemma redirect_call:
  assumes "n \<in> set redirectMapTypes" and "idName sel = ''Redirect''" and "idType i = Some (Named (Some bpfPkgPath) n ts)"
  shows "formatCall e p (SelectorExpr m (IdentE i) sel) fn [Inr a, Inr b, Inr c] =
    Inr (callText ''bpf_redirect_map'' [''&'' @ idName i, b, c])"
proof -
  have "list_all (\<lambda>n. n \<notin> {''RingBuf'', ''Queue'', ''Stack'', ''ProgArray'', ''PerfEventArray''}
      \<and> map_of storageMapHelpers n = None) redirectMapTypes" by code_simp
  then have n: "n \<notin> {''RingBuf'', ''Queue'', ''Stack'', ''ProgArray'', ''PerfEventArray''}" "map_of storageMapHelpers n = None"
    using assms(1) by (auto simp: list_all_iff)
  have "storageMapInfo (IdentE i) = None"
    using n(2) assms(3) by (simp add: storageMapInfo_def receiver_defs split: list.splits)
  with assms show ?thesis
    by (simp add: formatCall_def orElse_def no_early_rule[OF n(1) assms(3)] storageMethodCall_def redirectMapCall_def
        isUnsafePointer_def receiver_defs callText_def)
qed

section \<open>Functions\<close>

text \<open>A receiver with no named type, such as a package, has no method of its own.\<close>

lemma unnamed_receiver:
  assumes "namedOf (deref (idType i)) = None" and "\<not> isUnsafePointer (SelectorExpr m (IdentE i) sel)"
  shows "formatCall e p (SelectorExpr m (IdentE i) sel) fn fargs =
    (case bpfFuncName (SelectorExpr m (IdentE i) sel) of
       Some name \<Rightarrow> formatHelperCall name fargs
     | None \<Rightarrow> rbind fn (\<lambda>fnS. rbind (rsequence fargs) (\<lambda>args. Inr (callText fnS args))))"
proof -
  let ?f = "SelectorExpr m (IdentE i) sel"
  have n: "namedOf (idType i) = None" using assms(1) by (auto simp: namedOf_def deref_def split: option.splits gotype.splits)
  then have "ringbufMethodCall e p ?f fargs = Inr None" "queueLikeMethodCall e p ?f fargs = Inr None"
    "progArrayMethodCall e p ?f fargs = Inr None" "perfEventArrayMethodCall e p ?f fargs = Inr None"
    "redirectMapCall e p ?f fargs = Inr None" "storageMethodCall e p ?f fargs = Inr None" "mapMethodCall ?f = None"
    using assms(1)
    by (simp_all add: ringbufMethodCall_def queueLikeMethodCall_def progArrayMethodCall_def perfEventArrayMethodCall_def
        redirectMapCall_def storageMethodCall_def storageMapInfo_def mapMethodCall_def methodOn_def selectorOf_def identOf_def
        split: option.splits)
  then show ?thesis using assms(2) by (simp add: formatCall_def orElse_def identOf_def)
qed

lemma plain_function:
  assumes "methodOn f = None" and "Option.bind (identOf f) (\<lambda>i. map_of goBasicNameToC (idName i)) = None"
  shows "formatCall e p f fn fargs = rbind fn (\<lambda>fnS. rbind (rsequence fargs) (\<lambda>args. Inr (callText fnS args)))"
proof -
  have "ringbufMethodCall e p f fargs = Inr None" "queueLikeMethodCall e p f fargs = Inr None"
    "progArrayMethodCall e p f fargs = Inr None" "perfEventArrayMethodCall e p f fargs = Inr None"
    "redirectMapCall e p f fargs = Inr None" "storageMethodCall e p f fargs = Inr None" "mapMethodCall f = None"
    "bpfFuncName f = None" "\<not> isUnsafePointer f"
    using assms(1)
    by (auto simp: ringbufMethodCall_def queueLikeMethodCall_def progArrayMethodCall_def perfEventArrayMethodCall_def
        redirectMapCall_def storageMethodCall_def storageMapInfo_def mapMethodCall_def methodOn_def bpfFuncName_def isUnsafePointer_def
        split: option.splits)
  then show ?thesis using assms(2) by (simp add: formatCall_def orElse_def)
qed

lemma methodOn_Some: "methodOn f = Some (i, name) \<Longrightarrow> \<exists>m sel. f = SelectorExpr m (IdentE i) sel \<and> idName sel = name"
  by (auto simp: methodOn_def selectorOf_def identOf_def split: option.splits expr.splits)

end
