(* ===== verification/Emit_Reading.thy ===== *)
theory Emit_Reading
  imports C_Text Emit_Calls
begin

text \<open>
  How C reads the expressions of the emitter.  \<open>cTree\<close> is the C expression a Go expression means,
  with the grouping of the Go tree; the emitted text is its printing, and C reads the text as that tree
  exactly when its names and constants are those of C and it is grouped by the precedences of C.  Outside
  the domain of \<open>cTree\<close> are literals other than integers and calls that have no translation.  The C
  preprocessor is not part of the reading: names are names, whether or not a macro has the same one.
\<close>

section \<open>The C expression of a Go expression\<close>

definition wordTree :: "string \<Rightarrow> ctree option" where
  "wordTree s = (if isWordText s then Some (CAtom s)
     else if hasPrefix s ''-'' \<and> isWordText (tl s) then Some (CPre ''-'' (CAtom (tl s)))
     else None)"

definition callOf :: "string \<Rightarrow> ctree list \<Rightarrow> ctree option" where
  "callOf fn ts = (if isWordText fn then Some (CCall (CAtom fn) ts) else None)"

abbreviation zero :: ctree where "zero \<equiv> CAtom ''0''"

abbreviation sizeofTarget :: "ctree \<Rightarrow> ctree" where
  "sizeofTarget a \<equiv> CSizeof (CParen (CPre ''*'' a))"

text \<open>The methods of the map types, by the type of the receiver.\<close>

definition ringbufTree :: "ctree \<Rightarrow> string \<Rightarrow> ctree list \<Rightarrow> ctree option" where
  "ringbufTree m name ts = (case ts of
     [a] \<Rightarrow> (if name = ''Submit'' then callOf ''bpf_ringbuf_submit'' [a, zero]
       else if name = ''Discard'' then callOf ''bpf_ringbuf_discard'' [a, zero]
       else if name = ''Output'' then callOf ''bpf_ringbuf_output'' [m, a, sizeofTarget a, zero]
       else None)
   | _ \<Rightarrow> None)"

definition queueTree :: "ctree \<Rightarrow> string \<Rightarrow> ctree list \<Rightarrow> ctree option" where
  "queueTree m name ts = (case ts of
     [a] \<Rightarrow> (if name = ''Push'' then callOf ''bpf_map_push_elem'' [m, a, zero]
       else if name = ''Pop'' then callOf ''bpf_map_pop_elem'' [m, a]
       else if name = ''Peek'' then callOf ''bpf_map_peek_elem'' [m, a]
       else None)
   | _ \<Rightarrow> None)"

definition storageTree :: "storageHelpers \<Rightarrow> ctree \<Rightarrow> string \<Rightarrow> ctree list \<Rightarrow> ctree option" where
  "storageTree h m name ts =
     (if name = ''Get'' then (case ts of [a] \<Rightarrow> callOf (GetFn h) [m, a, CAtom ''NULL'', zero] | _ \<Rightarrow> None)
      else if name = ''Delete'' then (case ts of [a] \<Rightarrow> callOf (DeleteFn h) [m, a] | _ \<Rightarrow> None)
      else if name = ''GetOrCreate'' then
        (case ts of [a, b] \<Rightarrow> callOf (GetFn h) [m, a, b, CAtom ''BPF_LOCAL_STORAGE_GET_F_CREATE''] | _ \<Rightarrow> None)
      else None)"

definition methodTree :: "string \<Rightarrow> string \<Rightarrow> gotype list \<Rightarrow> string \<Rightarrow> ctree list \<Rightarrow> ctree option" where
  "methodTree mapName n targs name ts = (let m = CPre ''&'' (CAtom mapName) in
     if n = ''RingBuf'' then ringbufTree m name ts
     else if n = ''Queue'' \<or> n = ''Stack'' then queueTree m name ts
     else if n = ''ProgArray'' then
       (case ts of [a, b] \<Rightarrow> if name = ''TailCall'' then callOf ''bpf_tail_call'' [a, m, b] else None | _ \<Rightarrow> None)
     else if n = ''PerfEventArray'' then
       (case ts of [a, b] \<Rightarrow> if name = ''Output''
            then callOf ''bpf_perf_event_output'' [a, m, CAtom ''BPF_F_CURRENT_CPU'', b, sizeofTarget b] else None
        | _ \<Rightarrow> None)
     else if n \<in> set redirectMapTypes then
       (case ts of [a, b, c] \<Rightarrow> if name = ''Redirect'' then callOf ''bpf_redirect_map'' [m, b, c] else None | _ \<Rightarrow> None)
     else (case map_of storageMapHelpers n of
         Some h \<Rightarrow> (case targs of [_] \<Rightarrow> storageTree h m name ts | _ \<Rightarrow> None)
       | None \<Rightarrow>
           (if n \<notin> set kernelMapGoTypes then None
            else (case (map_of mapMethodToHelper name, targs) of
                (Some h, [_, _]) \<Rightarrow> callOf h (m # ts @ (if h = ''bpf_map_update_elem'' then [CAtom ''BPF_ANY''] else []))
              | _ \<Rightarrow> None))))"

text \<open>The functions of package \<^verbatim>\<open>bpf\<close>; some expand to more than a call.\<close>

definition idHalf :: "string \<Rightarrow> bool \<Rightarrow> ctree" where
  "idHalf fn high = CCast ''__u32'' (CParen (if high then CBin (CCall (CAtom fn) []) ''>>'' (CAtom ''32'') else CCall (CAtom fn) []))"

definition helperTree :: "string \<Rightarrow> ctree list \<Rightarrow> ctree option" where
  "helperTree name ts = (case map_of bpfHelperExpansions name of
     None \<Rightarrow> callOf (case map_of bpfHelperFuncs name of Some cName \<Rightarrow> cName | None \<Rightarrow> goNameToBpfHelper name) ts
   | Some _ \<Rightarrow>
       (if name = ''GetCurrentPid'' then Some (idHalf ''bpf_get_current_pid_tgid'' True)
        else if name = ''GetCurrentTid'' then Some (idHalf ''bpf_get_current_pid_tgid'' False)
        else if name = ''GetCurrentUid'' then Some (idHalf ''bpf_get_current_uid_gid'' False)
        else if name = ''GetCurrentGid'' then Some (idHalf ''bpf_get_current_uid_gid'' True)
        else if name = ''GetTaskComm'' then (case ts of [a] \<Rightarrow> callOf ''bpf_get_current_comm'' [a, CAtom ''16''] | _ \<Rightarrow> None)
        else if name = ''GetUserString'' then (case ts of
            [a, b] \<Rightarrow> callOf ''bpf_probe_read_user_str'' [a, sizeofTarget a, CCast ''const char *'' b]
          | _ \<Rightarrow> None)
        else if name = ''GetUserArgv'' then (case ts of
            [a, b] \<Rightarrow> callOf ''gobee_read_user_argv'' [CCast ''char *'' a, sizeofTarget a, CCast ''const char *const *'' b]
          | _ \<Rightarrow> None)
        else None))"

definition callTree :: "expr \<Rightarrow> ctree option \<Rightarrow> ctree list \<Rightarrow> ctree option" where
  "callTree f ft ts = (case Option.bind (identOf f) (\<lambda>i. map_of goBasicNameToC (idName i)) of
     Some ct \<Rightarrow> (case ts of [t] \<Rightarrow> Some (CCast ct (CParen t)) | _ \<Rightarrow> None)
   | None \<Rightarrow>
       (if isUnsafePointer f then (case ts of [t] \<Rightarrow> Some t | _ \<Rightarrow> None)
        else (case methodOn f of
            None \<Rightarrow> map_option (\<lambda>fn. CCall fn ts) ft
          | Some (i, name) \<Rightarrow>
              (case namedOf (deref (idType i)) of
                 None \<Rightarrow> (case bpfFuncName f of
                     Some h \<Rightarrow> helperTree h ts
                   | None \<Rightarrow> map_option (\<lambda>fn. CCall fn ts) ft)
               | Some (pkg, n, targs) \<Rightarrow>
                   (if idType i = Some (Named (Some bpfPkgPath) n targs) \<and> isWordText (idName i)
                    then methodTree (idName i) n targs name ts else None)))))"

definition memberTree :: "emitter \<Rightarrow> expr \<Rightarrow> ident \<Rightarrow> ctree \<Rightarrow> ctree option" where
  "memberTree e x sel b = (case typeOf x of
     Some (Pointer t) \<Rightarrow>
       (let tg = (case t of Named _ _ _ \<Rightarrow> bpfFieldNameTag e t (idName sel) | _ \<Rightarrow> []);
            field = (if tg \<noteq> [] then tg else idName sel)
        in if isWordText field then Some (CMember b ''->'' field) else None)
   | _ \<Rightarrow> if isWordText (idName sel) then Some (CMember b ''.'' (idName sel)) else None)"

definition unaryOps :: "(tok \<times> string) list" where
  "unaryOps = [(NOT, ''!''), (AND, ''&''), (SUB, ''-''), (XOR, ''~'')]"

function (sequential) cTree :: "emitter \<Rightarrow> expr \<Rightarrow> ctree option" where
  "cTree e (BasicLit m k v) = (if k = INT_lit then wordTree v else None)"
| "cTree e (IdentE i) = wordTree (formatIdent e i)"
| "cTree e (SelectorExpr m x sel) = (case constantOf x sel of
     Some c \<Rightarrow> wordTree c
   | None \<Rightarrow> Option.bind (cTree e x) (memberTree e x sel))"
| "cTree e (UnaryExpr m op x) =
     Option.bind (map_of unaryOps op) (\<lambda>p. map_option (CPre p) (cTree e x))"
| "cTree e (BinaryExpr m x op y) =
     Option.bind (cTree e x) (\<lambda>l. map_option (CBin l (tokString op)) (cTree e y))"
| "cTree e (CallExpr m f args) =
     Option.bind (those (map (cTree e) args)) (callTree f (cTree e f))"
| "cTree e (ParenExpr m x) = map_option CParen (cTree e x)"
| "cTree e (IndexExpr m x i) = Option.bind (cTree e x) (\<lambda>b. map_option (CIndex b) (cTree e i))"
| "cTree e (StarExpr m x) = map_option (CPre ''*'') (cTree e x)"
| "cTree e x = None"
  by pat_completeness auto
termination
  by (relation "measure (\<lambda>(e, x). size x)")
     (auto simp: less_Suc_eq_le dest!: size_list_estimation'[where f = size, OF _ order.refl])

section \<open>The emitted text is its printing\<close>

lemma wordTree_Some: "wordTree s = Some t \<Longrightarrow> cText t = s \<and> wordy t"
  by (cases s) (auto simp: wordTree_def hasPrefix_iff split: if_splits)

lemma callOf_Some: "callOf fn ts = Some t \<Longrightarrow> list_all wordy ts \<Longrightarrow> cText t = callText fn (map cText ts) \<and> wordy t"
  by (auto simp: callOf_def callText_def split: if_splits)

lemma small_words: "isWordText ''0''" "isWordText ''NULL''" "isWordText ''BPF_ANY''" "isWordText ''16''"
  "isWordText ''BPF_F_CURRENT_CPU''" "isWordText ''BPF_LOCAL_STORAGE_GET_F_CREATE''"
  by code_simp+

text \<open>A call is rendered as \<open>callOf\<close> its name: the common end of the proofs about the receivers.\<close>

lemma callOf_text:
  assumes "callOf fn us = Some t" and "list_all wordy us" and "formatCall e p f g fargs = Inr (callText fn (map cText us))"
  shows "formatCall e p f g fargs = Inr (cText t) \<and> wordy t"
  using callOf_Some[OF assms(1,2)] assms(3) by simp

lemma ringbufTree_text:
  assumes "ringbufTree (CPre ''&'' (CAtom (idName i))) (idName sel) ts = Some t"
    and "idType i = Some (Named (Some bpfPkgPath) ''RingBuf'' targs)" and "isWordText (idName i)" and "list_all wordy ts"
  shows "formatCall e p (SelectorExpr m (IdentE i) sel) g (map (\<lambda>t. Inr (cText t)) ts) = Inr (cText t) \<and> wordy t"
proof -
  from assms(1) obtain a where ts: "ts = [a]" by (auto simp: ringbufTree_def split: list.splits)
  from assms(1) have name: "idName sel \<in> {''Submit'', ''Discard'', ''Output''}" by (auto simp: ringbufTree_def ts split: if_splits)
  show ?thesis
    using assms(1,3,4) name unfolding ts list.map ringbuf_call[OF name assms(2)]
    by (auto simp: ringbufTree_def small_words callText_def dest!: callOf_Some split: if_splits)
qed

lemma queueTree_text:
  assumes "queueTree (CPre ''&'' (CAtom (idName i))) (idName sel) ts = Some t" and "n \<in> {''Queue'', ''Stack''}"
    and "idType i = Some (Named (Some bpfPkgPath) n targs)" and "isWordText (idName i)" and "list_all wordy ts"
  shows "formatCall e p (SelectorExpr m (IdentE i) sel) g (map (\<lambda>t. Inr (cText t)) ts) = Inr (cText t) \<and> wordy t"
proof -
  from assms(1) obtain a where ts: "ts = [a]" by (auto simp: queueTree_def split: list.splits)
  from assms(1) have name: "idName sel \<in> {''Push'', ''Pop'', ''Peek''}" by (auto simp: queueTree_def ts split: if_splits)
  show ?thesis
    using assms(1,4,5) name unfolding ts list.map queue_call[OF name assms(2,3)]
    by (auto simp: queueTree_def small_words callText_def dest!: callOf_Some split: if_splits)
qed

lemma storageTree_text:
  assumes "storageTree h (CPre ''&'' (CAtom (idName i))) (idName sel) ts = Some t" and "map_of storageMapHelpers n = Some h"
    and "idType i = Some (Named (Some bpfPkgPath) n [a])" and "isWordText (idName i)" and "list_all wordy ts"
  shows "formatCall e p (SelectorExpr m (IdentE i) sel) g (map (\<lambda>t. Inr (cText t)) ts) = Inr (cText t) \<and> wordy t"
  using assms(1,4,5) storage_call[OF assms(2,3)]
  by (auto simp: storageTree_def small_words dest!: callOf_Some split: if_splits list.splits)

lemma methodTree_text:
  assumes "methodTree (idName i) n targs (idName sel) ts = Some t"
    and "idType i = Some (Named (Some bpfPkgPath) n targs)" and "isWordText (idName i)" and "list_all wordy ts"
  shows "formatCall e p (SelectorExpr m (IdentE i) sel) g (map (\<lambda>t. Inr (cText t)) ts) = Inr (cText t) \<and> wordy t"
proof -
  note def = assms(1)[unfolded methodTree_def Let_def]
  consider "n = ''RingBuf''" | "n \<in> {''Queue'', ''Stack''}" | "n = ''ProgArray''" | "n = ''PerfEventArray''"
    | "n \<in> set redirectMapTypes" | h where "map_of storageMapHelpers n = Some h" 
    | "n \<notin> {''RingBuf'', ''Queue'', ''Stack'', ''ProgArray'', ''PerfEventArray''}" "n \<notin> set redirectMapTypes" "map_of storageMapHelpers n = None"
    by fastforce
  then show ?thesis
  proof cases
    case 1
    then show ?thesis using def assms(2-4) ringbufTree_text by simp
  next
    case 2
    then have "queueTree (CPre ''&'' (CAtom (idName i))) (idName sel) ts = Some t" using def by auto
    then show ?thesis using 2 assms(2-4) by (rule queueTree_text)
  next
    case 3
    then obtain a b where ab: "ts = [a, b]" "idName sel = ''TailCall''"
      "callOf ''bpf_tail_call'' [a, CPre ''&'' (CAtom (idName i)), b] = Some t"
      using def by (auto split: list.splits if_splits)
    then show ?thesis using 3 assms(2-4) by (intro callOf_text[OF ab(3)]) (simp_all add: tail_call)
  next
    case 4
    then obtain a b where ab: "ts = [a, b]" "idName sel = ''Output''"
      "callOf ''bpf_perf_event_output'' [a, CPre ''&'' (CAtom (idName i)), CAtom ''BPF_F_CURRENT_CPU'', b, sizeofTarget b] = Some t"
      using def by (auto split: list.splits if_splits)
    then show ?thesis using 4 assms(2-4) by (intro callOf_text[OF ab(3)]) (simp_all add: perf_call small_words)
  next
    case 5
    then have "n \<notin> {''RingBuf'', ''Queue'', ''Stack'', ''ProgArray'', ''PerfEventArray''}" by (auto simp: redirectMapTypes_def)
    with 5 def obtain a b c where ab: "ts = [a, b, c]" "idName sel = ''Redirect''"
      "callOf ''bpf_redirect_map'' [CPre ''&'' (CAtom (idName i)), b, c] = Some t"
      by (auto split: list.splits if_splits)
    then show ?thesis using redirect_call[OF 5 ab(2) assms(2)] assms(3,4) by (intro callOf_text[OF ab(3)]) simp_all
  next
    case (6 h)
    then have "n \<in> {''TaskStorage'', ''SkStorage'', ''InodeStorage''}" by (auto simp: storageMapHelpers_def split: if_splits)
    then have "n \<notin> {''RingBuf'', ''Queue'', ''Stack'', ''ProgArray'', ''PerfEventArray''}" "n \<notin> set redirectMapTypes"
      by (auto simp: redirectMapTypes_def)
    with 6 def obtain a where "targs = [a]" "storageTree h (CPre ''&'' (CAtom (idName i))) (idName sel) ts = Some t"
      by (auto split: list.splits)
    then show ?thesis using 6 assms(2-4) storageTree_text by blast
  next
    case 7
    with def obtain h a b where h: "n \<in> set kernelMapGoTypes" "map_of mapMethodToHelper (idName sel) = Some h" "targs = [a, b]"
      "callOf h (CPre ''&'' (CAtom (idName i)) # ts @ (if h = ''bpf_map_update_elem'' then [CAtom ''BPF_ANY''] else [])) = Some t"
      by (auto split: list.splits if_splits option.splits)
    have "formatCall e p (SelectorExpr m (IdentE i) sel) g (map Inr (map cText ts)) = Inr (callText h ((''&'' @ idName i) # map cText ts
        @ (if h = ''bpf_map_update_elem'' then [''BPF_ANY''] else [])))"
      using h(1,2) assms(2)[unfolded h(3)] by (rule std_call)
    then show ?thesis using assms(3,4) by (intro callOf_text[OF h(4)]) (simp_all add: small_words comp_def)
  qed
qed

lemma helperTree_text:
  assumes "helperTree name ts = Some t" and "list_all wordy ts"
  shows "formatHelperCall name (map (\<lambda>t. Inr (cText t)) ts) = Inr (cText t) \<and> wordy t"
proof (cases "map_of bpfHelperExpansions name")
  case None
  have "rsequence (map (\<lambda>t. Inr (cText t)) ts) = Inr (map cText ts)"
    using rsequence_Inr[of "map cText ts"] by (simp add: comp_def)
  with None assms show ?thesis by (auto simp: helperTree_def formatHelperCall_def dest!: callOf_Some)
next
  case (Some ex)
  have w: "isWordText ''bpf_get_current_pid_tgid''" "isWordText ''bpf_get_current_uid_gid''" "isWordText ''32''" by code_simp+
  have "rsequence (map (\<lambda>t. Inr (cText t)) ts) = Inr (map cText ts)"
    using rsequence_Inr[of "map cText ts"] by (simp add: comp_def)
  with Some assms w show ?thesis
    by (auto simp: helperTree_def formatHelperCall_def bpfHelperExpansions_def idHalf_def callText_def small_words
        dest!: callOf_Some split: if_splits list.splits)
qed

lemma callTree_text:
  assumes "callTree f ft ts = Some t" and "list_all wordy ts"
    and "\<And>u. ft = Some u \<Longrightarrow> fn = Inr (cText u) \<and> wordy u"
  shows "formatCall e p f fn (map (\<lambda>t. Inr (cText t)) ts) = Inr (cText t) \<and> wordy t"
proof -
  note def = assms(1)[unfolded callTree_def]
  have seq: "rsequence (map (\<lambda>t. Inr (cText t)) ts) = Inr (map cText ts)"
    using rsequence_Inr[of "map cText ts"] by (simp add: comp_def)
  have plain: "rbind fn (\<lambda>fnS. rbind (rsequence (map (\<lambda>t. Inr (cText t)) ts)) (\<lambda>args. Inr (callText fnS args))) = Inr (cText t) \<and> wordy t"
    if "map_option (\<lambda>fn. CCall fn ts) ft = Some t"
    using that assms(2,3) by (auto simp: seq callText_def)
  consider ct where "Option.bind (identOf f) (\<lambda>i. map_of goBasicNameToC (idName i)) = Some ct"
    | "Option.bind (identOf f) (\<lambda>i. map_of goBasicNameToC (idName i)) = None" "isUnsafePointer f"
    | "Option.bind (identOf f) (\<lambda>i. map_of goBasicNameToC (idName i)) = None" "\<not> isUnsafePointer f" "methodOn f = None"
    | i name where "Option.bind (identOf f) (\<lambda>i. map_of goBasicNameToC (idName i)) = None" "\<not> isUnsafePointer f" "methodOn f = Some (i, name)"
    by (metis not_None_eq surj_pair)
  then show ?thesis
  proof cases
    case 1
    then show ?thesis using def assms(2) by (auto simp: formatCall_def split: list.splits)
  next
    case 2
    then show ?thesis using def assms(2) by (auto simp: formatCall_def split: list.splits)
  next
    case 3
    then show ?thesis using def plain_function[OF 3(3,1)] plain by simp
  next
    case (4 i name)
    obtain m sel where f: "f = SelectorExpr m (IdentE i) sel" "idName sel = name" using methodOn_Some[OF 4(3)] by blast
    show ?thesis
    proof (cases "namedOf (deref (idType i))")
      case None
      from unnamed_receiver[OF None 4(2)[unfolded f(1)]] show ?thesis
        using def 4 None plain assms(2) helperTree_text unfolding f(1) by (auto split: option.splits)
    next
      case (Some nt)
      then obtain pkg n targs where nt: "nt = (pkg, n, targs)" by (metis prod_cases3)
      have "idType i = Some (Named (Some bpfPkgPath) n targs)" "isWordText (idName i)"
        "methodTree (idName i) n targs (idName sel) ts = Some t"
        using def 4 Some nt f(2) by (auto split: if_splits)
      then show ?thesis unfolding f(1) using assms(2) methodTree_text by blast
    qed
  qed
qed

lemma memberTree_text:
  "memberTree e x sel b = Some t \<Longrightarrow> wordy b \<Longrightarrow> cText t = fieldAccess e x sel (cText b) \<and> wordy t"
  by (auto simp: memberTree_def fieldAccess_def Let_def split: option.splits gotype.splits if_splits)

lemma those_Some: "those (map f xs) = Some ys \<longleftrightarrow> list_all2 (\<lambda>x y. f x = Some y) xs ys"
  by (induction xs arbitrary: ys) (auto simp: list_all2_Cons1 split: option.splits)

lemma renderings:
  assumes "list_all2 (\<lambda>a u. f a = Inr (g u) \<and> P u) xs ys"
  shows "map f xs = map (\<lambda>u. Inr (g u)) ys" and "list_all P ys"
  using assms by (induction xs ys rule: list_all2_induct) simp_all

lemma cTree_text: "cTree e x = Some t \<Longrightarrow> formatExpr e x = Inr (cText t) \<and> wordy t"
proof (induction e x arbitrary: t rule: cTree.induct)
  case (1 e m k v)
  then show ?case using wordTree_Some[of v t] by (simp split: if_splits)
next
  case (2 e i)
  then show ?case using wordTree_Some[of "formatIdent e i" t] by simp
next
  case (3 e m x sel)
  show ?case
  proof (cases "constantOf x sel")
    case None
    with 3(2) obtain b where b: "cTree e x = Some b" "memberTree e x sel b = Some t" by (auto simp: bind_eq_Some_conv)
    then show ?thesis using None 3(1)[OF None b(1)] memberTree_text[OF b(2)] by (simp add: formatSelector_def coreReadChain_None)
  next
    case (Some c)
    with 3(2) show ?thesis using wordTree_Some[of c t] by (simp add: formatSelector_def)
  qed
next
  case (4 e m op x)
  then obtain p u where p: "map_of unaryOps op = Some p" "cTree e x = Some u" "t = CPre p u" by (auto simp: bind_eq_Some_conv)
  then show ?case using 4(1)[OF p(1,2)] p(1) by (auto simp: formatUnary_def unaryOps_def split: if_splits)
next
  case (5 e m x op y)
  then show ?case by (auto simp: formatBinary_def bind_eq_Some_conv)
next
  case (6 e m f args)
  from 6(3) obtain ts where ts: "those (map (cTree e) args) = Some ts" "callTree f (cTree e f) ts = Some t"
    by (auto simp: bind_eq_Some_conv)
  have "list_all2 (\<lambda>a u. cTree e a = Some u) args ts" using ts(1) by (simp add: those_Some)
  then have "list_all2 (\<lambda>a u. formatExpr e a = Inr (cText u) \<and> wordy u) args ts"
    by (rule list.rel_mono_strong) (rule 6(1))
  note r = renderings[OF this]
  have "formatCall e (fst m) f (formatExpr e f) (map (\<lambda>t. Inr (cText t)) ts) = Inr (cText t) \<and> wordy t"
    using ts(2) r(2) 6(2)[OF ts(1)] by (rule callTree_text)
  then show ?case by (simp only: formatExpr.simps r(1))
next
  case (7 e m x)
  then show ?case by auto
next
  case (8 e m x i)
  then show ?case by (auto simp: bind_eq_Some_conv)
next
  case (9 e m x)
  then show ?case by auto
qed simp_all

section \<open>Precedences of Go and of C\<close>

definition goOps :: "(string \<times> nat) list" where
  "goOps = [(''*'', 5), (''/'', 5), (''%'', 5), (''<<'', 5), (''>>'', 5), (''&'', 5), (''&^'', 5), (''+'', 4), (''-'', 4),
     (''|'', 4), (''^'', 4), (''=='', 3), (''!='', 3), (''<'', 3), (''<='', 3), (''>'', 3), (''>='', 3), (''&&'', 2), (''||'', 1)]"

definition goPrec :: "string \<Rightarrow> nat" where
  "goPrec o' = (case map_of goOps o' of Some n \<Rightarrow> n | None \<Rightarrow> 0)"

text \<open>The operators of a tree under operators, with the operator above them.\<close>

fun nests :: "ctree \<Rightarrow> (string \<times> string) list" where
  "nests (CAtom w) = []"
| "nests (CParen t) = nests t"
| "nests (CPre p t) = nests t"
| "nests (CCast ty t) = nests t"
| "nests (CBin l o' r) = (if isBin l then [(o', rootOp l)] else []) @ (if isBin r then [(o', rootOp r)] else []) @ nests l @ nests r"
| "nests (CIndex b i) = nests b @ nests i"
| "nests (CMember b a w) = nests b"
| "nests (CCall f as) = nests f @ concat (map nests as)"
| "nests (CSizeof t) = nests t"

fun operators :: "ctree \<Rightarrow> string list" where
  "operators (CAtom w) = []"
| "operators (CParen t) = operators t"
| "operators (CPre p t) = operators t"
| "operators (CCast ty t) = operators t"
| "operators (CBin l o' r) = operators l @ o' # operators r"
| "operators (CIndex b i) = operators b @ operators i"
| "operators (CMember b a w) = operators b"
| "operators (CCall f as) = operators f @ concat (map operators as)"
| "operators (CSizeof t) = operators t"

definition sameOrder :: "string \<times> string \<Rightarrow> bool" where
  "sameOrder = (\<lambda>(o', p). (goPrec o' < goPrec p \<longrightarrow> cPrec o' < cPrec p) \<and> (goPrec o' \<le> goPrec p \<longrightarrow> cPrec o' \<le> cPrec p))"

text \<open>A tree as the parser of Go groups it is grouped for C if the two order the operators that meet in it alike.\<close>

lemma grouped_sameOrder:
  "grouped goPrec t \<Longrightarrow> list_all cBinOp (operators t) \<Longrightarrow> list_all sameOrder (nests t) \<Longrightarrow> grouped cPrec t"
proof (induction t)
  case (CCall f as)
  then show ?case by (auto simp: list_all_iff ball_Un)
qed (auto simp: sameOrder_def)

text \<open>Operators that are not bitwise meet in the same order, unless an equality is the operand of an ordering.\<close>

definition plainOps :: "string list" where
  "plainOps = [''*'', ''/'', ''%'', ''+'', ''-'', ''=='', ''!='', ''<'', ''<='', ''>'', ''>='', ''&&'', ''||'']"

definition orderings :: "string list" where
  "orderings = [''<'', ''<='', ''>'', ''>='']"

definition equalities :: "string list" where
  "equalities = [''=='', ''!='']"

lemma plain_sameOrder:
  assumes "o' \<in> set plainOps" and "p \<in> set plainOps"
  shows "sameOrder (o', p) \<longleftrightarrow> \<not> (o' \<in> set orderings \<and> p \<in> set equalities)"
proof -
  have "list_all (\<lambda>o'. list_all (\<lambda>p. sameOrder (o', p) \<longleftrightarrow> \<not> (o' \<in> set orderings \<and> p \<in> set equalities)) plainOps) plainOps"
    by code_simp
  with assms show ?thesis by (simp add: list_all_iff)
qed

lemma plainOps_C: "o' \<in> set plainOps \<Longrightarrow> cBinOp o'"
proof -
  have "list_all cBinOp plainOps" by code_simp
  then show "o' \<in> set plainOps \<Longrightarrow> cBinOp o'" by (simp add: list_all_iff)
qed

lemma nests_operators: "(o', p) \<in> set (nests t) \<Longrightarrow> o' \<in> set (operators t) \<and> p \<in> set (operators t)"
proof (induction t)
  case (CBin l o'' r)
  have "isBin u \<Longrightarrow> rootOp u \<in> set (operators u)" for u by (cases u) auto
  with CBin show ?case by (auto split: if_splits)
qed auto

lemma plain_grouped:
  assumes "grouped goPrec t" and "list_all (\<lambda>o'. o' \<in> set plainOps) (operators t)"
    and "list_all (\<lambda>(o', p). \<not> (o' \<in> set orderings \<and> p \<in> set equalities)) (nests t)"
  shows "grouped cPrec t"
proof -
  have "list_all sameOrder (nests t)" unfolding list_all_iff
  proof clarify
    fix o' p assume n: "(o', p) \<in> set (nests t)"
    have "o' \<in> set plainOps" "p \<in> set plainOps" using nests_operators[OF n] assms(2) by (auto simp: list_all_iff)
    then show "sameOrder (o', p)" using n assms(3) by (auto simp: plain_sameOrder list_all_iff)
  qed
  moreover have "list_all cBinOp (operators t)" using assms(2) plainOps_C by (auto simp: list_all_iff)
  ultimately show ?thesis using assms(1) by (intro grouped_sameOrder)
qed

end
