(* ===== verification/Api_Calls.thy ===== *)
theory Api_Calls
  imports Bpf_Package Helper_Header Emit_Reading
begin

text \<open>
  The methods of the map types of package \<^verbatim>\<open>bpf\<close> and the helpers of \<^verbatim>\<open>bpf_helper_defs.h\<close>: C reads
  the text of a method call as the call of the helper that the method stands for, with as many arguments
  as the header declares parameters; the exceptions are the methods of \<^verbatim>\<open>BloomFilter\<close>, which have no
  translation, and \<^verbatim>\<open>Reserve\<close>, which only a comma-ok assignment translates.
\<close>

section \<open>Method calls\<close>

text \<open>The methods of the package with the number of their type parameters and of their arguments.\<close>

definition apiMethods :: "(string \<times> nat \<times> string \<times> nat) list" where
  "apiMethods = concat (map (\<lambda>d. map (\<lambda>g. (gtName d, gtParams d, gmName g, length (gmParams g))) (gtMethods d)) bpfMapTypes)"

lemma apiMethods_in:
  "d \<in> set bpfMapTypes \<Longrightarrow> g \<in> set (gtMethods d) \<Longrightarrow> (gtName d, gtParams d, gmName g, length (gmParams g)) \<in> set apiMethods"
  by (auto simp: apiMethods_def)

section \<open>The helpers in the header\<close>

text \<open>The name and the number of parameters of the declaration that ends a block of the header.\<close>

definition blockDecl :: "string list \<Rightarrow> (string \<times> nat) option" where
  "blockDecl b = (case matchDecl (trimSpace (last b)) of
     None \<Rightarrow> None
   | Some (_, name, ps) \<Rightarrow> (case parseParams ps of Inl _ \<Rightarrow> None | Inr xs \<Rightarrow> Some (name, length xs)))"

definition headerDeclares :: "string \<Rightarrow> nat \<Rightarrow> bool" where
  "headerDeclares h n \<longleftrightarrow> (\<exists>b \<in> set helperBlocks. blockDecl b = Some (h, n))"

lemma headerDeclaresI: "blockDecl b = Some (h, n) \<Longrightarrow> b \<in> set helperBlocks \<Longrightarrow> headerDeclares h n"
  by (auto simp: headerDeclares_def)

lemma used_decls:
  "blockDecl hdef_bpf_map_lookup_elem = Some (''bpf_map_lookup_elem'', 2)"
  "blockDecl hdef_bpf_map_update_elem = Some (''bpf_map_update_elem'', 4)"
  "blockDecl hdef_bpf_map_delete_elem = Some (''bpf_map_delete_elem'', 2)"
  "blockDecl hdef_bpf_map_push_elem = Some (''bpf_map_push_elem'', 3)"
  "blockDecl hdef_bpf_map_pop_elem = Some (''bpf_map_pop_elem'', 2)"
  "blockDecl hdef_bpf_map_peek_elem = Some (''bpf_map_peek_elem'', 2)"
  "blockDecl hdef_bpf_ringbuf_submit = Some (''bpf_ringbuf_submit'', 2)"
  "blockDecl hdef_bpf_ringbuf_discard = Some (''bpf_ringbuf_discard'', 2)"
  "blockDecl hdef_bpf_ringbuf_output = Some (''bpf_ringbuf_output'', 4)"
  "blockDecl hdef_bpf_ringbuf_reserve = Some (''bpf_ringbuf_reserve'', 3)"
  "blockDecl hdef_bpf_tail_call = Some (''bpf_tail_call'', 3)"
  "blockDecl hdef_bpf_perf_event_output = Some (''bpf_perf_event_output'', 5)"
  "blockDecl hdef_bpf_redirect_map = Some (''bpf_redirect_map'', 3)"
  "blockDecl hdef_bpf_task_storage_get = Some (''bpf_task_storage_get'', 4)"
  "blockDecl hdef_bpf_task_storage_delete = Some (''bpf_task_storage_delete'', 2)"
  "blockDecl hdef_bpf_sk_storage_get = Some (''bpf_sk_storage_get'', 4)"
  "blockDecl hdef_bpf_sk_storage_delete = Some (''bpf_sk_storage_delete'', 2)"
  "blockDecl hdef_bpf_inode_storage_get = Some (''bpf_inode_storage_get'', 4)"
  "blockDecl hdef_bpf_inode_storage_delete = Some (''bpf_inode_storage_delete'', 2)"
  by code_simp+

lemmas block_defs = helperBlocks_def helperBlocksA_def helperBlocksB_def helperBlocksC_def helperBlocksD_def
  helperBlocksE_def helperBlocksF_def helperBlocksG_def helperBlocksH_def

lemma used_declared:
  "headerDeclares ''bpf_map_lookup_elem'' 2" "headerDeclares ''bpf_map_update_elem'' 4"
  "headerDeclares ''bpf_map_delete_elem'' 2" "headerDeclares ''bpf_map_push_elem'' 3"
  "headerDeclares ''bpf_map_pop_elem'' 2" "headerDeclares ''bpf_map_peek_elem'' 2"
  "headerDeclares ''bpf_ringbuf_submit'' 2" "headerDeclares ''bpf_ringbuf_discard'' 2"
  "headerDeclares ''bpf_ringbuf_output'' 4" "headerDeclares ''bpf_ringbuf_reserve'' 3"
  "headerDeclares ''bpf_tail_call'' 3" "headerDeclares ''bpf_perf_event_output'' 5"
  "headerDeclares ''bpf_redirect_map'' 3" "headerDeclares ''bpf_task_storage_get'' 4"
  "headerDeclares ''bpf_task_storage_delete'' 2" "headerDeclares ''bpf_sk_storage_get'' 4"
  "headerDeclares ''bpf_sk_storage_delete'' 2" "headerDeclares ''bpf_inode_storage_get'' 4"
  "headerDeclares ''bpf_inode_storage_delete'' 2"
  by (rule headerDeclaresI, rule used_decls, simp add: block_defs)+

section \<open>All methods\<close>

text \<open>Which rule translates a method, by the type of its receiver.\<close>

lemma apiMethods_kinds:
  "list_all (\<lambda>(n, k, g, l).
       n = ''BloomFilter'' \<and> g \<in> {''Add'', ''Contains''}
     \<or> n = ''RingBuf'' \<and> k = 1 \<and> g = ''Reserve'' \<and> l = 0
     \<or> n \<in> set kernelMapGoTypes \<and> k = 2 \<and> (g, l) \<in> {(''Lookup'', 1), (''Update'', 2), (''Delete'', 1)}
     \<or> n = ''RingBuf'' \<and> g \<in> {''Submit'', ''Discard'', ''Output''} \<and> l = 1
     \<or> n \<in> {''Queue'', ''Stack''} \<and> g \<in> {''Push'', ''Pop'', ''Peek''} \<and> l = 1
     \<or> n = ''ProgArray'' \<and> g = ''TailCall'' \<and> l = 2
     \<or> n = ''PerfEventArray'' \<and> g = ''Output'' \<and> l = 2
     \<or> n \<in> set (map fst storageMapHelpers) \<and> k = 1 \<and> (g, l) \<in> {(''Get'', 1), (''Delete'', 1), (''GetOrCreate'', 2)}
     \<or> n \<in> set redirectMapTypes \<and> g = ''Redirect'' \<and> l = 3) apiMethods"
  by code_simp

text \<open>The helper of the kernel that a method stands for.\<close>

definition methodHelper :: "string \<Rightarrow> string \<Rightarrow> string option" where
  "methodHelper n g = map_of
     (if n = ''RingBuf'' then [(''Submit'', ''bpf_ringbuf_submit''), (''Discard'', ''bpf_ringbuf_discard''),
        (''Output'', ''bpf_ringbuf_output'')]
      else if n = ''Queue'' \<or> n = ''Stack'' then [(''Push'', ''bpf_map_push_elem''), (''Pop'', ''bpf_map_pop_elem''),
        (''Peek'', ''bpf_map_peek_elem'')]
      else if n = ''TaskStorage'' then [(''Get'', ''bpf_task_storage_get''), (''GetOrCreate'', ''bpf_task_storage_get''),
        (''Delete'', ''bpf_task_storage_delete'')]
      else if n = ''SkStorage'' then [(''Get'', ''bpf_sk_storage_get''), (''GetOrCreate'', ''bpf_sk_storage_get''),
        (''Delete'', ''bpf_sk_storage_delete'')]
      else if n = ''InodeStorage'' then [(''Get'', ''bpf_inode_storage_get''), (''GetOrCreate'', ''bpf_inode_storage_get''),
        (''Delete'', ''bpf_inode_storage_delete'')]
      else if n = ''ProgArray'' then [(''TailCall'', ''bpf_tail_call'')]
      else if n = ''PerfEventArray'' then [(''Output'', ''bpf_perf_event_output'')]
      else [(''Lookup'', ''bpf_map_lookup_elem''), (''Update'', ''bpf_map_update_elem''), (''Delete'', ''bpf_map_delete_elem''),
        (''Redirect'', ''bpf_redirect_map'')]) g"

text \<open>
  Arguments that C reads as themselves, and the call that C is to read: of the method's helper, with the
  declared number of arguments, among them the address of the map, unless the record knows it, and in
  their order those of the Go call, except the context of \<^verbatim>\<open>Redirect\<close>.
\<close>

definition readable :: "ctree \<Rightarrow> bool" where
  "readable t \<longleftrightarrow> wordy t \<and> grouped cPrec t \<and> separate t"

definition helperCall :: "string \<Rightarrow> string \<Rightarrow> string \<Rightarrow> ctree list \<Rightarrow> string \<Rightarrow> ctree list \<Rightarrow> bool" where
  "helperCall mapName n g us h cs \<longleftrightarrow> methodHelper n g = Some h \<and> headerDeclares h (length cs)
     \<and> (g = ''Submit'' \<or> g = ''Discard'' \<or> CPre ''&'' (CAtom mapName) \<in> set cs)
     \<and> subseq (if g = ''Redirect'' then tl us else us) cs"

definition translates :: "string \<Rightarrow> string \<Rightarrow> gotype list \<Rightarrow> string \<Rightarrow> ctree list \<Rightarrow> bool" where
  "translates x n ts g us \<longleftrightarrow> (\<exists>h cs. methodTree x n ts g us = Some (CCall (CAtom h) cs) \<and> cOperand h
     \<and> list_all readable cs \<and> helperCall x n g us h cs)"

lemma few_args:
  "length args = 1 \<Longrightarrow> \<exists>a. args = [a]" "length args = 2 \<Longrightarrow> \<exists>a b. args = [a, b]"
  "length args = 3 \<Longrightarrow> \<exists>a b c. args = [a, b, c]"
  by (auto simp: length_Suc_conv numeral_eq_Suc)

lemma readable_words: "readable (CAtom ''0'')" "readable (CAtom ''NULL'')" "readable (CAtom ''BPF_ANY'')"
    "readable (CAtom ''BPF_F_CURRENT_CPU'')" "readable (CAtom ''BPF_LOCAL_STORAGE_GET_F_CREATE'')"
  by code_simp+

lemma readable_map: "cIdentifier x \<Longrightarrow> readable (CPre ''&'' (CAtom x))"
  by (simp add: readable_def prefixOps_def cOperand_def cIdentifier_def)

lemma readable_sizeof: "readable a \<Longrightarrow> \<not> isBin a \<Longrightarrow> readable (sizeofTarget a)"
  by (cases a) (simp_all add: readable_def prefixOps_def)

lemmas readables = readable_words readable_map readable_sizeof

text \<open>The helpers that are called are names of C.\<close>

lemma helper_names:
  "list_all (\<lambda>h. isWordText h \<and> cOperand h) [''bpf_map_lookup_elem'', ''bpf_map_update_elem'', ''bpf_map_delete_elem'',
     ''bpf_map_push_elem'', ''bpf_map_pop_elem'', ''bpf_map_peek_elem'', ''bpf_ringbuf_submit'', ''bpf_ringbuf_discard'',
     ''bpf_ringbuf_output'', ''bpf_tail_call'', ''bpf_perf_event_output'', ''bpf_redirect_map'', ''bpf_task_storage_get'',
     ''bpf_task_storage_delete'', ''bpf_sk_storage_get'', ''bpf_sk_storage_delete'', ''bpf_inode_storage_get'',
     ''bpf_inode_storage_delete'']"
  by code_simp

lemma translatesI:
  assumes "methodTree x n ts g us = callOf h cs" and "isWordText h \<and> cOperand h" and "list_all readable cs"
    and "methodHelper n g = Some h" and "headerDeclares h l" and "length cs = l"
    and "g = ''Submit'' \<or> g = ''Discard'' \<or> CPre ''&'' (CAtom x) \<in> set cs"
    and "subseq (if g = ''Redirect'' then tl us else us) cs"
  shows "translates x n ts g us"
  using assms by (auto simp: translates_def helperCall_def callOf_def)

lemma std_method:
  assumes "n \<in> set kernelMapGoTypes" and "(g, length us) \<in> {(''Lookup'', 1), (''Update'', 2), (''Delete'', 1)}"
    and "length ts = 2" and "cIdentifier x" and "list_all readable us"
  shows "translates x n ts g us"
proof -
  obtain t t' where ts: "ts = [t, t']" using few_args(2)[OF assms(3)] by blast
  have "list_all (\<lambda>n. n \<notin> {''RingBuf'', ''Queue'', ''Stack'', ''ProgArray'', ''PerfEventArray'', ''TaskStorage'', ''SkStorage'',
      ''InodeStorage''} \<and> n \<notin> set redirectMapTypes \<and> map_of storageMapHelpers n = None) kernelMapGoTypes" by code_simp
  then have n: "n \<notin> {''RingBuf'', ''Queue'', ''Stack'', ''ProgArray'', ''PerfEventArray'', ''TaskStorage'', ''SkStorage'',
      ''InodeStorage''}" "n \<notin> set redirectMapTypes" "map_of storageMapHelpers n = None"
    using assms(1) by (auto simp: list_all_iff)
  have tree: "methodTree x n ts g us = (case map_of mapMethodToHelper g of
      Some h \<Rightarrow> callOf h (CPre ''&'' (CAtom x) # us @ (if h = ''bpf_map_update_elem'' then [CAtom ''BPF_ANY''] else []))
    | None \<Rightarrow> None)" for g us
    using n assms(1) by (auto simp: methodTree_def ts split: option.splits)
  consider a where "g = ''Lookup''" "us = [a]" | a b where "g = ''Update''" "us = [a, b]" | a where "g = ''Delete''" "us = [a]"
    using assms(2) few_args[of us] by blast
  then show ?thesis
  proof cases
    case 1
    then show ?thesis using assms(4,5) n helper_names
      by (intro translatesI[where h = "''bpf_map_lookup_elem''" and cs = "[CPre ''&'' (CAtom x), a]" and l = 2])
         (simp_all add: tree mapMethodToHelper_def methodHelper_def readables used_declared)
  next
    case 2
    then show ?thesis using assms(4,5) n helper_names
      by (intro translatesI[where h = "''bpf_map_update_elem''" and cs = "[CPre ''&'' (CAtom x), a, b, CAtom ''BPF_ANY'']" and l = 4])
         (simp_all add: tree mapMethodToHelper_def methodHelper_def readables used_declared)
  next
    case 3
    then show ?thesis using assms(4,5) n helper_names
      by (intro translatesI[where h = "''bpf_map_delete_elem''" and cs = "[CPre ''&'' (CAtom x), a]" and l = 2])
         (simp_all add: tree mapMethodToHelper_def methodHelper_def readables used_declared)
  qed
qed

lemma ringbuf_method:
  assumes "g \<in> {''Submit'', ''Discard'', ''Output''}" and "length us = 1" and "cIdentifier x" and "list_all readable us"
    and "g = ''Output'' \<Longrightarrow> list_all (\<lambda>u. \<not> isBin u) us"
  shows "translates x ''RingBuf'' ts g us"
proof -
  obtain a where a: "us = [a]" using few_args(1)[OF assms(2)] by blast
  have tree: "methodTree x ''RingBuf'' ts g us = ringbufTree (CPre ''&'' (CAtom x)) g us" for g us by (simp add: methodTree_def)
  from assms(1) consider "g = ''Submit''" | "g = ''Discard''" | "g = ''Output''" by blast
  then show ?thesis
  proof cases
    case 1
    then show ?thesis using assms(3,4) a helper_names
      by (intro translatesI[where h = "''bpf_ringbuf_submit''" and cs = "[a, CAtom ''0'']" and l = 2])
         (simp_all add: tree ringbufTree_def methodHelper_def readables used_declared)
  next
    case 2
    then show ?thesis using assms(3,4) a helper_names
      by (intro translatesI[where h = "''bpf_ringbuf_discard''" and cs = "[a, CAtom ''0'']" and l = 2])
         (simp_all add: tree ringbufTree_def methodHelper_def readables used_declared)
  next
    case 3
    then show ?thesis using assms(3-5) a helper_names
      by (intro translatesI[where h = "''bpf_ringbuf_output''"
            and cs = "[CPre ''&'' (CAtom x), a, sizeofTarget a, CAtom ''0'']" and l = 4])
         (simp_all add: tree ringbufTree_def methodHelper_def readables used_declared)
  qed
qed

lemma queue_method:
  assumes "n \<in> {''Queue'', ''Stack''}" and "g \<in> {''Push'', ''Pop'', ''Peek''}" and "length us = 1" and "cIdentifier x"
    and "list_all readable us"
  shows "translates x n ts g us"
proof -
  obtain a where a: "us = [a]" using few_args(1)[OF assms(3)] by blast
  have tree: "methodTree x n ts g us = queueTree (CPre ''&'' (CAtom x)) g us"
    "methodHelper n g = map_of [(''Push'', ''bpf_map_push_elem''), (''Pop'', ''bpf_map_pop_elem''), (''Peek'', ''bpf_map_peek_elem'')] g"
    for g us using assms(1) by (auto simp: methodTree_def methodHelper_def)
  from assms(2) consider "g = ''Push''" | "g = ''Pop''" | "g = ''Peek''" by blast
  then show ?thesis
  proof cases
    case 1
    then show ?thesis using assms(4,5) a helper_names
      by (intro translatesI[where h = "''bpf_map_push_elem''" and cs = "[CPre ''&'' (CAtom x), a, CAtom ''0'']" and l = 3])
         (simp_all add: tree queueTree_def readables used_declared)
  next
    case 2
    then show ?thesis using assms(4,5) a helper_names
      by (intro translatesI[where h = "''bpf_map_pop_elem''" and cs = "[CPre ''&'' (CAtom x), a]" and l = 2])
         (simp_all add: tree queueTree_def readables used_declared)
  next
    case 3
    then show ?thesis using assms(4,5) a helper_names
      by (intro translatesI[where h = "''bpf_map_peek_elem''" and cs = "[CPre ''&'' (CAtom x), a]" and l = 2])
         (simp_all add: tree queueTree_def readables used_declared)
  qed
qed

lemma storage_helpers:
  assumes "n \<in> set (map fst storageMapHelpers)"
  obtains h where "map_of storageMapHelpers n = Some h" "methodHelper n ''Get'' = Some (GetFn h)"
    "methodHelper n ''GetOrCreate'' = Some (GetFn h)" "methodHelper n ''Delete'' = Some (DeleteFn h)"
    "headerDeclares (GetFn h) 4" "headerDeclares (DeleteFn h) 2"
    "isWordText (GetFn h) \<and> cOperand (GetFn h)" "isWordText (DeleteFn h) \<and> cOperand (DeleteFn h)"
    "n \<notin> {''RingBuf'', ''Queue'', ''Stack'', ''ProgArray'', ''PerfEventArray''}" "n \<notin> set redirectMapTypes"
proof -
  have "n = ''TaskStorage'' \<or> n = ''SkStorage'' \<or> n = ''InodeStorage''" using assms by (simp add: storageMapHelpers_def)
  with used_declared helper_names show ?thesis
    by (intro that[of "the (map_of storageMapHelpers n)"]) (auto simp: storageMapHelpers_def methodHelper_def redirectMapTypes_def)
qed

lemma storage_method:
  assumes "n \<in> set (map fst storageMapHelpers)" and "(g, length us) \<in> {(''Get'', 1), (''Delete'', 1), (''GetOrCreate'', 2)}"
    and "length ts = 1" and "cIdentifier x" and "list_all readable us"
  shows "translates x n ts g us"
proof -
  obtain t where ts: "ts = [t]" using few_args(1)[OF assms(3)] by blast
  obtain h where h: "map_of storageMapHelpers n = Some h" "methodHelper n ''Get'' = Some (GetFn h)"
    "methodHelper n ''GetOrCreate'' = Some (GetFn h)" "methodHelper n ''Delete'' = Some (DeleteFn h)"
    "headerDeclares (GetFn h) 4" "headerDeclares (DeleteFn h) 2"
    "isWordText (GetFn h) \<and> cOperand (GetFn h)" "isWordText (DeleteFn h) \<and> cOperand (DeleteFn h)"
    "n \<notin> {''RingBuf'', ''Queue'', ''Stack'', ''ProgArray'', ''PerfEventArray''}" "n \<notin> set redirectMapTypes"
    using assms(1) by (rule storage_helpers)
  have tree: "methodTree x n ts g us = storageTree h (CPre ''&'' (CAtom x)) g us" for g us
    using h by (auto simp: methodTree_def ts)
  from assms(2) consider a where "g = ''Get''" "us = [a]" | a where "g = ''Delete''" "us = [a]"
    | a b where "g = ''GetOrCreate''" "us = [a, b]" using few_args[of us] by blast
  then show ?thesis
  proof cases
    case 1
    then show ?thesis using assms(4,5) h
      by (intro translatesI[where h = "GetFn h" and cs = "[CPre ''&'' (CAtom x), a, CAtom ''NULL'', CAtom ''0'']" and l = 4])
         (simp_all add: tree storageTree_def readables)
  next
    case 2
    then show ?thesis using assms(4,5) h
      by (intro translatesI[where h = "DeleteFn h" and cs = "[CPre ''&'' (CAtom x), a]" and l = 2])
         (simp_all add: tree storageTree_def readables)
  next
    case 3
    then show ?thesis using assms(4,5) h
      by (intro translatesI[where h = "GetFn h"
            and cs = "[CPre ''&'' (CAtom x), a, b, CAtom ''BPF_LOCAL_STORAGE_GET_F_CREATE'']" and l = 4])
         (simp_all add: tree storageTree_def readables)
  qed
qed

lemma redirect_method:
  assumes "n \<in> set redirectMapTypes" and "length us = 3" and "cIdentifier x" and "list_all readable us"
  shows "translates x n ts ''Redirect'' us"
proof -
  obtain a b c where us: "us = [a, b, c]" using few_args(3)[OF assms(2)] by blast
  have "list_all (\<lambda>n. n \<notin> {''RingBuf'', ''Queue'', ''Stack'', ''ProgArray'', ''PerfEventArray'', ''TaskStorage'', ''SkStorage'',
      ''InodeStorage''}) redirectMapTypes" by code_simp
  then have n: "n \<notin> {''RingBuf'', ''Queue'', ''Stack'', ''ProgArray'', ''PerfEventArray'', ''TaskStorage'', ''SkStorage'',
      ''InodeStorage''}" using assms(1) by (auto simp: list_all_iff)
  show ?thesis using assms(1,3,4) us n helper_names
    by (intro translatesI[where h = "''bpf_redirect_map''" and cs = "[CPre ''&'' (CAtom x), b, c]" and l = 3])
       (simp_all add: methodTree_def methodHelper_def readables used_declared)
qed

lemma array_methods:
  assumes "length us = 2" and "cIdentifier x" and "list_all readable us"
  shows "translates x ''ProgArray'' ts ''TailCall'' us"
    and "list_all (\<lambda>u. \<not> isBin u) us \<Longrightarrow> translates x ''PerfEventArray'' ts ''Output'' us"
proof -
  obtain a b where us: "us = [a, b]" using few_args(2)[OF assms(1)] by blast
  show "translates x ''ProgArray'' ts ''TailCall'' us" using assms(2,3) us helper_names
    by (intro translatesI[where h = "''bpf_tail_call''" and cs = "[a, CPre ''&'' (CAtom x), b]" and l = 3])
       (simp_all add: methodTree_def methodHelper_def readables used_declared)
  show "list_all (\<lambda>u. \<not> isBin u) us \<Longrightarrow> translates x ''PerfEventArray'' ts ''Output'' us" using assms(2,3) us helper_names
    by (intro translatesI[where h = "''bpf_perf_event_output''"
          and cs = "[a, CPre ''&'' (CAtom x), CAtom ''BPF_F_CURRENT_CPU'', b, sizeofTarget b]" and l = 5])
       (simp_all add: methodTree_def methodHelper_def readables used_declared)
qed

lemma method_translates:
  assumes "(n, k, g, length us) \<in> set apiMethods" and "n \<noteq> ''BloomFilter''" and "g \<noteq> ''Reserve''" and "length ts = k"
    and "cIdentifier x" and "list_all readable us" and "g = ''Output'' \<longrightarrow> list_all (\<lambda>u. \<not> isBin u) us"
  shows "translates x n ts g us"
  using bspec[OF apiMethods_kinds[unfolded list_all_iff] assms(1)] assms(2-7) unfolding prod.case
proof (elim disjE conjE, goal_cases)
  case 3
  then show ?case by (intro std_method) simp_all
next
  case 4
  then show ?case using ringbuf_method[of g us x ts] by simp
next
  case 5
  then show ?case by (intro queue_method) simp_all
next
  case 6
  then show ?case using array_methods(1) by simp
next
  case 7
  then show ?case using array_methods(2) by simp
next
  case 8
  then show ?case by (intro storage_method) simp_all
next
  case 9
  then show ?case using redirect_method by simp
qed simp_all

text \<open>What C reads in the emitted text.\<close>

lemma translates_reads:
  assumes "translates (idName i) n ts (idName sel) us" and "idType i = Some (Named (Some bpfPkgPath) n ts)"
    and "cIdentifier (idName i)" and "list_all readable us"
  shows "\<exists>s h cs. formatCall e p (SelectorExpr m (IdentE i) sel) fn (map (\<lambda>u. Inr (cText u)) us) = Inr s
    \<and> cRead s = Some (CCall (CAtom h) cs) \<and> helperCall (idName i) n (idName sel) us h cs"
proof -
  obtain h cs where t: "methodTree (idName i) n ts (idName sel) us = Some (CCall (CAtom h) cs)" "cOperand h"
    "list_all readable cs" "helperCall (idName i) n (idName sel) us h cs" using assms(1) by (auto simp: translates_def)
  have "isWordText (idName i)" "list_all wordy us" using assms(3,4) by (auto simp: cIdentifier_def readable_def list_all_iff)
  then have "formatCall e p (SelectorExpr m (IdentE i) sel) fn (map (\<lambda>u. Inr (cText u)) us) = Inr (cText (CCall (CAtom h) cs))"
    and w: "wordy (CCall (CAtom h) cs)" using methodTree_text[OF t(1) assms(2)] by blast+
  moreover have "cRead (cText (CCall (CAtom h) cs)) = Some (CCall (CAtom h) cs)"
    using t(2,3) unfolding cRead_cText[OF w] by (auto simp: readable_def list_all_iff)
  ultimately show ?thesis using t(4) by blast
qed

text \<open>\<open>Reserve\<close> in a comma-ok assignment.\<close>

lemma reserve_call:
  assumes "idName sel = ''Reserve''" and "idType i = Some (Named (Some bpfPkgPath) ''RingBuf'' [t])"
    and "goTypeToC t = Inr tc" and "idName v \<noteq> ''_''"
  shows "writeCommaOkAssign p [IdentE v, IdentE ok] (CallExpr m (SelectorExpr m' (IdentE i) sel) []) e =
    Inr (addAlias ok (idName v) (writef (tc @ '' *'' @ idName v @ '' = ''
      @ callText ''bpf_ringbuf_reserve'' [''&'' @ idName i, ''sizeof('' @ tc @ '')'', ''0''] @ '';'' @ [newline]) (writeIndent e)))"
proof -
  have "mapLookupCall (SelectorExpr m' (IdentE i) sel) = None"
    using assms(1) by (simp add: mapLookupCall_def mapMethodCall_def mapMethodToHelper_def receiver_defs)
  moreover have "ringbufReserveCall (SelectorExpr m' (IdentE i) sel) = Some (idName i, t)"
    using assms(1,2) by (simp add: ringbufReserveCall_def isRingBufNamed_def receiver_defs)
  ultimately show ?thesis using assms(3,4)
    by (simp add: writeCommaOkAssign_def writeRingbufReserve_def writeCommaOk_def resolveLHSName_def identOf_def callText_def)
qed

lemma exceptional_methods:
  "list_all (\<lambda>(n, k, g, l). n = ''BloomFilter'' \<longrightarrow> g \<in> {''Add'', ''Contains''}) apiMethods"
  "list_all (\<lambda>(n, k, g, l). g = ''Reserve'' \<longrightarrow> n = ''RingBuf'' \<and> k = 1) apiMethods"
  by code_simp+

lemma reserve_recognised:
  assumes "idName sel = ''Reserve''" and "idType i = Some (Named (Some bpfPkgPath) ''RingBuf'' ts)" and "length ts = 1"
  shows "ringbufReserveCall (SelectorExpr m (IdentE i) sel) = Some (idName i, hd ts)"
  using assms few_args(1)[OF assms(3)] by (auto simp: ringbufReserveCall_def isRingBufNamed_def receiver_defs)

end
