(* ===== verification/Emit_Values.thy ===== *)
theory Emit_Values
  imports Emit_Reading
begin

text \<open>
  The values of integer expressions in Go and in C.  \<open>goValue\<close> evaluates the Go expression by the rules of
  Go: operands of one type, arithmetic that wraps around at the width of the type, exact constants.
  \<open>cEval\<close> evaluates the expression that C reads in the emitted text, with the integer promotions, the
  usual arithmetic conversions and the undefined behaviour of C.  Where no operand of an arithmetic
  operator is narrower than 32 bits and no constant needs more than 31, the values agree unless C leaves
  the expression undefined (\<open>goSafe\<close>).
\<close>

section \<open>Integer types\<close>

text \<open>The width and whether the type is signed.\<close>

type_synonym ity = "nat \<times> bool"

definition inRange :: "ity \<Rightarrow> int \<Rightarrow> bool" where
  "inRange \<tau> v \<longleftrightarrow> (if snd \<tau> then - (2 ^ (fst \<tau> - 1)) \<le> v \<and> v < 2 ^ (fst \<tau> - 1) else 0 \<le> v \<and> v < 2 ^ fst \<tau>)"

definition wrap :: "ity \<Rightarrow> int \<Rightarrow> int" where
  "wrap \<tau> v = (if snd \<tau> then (v + 2 ^ (fst \<tau> - 1)) mod 2 ^ fst \<tau> - 2 ^ (fst \<tau> - 1) else v mod 2 ^ fst \<tau>)"

text \<open>Division rounds towards zero in both languages.\<close>

definition quo :: "int \<Rightarrow> int \<Rightarrow> int" where
  "quo a b = sgn a * sgn b * (\<bar>a\<bar> div \<bar>b\<bar>)"

section \<open>Literals\<close>

definition digitOf :: "char \<Rightarrow> nat" where
  "digitOf c = (if isDigit c then of_char c - 48 else if CHR ''a'' \<le> c then of_char c - 87 else of_char c - 55)"

definition baseVal :: "nat \<Rightarrow> string \<Rightarrow> int" where
  "baseVal b ds = int (foldl (\<lambda>n c. b * n + digitOf c) 0 ds)"

definition radix :: "string \<Rightarrow> nat \<times> string" where
  "radix w =
     (if take 2 w \<in> {''0x'', ''0X''} then (16, drop 2 w) else if take 2 w \<in> {''0b'', ''0B''} then (2, drop 2 w)
      else if take 1 w = ''0'' then (8, w) else (10, w))"

text \<open>Go separates digits by underscores and has another prefix for octal literals.\<close>

definition goLiteral :: "string \<Rightarrow> int option" where
  "goLiteral w =
     (let s = filter (\<lambda>c. c \<noteq> CHR ''_'') w; (b, ds) = (if take 2 s \<in> {''0o'', ''0O''} then (8, drop 2 s) else radix s)
      in if w \<noteq> [] \<and> isDigit (hd w) \<and> ds \<noteq> [] \<and> list_all (\<lambda>c. isHex c \<and> digitOf c < b) ds
         then Some (baseVal b ds) else None)"

text \<open>The exact text of an integer constant: decimal, with a sign.\<close>

definition decimalOf :: "string \<Rightarrow> int option" where
  "decimalOf w = (if w \<noteq> [] \<and> list_all isDigit w \<and> (w = ''0'' \<or> hd w \<noteq> CHR ''0'') then Some (baseVal 10 w) else None)"

definition constValue :: "string \<Rightarrow> int option" where
  "constValue v = (if hasPrefix v ''-'' then map_option uminus (decimalOf (tl v)) else decimalOf v)"

section \<open>Go\<close>

text \<open>A typed integer, a constant, which takes the type its context asks for, or a truth value.\<close>

datatype gval = GInt ity int | GConst int | GBool bool

definition goArithOps :: "(tok \<times> (int \<Rightarrow> int \<Rightarrow> int)) list" where
  "goArithOps = [(ADD, (+)), (SUB, (-)), (MUL, (*)), (QUO, quo), (REM, \<lambda>a b. a - b * quo a b),
     (AND, semiring_bit_operations_class.and), (OR, semiring_bit_operations_class.or),
     (XOR, semiring_bit_operations_class.xor), (AND_NOT, \<lambda>a b. semiring_bit_operations_class.and a (- b - 1))]"

definition goCompareOps :: "(tok \<times> (int \<Rightarrow> int \<Rightarrow> bool)) list" where
  "goCompareOps = [(EQL, (=)), (NEQ, (\<noteq>)), (LSS, (<)), (LEQ, (\<le>)), (GTR, (>)), (GEQ, (\<ge>))]"

definition goShiftOps :: "(tok \<times> (int \<Rightarrow> nat \<Rightarrow> int)) list" where
  "goShiftOps = [(SHL, \<lambda>a n. a * 2 ^ n), (SHR, \<lambda>a n. a div 2 ^ n)]"

definition goUnaryOps :: "(tok \<times> (int \<Rightarrow> int)) list" where
  "goUnaryOps = [(SUB, uminus), (XOR, \<lambda>a. - a - 1)]"

text \<open>
  The common type of two operands and their values: the operands have the same type, or a constant takes
  the type of the other one, in whose range it must be.
\<close>

fun joint :: "gval \<Rightarrow> gval \<Rightarrow> (ity option \<times> int \<times> int) option" where
  "joint (GInt \<tau> a) (GInt \<sigma> b) = (if \<tau> = \<sigma> then Some (Some \<tau>, a, b) else None)"
| "joint (GInt \<tau> a) (GConst b) = (if inRange \<tau> b then Some (Some \<tau>, a, b) else None)"
| "joint (GConst a) (GInt \<tau> b) = (if inRange \<tau> a then Some (Some \<tau>, a, b) else None)"
| "joint (GConst a) (GConst b) = Some (None, a, b)"
| "joint _ _ = None"

definition goResult :: "ity option \<Rightarrow> int \<Rightarrow> gval" where
  "goResult t v = (case t of Some \<tau> \<Rightarrow> GInt \<tau> (wrap \<tau> v) | None \<Rightarrow> GConst v)"

fun count :: "gval \<Rightarrow> int option" where
  "count (GInt _ n) = Some n"
| "count (GConst n) = Some n"
| "count (GBool _) = None"

definition goShift :: "(int \<Rightarrow> nat \<Rightarrow> int) \<Rightarrow> gval \<Rightarrow> gval \<Rightarrow> gval option" where
  "goShift f x y = (case (x, count y) of
     (GInt \<tau> a, Some n) \<Rightarrow> if n < 0 then None else Some (GInt \<tau> (wrap \<tau> (f a (nat n))))
   | (GConst a, Some n) \<Rightarrow> (case y of GConst _ \<Rightarrow> if n < 0 then None else Some (GConst (f a (nat n))) | _ \<Rightarrow> None)
   | _ \<Rightarrow> None)"

definition goArith :: "tok \<Rightarrow> (int \<Rightarrow> int \<Rightarrow> int) \<Rightarrow> gval \<Rightarrow> gval \<Rightarrow> gval option" where
  "goArith op f x y = (case joint x y of
     None \<Rightarrow> None
   | Some (t, a, b) \<Rightarrow> if (op = QUO \<or> op = REM) \<and> b = 0 then None else Some (goResult t (f a b)))"

definition goCompare :: "tok \<Rightarrow> (int \<Rightarrow> int \<Rightarrow> bool) \<Rightarrow> gval \<Rightarrow> gval \<Rightarrow> gval option" where
  "goCompare op f x y = (case (x, y) of
     (GBool a, GBool b) \<Rightarrow> if op = EQL \<or> op = NEQ then Some (GBool (f (of_bool a) (of_bool b))) else None
   | _ \<Rightarrow> map_option (\<lambda>(_, a, b). GBool (f a b)) (joint x y))"

definition goBinary :: "tok \<Rightarrow> gval \<Rightarrow> gval \<Rightarrow> gval option" where
  "goBinary op x y = (case map_of goArithOps op of
     Some f \<Rightarrow> goArith op f x y
   | None \<Rightarrow> (case map_of goShiftOps op of
       Some f \<Rightarrow> goShift f x y
     | None \<Rightarrow> (case map_of goCompareOps op of Some f \<Rightarrow> goCompare op f x y | None \<Rightarrow> None)))"

text \<open>The complement of a constant depends on its type and is left out.\<close>

definition goUnary :: "tok \<Rightarrow> gval \<Rightarrow> gval option" where
  "goUnary op x = (case x of
     GBool b \<Rightarrow> if op = NOT then Some (GBool (\<not> b)) else None
   | GInt \<tau> a \<Rightarrow> map_option (\<lambda>f. GInt \<tau> (wrap \<tau> (f a))) (map_of goUnaryOps op)
   | GConst a \<Rightarrow> if op = SUB then Some (GConst (- a)) else None)"

text \<open>A conversion to a predeclared integer type of fixed width: the function is the name of the type.\<close>

definition goConversion :: "expr \<Rightarrow> ity option" where
  "goConversion f = (case f of
     IdentE i \<Rightarrow> (case idType i of
         Some (Basic k) \<Rightarrow> if idName i = basicName k then map_option (\<lambda>(s, w). (w, s)) (goIntShape k) else None
       | _ \<Rightarrow> None)
   | _ \<Rightarrow> None)"

definition goConvert :: "ity \<Rightarrow> gval \<Rightarrow> gval option" where
  "goConvert \<tau> x = (case x of
     GInt _ a \<Rightarrow> Some (GInt \<tau> (wrap \<tau> a))
   | GConst a \<Rightarrow> if inRange \<tau> a then Some (GInt \<tau> a) else None
   | GBool _ \<Rightarrow> None)"

definition goConstant :: "ident \<Rightarrow> int option" where
  "goConstant i = (case idUse i of Some (ConstObj _ (Some v)) \<Rightarrow> constValue v | _ \<Rightarrow> None)"

text \<open>The values of variables, fields, elements and calls are given by \<open>\<Gamma>\<close>.\<close>

type_synonym genv = "expr \<Rightarrow> gval option"

fun goValue :: "genv \<Rightarrow> expr \<Rightarrow> gval option" where
  "goValue \<Gamma> (BasicLit m k v) = (if k = INT_lit then map_option GConst (goLiteral v) else None)"
| "goValue \<Gamma> (IdentE i) = (case goConstant i of Some n \<Rightarrow> Some (GConst n) | None \<Rightarrow> \<Gamma> (IdentE i))"
| "goValue \<Gamma> (ParenExpr m x) = goValue \<Gamma> x"
| "goValue \<Gamma> (UnaryExpr m op x) = Option.bind (goValue \<Gamma> x) (goUnary op)"
| "goValue \<Gamma> (BinaryExpr m x op y) =
     (if op = LAND \<or> op = LOR then
        (case goValue \<Gamma> x of
           Some (GBool b) \<Rightarrow> if b = (op = LAND) then (case goValue \<Gamma> y of Some (GBool c) \<Rightarrow> Some (GBool c) | _ \<Rightarrow> None)
             else Some (GBool b)
         | _ \<Rightarrow> None)
      else Option.bind (goValue \<Gamma> x) (\<lambda>a. Option.bind (goValue \<Gamma> y) (goBinary op a)))"
| "goValue \<Gamma> (CallExpr m f [x]) = (case goConversion f of
     Some \<tau> \<Rightarrow> Option.bind (goValue \<Gamma> x) (goConvert \<tau>)
   | None \<Rightarrow> \<Gamma> (CallExpr m f [x]))"
| "goValue \<Gamma> x = \<Gamma> x"

section \<open>C\<close>

type_synonym cval = "ity \<times> int"

definition cInt :: ity where
  "cInt = (32, True)"

definition castIty :: "string \<Rightarrow> ity option" where
  "castIty = map_of [(''__s8'', (8, True)), (''__s16'', (16, True)), (''__s32'', (32, True)), (''__s64'', (64, True)),
     (''__u8'', (8, False)), (''__u16'', (16, False)), (''__u32'', (32, False)), (''__u64'', (64, False))]"

definition arithOps :: "(string \<times> (int \<Rightarrow> int \<Rightarrow> int)) list" where
  "arithOps = [(''+'', (+)), (''-'', (-)), (''*'', (*)), (''/'', quo), (''%'', \<lambda>a b. a - b * quo a b),
     (''&'', semiring_bit_operations_class.and), (''|'', semiring_bit_operations_class.or),
     (''^'', semiring_bit_operations_class.xor)]"

definition compareOps :: "(string \<times> (int \<Rightarrow> int \<Rightarrow> bool)) list" where
  "compareOps = [(''=='', (=)), (''!='', (\<noteq>)), (''<'', (<)), (''<='', (\<le>)), (''>'', (>)), (''>='', (\<ge>))]"

definition shiftOps :: "(string \<times> (int \<Rightarrow> nat \<Rightarrow> int)) list" where
  "shiftOps = [(''<<'', \<lambda>a n. a * 2 ^ n), (''>>'', \<lambda>a n. a div 2 ^ n)]"

definition prefixValOps :: "(string \<times> (int \<Rightarrow> int)) list" where
  "prefixValOps = [(''-'', uminus), (''~'', \<lambda>a. - a - 1)]"

definition divides :: "string \<Rightarrow> bool" where
  "divides o' \<longleftrightarrow> o' = ''/'' \<or> o' = ''%''"

definition promote :: "cval \<Rightarrow> cval" where
  "promote c = (if fst (fst c) < 32 then (cInt, snd c) else c)"

text \<open>The usual arithmetic conversions, on promoted types.\<close>

definition commonType :: "ity \<Rightarrow> ity \<Rightarrow> ity" where
  "commonType \<tau> \<sigma> = (if fst \<tau> = fst \<sigma> then (fst \<tau>, snd \<tau> \<and> snd \<sigma>) else if fst \<tau> > fst \<sigma> then \<tau> else \<sigma>)"

text \<open>The result of an operation: unsigned types wrap around, an overflow of a signed type is undefined.\<close>

definition cResult :: "ity \<Rightarrow> int \<Rightarrow> cval option" where
  "cResult \<tau> v = (if \<not> snd \<tau> then Some (\<tau>, wrap \<tau> v) else if inRange \<tau> v then Some (\<tau>, v) else None)"

definition truth :: "bool \<Rightarrow> cval" where
  "truth b = (cInt, of_bool b)"

definition cBin :: "string \<Rightarrow> cval \<Rightarrow> cval \<Rightarrow> cval option" where
  "cBin o' x y =
     (let (\<tau>, a) = promote x; (\<sigma>, b) = promote y; \<rho> = commonType \<tau> \<sigma>; a' = wrap \<rho> a; b' = wrap \<rho> b
      in case map_of arithOps o' of
           Some f \<Rightarrow> if divides o' \<and> b' = 0 then None else cResult \<rho> (f a' b')
         | None \<Rightarrow> (case map_of shiftOps o' of
             Some f \<Rightarrow> if b < 0 \<or> int (fst \<tau>) \<le> b \<or> a < 0 \<and> o' = ''<<'' then None else cResult \<tau> (f a (nat b))
           | None \<Rightarrow> map_option (\<lambda>f. truth (f a' b')) (map_of compareOps o')))"

definition cPre :: "string \<Rightarrow> cval \<Rightarrow> cval option" where
  "cPre p x = (let (\<tau>, a) = promote x in
     if p = ''!'' then Some (truth (a = 0)) else Option.bind (map_of prefixValOps p) (\<lambda>f. cResult \<tau> (f a)))"

definition cCast :: "string \<Rightarrow> cval \<Rightarrow> cval option" where
  "cCast ty x = map_option (\<lambda>\<tau>. (\<tau>, wrap \<tau> (snd x))) (castIty ty)"

text \<open>
  The type of a constant is the first that holds it: \<^verbatim>\<open>int\<close> and \<^verbatim>\<open>long\<close>, and for other than decimal
  constants also their unsigned variants.
\<close>

definition cLiteral :: "string \<Rightarrow> cval option" where
  "cLiteral w = (let (b, ds) = radix w; n = baseVal b ds in
     map_option (\<lambda>\<tau>. (\<tau>, n)) (List.find (\<lambda>\<tau>. inRange \<tau> n)
       (if b = 10 then [(32, True), (64, True)] else [(32, True), (32, False), (64, True), (64, False)])))"

text \<open>The values of variables, members, elements and calls are given by \<open>\<Delta>\<close>.\<close>

type_synonym cenv = "ctree \<Rightarrow> cval option"

fun cEval :: "cenv \<Rightarrow> ctree \<Rightarrow> cval option" where
  "cEval \<Delta> (CAtom w) = (if cConstant w then cLiteral w else \<Delta> (CAtom w))"
| "cEval \<Delta> (CParen t) = cEval \<Delta> t"
| "cEval \<Delta> (CPre p t) = (if p \<in> {''-'', ''~'', ''!''} then Option.bind (cEval \<Delta> t) (cPre p) else \<Delta> (CPre p t))"
| "cEval \<Delta> (CCast ty t) = Option.bind (cEval \<Delta> t) (cCast ty)"
| "cEval \<Delta> (CBin l o' r) =
     (if o' = ''&&'' \<or> o' = ''||'' then
        Option.bind (cEval \<Delta> l) (\<lambda>x. if (snd x \<noteq> 0) = (o' = ''&&'')
          then map_option (\<lambda>y. truth (snd y \<noteq> 0)) (cEval \<Delta> r) else Some (truth (snd x \<noteq> 0)))
      else Option.bind (cEval \<Delta> l) (\<lambda>x. Option.bind (cEval \<Delta> r) (cBin o' x)))"
| "cEval \<Delta> t = \<Delta> t"

section \<open>Agreement\<close>

definition okType :: "ity \<Rightarrow> bool" where
  "okType \<tau> \<longleftrightarrow> fst \<tau> \<in> {8, 16, 32, 64}"

text \<open>A C value stands for a Go value; truth values are the integers 0 and 1, of type \<^verbatim>\<open>bool\<close> or \<^verbatim>\<open>int\<close>.\<close>

fun agree :: "gval \<Rightarrow> cval \<Rightarrow> bool" where
  "agree (GInt \<tau> v) c \<longleftrightarrow> c = (\<tau>, v) \<and> okType \<tau> \<and> inRange \<tau> v"
| "agree (GConst n) c \<longleftrightarrow> c = (cInt, n) \<and> inRange cInt n"
| "agree (GBool b) c \<longleftrightarrow> snd c = of_bool b \<and> (fst c = (8, False) \<or> fst c = cInt)"

text \<open>
  The two environments give the same values: a variable, field, element or call that has a value in Go has
  the same one in C, in the expression it is rendered as.
\<close>

fun isOperand :: "expr \<Rightarrow> bool" where
  "isOperand (IdentE _) = True"
| "isOperand (SelectorExpr _ _ _) = True"
| "isOperand (IndexExpr _ _ _) = True"
| "isOperand (StarExpr _ _) = True"
| "isOperand (CallExpr _ _ _) = True"
| "isOperand _ = False"

definition sameOperands :: "emitter \<Rightarrow> genv \<Rightarrow> cenv \<Rightarrow> bool" where
  "sameOperands e \<Gamma> \<Delta> \<longleftrightarrow> (\<forall>y t v. isOperand y \<longrightarrow> cTree e y = Some t \<longrightarrow> \<Gamma> y = Some v \<longrightarrow>
     (\<exists>c. cEval \<Delta> t = Some c \<and> agree v c))"

text \<open>Aliases are made for the variables of comma-ok assignments, never for constants.\<close>

definition constantsPlain :: "emitter \<Rightarrow> bool" where
  "constantsPlain e \<longleftrightarrow> (\<forall>k v. aliases e (ConstObj k v) = None)"

text \<open>
  What keeps C on the side of Go: arithmetic on at least 32 bits, no signed overflow, shifts by less than
  the width, constants that fit an \<^verbatim>\<open>int\<close>.
\<close>

definition fits :: "ity \<Rightarrow> int \<Rightarrow> bool" where
  "fits \<tau> v \<longleftrightarrow> 32 \<le> fst \<tau> \<and> (snd \<tau> \<longrightarrow> inRange \<tau> v)"

fun typedAs :: "gval \<Rightarrow> cval" where
  "typedAs (GInt \<tau> v) = (\<tau>, v)"
| "typedAs (GConst n) = (cInt, n)"
| "typedAs (GBool b) = ((8, False), of_bool b)"

definition safeBinary :: "tok \<Rightarrow> gval \<Rightarrow> gval \<Rightarrow> bool" where
  "safeBinary op x y = (case map_of goArithOps op of
     Some f \<Rightarrow> (case joint x y of
         Some (t, a, b) \<Rightarrow> fits (case t of Some \<tau> \<Rightarrow> \<tau> | None \<Rightarrow> cInt) (f a b)
       | None \<Rightarrow> False)
   | None \<Rightarrow> (case map_of goShiftOps op of
       Some f \<Rightarrow> (case (typedAs x, count y) of
           ((\<tau>, a), Some n) \<Rightarrow> n < int (fst \<tau>) \<and> (op = SHL \<longrightarrow> 0 \<le> a) \<and> fits \<tau> (f a (nat n))
         | _ \<Rightarrow> False)
     | None \<Rightarrow> True))"

definition safeUnary :: "tok \<Rightarrow> gval \<Rightarrow> bool" where
  "safeUnary op x = (case map_of goUnaryOps op of Some f \<Rightarrow> fits (fst (typedAs x)) (f (snd (typedAs x))) | None \<Rightarrow> True)"

fun goSafe :: "genv \<Rightarrow> expr \<Rightarrow> bool" where
  "goSafe \<Gamma> (BasicLit m k v) \<longleftrightarrow> (case goLiteral v of Some n \<Rightarrow> inRange cInt n | None \<Rightarrow> True)"
| "goSafe \<Gamma> (IdentE i) \<longleftrightarrow> (case goConstant i of Some n \<Rightarrow> inRange cInt \<bar>n\<bar> | None \<Rightarrow> True)"
| "goSafe \<Gamma> (ParenExpr m x) \<longleftrightarrow> goSafe \<Gamma> x"
| "goSafe \<Gamma> (UnaryExpr m op x) \<longleftrightarrow> goSafe \<Gamma> x \<and> (case goValue \<Gamma> x of Some a \<Rightarrow> safeUnary op a | None \<Rightarrow> False)"
| "goSafe \<Gamma> (BinaryExpr m x op y) \<longleftrightarrow> goSafe \<Gamma> x
     \<and> (if op = LAND \<or> op = LOR then goValue \<Gamma> x = Some (GBool (op = LAND)) \<longrightarrow> goSafe \<Gamma> y
        else goSafe \<Gamma> y \<and> (case (goValue \<Gamma> x, goValue \<Gamma> y) of (Some a, Some b) \<Rightarrow> safeBinary op a b | _ \<Rightarrow> False))"
| "goSafe \<Gamma> (CallExpr m f [x]) \<longleftrightarrow> goConversion f = None \<or> goSafe \<Gamma> x"
| "goSafe \<Gamma> _ \<longleftrightarrow> True"

lemma ok_pos: "okType \<tau> \<Longrightarrow> 0 < fst \<tau>" "okType cInt" "fst cInt = 32" "snd cInt"
  by (auto simp: okType_def cInt_def)

lemma wrap_id: "0 < fst \<tau> \<Longrightarrow> inRange \<tau> v \<Longrightarrow> wrap \<tau> v = v"
  using power_Suc[of "2::int" "fst \<tau> - 1"] by (auto simp: wrap_def inRange_def)

lemma wrap_range: "0 < fst \<tau> \<Longrightarrow> inRange \<tau> (wrap \<tau> v)"
  using power_Suc[of "2::int" "fst \<tau> - 1"] by (auto simp: wrap_def inRange_def)

lemma cResult_fits: "fits \<tau> v \<Longrightarrow> cResult \<tau> v = Some (\<tau>, wrap \<tau> v)"
  by (auto simp: fits_def cResult_def wrap_id)

lemma narrow_range: "okType \<tau> \<Longrightarrow> fst \<tau> < 32 \<Longrightarrow> inRange \<tau> v \<Longrightarrow> inRange cInt v"
  by (cases \<tau>) (auto simp: okType_def inRange_def cInt_def split: if_splits)

lemma promote_agree: "okType \<tau> \<Longrightarrow> inRange \<tau> v \<Longrightarrow> promote (\<tau>, v) = (if fst \<tau> < 32 then cInt else \<tau>, v)"
  by (auto simp: promote_def)

lemma commonType_int: "32 \<le> fst \<tau> \<Longrightarrow> commonType \<tau> cInt = \<tau>" "32 \<le> fst \<tau> \<Longrightarrow> commonType cInt \<tau> = \<tau>" "commonType \<tau> \<tau> = \<tau>"
  by (cases \<tau>; auto simp: commonType_def cInt_def)+

text \<open>The conversions of C leave the operands of a Go operator as they are.\<close>

lemma operands:
  assumes "agree x c" and "agree y d" and "joint x y = Some (t, a, b)"
  shows "snd (promote c) = a" "snd (promote d) = b"
    "(case t of Some \<tau> \<Rightarrow> 32 \<le> fst \<tau> \<longrightarrow> commonType (fst (promote c)) (fst (promote d)) = \<tau>
      | None \<Rightarrow> commonType (fst (promote c)) (fst (promote d)) = cInt)"
    "wrap (commonType (fst (promote c)) (fst (promote d))) a = a" "wrap (commonType (fst (promote c)) (fst (promote d))) b = b"
  using assms
  by (cases "(x, y)" rule: joint.cases;
      auto simp: promote_agree commonType_int wrap_id ok_pos narrow_range promote_def split: if_splits)+

text \<open>The operators of the emitter stand for the same functions in both languages.\<close>

lemma arith_table:
  "map_of goArithOps op = Some f \<Longrightarrow> cBinOp (tokString op) \<Longrightarrow>
     map_of arithOps (tokString op) = Some f \<and> (divides (tokString op) \<longleftrightarrow> op = QUO \<or> op = REM)"
  by (auto simp: goArithOps_def arithOps_def divides_def cPrec_def cOps_def split: if_splits)

lemma shift_table:
  "map_of goShiftOps op = Some f \<Longrightarrow>
     map_of shiftOps (tokString op) = Some f \<and> map_of arithOps (tokString op) = None \<and> map_of goArithOps op = None
     \<and> (tokString op = ''<<'' \<longleftrightarrow> op = SHL)"
  by (auto simp: goShiftOps_def shiftOps_def arithOps_def goArithOps_def split: if_splits)

lemma compare_table:
  "map_of goCompareOps op = Some f \<Longrightarrow>
     map_of compareOps (tokString op) = Some f \<and> map_of arithOps (tokString op) = None \<and> map_of shiftOps (tokString op) = None"
  by (auto simp: goCompareOps_def compareOps_def shiftOps_def arithOps_def split: if_splits)

lemma unary_table:
  "map_of goUnaryOps op = Some f \<Longrightarrow> map_of unaryOps op = Some p \<Longrightarrow> map_of prefixValOps p = Some f \<and> p \<noteq> ''!''"
  by (auto simp: goUnaryOps_def unaryOps_def prefixValOps_def split: if_splits)

lemma arith_agrees:
  assumes "agree x c" and "agree y d" and "map_of goArithOps op = Some f" and "goArith op f x y = Some v"
    and "safeBinary op x y" and "cBinOp (tokString op)"
  shows "\<exists>r. cBin (tokString op) c d = Some r \<and> agree v r"
proof -
  note tab = arith_table[OF assms(3,6)]
  obtain t a b where j: "joint x y = Some (t, a, b)" "\<not> ((op = QUO \<or> op = REM) \<and> b = 0)" "v = goResult t (f a b)"
    using assms(4) by (auto simp: goArith_def split: option.splits if_splits)
  define \<rho> where "\<rho> = commonType (fst (promote c)) (fst (promote d))"
  note ops = operands[OF assms(1,2) j(1), folded \<rho>_def]
  have f: "fits (case t of Some \<tau> \<Rightarrow> \<tau> | None \<Rightarrow> cInt) (f a b)" using assms(3,5) j(1) by (simp add: safeBinary_def)
  have \<rho>: "\<rho> = (case t of Some \<tau> \<Rightarrow> \<tau> | None \<Rightarrow> cInt)" using ops(3) f by (auto simp: fits_def split: option.splits)
  then have "cBin (tokString op) c d = Some (\<rho>, wrap \<rho> (f a b))"
    using ops f tab j(2) by (simp add: cBin_def Let_def split_beta flip: \<rho>_def) (simp add: cResult_fits)
  moreover have "agree v (\<rho>, wrap \<rho> (f a b))"
    using assms(1,2) j f \<rho>
    by (cases "(x, y)" rule: joint.cases)
       (auto simp: goResult_def wrap_range ok_pos wrap_id fits_def split: if_splits)
  ultimately show ?thesis by blast
qed

lemma shift_agrees:
  assumes "agree x c" and "agree y d" and "map_of goShiftOps op = Some f" and "goShift f x y = Some v" and "safeBinary op x y"
  shows "\<exists>r. cBin (tokString op) c d = Some r \<and> agree v r"
proof -
  note tab = shift_table[OF assms(3)]
  obtain \<tau> a where x: "typedAs x = (\<tau>, a)" "c = (\<tau>, a)" "32 \<le> fst \<tau>" "okType \<tau>"
    using assms(1,4,5) tab assms(3)
    by (cases x) (auto simp: goShift_def safeBinary_def fits_def ok_pos split: option.splits)
  obtain n where n: "count y = Some n" "0 \<le> n" "snd (promote d) = n"
    using assms(2,4) by (cases x; cases y) (auto simp: goShift_def promote_def split: if_splits)
  have s: "n < int (fst \<tau>)" "op = SHL \<longrightarrow> 0 \<le> a" "fits \<tau> (f a (nat n))"
    using assms(5) tab assms(3) x(1) n(1) by (simp_all add: safeBinary_def)
  have "cBin (tokString op) c d = Some (\<tau>, wrap \<tau> (f a (nat n)))"
    using tab x n s by (auto simp: cBin_def Let_def split_beta promote_def cResult_fits)
  moreover have "agree v (\<tau>, wrap \<tau> (f a (nat n)))"
    using assms(1,4) x n s
    by (cases x) (auto simp: goShift_def wrap_range ok_pos wrap_id fits_def split: if_splits gval.splits)
  ultimately show ?thesis by blast
qed

lemma compare_agrees:
  assumes "agree x c" and "agree y d" and "map_of goCompareOps op = Some f" and "goCompare op f x y = Some v"
  shows "\<exists>r. cBin (tokString op) c d = Some r \<and> agree v r"
proof -
  note tab = compare_table[OF assms(3)]
  show ?thesis
  proof (cases "\<exists>p q. x = GBool p \<and> y = GBool q")
    case True
    then obtain p q where b: "x = GBool p" "y = GBool q" by blast
    have "promote c = (cInt, of_bool p)" "promote d = (cInt, of_bool q)"
      using assms(1,2) b by (cases c; cases d; auto simp: promote_def cInt_def)+
    then have "cBin (tokString op) c d = Some (truth (f (of_bool p) (of_bool q)))"
      using tab wrap_id[of cInt] by (simp add: cBin_def commonType_int ok_pos inRange_def cInt_def)
    then show ?thesis using assms(4) b by (auto simp: goCompare_def truth_def split: if_splits)
  next
    case False
    then obtain t a b where j: "joint x y = Some (t, a, b)" "v = GBool (f a b)"
      using assms(4) by (cases x; cases y) (auto simp: goCompare_def)
    note ops = operands[OF assms(1,2) j(1)]
    have "cBin (tokString op) c d = Some (truth (f a b))" using tab ops by (simp add: cBin_def Let_def split_beta)
    then show ?thesis using j(2) by (simp add: truth_def)
  qed
qed

lemma binary_agrees:
  assumes "agree x c" and "agree y d" and "goBinary op x y = Some v" and "safeBinary op x y" and "cBinOp (tokString op)"
  shows "\<exists>r. cBin (tokString op) c d = Some r \<and> agree v r"
  using assms arith_agrees[OF assms(1,2)] shift_agrees[OF assms(1,2)] compare_agrees[OF assms(1,2)]
  by (auto simp: goBinary_def split: option.splits)

lemma unary_agrees:
  assumes "agree x c" and "goUnary op x = Some v" and "safeUnary op x" and "map_of unaryOps op = Some p"
  shows "p \<in> {''-'', ''~'', ''!''} \<and> (\<exists>r. cPre p c = Some r \<and> agree v r)"
proof (cases x)
  case (GBool b)
  then have "op = NOT" "v = GBool (\<not> b)" using assms(2) by (auto simp: goUnary_def split: if_splits)
  then show ?thesis using assms(1,4) GBool by (auto simp: unaryOps_def cPre_def Let_def split_beta promote_def truth_def)
next
  case (GInt \<tau> a)
  then obtain f where f: "map_of goUnaryOps op = Some f" "v = GInt \<tau> (wrap \<tau> (f a))" using assms(2) by (auto simp: goUnary_def)
  note tab = unary_table[OF f(1) assms(4)]
  have "fits \<tau> (f a)" using assms(3) GInt f(1) by (simp add: safeUnary_def)
  moreover have "p \<in> {''-'', ''~''}" using tab by (auto simp: prefixValOps_def split: if_splits)
  ultimately show ?thesis using assms(1) GInt f tab
    by (auto simp: cPre_def Let_def promote_def fits_def[of \<tau>] wrap_range ok_pos cResult_fits[unfolded fits_def])
next
  case (GConst a)
  then have op: "op = SUB" "v = GConst (- a)" using assms(2) by (auto simp: goUnary_def split: if_splits)
  then have "fits cInt (- a)" "p = ''-''" using assms(3,4) GConst by (auto simp: safeUnary_def goUnaryOps_def unaryOps_def)
  then show ?thesis using assms(1) GConst op
    by (auto simp: cPre_def Let_def promote_def fits_def ok_pos cResult_def prefixValOps_def)
qed

text \<open>The C type of a conversion is the one of the Go type.\<close>

lemma conversion_type:
  assumes "goConversion f = Some \<tau>"
  obtains i ct where "f = IdentE i" "map_of goBasicNameToC (idName i) = Some ct" "castIty ct = Some \<tau>" "okType \<tau>"
proof -
  from assms obtain i k where i: "f = IdentE i" "idName i = basicName k" "map_option (\<lambda>(s, w). (w, s)) (goIntShape k) = Some \<tau>"
    by (auto simp: goConversion_def split: expr.splits option.splits gotype.splits if_splits)
  then have "\<exists>ct. map_of goBasicNameToC (basicName k) = Some ct \<and> castIty ct = Some \<tau> \<and> okType \<tau>"
    by (cases k) (auto simp: goBasicNameToC_def castIty_def okType_def)
  with i that show ?thesis by metis
qed

lemma convert_agrees:
  assumes "agree x c" and "goConvert \<tau> x = Some v" and "castIty ct = Some \<tau>" and "okType \<tau>"
  shows "\<exists>r. cCast ct c = Some r \<and> agree v r"
proof -
  note \<tau> = ok_pos(1)[OF assms(4)]
  have "agree v (\<tau>, wrap \<tau> (snd c))"
    using assms \<tau> wrap_range[OF \<tau>] wrap_id[OF \<tau>] by (cases x) (fastforce simp: goConvert_def split: if_splits)+
  then show ?thesis using assms(3) by (simp add: cCast_def)
qed

section \<open>Literals and constants agree\<close>

lemma constant_chars:
  assumes "cConstant w"
  shows "CHR ''_'' \<notin> set w" "take 2 w \<notin> {''0o'', ''0O''}" "w \<noteq> []"
proof -
  have c: "\<not> isDigit CHR ''_''" "\<not> isOctal CHR ''_''" "\<not> isHex CHR ''_''" "\<not> isOctal CHR ''o''" "\<not> isOctal CHR ''O''"
    by code_simp+
  show "w \<noteq> []" using assms by (auto simp: cConstant_def)
  show "CHR ''_'' \<notin> set w"
    using assms c(1-3) by (auto simp: cConstant_def list_all_iff split: list.splits if_splits)
  show "take 2 w \<notin> {''0o'', ''0O''}"
  proof
    assume "take 2 w \<in> {''0o'', ''0O''}"
    then obtain x r where "w = CHR ''0'' # x # r" "x = CHR ''o'' \<or> x = CHR ''O''"
      by (cases w; cases "tl w") (auto simp: numeral_2_eq_2)
    then show False using assms c(4,5) by (auto simp: cConstant_def)
  qed
qed

lemma cLiteral_int:
  "radix w = (b, ds) \<Longrightarrow> inRange cInt (baseVal b ds) \<Longrightarrow> cLiteral w = Some (cInt, baseVal b ds)"
  by (cases "b = 10") (simp_all add: cLiteral_def cInt_def Let_def)

lemma literal_first: "goLiteral w = Some n \<Longrightarrow> w \<noteq> [] \<and> isDigit (hd w)"
  by (auto simp: goLiteral_def Let_def split: prod.splits if_splits)

lemma literal_agrees:
  assumes "cConstant w" and "goLiteral w = Some n" and "inRange cInt n"
  shows "cLiteral w = Some (cInt, n)"
proof -
  have "filter (\<lambda>c. c \<noteq> CHR ''_'') w = w" using constant_chars(1)[OF assms(1)] by (auto simp: filter_id_conv)
  then have "n = (case radix w of (b, ds) \<Rightarrow> baseVal b ds)"
    using assms(2) constant_chars(2)[OF assms(1)] by (auto simp: goLiteral_def Let_def split: prod.splits if_splits)
  then show ?thesis using assms(3) cLiteral_int[of w "fst (radix w)" "snd (radix w)"] by (simp add: split_beta)
qed

lemma decimal_agrees:
  assumes "decimalOf w = Some n" and "inRange cInt n"
  shows "cConstant w \<and> cLiteral w = Some (cInt, n)"
proof -
  have w: "w \<noteq> []" "list_all isDigit w" "w = ''0'' \<or> hd w \<noteq> CHR ''0''" "n = baseVal 10 w"
    using assms(1) by (auto simp: decimalOf_def split: if_splits)
  show ?thesis
  proof (cases "w = ''0''")
    case True
    moreover have "cConstant ''0''" "cLiteral ''0'' = Some (cInt, 0)" "baseVal 10 ''0'' = 0" by code_simp+
    ultimately show ?thesis using w by simp
  next
    case False
    then obtain c r where cr: "w = c # r" "c \<noteq> CHR ''0''" using w by (cases w) auto
    then have "radix w = (10, w)" by (auto simp: radix_def numeral_2_eq_2)
    moreover have "cConstant w" using w(2) cr by (simp add: cConstant_def)
    ultimately show ?thesis using cLiteral_int[of w 10 w] w(4) assms(2) by simp
  qed
qed

lemma decimal_word: "decimalOf w = Some n \<Longrightarrow> isWordText w \<and> \<not> hasPrefix w ''-'' \<and> 0 \<le> n"
proof -
  assume "decimalOf w = Some n"
  then have "w \<noteq> []" "list_all isDigit w" "0 \<le> n" by (auto simp: decimalOf_def baseVal_def split: if_splits)
  moreover have "\<not> isDigit CHR ''-''" by code_simp
  ultimately show ?thesis by (cases w) (auto simp: isWordText_def list_all_iff isWord_def hasPrefix_iff)
qed

lemma constant_agrees:
  assumes "constValue v = Some n" and "wordTree v = Some t" and "inRange cInt \<bar>n\<bar>"
  shows "cEval \<Delta> t = Some (cInt, n)"
proof (cases "hasPrefix v ''-''")
  case True
  then obtain w where v: "v = CHR ''-'' # w" by (auto simp: hasPrefix_iff prefix_def)
  then obtain m where m: "decimalOf w = Some m" "n = - m" using assms(1) True by (auto simp: constValue_def)
  note word = decimal_word[OF m(1)]
  have t: "t = CPre ''-'' (CAtom w)" using assms(2) v word by (auto simp: wordTree_def isWordText_def hasPrefix_iff)
  have "inRange cInt m" "inRange cInt (- m)" using assms(3) m(2) word by (auto simp: inRange_def cInt_def)
  then show ?thesis using decimal_agrees[OF m(1)] m(2) t
    by (simp add: cPre_def promote_def prefixValOps_def cResult_def ok_pos)
next
  case False
  then have d: "decimalOf v = Some n" using assms(1) by (simp add: constValue_def)
  note word = decimal_word[OF d]
  have "t = CAtom v" using assms(2) word by (simp add: wordTree_def)
  then show ?thesis using decimal_agrees[OF d] assms(3) word by simp
qed

section \<open>The value of an expression\<close>

lemma logic_agrees:
  assumes "op = LAND \<or> op = LOR" and "goValue \<Gamma> (BinaryExpr m x op y) = Some v" and "goSafe \<Gamma> (BinaryExpr m x op y)"
    and "\<And>a. goValue \<Gamma> x = Some a \<Longrightarrow> goSafe \<Gamma> x \<Longrightarrow> \<exists>c. cEval \<Delta> l = Some c \<and> agree a c"
    and "\<And>a. goValue \<Gamma> x = Some (GBool (op = LAND)) \<Longrightarrow> goValue \<Gamma> y = Some a \<Longrightarrow> goSafe \<Gamma> y \<Longrightarrow> \<exists>c. cEval \<Delta> r = Some c \<and> agree a c"
  shows "\<exists>c. cEval \<Delta> (CBin l (tokString op) r) = Some c \<and> agree v c"
proof -
  have o: "(tokString op = ''&&'' \<or> tokString op = ''||'') \<and> (tokString op = ''&&'' \<longleftrightarrow> op = LAND)" using assms(1) by auto
  obtain b where b: "goValue \<Gamma> x = Some (GBool b)" using assms(1,2) by (auto split: option.splits gval.splits)
  obtain c where "cEval \<Delta> l = Some c" "agree (GBool b) c" using assms(3,4) b by fastforce
  then have c: "cEval \<Delta> l = Some c" "snd c = of_bool b" by simp_all
  show ?thesis
  proof (cases "b = (op = LAND)")
    case True
    then obtain q where q: "goValue \<Gamma> y = Some (GBool q)" "v = GBool q"
      using assms(1,2) b by (auto split: option.splits gval.splits)
    have "goSafe \<Gamma> y" using assms(1,3) True b by simp
    then obtain d where "cEval \<Delta> r = Some d" "agree (GBool q) d" using assms(5) q(1) b True by blast
    moreover from this have "cEval \<Delta> (CBin l (tokString op) r) = Some (truth q)" using True c o by auto
    ultimately show ?thesis using q(2) by (simp add: truth_def)
  next
    case False
    then have "v = GBool b" using assms(1,2) b by (auto split: if_splits)
    moreover have "cEval \<Delta> (CBin l (tokString op) r) = Some (truth b)" using False c o by auto
    ultimately show ?thesis by (simp add: truth_def)
  qed
qed

lemma operand_agrees:
  "sameOperands e \<Gamma> \<Delta> \<Longrightarrow> isOperand x \<Longrightarrow> cTree e x = Some t \<Longrightarrow> \<Gamma> x = Some v \<Longrightarrow> \<exists>c. cEval \<Delta> t = Some c \<and> agree v c"
  by (auto simp: sameOperands_def)

lemma operand_value:
  "cTree e x = Some t \<Longrightarrow> sameOperands e \<Gamma> \<Delta> \<Longrightarrow> goValue \<Gamma> x = Some v \<Longrightarrow> isOperand x \<and> goValue \<Gamma> x = \<Gamma> x \<Longrightarrow>
   \<exists>c. cEval \<Delta> t = Some c \<and> agree v c"
  using operand_agrees[of e \<Gamma> \<Delta> x t v] by simp

lemma ident_agrees:
  assumes "sameOperands e \<Gamma> \<Delta>" and "constantsPlain e" and "cTree e (IdentE i) = Some t"
    and "goValue \<Gamma> (IdentE i) = Some v" and "goSafe \<Gamma> (IdentE i)"
  shows "\<exists>c. cEval \<Delta> t = Some c \<and> agree v c"
proof (cases "goConstant i")
  case None
  then have "\<Gamma> (IdentE i) = Some v" using assms(4) by simp
  then show ?thesis using operand_agrees[OF assms(1) _ assms(3)] by simp
next
  case (Some n)
  then obtain k w where w: "idUse i = Some (ConstObj k (Some w))" "constValue w = Some n"
    by (auto simp: goConstant_def split: option.splits gobj.splits)
  then have "formatIdent e i = w" using assms(2) by (simp add: formatIdent_def constantsPlain_def)
  then have "wordTree w = Some t" using assms(3) by simp
  then have "cEval \<Delta> t = Some (cInt, n)" using w(2) assms(5) Some by (intro constant_agrees) simp_all
  moreover have "v = GConst n" "inRange cInt n" using assms(4,5) Some by (auto simp: inRange_def cInt_def)
  ultimately show ?thesis by simp
qed

lemma literal_value:
  assumes "cTree e (BasicLit m k w) = Some t" and "grouped cPrec t" and "goValue \<Gamma> (BasicLit m k w) = Some v"
    and "goSafe \<Gamma> (BasicLit m k w)"
  shows "\<exists>c. cEval \<Delta> t = Some c \<and> agree v c"
proof -
  obtain n where n: "goLiteral w = Some n" "v = GConst n" "inRange cInt n" "wordTree w = Some t"
    using assms by (auto split: if_splits)
  note first = literal_first[OF n(1)]
  have "\<not> hasPrefix w ''-''" using first by (auto simp: hasPrefix_iff prefix_def isDigit_def less_eq_char_def)
  then have t: "t = CAtom w" using n(4) by (auto simp: wordTree_def split: if_splits)
  then have "cConstant w" using assms(2) first by (simp add: cOperand_def cIdentifier_def)
  then show ?thesis using literal_agrees n t by simp
qed

lemma conversion_value:
  assumes "cTree e (CallExpr m f [x]) = Some t" and "grouped cPrec t" and "goConversion f = Some \<tau>"
    and "goValue \<Gamma> (CallExpr m f [x]) = Some v"
    and "\<And>u a. cTree e x = Some u \<Longrightarrow> grouped cPrec u \<Longrightarrow> goValue \<Gamma> x = Some a \<Longrightarrow> \<exists>c. cEval \<Delta> u = Some c \<and> agree a c"
  shows "\<exists>c. cEval \<Delta> t = Some c \<and> agree v c"
proof -
  obtain i ct where i: "f = IdentE i" "map_of goBasicNameToC (idName i) = Some ct" "castIty ct = Some \<tau>" "okType \<tau>"
    using assms(3) by (rule conversion_type)
  obtain u where u: "cTree e x = Some u" "t = CCast ct (CParen u)"
    using assms(1) i by (auto simp: callTree_def identOf_def bind_eq_Some_conv split: option.splits)
  obtain a where a: "goValue \<Gamma> x = Some a" "goConvert \<tau> a = Some v" using assms(3,4) by (auto simp: bind_eq_Some_conv)
  have "grouped cPrec u" using assms(2) u(2) by simp
  then obtain c where "cEval \<Delta> u = Some c" "agree a c" using assms(5)[OF u(1) _ a(1)] by blast
  then show ?thesis using convert_agrees[OF _ a(2) i(3,4)] u(2) by simp
qed

theorem value_agrees:
  assumes "constantsPlain e"
  shows "sameOperands e \<Gamma> \<Delta> \<Longrightarrow> cTree e x = Some t \<Longrightarrow> grouped cPrec t \<Longrightarrow> goValue \<Gamma> x = Some v \<Longrightarrow> goSafe \<Gamma> x \<Longrightarrow>
    \<exists>c. cEval \<Delta> t = Some c \<and> agree v c"
proof (induction \<Gamma> x arbitrary: t v rule: goValue.induct)
  case (1 \<Gamma> m k w)
  show ?case by (rule literal_value) fact+
next
  case (2 \<Gamma> i)
  show ?case by (rule ident_agrees) (fact | rule assms)+
next
  case (3 \<Gamma> m x)
  then show ?case by auto
next
  case (4 \<Gamma> m op x)
  from 4(3) obtain p u where p: "map_of unaryOps op = Some p" "cTree e x = Some u" "t = CPre p u" by (auto simp: bind_eq_Some_conv)
  from 4(5) obtain a where a: "goValue \<Gamma> x = Some a" "goUnary op a = Some v" by (auto simp: bind_eq_Some_conv)
  have s: "goSafe \<Gamma> x" "safeUnary op a" using 4(6) a(1) by simp_all
  obtain c where "cEval \<Delta> u = Some c" "agree a c" using 4(1)[OF 4(2) p(2) _ a(1) s(1)] 4(4) p(3) by auto
  then show ?case using unary_agrees[OF _ a(2) s(2) p(1)] p(3) by auto
next
  case (5 \<Gamma> m x op y)
  from 5(6) obtain l r where t: "cTree e x = Some l" "cTree e y = Some r" "t = CBin l (tokString op) r"
    by (auto simp: bind_eq_Some_conv)
  then have g: "grouped cPrec l" "grouped cPrec r" "cBinOp (tokString op)" using 5(7) by simp_all
  show ?case
  proof (cases "op = LAND \<or> op = LOR")
    case True
    show ?thesis unfolding t(3)
    proof (rule logic_agrees[OF True 5(8,9)])
      fix a assume "goValue \<Gamma> x = Some a" "goSafe \<Gamma> x"
      then show "\<exists>c. cEval \<Delta> l = Some c \<and> agree a c" using 5(1)[OF True 5(5) t(1) g(1)] by blast
    next
      fix a assume "goValue \<Gamma> x = Some (GBool (op = LAND))" "goValue \<Gamma> y = Some a" "goSafe \<Gamma> y"
      then show "\<exists>c. cEval \<Delta> r = Some c \<and> agree a c" using 5(2)[OF True _ refl refl 5(5) t(2) g(2)] by blast
    qed
  next
    case False
    then obtain a b where ab: "goValue \<Gamma> x = Some a" "goValue \<Gamma> y = Some b" "goBinary op a b = Some v"
      using 5(8) by (auto simp: bind_eq_Some_conv)
    then have s: "safeBinary op a b" "goSafe \<Gamma> x" "goSafe \<Gamma> y" using 5(9) False by auto
    obtain c where c: "cEval \<Delta> l = Some c" "agree a c" using 5(3)[OF False 5(5) t(1) g(1) ab(1) s(2)] by blast
    obtain d where d: "cEval \<Delta> r = Some d" "agree b d" using 5(4)[OF False ab(1) 5(5) t(2) g(2) ab(2) s(3)] by blast
    have "tokString op \<noteq> ''&&'' \<and> tokString op \<noteq> ''||''" using False by (cases op) auto
    then show ?thesis using binary_agrees[OF c(2) d(2) ab(3) s(1) g(3)] c d t(3) by auto
  qed
next
  case (6 \<Gamma> m f x)
  show ?case
  proof (cases "goConversion f")
    case None
    then have "\<Gamma> (CallExpr m f [x]) = Some v" using 6(5) by simp
    then show ?thesis using operand_agrees[OF 6(2) _ 6(3)] by simp
  next
    case (Some \<tau>)
    have "goSafe \<Gamma> x" using 6(6) Some by simp
    then show ?thesis using conversion_value[OF 6(3,4) Some 6(5)] 6(1)[OF Some 6(2)] by blast
  qed
qed ((rule operand_value, assumption, assumption, assumption, simp) | simp)+

end
