(* ===== verification/Spec2Isabelle.thy ===== *)
theory Spec2Isabelle
  imports Golden Progress Api_Calls Emit_Values
begin

text \<open>
  A model of gobee, a transpiler from a subset of Go to BPF C, and of the generator of its
  helper stubs.

  The program.  \<^verbatim>\<open>gobee translate\<close> (\<^verbatim>\<open>cmd/gobee/app/translate.go\<close>) calls \<open>Run\<close> of
  \<^verbatim>\<open>internal/transpile/pipeline.go\<close>, which finds the kernel-side Go files of a directory and
  translates each of them: \<open>ParseFile\<close> (\<^verbatim>\<open>parse.go\<close>, \<^verbatim>\<open>directives.go\<close>, \<^verbatim>\<open>program.go\<close>) builds the
  intermediate representation, \<open>Validate\<close> (\<^verbatim>\<open>validate.go\<close>) rejects what is outside the subset,
  \<open>Emit\<close> (\<^verbatim>\<open>emit.go\<close>, \<^verbatim>\<open>types.go\<close>, \<^verbatim>\<open>helpers.go\<close>) writes C and records which Go position
  each line of C comes from, \<open>FormatSourceMap\<close> (\<^verbatim>\<open>sourcemap.go\<close>) writes that table and
  \<open>WriteBindings\<close> (\<^verbatim>\<open>bindings.go\<close>) the Go accessors.  \<^verbatim>\<open>gobee diagnose\<close> reads the table back and
  annotates the log of the kernel's verifier (\<^verbatim>\<open>diagnose/diagnose.go\<close>).
  \<^verbatim>\<open>tools/genhelpers/main.go\<close> reads \<^verbatim>\<open>data/bpf_helper_defs.h\<close> and writes the Go stub of every
  helper, whose names \<open>Emit\<close> turns back into C.

  The theories.
  \<^item> \<open>Gobee_Prelude\<close>, \<open>Go_Library\<close>, \<open>Go_Path\<close>: results with errors as strings, and the functions
    of the Go standard library the code calls (strings, strconv, sort, bufio, regexp, filepath).
  \<^item> \<open>Go_Syntax\<close>: the syntax trees of \<^verbatim>\<open>go/ast\<close> decorated with the answers of the type checker.
  \<^item> \<open>Directives\<close>, \<open>Program_IR\<close>, \<open>Parse\<close>: comments \<^verbatim>\<open>//bpf:...\<close>, the records of the program, and
    the construction of the program; its well-formedness (\<open>wfProgram\<close>) and what the loops collect.
  \<^item> \<open>Validate\<close>: the checks, the declarative subset (\<open>inSubset\<close>) they decide, and the positions that are
    reported (\<open>offences\<close>).
  \<^item> \<open>Helper_Tables\<close>, \<open>C_Types\<close>, \<open>Emit_Expr\<close>, \<open>Emit_Stmt\<close>, \<open>Emit_Program\<close>: the tables, the
    types and the emitter, an explicit state passed through every function; \<open>Emit_Laws\<close>: what every
    function of the emitter does to that state; \<open>Emit_Accepts\<close>: the programs it accepts; \<open>Emit_Calls\<close>:
    the calls, rule by rule.
  \<^item> \<open>Source_Map\<close>, \<open>Diagnose\<close>: the source map and the annotated log.
  \<^item> \<open>Bindings\<close>, \<open>Pipeline\<close>: the generated accessors; the files; \<open>Commands\<close>: the two commands and
    the exit status; \<open>Progress\<close>: when a run succeeds.
  \<^item> \<open>Golden\<close>: the golden test of the repository, a concrete run, from which most of the witnesses are
    made: the committed C text is obtained byte for byte (\<open>golden_emit\<close>).
  \<^item> \<open>Gen_Helpers\<close>: the generator of stubs; \<open>Helper_Defs_A\<close> to \<open>Helper_Defs_H\<close> and
    \<open>Helper_Header\<close>: the whole header it reads, one definition per declaration, and the stubs that
    are committed in \<^verbatim>\<open>bpf/helpers_generated.go\<close>.
  \<^item> \<open>Bpf_Package\<close>: the declarations of package \<^verbatim>\<open>bpf\<close> that are written by hand, the API of the
    kernel-side programs; \<open>Kernel_Types\<close>: the declarations of \<^verbatim>\<open>vmlinux.h\<close> that the emitted C refers
    to; \<open>Api_Calls\<close>: what the emitter makes of the API, compared with the kernel and with the header.
  \<^item> \<open>C_Grammar\<close>, \<open>C_Text\<close>: a lexer and a parser for C expressions, and which trees they read in
    their own printing; the grammar has C's keywords, identifiers and integer constants, calls, members,
    elements, casts to the types the emitter writes and \<^verbatim>\<open>sizeof\<close>.  \<open>Emit_Reading\<close>: the C expression a Go
    expression stands for, and when C reads it in the text of the emitter.  \<open>Emit_Values\<close>: the values of
    integer expressions, by the rules of Go on the Go syntax (\<open>goValue\<close>) and by the rules of C on the tree
    that is read (\<open>cEval\<close>).

  Conventions.  A Go string is a list of bytes.  A pair \<open>(T, error)\<close> is a sum with the error's text
  on the left.  A panic of the emitter (a nil type, a failed type assertion) is an error text that
  begins with \<^verbatim>\<open>panic:\<close>.  Integers are mathematical where the code cannot overflow; \<open>atoi\<close> checks the
  64-bit range like \<^verbatim>\<open>strconv.Atoi\<close>.  No function of the model uses fuel: the recursions of the code
  are structural or go down in size, so all functions are total.

  Parameters.  The Go parser and type checker (\<open>frontAt\<close> of a \<open>toolchain\<close>, a front end for every state of
  the file system, since it reads the files when it is called), the Go printer (\<open>goPrinter\<close>), the failures
  of the operating system (\<open>osFaults\<close>, those of the standard output included) and what the command line
  library makes of the arguments and the environment (\<open>commandLine\<close>) are arguments of the definitions that
  use them.  An \<^verbatim>\<open>io.Writer\<close> is a function on the state it writes to (\<open>writer\<close>), which may refuse what it is
  given.  The properties of whole runs assume that the front end's answer for an input depends only on a set
  of files given for it (\<open>readsOnly\<close>) and that no file written for an input is read for a later one
  (\<open>undisturbed\<close>); \<open>bindings_overwrite_input\<close> shows that the second is needed.  Files are identified by the
  text of their paths.

  What the lemmas show, by group: a parsed program is well formed and is what a declarative reading of
  the file gives; the validator decides the subset on the functions the parser keeps, and reports
  every offence at its position, in order; the emitter accepts exactly the emittable programs,
  its line counter and source map are exact, the map survives being written, embedded and read, and
  \<^verbatim>\<open>gobee diagnose\<close> uses it; a run succeeds under stated conditions, translates every input and touches no
  other file; the generator reproduces the committed stubs and the emitter maps every stub back to its
  helper; the API of package \<^verbatim>\<open>bpf\<close> agrees with the tables of the emitter and with the kernel's
  declarations, with the exceptions the properties name; an emitted expression is read by C with the
  grouping of Go exactly when it needs no further parentheses and its names, literals and operators are
  C's, which leaves only the names, the literals and repeated prefix operators to care for when no operator
  is bitwise; it has the value of Go on types of at least 32 bits unless a signed operation overflows.

  Not modelled.  The command line library and the help texts, the userspace programs of the examples, the
  end-to-end tests, and the declarations of the \<^verbatim>\<open>vmlinux.h\<close> dumps that the emitted C does not refer to:
  no code of the repository reads them.  The stubs of package \<^verbatim>\<open>bpf\<close> have no bodies but a panic, so
  only their declarations are modelled.  Of C, the reading of expressions and the values of integer
  expressions are modelled; the preprocessor, statements, memory and the kernel's helpers are outside the
  repository.
\<close>

section \<open>From a file to a program\<close>

text \<open>
  C6: a program that \<open>ParseFile\<close> returns is well formed: it has a license and at least one program,
  every map has a kernel map type and a size unless the kernel sizes it, every section has a name,
  no helper is a method or \<open>main\<close>, every user type is a named struct.
\<close>

theorem parsed_program_wellformed:
  assumes "ParseFile fe filename = Inr prog"
  shows "wfProgram prog"
  using assms by (rule ParseFile_wf)

theorem parsed_program_wellformed_witness: "wfProgram goldenProgram"
  by (rule parsed_program_wellformed[OF golden_parse])

text \<open>
  C16: the loops of \<open>collectDecls\<close> compute what a declarative reading of the file gives: each list of
  the program is the concatenation, in source order, of what the declarations contribute, and the
  license and the front end's answers are unchanged.
\<close>

theorem collectDecls_refines:
  assumes "collectDecls prog = Inr t"
  shows "Maps t = Maps prog @ concat (map (\<lambda>d. concat (map (specMaps (FileSet prog)) (declSpecs VAR_kw d))) (gfDecls (File prog)))
    \<and> Programs t = Programs prog @ concat (map (declPrograms (FileSet prog)) (gfDecls (File prog)))
    \<and> Helpers t = Helpers prog @ concat (map (declHelpers (FileSet prog)) (gfDecls (File prog)))
    \<and> Types t = Types prog @ concat (map (\<lambda>d. concat (map (specTypes (FileSet prog) (Underlying prog)) (declSpecs TYPE_kw d))) (gfDecls (File prog)))
    \<and> Consts t = Consts prog @ concat (map (\<lambda>d. concat (map (specConsts (FileSet prog)) (declSpecs CONST_kw d))) (gfDecls (File prog)))
    \<and> License t = License prog \<and> FileSet t = FileSet prog \<and> File t = File prog"
  using collectDecls_lists[OF assms] by simp

theorem collectDecls_refines_witness:
  "\<exists>prog. collectDecls prog = Inr goldenProgram
     \<and> Programs goldenProgram = Programs prog @ concat (map (declPrograms (FileSet prog)) (gfDecls (File prog)))"
  using golden_steps collectDecls_refines by blast

text \<open>
  C37: the license of a program is the argument of the last \<^verbatim>\<open>//bpf:license\<close> comment of the file.
\<close>

theorem license_is_last:
  assumes "collectFileDirectives prog = Inr t"
  shows "License t = last (License prog # licenseNames (concat (gfComments (File prog))))
    \<and> list_all isField (licenseNames (concat (gfComments (File prog))))"
  using collectFileDirectives_license[OF assms] by (simp add: list_all_iff)

theorem license_is_last_witness: "\<exists>t. collectFileDirectives goldenStart = Inr t \<and> License t = ''GPL''"
  using golden_steps license_is_last[of goldenStart] golden_licenseNames golden_start by auto

text \<open>
  C25: printing a directive with its arguments and key-value pairs and parsing the comment gives them
  back, the last value of a key winning.
\<close>

theorem directive_roundtrip:
  assumes "isField name" and "list_all (\<lambda>a. isField a \<and> CHR ''='' \<notin> set a) args"
    and "list_all (\<lambda>(k, v). isField (k @ CHR ''='' # v) \<and> CHR ''='' \<notin> set k) kvs"
  shows "parseDirective (printDirective name args kvs) = Inr (Some \<lparr>dName = name, dArgs = args, dKv = map_of (rev kvs)\<rparr>)"
  using assms by (intro parseDirective_print) (auto simp: list_all_iff)

theorem directive_roundtrip_witness:
  "parseDirective (printDirective ''section'' [''xdp''] [(''mode'', ''a=b'')]) =
     Inr (Some \<lparr>dName = ''section'', dArgs = [''xdp''], dKv = [''mode'' \<mapsto> ''a=b'']\<rparr>)"
  using directive_roundtrip[of "''section''" "[''xdp'']" "[(''mode'', ''a=b'')]"]
  by (simp add: isField_def isSpace_def)

section \<open>The subset\<close>




text \<open>
  C26: the result of \<open>Validate\<close> does not depend on the order in which the loop over the Go map
  \<^verbatim>\<open>Info.Defs\<close> meets its entries, provided that no two of them have the same position.
\<close>

theorem Validate_deterministic:
  assumes "mset ds = mset (Defs prog)"
    and "distinct (map (\<lambda>i. posKey (FileSet prog (idPos i))) (Defs prog))"
  shows "Validate (prog\<lparr>Defs := ds\<rparr>) = Validate prog"
  using assms by (rule Validate_perm)

theorem Validate_deterministic_witness:
  "Validate (goldenProgram\<lparr>Defs := rev goldenDefs\<rparr>) = []"
  using Validate_deterministic[of "rev goldenDefs" goldenProgram] golden_validate
  by (simp add: golden_defs golden_fileset golden_def_positions)

section \<open>Types\<close>

text \<open>
  C28: the C integer type of a Go integer type of fixed width has the same width and signedness, and the
  integers whose width depends on the platform, \<^verbatim>\<open>int\<close>, \<^verbatim>\<open>uint\<close> and \<^verbatim>\<open>uintptr\<close>, are rejected.
\<close>

theorem integer_shape_kept:
  "(case goIntShape k of
      Some shape \<Rightarrow> (case basicToC k of Inr c \<Rightarrow> cIntShape c = Some shape | Inl _ \<Rightarrow> False)
    | None \<Rightarrow> (case basicToC k of Inr _ \<Rightarrow> k \<notin> {KInt, KUint, KUintptr} | Inl _ \<Rightarrow> True))
   \<and> (goIntShape k \<noteq> None \<longleftrightarrow> k \<in> {KInt8, KInt16, KInt32, KInt64, KUint8, KUint16, KUint32, KUint64})"
  by (cases k) (simp_all add: cIntShape_def atoiDigits_def decVal_def digitVal_def isDigit_def less_eq_char_def)

section \<open>Emission\<close>



text \<open>
  C17: the line counter of the emitter is exact: writing a statement appends some text to the buffer
  and moves the counter by the number of newlines of that text; the position of the statement, if it
  has one, is recorded for the line where that text begins, and the positions recorded after it lie
  on the lines of that text.  The program and the indentation are left as they were, whatever blocks
  have been opened, and no synthetic name is taken back.
\<close>

theorem statement_line_counter:
  assumes "writeStmt s e = Inr e'"
  shows "\<exists>text ms. ebuf e' = ebuf e @ text \<and> cLine e' = cLine e + countNL text
    \<and> mappings e' = mappings e
        @ (if stmtPos s = 0 then [] else [\<lparr>CLine = cLine e, SPosition = FileSet (eprog e) (stmtPos s)\<rparr>]) @ ms
    \<and> list_all (\<lambda>m. cLine e \<le> CLine m \<and> CLine m \<le> cLine e + countNL text) ms
    \<and> eprog e' = eprog e \<and> eindent e' = eindent e \<and> tmpSeq e \<le> tmpSeq e'"
proof -
  have "eprog e' = eprog e \<and> eindent e' = eindent e \<and> tmpSeq e \<le> tmpSeq e'"
    using frame.stmts_R(1)[OF assms] by (simp add: frameRel_def)
  moreover from lines.stmts_R(1)[OF assms] obtain out where
    t: "ebuf e' = ebuf e @ out" "cLine e' = cLine e + countNL out" by (auto simp: lineRel_def)
  moreover obtain ms where "mappings e' = mappings e
      @ (if stmtPos s = 0 then [] else [\<lparr>CLine = cLine e, SPosition = FileSet (eprog e) (stmtPos s)\<rparr>]) @ ms"
    and "list_all (\<lambda>m. cLine e \<le> CLine m \<and> CLine m \<le> cLine e') ms"
    using assms by (rule stmt_mappings)
  ultimately show ?thesis using t by (intro exI[of _ out] exI[of _ ms]) simp
qed

theorem statement_line_counter_witness:
  "\<exists>text ms. let e = newEmitter goldenProgram; e' = writeln ''return;'' (recordPos 7 e) in
     ebuf e' = ebuf e @ text \<and> cLine e' = cLine e + countNL text
     \<and> mappings e' = mappings e @ [\<lparr>CLine = 1, SPosition = FileSet goldenProgram 7\<rparr>] @ ms"
  using statement_line_counter[of "ReturnStmt 7 []" "newEmitter goldenProgram"
      "writeln ''return;'' (recordPos 7 (newEmitter goldenProgram))"]
  by (auto simp: writeReturnStmt_def recordPos_def writeIndent_def newEmitter_def Let_def)

text \<open>
  C38: the names minted for blank identifiers in comma-ok assignments are pairwise different, whatever the
  prefixes they are minted with, \<^verbatim>\<open>lookup\<close>, \<^verbatim>\<open>get\<close>, \<^verbatim>\<open>reserve\<close> or any other that does not end in a digit,
  and whatever is written in between: no statement takes the counter back.  A variable of the program may
  still have such a name.
\<close>

theorem synthetic_names_fresh:
  assumes "idName i = ''_''" and "idName j = ''_''" and "\<not> isDigit (last (''_'' @ pre))" and "\<not> isDigit (last (''_'' @ pre'))"
    and "resolveLHSName i pre e = (a, e1)" and "tmpSeq e1 \<le> tmpSeq e2" and "resolveLHSName j pre' e2 = (b, e3)"
  shows "a \<noteq> b \<and> tmpSeq e < tmpSeq e3 \<and> (writeBlock ss x = Inr y \<longrightarrow> tmpSeq x \<le> tmpSeq y)"
proof -
  have n: "a = (''_'' @ pre) @ itoa (tmpSeq e1)" "tmpSeq e1 = Suc (tmpSeq e)"
    "b = (''_'' @ pre') @ itoa (tmpSeq e3)" "tmpSeq e3 = Suc (tmpSeq e2)"
    using assms(1,2,5,7) by (auto simp: resolveLHSName_def Let_def)
  have "itoa (tmpSeq e1) \<noteq> itoa (tmpSeq e3)" using assms(6) n(4) by (simp add: itoa_inject)
  then have "(''_'' @ pre) @ itoa (tmpSeq e1) \<noteq> (''_'' @ pre') @ itoa (tmpSeq e3)"
    using itoa_suffix[OF assms(3,4), of "tmpSeq e1" "tmpSeq e3"] by auto
  then have "a \<noteq> b" by (simp only: n(1,3) not_False_eq_True)
  moreover have "writeBlock ss x = Inr y \<Longrightarrow> tmpSeq x \<le> tmpSeq y" using frame.stmts_R(2) by (auto simp: frameRel_def)
  ultimately show ?thesis using assms(6) n(2,4) by simp
qed

theorem synthetic_names_fresh_witness:
  "let i = Ident 1 ''_'' None None None; (a, e1) = resolveLHSName i ''lookup'' (newEmitter goldenProgram);
       (b, e2) = resolveLHSName i ''get'' e1
   in a \<noteq> b \<and> a = ''_lookup1'' \<and> b = ''_get2'' \<and> 0 < tmpSeq e2"
proof -
  let ?i = "Ident 1 ''_'' None None None" and ?e = "newEmitter goldenProgram"
  have d: "\<not> isDigit (last (''_'' @ ''lookup''))" "\<not> isDigit (last (''_'' @ ''get''))" by code_simp+
  have n: "itoa (Suc 0) = ''1''" "itoa (Suc (Suc 0)) = ''2''" by code_simp+
  have r: "resolveLHSName ?i ''lookup'' ?e = (''_lookup1'', ?e\<lparr>tmpSeq := 1\<rparr>)"
    "resolveLHSName ?i ''get'' (?e\<lparr>tmpSeq := 1\<rparr>) = (''_get2'', ?e\<lparr>tmpSeq := 2\<rparr>)"
    using n by (simp_all add: resolveLHSName_def newEmitter_def numeral_2_eq_2)
  have "''_lookup1'' \<noteq> ''_get2'' \<and> tmpSeq ?e < tmpSeq (?e\<lparr>tmpSeq := 2\<rparr>)"
    using synthetic_names_fresh[OF _ _ d r(1) order.refl r(2)] by simp
  then show ?thesis unfolding Let_def r prod.case by (simp add: newEmitter_def)
qed

text \<open>
  C5: whether \<open>Emit\<close> fails is decided by the program alone, and \<open>emittable\<close> decides it: every type is a
  struct of supported fields, every map has the type arguments its kind needs, every function has
  supported parameters and results and a body whose statements, calls and expressions are all of
  the forms that have a translation, with the right number of arguments.
\<close>

theorem emission_succeeds_iff: "(\<exists>c ms. Emit prog lbl = Inr (c, ms)) \<longleftrightarrow> emittable prog"
  using Emit_okay[of prog lbl] by (simp add: okay_def)







section \<open>Source map and diagnosis\<close>

text \<open>
  C15: reading a source map that has been written gives, for every line of C, the position of the last
  mapping recorded for it, if no file name has a newline and no line exceeds the scanner's buffer.
\<close>

theorem source_map_roundtrip:
  assumes "list_all mappingOk ms"
  shows "ParseSourceMap (FormatSourceMap ms) = Inr (mappingMap ms)"
  using assms by (intro ParseSourceMap_FormatSourceMap) (simp add: list_all_iff)

theorem source_map_roundtrip_witness:
  "ParseSourceMap (FormatSourceMap goldenMappings) = Inr (mappingMap goldenMappings)"
  by (rule source_map_roundtrip[OF golden_mappingOk])

text \<open>
  C24: a line of the log is left as it is exactly when the source map knows none of the lines of C it
  mentions.
\<close>

theorem unknown_lines_verbatim: "annotateLine line sm = line \<longleftrightarrow> list_all (\<lambda>n. sm n = None) (refLines line)"
  by (simp add: annotateLine_verbatim list_all_iff)

text \<open>
  C23: a reference \<^verbatim>\<open><stem>.bpf.c:<n>\<close> to a line of C that the source map knows is found wherever it
  stands in a line of the log, after another reference too, as long as the character before its stem is
  not one of a file name nor a colon: the Go positions of the known lines that the log line mentions, each
  line once and in the order of their first mention, are appended at the end of the line, and that of the
  reference is one of them.
\<close>

theorem reference_annotated:
  assumes "pre = [] \<or> \<not> refChar (last pre) \<and> last pre \<noteq> CHR '':''" and "stem \<noteq> []" and "list_all refChar stem"
    and "post = [] \<or> \<not> isDigit (hd post)" and "n < 2 ^ 63" and "sm (int n) = Some p"
    and "l = pre @ stem @ ''.bpf.c:'' @ itoa n @ post"
  shows "int n \<in> set (refLines l) \<and> arrow @ p \<in> set (annotation sm (firstsAux [] (refLines l)))
    \<and> annotateLine l sm = l @ ''    '' @ joinWith ''  '' (annotation sm (firstsAux [] (refLines l)))"
proof -
  have "int n \<in> set (refLines l)" using refLines_found[OF assms(1,2) _ assms(4,5)] assms(3,7) by (simp add: list_all_iff)
  then show ?thesis using annotateLine_found[of "int n" l sm p] assms(6) by blast
qed

theorem reference_annotated_witness:
  "let l = ''0: (b7) r0 = 0 ; x.bpf.c:3 '' @ ''helloworld'' @ ''.bpf.c:'' @ itoa 21 @ '' foo''; sm = [21 \<mapsto> ''helloworld.go:16:3''] in
   int 21 \<in> set (refLines l) \<and> arrow @ ''helloworld.go:16:3'' \<in> set (annotation sm (firstsAux [] (refLines l)))
   \<and> annotateLine l sm = l @ ''    '' @ joinWith ''  '' (annotation sm (firstsAux [] (refLines l)))"
  unfolding Let_def
  by (rule reference_annotated[where pre = "''0: (b7) r0 = 0 ; x.bpf.c:3 ''" and stem = "''helloworld''" and post = "'' foo''"])
     (simp_all add: refChar_def isWord_def isDigit_def less_eq_char_def)

section \<open>Bindings\<close>

text \<open>
  C34: the Go expression in the body of the method is the attach expression of the point with the
  program's field in place of the placeholder, if the section has no dollar sign.
\<close>

theorem attach_expression:
  assumes "pointOk pt" and "CHR ''$'' \<notin> set (sectionOf pt)"
  shows "\<exists>a. attachFor (sectionOf pt) = Some a
    \<and> replaceOne (ahBody a) ''$PROG'' (''o.'' @ f) = attachExpr pt (''o.'' @ f)"
  using attachFor_point[OF assms(1)] attachExpr_replace[OF assms(2)] by metis

theorem attach_expression_witness:
  "\<exists>a. attachFor ''kprobe/tcp_connect'' = Some a
    \<and> replaceOne (ahBody a) ''$PROG'' (''o.'' @ ''OnConnect'') =
        ''link.Kprobe('' @ quote ''tcp_connect'' @ '', o.OnConnect, nil)''"
  using attach_expression[of "Kprobe ''tcp_connect''" "''OnConnect''"] by simp

text \<open>
  C33: every program and every map has exactly one field, named by its capitalised name, in the order of
  these names; the attach methods are those of the fields with an attachable section, in the same
  order.
\<close>

theorem binding_fields:
  "mset (map bfELF (progFields prog)) = mset (map pfName (Programs prog))
   \<and> mset (map bfELF (mapFields prog)) = mset (map mdName (Maps prog))
   \<and> list_all (\<lambda>f. bfGo f = pascalCase (bfELF f)) (progFields prog @ mapFields prog)
   \<and> sorted (map bfGo (progFields prog)) \<and> sorted (map bfGo (mapFields prog))
   \<and> map ahField (attachers prog) = filter (\<lambda>f. attachFor (bfSection f) \<noteq> None) (progFields prog)"
  by (intro conjI progFields_mset mapFields_mset progFields_sorted mapFields_sorted attachers_fields)
     (auto simp: list_all_iff intro: fields_pascal)

text \<open>
  C36: two names of the kernel side get the same field name exactly when they differ at most in the case
  of the first letter.
\<close>

theorem field_name_collision:
  "pascalCase (c # cs) = pascalCase (d # ds) \<longleftrightarrow>
     cs = ds \<and> (c = d \<or> isLower c \<and> toUpper c = d \<or> isLower d \<and> toUpper d = c)"
  by (rule pascalCase_eq)

text \<open>
  C35: \<open>WriteBindings\<close> fails exactly for an empty package name, an empty stem, a type or constant that the
  Go printer cannot print, or a writer that refuses the text; in the first three cases nothing has been
  written.
\<close>

theorem bindings_written_iff:
  "(fst (WriteBindings gp wr prog pkg stem sm w) = None \<longleftrightarrow>
      pkg \<noteq> [] \<and> stem \<noteq> [] \<and> list_all (\<lambda>t. \<exists>s. printType gp t = Inr s) (Types prog)
      \<and> list_all (\<lambda>c. \<exists>s. printExpr gp (ucValue c) = Inr s) (Consts prog)
      \<and> (case bindingsText gp prog pkg stem sm of Inr t \<Rightarrow> fst (wr t w) = None | Inl _ \<Rightarrow> False))
   \<and> (case bindingsText gp prog pkg stem sm of Inl e \<Rightarrow> WriteBindings gp wr prog pkg stem sm w = (Some e, w) | Inr _ \<Rightarrow> True)"
  using bindingsText_ok[of gp prog pkg stem sm] by (auto simp: WriteBindings_def list_all_iff split: sum.splits)

text \<open>
  C21: the loader of the generated file can read the source map it embeds: in the text that has been handed
  to the writer, the raw string literal after the variable's name evaluates to a text that
  \<open>ParseSourceMapBytes\<close> reads as the recorded mappings, if the file names have no backquote and no carriage
  return.
\<close>

theorem embedded_source_map:
  assumes "WriteBindings gp wr prog pkg stem (FormatSourceMap ms) w = (None, w')" and "list_all mappingOk ms"
    and "CHR 0x60 \<notin> set (FormatSourceMap ms)" and "CHR 0x0D \<notin> set (FormatSourceMap ms)"
  shows "\<exists>t pre rest. wr t w = (None, w') \<and> t = pre @ ''var '' @ pascalCase stem @ ''SourceMap = '' @ [CHR 0x60] @ rest
    \<and> ParseSourceMapBytes (rawLiteral rest) = Inr (mappingMap ms)"
proof -
  obtain t where h: "bindingsText gp prog pkg stem (FormatSourceMap ms) = Inr t" "wr t w = (None, w')"
    using assms(1) by (auto simp: WriteBindings_None)
  from bindingsText_sourceMap[OF h(1)] obtain pre post where
    t: "t = pre @ ''var '' @ pascalCase stem @ ''SourceMap = '' @ [CHR 0x60] @ FormatSourceMap ms @ [CHR 0x60] @ post"
    by blast
  have "rawLiteral (FormatSourceMap ms @ [CHR 0x60] @ post) = FormatSourceMap ms"
    using rawLiteral_plain[OF assms(3,4)] by simp
  moreover have "ParseSourceMap (FormatSourceMap ms) = Inr (mappingMap ms)"
    using assms(2) by (intro ParseSourceMap_FormatSourceMap) (simp add: list_all_iff)
  ultimately have "ParseSourceMapBytes (rawLiteral (FormatSourceMap ms @ [CHR 0x60] @ post)) = Inr (mappingMap ms)"
    by (simp only: ParseSourceMapBytes_def)
  with t h(2) show ?thesis by blast
qed

theorem embedded_source_map_witness:
  "\<exists>t pre rest. WriteBindings noPrinter (\<lambda>s w. (None, w @ s)) goldenProgram ''bpf'' ''helloworld'' (FormatSourceMap goldenMappings) [] = (None, t)
    \<and> t = pre @ ''var '' @ pascalCase ''helloworld'' @ ''SourceMap = '' @ [CHR 0x60] @ rest
    \<and> ParseSourceMapBytes (rawLiteral rest) = Inr (mappingMap goldenMappings)"
proof -
  have "\<exists>t. bindingsText noPrinter goldenProgram ''bpf'' ''helloworld'' (FormatSourceMap goldenMappings) = Inr t"
    by (simp add: bindingsText_ok golden_lists)
  then obtain t where t: "WriteBindings noPrinter (\<lambda>s w. (None, w @ s)) goldenProgram ''bpf'' ''helloworld'' (FormatSourceMap goldenMappings) [] = (None, t)"
    by (auto simp: WriteBindings_None)
  from embedded_source_map[OF t golden_mappingOk golden_map_chars] t show ?thesis by auto
qed

section \<open>The pipeline\<close>

text \<open>
  C32: a package name made from a directory name is not empty, has only lower case letters, digits and
  underscores, does not start with a digit, and is left alone if it already has this form.
\<close>

theorem package_name_form:
  "sanitizePackageName s \<noteq> [] \<and> list_all packageChar (sanitizePackageName s)
   \<and> \<not> isDigit (hd (sanitizePackageName s))
   \<and> sanitizePackageName (sanitizePackageName s) = sanitizePackageName s"
  using sanitizePackageName_hd sanitizePackageName_chars sanitizePackageName_id by blast

text \<open>
  C31: the inputs of a run are the Go files of the directory, tests and directories excluded, that contain
  the license directive, in the order of the directory; one unreadable candidate makes the run fail.
\<close>

theorem inputs_found:
  "findInputs w dir = Inr ins \<longleftrightarrow>
     (\<exists>es. wDirs w dir = Inr es
        \<and> list_all (\<lambda>e. \<exists>b. wFiles w (pathJoin dir (deName e)) = Inr b) (filter isInput es)
        \<and> ins = map (\<lambda>e. pathJoin dir (deName e)) (filter (licensed w dir) es))"
  by (auto simp: findInputs_iff list_all_iff)

text \<open>
  C22: translating one input writes no file but the C file, the source map and the bindings of that
  input; if the input does not parse, is not in the subset or cannot be emitted, nothing is written.
\<close>

theorem translation_frame:
  assumes "translateOne tc i opts w = (r, err, w')"
  shows "(q \<in> artifacts opts i \<or> wFiles w' q = wFiles w q)
    \<and> (case compile (frontAt tc w) (OutputDir opts) i of Inl e \<Rightarrow> err = Some e \<and> w' = w | Inr _ \<Rightarrow> True)"
  using translateOne_frame[OF assms, of q] assms by (auto simp: translateOne_def Let_def split: sum.splits)

theorem translation_frame_witness:
  "let (r, err, w') = translateOne goldenTools ''missing.go'' goldenOptions goldenWorld in
   (''other.txt'' \<in> artifacts goldenOptions ''missing.go'' \<or> wFiles w' ''other.txt'' = wFiles goldenWorld ''other.txt'')
   \<and> w' = goldenWorld"
proof -
  obtain r err w' where t: "translateOne goldenTools ''missing.go'' goldenOptions goldenWorld = (r, err, w')"
    by (metis prod_cases3)
  show ?thesis using translation_frame[OF t, of "''other.txt''"] golden_missing by (simp add: t)
qed

text \<open>
  C2: a run that returns no error has translated every input: the results are in the order of the
  directory, and at the end every C file holds the emitted text, every source map the mappings recorded
  for it, and every bindings file the generated text, none of them overwritten by a later translation.
  What is emitted is determined by the files as they were before the run.  Hypotheses: what the Go parser
  and type checker say of an input depends only on the files \<open>deps\<close> they read for it, no file written for
  an input is read for a later one, and the entries of the directory have distinct plain names.
\<close>

theorem run_translates_all:
  assumes "readsOnly tc deps" and "undisturbed (defaultOptions opts) deps (inputsOf w (InputDir opts))"
    and "wDirs w (InputDir opts) = Inr es"
    and "list_all (\<lambda>e. plainName (deName e)) es" and "distinct (map deName es)"
    and "Run tc opts w = (rs, None, w')"
  shows "map InputFile rs = map (\<lambda>e. pathJoin (InputDir opts) (deName e)) (filter (licensed w (InputDir opts)) es)
    \<and> list_all (\<lambda>r. translated tc (frontAt tc w) (defaultOptions opts) (InputFile r) r w') rs"
  using Run_translated[OF assms] by blast

theorem run_translates_all_witness:
  "\<exists>rs w'. Run goldenTools goldenOptions goldenWorld = (rs, None, w') \<and> map InputFile rs = [goldenPath]
    \<and> list_all (\<lambda>r. translated goldenTools (goldenReader goldenWorld) goldenOptions (InputFile r) r w') rs"
proof -
  obtain rs w' where r: "Run goldenTools goldenOptions goldenWorld = (rs, None, w')" using golden_run by blast
  have u: "undisturbed (defaultOptions goldenOptions) (\<lambda>i. {i}) (inputsOf goldenWorld (InputDir goldenOptions))"
    by (simp only: golden_world(5) golden_undisturbed)
  from run_translates_all[OF golden_reads u golden_world(1-3) r] golden_world(4,5) r show ?thesis
    by (auto simp: goldenTools_def)
qed

text \<open>
  C3: a run succeeds exactly when the candidates of the directory can be read and one has the license
  directive, the output directory can be made, and every input parses, lies in the subset, is
  emittable and meets no refusal of the operating system for its files, nor, if bindings are asked
  for, an empty stem or a declaration the printer rejects.  Nothing else stops a run, provided that what
  the Go parser and type checker say of an input depends only on the files \<open>deps\<close> they read for it and
  that no file written for an input is read for a later one; without the latter a run can fail on a file
  it has itself written, as when the bindings go to the directory of the inputs.
\<close>

theorem run_succeeds_iff:
  assumes "readsOnly tc deps" and "undisturbed (defaultOptions opts) deps (inputsOf w (InputDir opts))"
  shows "(\<exists>rs w'. Run tc opts w = (rs, None, w')) \<longleftrightarrow>
    (\<exists>ins. findInputs w (InputDir opts) = Inr ins \<and> ins \<noteq> []
       \<and> mkdirErr (faults tc) (OutputDir (defaultOptions opts)) = None
       \<and> list_all (translatable tc (frontAt tc w) (defaultOptions opts)) ins)"
  using assms by (rule Run_succeeds)

theorem run_succeeds_iff_witness:
  "(\<exists>rs w'. Run goldenTools goldenOptions goldenWorld = (rs, None, w'))
   \<and> translatable goldenTools (goldenReader goldenWorld) goldenOptions goldenPath"
proof -
  have u: "undisturbed (defaultOptions goldenOptions) (\<lambda>i. {i}) (inputsOf goldenWorld (InputDir goldenOptions))"
    by (simp only: golden_world(5) golden_undisturbed)
  have f: "frontAt goldenTools = goldenReader" by (simp add: goldenTools_def)
  show ?thesis using run_succeeds_iff[OF golden_reads u] golden_run golden_inputs golden_world(5) by (auto simp: f)
qed

text \<open>
  C14: the two commands fit together.  After a \<^verbatim>\<open>gobee translate\<close> that exits with status 0, a
  \<^verbatim>\<open>gobee diagnose\<close> with the source map of any of its inputs exits with status 0 and has written the
  log on the standard output, line by line, annotated with the positions that \<open>Emit\<close> recorded for that
  input.  Hypotheses: what the command line library makes of the two command lines; what the Go parser and
  type checker say of an input depends only on the files \<open>deps\<close> they read for it, and no file written for
  an input is read for a later one; the standard output takes what is written to it; and neither the source
  map nor the log has a line that the line scanner would cut or refuse.
\<close>

theorem diagnose_after_translate:
  assumes "readsOnly tc deps" and "undisturbed opts deps (inputsOf w dir)" and "stdoutErr (faults tc) = (\<lambda>_. None)"
    and "wDirs w dir = Inr es" and "list_all (\<lambda>e. plainName (deName e)) es" and "distinct (map deName es)"
    and "clCommand (cobra a1) = Translate [dir]" and "gobeeMain tc cobra stdin a1 w = (0, w')"
    and "x \<in> set es" and "licensed w dir x"
    and "opts = defaultOptions (translateOptions (clViper (cobra a1)) dir)"
    and "compile (frontAt tc w) (OutputDir opts) (pathJoin dir (deName x)) = Inr (prog, source, maps)"
    and "list_all mappingOk maps" and "clCommand (cobra a2) = Diagnose"
    and "clViper (cobra a2) ''diagnose_map'' = cPath opts (pathJoin dir (deName x)) @ ''.map''"
    and "list_all (\<lambda>l. newline \<notin> set l \<and> length l < rewriteTokenSize \<and> (l = [] \<or> last l \<noteq> CHR 0x0D)) ls"
  shows "gobeeMain tc cobra (unlines ls) a2 w' =
    (0, w'\<lparr>wStdout := wStdout w' @ unlines (map (\<lambda>l. annotateLine l (mappingMap maps)) ls)\<rparr>)"
proof -
  obtain r where t: "translated tc (frontAt tc w) opts (pathJoin dir (deName x)) r w'"
    using translate_translated[OF assms(1) assms(2)[unfolded assms(11)] assms(4-10)] assms(11) by blast
  then have "clViper (cobra a2) ''diagnose_map'' = MapFile r" using assms(15) by (simp add: translated_def)
  from runDiagnose_translated[where viper = "clViper (cobra a2)", OF t assms(12) this assms(13,16,3)] assms(14) show ?thesis
    by (simp add: gobeeMain_def Execute_def)
qed

theorem diagnose_after_translate_witness:
  "\<exists>w'. gobeeMain goldenTools goldenCobra [] [''translate'', ''testdata/golden'', ''-o'', ''.''] goldenWorld = (0, w')
    \<and> gobeeMain goldenTools goldenCobra (unlines [''ok'']) [''diagnose'', ''-m'', ''helloworld.bpf.c.map''] w' =
      (0, w'\<lparr>wStdout := wStdout w' @ unlines (map (\<lambda>l. annotateLine l (mappingMap goldenMappings)) [''ok''])\<rparr>)"
proof -
  let ?x = "\<lparr>deName = ''helloworld.go'', deIsDir = False\<rparr>"
  obtain w' where t: "gobeeMain goldenTools goldenCobra [] [''translate'', ''testdata/golden'', ''-o'', ''.''] goldenWorld = (0, w')"
    using golden_command by blast
  have dir: "InputDir goldenOptions = ''testdata/golden''" by (simp add: goldenOptions_def)
  have x: "?x \<in> set goldenEntries" "licensed goldenWorld ''testdata/golden'' ?x"
    using arg_cong[OF golden_entries(3), of set] by auto
  have p: "pathJoin ''testdata/golden'' (deName ?x) = goldenPath" by code_simp
  have o: "goldenOptions = defaultOptions
      (translateOptions (clViper (goldenCobra [''translate'', ''testdata/golden'', ''-o'', ''.''])) ''testdata/golden'')"
    by (simp only: golden_cobra(2) golden_world(5))
  have f: "stdoutErr (faults goldenTools) = (\<lambda>_. None)" by (simp add: goldenTools_def)
  have "list_all (\<lambda>l. newline \<notin> set l \<and> length l < rewriteTokenSize \<and> (l = [] \<or> last l \<noteq> CHR 0x0D)) [''ok'']"
    by (simp add: rewriteTokenSize_def)
  from diagnose_after_translate[OF golden_reads golden_undisturbed[unfolded dir] f golden_world(1)[unfolded dir] golden_world(2,3)
      golden_cobra(1) t x o golden_compile[folded p] golden_mappingOk golden_cobra(3) golden_cobra(4)[folded p] this] t
  show ?thesis by blast
qed

section \<open>The generator of stubs\<close>

text \<open>
  C30: the Go name of a helper and the translation of Go names back to C are inverse to each other on the
  names of helpers: lower case segments joined by underscores after \<^verbatim>\<open>bpf_\<close>.
\<close>

theorem helper_name_roundtrip:
  assumes "validHelperName c"
  shows "goNameToBpfHelper (goNameFor c) = c"
  using assms by (rule goNameToBpfHelper_goNameFor)

theorem helper_name_roundtrip_witness:
  "goNameToBpfHelper (goNameFor ''bpf_get_current_pid_tgid'') = ''bpf_get_current_pid_tgid''"
proof -
  have "validHelperName ''bpf_get_current_pid_tgid''" by code_simp
  then show ?thesis by (rule helper_name_roundtrip)
qed

text \<open>
  C29: in every state the scanner of the header can reach, each helper found has the Go name of its C
  name and, unless it is skipped with a reason, a Go type for every parameter and for its result.
\<close>

theorem scanned_helpers_typed:
  assumes "scanReach st"
  shows "list_all typedStub (found st)"
  using assms by (rule scanReach_typed)

theorem scanned_helpers_typed_witness:
  "list_all typedStub (found (scanLine ''static __u64 (* const bpf_ktime_get_ns)(void) = (void *) 5;'' emptyScan))"
  by (rule scanned_helpers_typed) (intro scanReach.intros)

text \<open>
  C10: scanning the whole of \<^verbatim>\<open>bpf_helper_defs.h\<close> finds its helpers with, in the order of the header,
  exactly the stubs and the skip reasons of the committed \<^verbatim>\<open>bpf/helpers_generated.go\<close>, and the comment
  of each begins with its name.
\<close>

theorem header_gives_committed_stubs:
  "map helperStub (found (fold scanLine headerLines emptyScan)) = generatedStubs
   \<and> list_all (\<lambda>h. hdoc h \<noteq> [] \<and> hd (hdoc h) = hcName h) (found (fold scanLine headerLines emptyScan))"
  using header_scan by blast

text \<open>
  C11: a call of any function generated from the header is emitted as a call of the helper it was
  generated from: no name is overridden by the tables of the emitter, and none is changed on the way
  to Go and back.
\<close>

theorem stub_calls_reach_helpers:
  "list_all (\<lambda>h. formatHelperCall (hgoName h) (map Inr args) = Inr (callText (hcName h) args))
     (found (fold scanLine headerLines emptyScan))"
proof -
  have "formatHelperCall name (map Inr args) = Inr (callText (goNameToBpfHelper name) args)"
    if "name \<notin> set overriddenNames" for name
    using formatHelperCall_plain[of name args] that by (simp add: overriddenNames_def)
  with header_names show ?thesis by (fastforce simp: list_all_iff)
qed

section \<open>The kernel-side API\<close>

text \<open>
  C13: reading a field of a program context, through a pointer to a context type of package \<^verbatim>\<open>bpf\<close>, is
  emitted as a direct access to a member of the kernel's structure, or to an element of an array
  member within its bounds, and that member is an integer of the same signedness and width, or an
  array of the same length of such integers, as the Go field.  No context is read through
  \<^verbatim>\<open>BPF_CORE_READ\<close>.
\<close>

theorem context_fields_exist:
  assumes "(n, fs) \<in> set contextTypes" and "(g, t, tg) \<in> set fs" and "idName sel = g"
    and "typeOf x = Some (Pointer (Named (Some bpfPkgPath) n []))"
    and "Underlying (eprog e) (Named (Some bpfPkgPath) n []) = Struct fs"
    and "constantOf x sel = None" and "formatExpr e x = Inr base"
  shows "\<exists>access info ms. formatExpr e (SelectorExpr m x sel) = Inr (base @ ''->'' @ access)
    \<and> bpfPackageTypeInfo (Some bpfPkgPath) n = Some info \<and> map_of kernelStructs (cType info) = Some ms
    \<and> accessShape ms access = goShape t \<and> goShape t \<noteq> None"
proof -
  note c = context_access[OF assms(1-5)]
  have "formatExpr e (SelectorExpr m x sel) = Inr (base @ ''->'' @ parseBpfTag tg)"
    using assms(6,7) c(1) by (simp add: formatSelector_def coreReadChain_None)
  moreover obtain info ms where "bpfPackageTypeInfo (Some bpfPkgPath) n = Some info"
    "map_of kernelStructs (cType info) = Some ms" "accessShape ms (parseBpfTag tg) = goShape t" "goShape t \<noteq> None"
    using c(2) by (auto simp: contextFieldOk_def bpfPackageTypeInfo_def split: option.splits)
  ultimately show ?thesis by blast
qed

theorem context_fields_exist_witness:
  "let t = Named (Some bpfPkgPath) ''ExecveEnterCtx'' [];
       ctx = IdentE (Ident 1 ''ctx'' (Some (OtherObj 1)) None (Some (Pointer t)));
       e = newEmitter (goldenProgram\<lparr>Underlying := \<lambda>_. Struct ExecveEnterCtx_fields\<rparr>) in
   \<exists>access ms. formatExpr e (SelectorExpr (1, None) ctx (Ident 2 ''Argv'' None None None)) = Inr (''ctx->'' @ access)
     \<and> accessShape ms access = Some (Scalar False 64)"
proof -
  let ?t = "Named (Some bpfPkgPath) ''ExecveEnterCtx'' []"
  let ?e = "newEmitter (goldenProgram\<lparr>Underlying := \<lambda>_. Struct ExecveEnterCtx_fields\<rparr>)"
  have "(''ExecveEnterCtx'', ExecveEnterCtx_fields) \<in> set contextTypes" by (simp add: contextTypes_def)
  moreover have "(''Argv'', Basic KUint64, bpfTag ''args[1]'') \<in> set ExecveEnterCtx_fields"
    by (simp add: ExecveEnterCtx_fields_def)
  ultimately show ?thesis unfolding Let_def
    using context_fields_exist[of "''ExecveEnterCtx''" ExecveEnterCtx_fields "''Argv''" "Basic KUint64"
        "bpfTag ''args[1]''" "Ident 2 ''Argv'' None None None" "IdentE (Ident 1 ''ctx'' (Some (OtherObj 1)) None (Some (Pointer ?t)))"
        ?e "''ctx''" "(1, None)"]
    by (fastforce simp: constantOf_def identOf_def formatIdent_def newEmitter_def)
qed

text \<open>
  C18: every constant of package \<^verbatim>\<open>bpf\<close> has a C text, no other name has one, and the value of that text,
  a numeral or an enumerator of the kernel, is the value of the Go constant; the exceptions are the TC
  actions, whose texts are neither: they are macros of \<^verbatim>\<open>linux/pkt_cls.h\<close>, which the emitted file does
  not include.  \<^verbatim>\<open>TcOk\<close> is one of them, although the documentation gives its C text as \<^verbatim>\<open>0\<close>.
\<close>

theorem constants_agree:
  "map fst bpfConstants = map fst bpfConstDecls
   \<and> list_all (\<lambda>(name, v). constantValue name = Some (if name \<in> set (map fst TcUnspec_consts) then None else Some v)) bpfConstDecls"
proof -
  have "list_all (\<lambda>(name, v). name \<notin> set (map fst TcUnspec_consts)) (XdpAborted_consts @ TpOk_const @ KpOk_const
      @ SockOpsErr_consts @ BpfSockOpsVoid_consts @ BpfSockOpsRtoCbFlag_consts @ CgroupSkbDrop_consts @ LsmAllow_consts)"
    by code_simp
  then show ?thesis
    using constant_values tc_values constant_names unfolding bpfConstDecls_def
    by (auto simp: list_all_iff intro: rev_image_eqI)
qed

text \<open>
  C19: the map types of package \<^verbatim>\<open>bpf\<close> are exactly those the parser recognises; each has a kernel map type,
  an enumerator of \<^verbatim>\<open>enum bpf_map_type\<close>; one without the field \<^verbatim>\<open>MaxEntries\<close> is not asked for it;
  and a map of that type whose type arguments are supported is emitted.
\<close>

theorem map_types_supported:
  assumes "d \<in> set bpfMapTypes" and "length targs = gtParams d" and "list_all typeSupported targs"
  shows "set (map gtName bpfMapTypes) = set (map fst bpfMapGoTypeToDirective)
    \<and> (\<exists>dir c v md' e'. map_of bpfMapGoTypeToDirective (gtName d) = Some dir \<and> map_of mapTypeToC dir = Some c
         \<and> map_of enum_bpf_map_type c = Some v \<and> (gtMaxEntries d \<or> dir \<in> set storageMapDirectives)
         \<and> setTypeArgs pos p name targs (md\<lparr>mdType := dir\<rparr>) = Inr md' \<and> writeMap md' e = Inr e')"
proof -
  obtain dir c v md' where m: "map_of bpfMapGoTypeToDirective (gtName d) = Some dir" "map_of mapTypeToC dir = Some c"
    "map_of enum_bpf_map_type c = Some v" "gtMaxEntries d \<or> dir \<in> set storageMapDirectives"
    "setTypeArgs pos p name targs (md\<lparr>mdType := dir\<rparr>) = Inr md'" "mapEmits md'"
    using assms by (rule map_type_emits)
  moreover obtain e' where "writeMap md' e = Inr e'" using m(6) writeMap_emits[of md' e] by (auto simp: okay_def)
  ultimately show ?thesis using map_type_names by blast
qed

theorem map_types_supported_witness:
  "\<exists>dir c v. map_of bpfMapGoTypeToDirective ''LpmTrie'' = Some dir \<and> map_of mapTypeToC dir = Some c
     \<and> map_of enum_bpf_map_type c = Some v"
proof -
  have "LpmTrie_decl \<in> set bpfMapTypes" by (simp add: bpfMapTypes_def)
  from map_types_supported[OF this, of "[Basic KUint64, Basic KUint32]"] show ?thesis
    by (fastforce simp: LpmTrie_decl_def)
qed

text \<open>
  C12: a method call on a map of package \<^verbatim>\<open>bpf\<close>, with as many arguments as the method declares, is emitted
  as a text that C reads as the call of the helper the method stands for, with as many arguments as
  \<^verbatim>\<open>bpf_helper_defs.h\<close> declares parameters: among them the address of the map, except for records that are
  submitted or discarded, and in their order the arguments of the Go call, except the context of
  \<^verbatim>\<open>Redirect\<close>.  The map has a name of C, the texts of the arguments are read by C as expressions, and the
  value given to \<^verbatim>\<open>Output\<close>, a pointer, is not a binary operation.  The exceptions: \<^verbatim>\<open>Reserve\<close> is recognised
  in comma-ok assignments only, and the methods of \<^verbatim>\<open>BloomFilter\<close> have no translation, so that the Go call
  is printed as it stands.
\<close>

theorem map_methods_translated:
  assumes "d \<in> set bpfMapTypes" and "g \<in> set (gtMethods d)" and "length us = length (gmParams g)"
    and "idType i = Some (Named (Some bpfPkgPath) (gtName d) ts)" and "length ts = gtParams d"
    and "idUse i = Some (OtherObj k)" and "idName sel = gmName g" and "cIdentifier (idName i)"
    and "list_all readable us" and "gmName g = ''Output'' \<longrightarrow> list_all (\<lambda>u. \<not> isBin u) us"
  shows "if gtName d = ''BloomFilter''
     then formatCall e p (SelectorExpr m (IdentE i) sel) fn (map (\<lambda>u. Inr (cText u)) us) =
       rbind fn (\<lambda>s. Inr (callText s (map cText us)))
     else if gmName g = ''Reserve'' then ringbufReserveCall (SelectorExpr m (IdentE i) sel) = Some (idName i, hd ts)
     else (\<exists>s h cs. formatCall e p (SelectorExpr m (IdentE i) sel) fn (map (\<lambda>u. Inr (cText u)) us) = Inr s
             \<and> cRead s = Some (CCall (CAtom h) cs)
             \<and> methodHelper (gtName d) (gmName g) = Some h \<and> headerDeclares h (length cs)
             \<and> (gmName g \<in> {''Submit'', ''Discard''} \<or> CPre ''&'' (CAtom (idName i)) \<in> set cs)
             \<and> subseq (if gmName g = ''Redirect'' then tl us else us) cs)"
proof -
  have a: "(gtName d, gtParams d, gmName g, length us) \<in> set apiMethods"
    using apiMethods_in[OF assms(1,2)] assms(3) by simp
  have "gmName g \<in> {''Add'', ''Contains''}" if "gtName d = ''BloomFilter''"
    using exceptional_methods(1) a that by (fastforce simp: list_all_iff)
  then have b: "gtName d = ''BloomFilter'' \<Longrightarrow> formatCall e p (SelectorExpr m (IdentE i) sel) fn (map (\<lambda>u. Inr (cText u)) us) =
      rbind fn (\<lambda>s. Inr (callText s (map cText us)))"
    using bloom_call[of sel i k ts e p m fn "map cText us"] assms(4,6,7) by (simp add: comp_def)
  have r: "gmName g = ''Reserve'' \<Longrightarrow> ringbufReserveCall (SelectorExpr m (IdentE i) sel) = Some (idName i, hd ts)"
    using exceptional_methods(2) a reserve_recognised[of sel i ts m] assms(4,5,7) by (fastforce simp: list_all_iff)
  show ?thesis
  proof (cases "gtName d = ''BloomFilter'' \<or> gmName g = ''Reserve''")
    case True
    with b r show ?thesis by auto
  next
    case False
    then have "translates (idName i) (gtName d) ts (idName sel) us"
      using method_translates[OF a _ _ assms(5,8,9,10)] assms(7) by simp
    from translates_reads[OF this assms(4,8,9), of e p m fn] False show ?thesis by (auto simp: helperCall_def assms(7))
  qed
qed

theorem map_methods_translated_witness:
  "\<exists>s h cs. formatCall (newEmitter goldenProgram) 1
      (SelectorExpr (1, None) (IdentE (Ident 1 ''jobs'' (Some (OtherObj 1)) None
        (Some (Named (Some bpfPkgPath) ''Queue'' [Basic KUint32])))) (Ident 2 ''Pop'' None None None))
      (Inr ''jobs.Pop'') [Inr ''&x''] = Inr s
    \<and> cRead s = Some (CCall (CAtom h) cs) \<and> h = ''bpf_map_pop_elem'' \<and> headerDeclares h (length cs)
    \<and> subseq [CPre ''&'' (CAtom ''x'')] cs"
proof -
  let ?g = "\<lparr>gmName = ''Pop'', gmParams = [''*T''], gmResults = [''error'']\<rparr>"
  have "Queue_decl \<in> set bpfMapTypes" by (simp add: bpfMapTypes_def)
  moreover have "?g \<in> set (gtMethods Queue_decl)" by (simp add: Queue_decl_def)
  moreover have "cIdentifier ''jobs''" "readable (CPre ''&'' (CAtom ''x''))" by code_simp+
  moreover have "methodHelper ''Queue'' ''Pop'' = Some ''bpf_map_pop_elem''" by code_simp
  ultimately show ?thesis
    using map_methods_translated[of Queue_decl ?g "[CPre ''&'' (CAtom ''x'')]"
        "Ident 1 ''jobs'' (Some (OtherObj 1)) None (Some (Named (Some bpfPkgPath) ''Queue'' [Basic KUint32]))"
        "[Basic KUint32]" 1 "Ident 2 ''Pop'' None None None" "newEmitter goldenProgram" 1 "(1, None)" "Inr ''jobs.Pop''"]
    by (auto simp: Queue_decl_def)
qed

text \<open>
  C20: the hand-written functions of package \<^verbatim>\<open>bpf\<close> are exactly the names that the tables of the emitter
  override, and a call with as many arguments as the function declares is emitted.
\<close>

theorem hand_written_functions:
  assumes "f \<in> set bpfFunctions" and "length args = length (gmParams f)"
  shows "set (map gmName bpfFunctions) = set overriddenNames
    \<and> (\<exists>c. formatHelperCall (gmName f) (map Inr args) = Inr c)"
  using functions_emit[OF assms] function_names by (simp add: overriddenNames_def)

theorem hand_written_functions_witness:
  "\<exists>c. formatHelperCall ''GetUserString'' (map Inr [''&buf'', ''addr'']) = Inr c"
proof -
  have "GetUserString_func \<in> set bpfFunctions" by (simp add: bpfFunctions_def)
  from hand_written_functions[OF this, of "[''&buf'', ''addr'']"] show ?thesis by (simp add: GetUserString_func_def)
qed

end
